(* ===== verification/Json.thy ===== *)
theory Json
  imports Prelude "HOL-Library.Multiset"
begin

text \<open>
  The JSON values of \<^verbatim>\<open>serde_json::Value\<close> and their canonical form
  (\<^verbatim>\<open>canonical_json\<close> of crates/protocol/src/task.rs). An object is the list of its entries in
  iteration order, with distinct keys (\<open>json_keys_distinct\<close>); a number is its printed token.
  Rust compares two objects as maps, whatever the order of their entries, so the records of
  the later theories hold values in canonical form, where that comparison is equality:
  \<open>canonical_json_insensitive\<close> is the fact behind this choice.
\<close>

datatype json =
    JNull
  | JBool bool
  | JNumber string
  | JString string
  | JArray "json list"
  | JObject "(string \<times> json) list"

primrec canonical_json :: "json \<Rightarrow> json" where
  "canonical_json JNull = JNull"
| "canonical_json (JBool b) = JBool b"
| "canonical_json (JNumber n) = JNumber n"
| "canonical_json (JString s) = JString s"
| "canonical_json (JArray vs) = JArray (map canonical_json vs)"
| "canonical_json (JObject kvs) = JObject (sort_key fst (map (map_prod id canonical_json) kvs))"

primrec json_keys_distinct :: "json \<Rightarrow> bool" where
  "json_keys_distinct JNull = True"
| "json_keys_distinct (JBool b) = True"
| "json_keys_distinct (JNumber n) = True"
| "json_keys_distinct (JString s) = True"
| "json_keys_distinct (JArray vs) = list_all id (map json_keys_distinct vs)"
| "json_keys_distinct (JObject kvs) =
     (distinct (map fst kvs) \<and> list_all snd (map (map_prod id json_keys_distinct) kvs))"

text \<open>\<^verbatim>\<open>Value::is_object\<close>, \<^verbatim>\<open>Value::as_object\<close>, \<^verbatim>\<open>Value::as_str\<close>, \<^verbatim>\<open>Map::get\<close>\<close>

fun is_object :: "json \<Rightarrow> bool" where
  "is_object (JObject _) = True"
| "is_object _ = False"

fun as_object :: "json \<Rightarrow> (string \<times> json) list option" where
  "as_object (JObject kvs) = Some kvs"
| "as_object _ = None"

fun as_str :: "json \<Rightarrow> string option" where
  "as_str (JString s) = Some s"
| "as_str _ = None"

text \<open>
  Equality of values as \<^verbatim>\<open>PartialEq\<close> has it on \<^verbatim>\<open>Value\<close>: objects are compared as maps.
  An inductive description independent of \<open>canonical_json\<close>.
\<close>

inductive json_eqv :: "json \<Rightarrow> json \<Rightarrow> bool" where
  json_eqv_null: "json_eqv JNull JNull"
| json_eqv_bool: "json_eqv (JBool b) (JBool b)"
| json_eqv_number: "json_eqv (JNumber n) (JNumber n)"
| json_eqv_string: "json_eqv (JString s) (JString s)"
| json_eqv_array: "list_all2 json_eqv vs ws \<Longrightarrow> json_eqv (JArray vs) (JArray ws)"
| json_eqv_object:
    "mset ps = mset kvs \<Longrightarrow>
     list_all2 (rel_prod (=) json_eqv) ps lws \<Longrightarrow> json_eqv (JObject kvs) (JObject lws)"
monos list_all2_mono prod.rel_mono_strong

lemma sort_key_fst_distinct:
  assumes "mset xs = mset ys" "distinct (map fst xs)"
  shows "sort_key fst xs = sort_key fst ys"
  using assms by (intro sort_key_inj_key_eq) (simp_all add: distinct_map)

lemma map_insort_key_fst:
  "(\<And>x. fst (f x) = fst x) \<Longrightarrow> map f (insort_key fst x xs) = insort_key fst (f x) (map f xs)"
  by (induction xs) auto

lemma map_sort_key_fst:
  "(\<And>x. fst (f x) = fst x) \<Longrightarrow> map f (sort_key fst xs) = sort_key fst (map f xs)"
  by (induction xs) (simp_all add: map_insort_key_fst)

lemma map_canonical_idem:
  assumes "\<And>kv v. kv \<in> set kvs \<Longrightarrow> v \<in> Basic_BNFs.snds kv \<Longrightarrow> h (g v) = k v"
  shows "map (map_prod id h) (map (map_prod id g) kvs) = map (map_prod id k) kvs"
  using assms by (auto simp: map_prod_def split: prod.splits)

lemma canonical_json_idem: "canonical_json (canonical_json v) = canonical_json v"
proof (induction v)
  case (JObject kvs)
  then have "map (map_prod id canonical_json) (map (map_prod id canonical_json) kvs) =
      map (map_prod id canonical_json) kvs"
    by (rule map_canonical_idem)
  then show ?case
    by (simp add: map_sort_key_fst sort_key_id_if_sorted del: map_map)
qed simp_all

lemma canonical_json_insensitive:
  "json_eqv v w \<Longrightarrow> json_keys_distinct v \<Longrightarrow> canonical_json v = canonical_json w"
proof (induction rule: json_eqv.induct)
  case (json_eqv_array vs ws)
  then show ?case
    by (auto simp: list_all2_conv_all_nth list_all_length list_eq_iff_nth_eq)
next
  case (json_eqv_object ps kvs lws)
  let ?c = "map (map_prod id canonical_json)"
  have keys: "distinct (map fst kvs)" and vals: "\<forall>kv \<in> set ps. json_keys_distinct (snd kv)"
    using json_eqv_object.prems mset_eq_setD [OF json_eqv_object.hyps]
    by (auto simp: list_all_iff)
  have "?c ps = ?c lws"
    using json_eqv_object.IH vals
    by (auto simp: list_all2_conv_all_nth list_eq_iff_nth_eq rel_prod_sel prod_eq_iff)
  moreover have "sort_key fst (?c kvs) = sort_key fst (?c ps)"
    using keys json_eqv_object.hyps
    by (intro sort_key_fst_distinct) (simp_all add: mset_map o_def)
  ultimately show ?case by simp
qed simp_all

end
