(* ===== verification/Task.thy ===== *)
theory Task
  imports Json
begin

text \<open>
  The task, verifier, evidence and completion contracts of crates/protocol/src/task.rs: the
  frozen \<open>task_contract\<close>, the exact verifier specification, the workspace state with its
  monotone generation, the receipts and decisions only the Host can make, and the validators
  that accept them. A validator returns \<open>Inr ()\<close>, or \<open>Inl\<close> the message of the source.

  The texts the model sees are UTF-8, written out byte by byte where they are not ASCII.
\<close>

section \<open>Texts\<close>

text \<open>\<open>"\n- "\<close>, \<open>"\n\n"\<close> and the literals of \<^verbatim>\<open>model_message\<close>.\<close>

definition nl_dash :: string where "nl_dash = [CHR 0x0A, CHR ''-'', CHR '' '']"

definition nl_nl :: string where "nl_nl = [CHR 0x0A, CHR 0x0A]"

definition default_host_acceptance_description :: string where
  "default_host_acceptance_description =
     [CHR 0xE7, CHR 0x94, CHR 0xB1] @ '' Host '' @ [CHR 0xE6, CHR 0x98, CHR 0x8E, CHR 0xE7, CHR
     0xA1, CHR 0xAE, CHR 0xE6, CHR 0x8E, CHR 0xA5, CHR 0xE5, CHR 0x8F, CHR 0x97, CHR 0xE5, CHR
     0xAE, CHR 0x8C, CHR 0xE6, CHR 0x88, CHR 0x90, CHR 0xE5, CHR 0x80, CHR 0x99, CHR 0xE9, CHR
     0x80, CHR 0x89]"

definition txt_objective :: string where
  "txt_objective =
     [CHR 0xE4, CHR 0xBB, CHR 0xBB, CHR 0xE5, CHR 0x8A, CHR 0xA1, CHR 0xE7, CHR 0x9B, CHR 0xAE,
     CHR 0xE6, CHR 0xA0, CHR 0x87, CHR 0xEF, CHR 0xBC, CHR 0x9A, CHR 0x0A]"

definition txt_constraints :: string where
  "txt_constraints =
     [CHR 0xE7, CHR 0xBA, CHR 0xA6, CHR 0xE6, CHR 0x9D, CHR 0x9F]"

definition txt_non_goals :: string where
  "txt_non_goals =
     [CHR 0xE9, CHR 0x9D, CHR 0x9E, CHR 0xE7, CHR 0x9B, CHR 0xAE, CHR 0xE6, CHR 0xA0, CHR 0x87]"

definition txt_acceptance :: string where
  "txt_acceptance =
     [CHR 0x0A, CHR 0x0A, CHR 0xE9, CHR 0xAA, CHR 0x8C, CHR 0xE6, CHR 0x94, CHR 0xB6, CHR 0xE6,
     CHR 0x9D, CHR 0xA1, CHR 0xE4, CHR 0xBB, CHR 0xB6, CHR 0xEF, CHR 0xBC, CHR 0x9A]"

definition txt_frozen_verifier :: string where
  "txt_frozen_verifier =
     [CHR 0xEF, CHR 0xBC, CHR 0x88, CHR 0xE5, CHR 0x86, CHR 0xBB, CHR 0xE7, CHR 0xBB, CHR 0x93]
     @ '' verifier ID'' @ [CHR 0xEF, CHR 0xBC, CHR 0x9A, CHR 0x60]"

definition txt_latest_pass :: string where
  "txt_latest_pass =
     [CHR 0x60, CHR 0xEF, CHR 0xBC, CHR 0x9B, CHR 0xE5, CHR 0xAE, CHR 0x8C, CHR 0xE6, CHR 0x95,
     CHR 0xB4, CHR 0xE5, CHR 0x8F, CHR 0x82, CHR 0xE6, CHR 0x95, CHR 0xB0, CHR 0xE5, CHR 0x92,
     CHR 0x8C, CHR 0xE6, CHR 0x9C, CHR 0x80, CHR 0xE7, CHR 0xBB, CHR 0x88, CHR 0xE9, CHR 0xAA,
     CHR 0x8C, CHR 0xE6, CHR 0x94, CHR 0xB6, CHR 0xE7, CHR 0x94, CHR 0xB1] @ '' Host '' @ [CHR
     0xE7, CHR 0xAE, CHR 0xA1, CHR 0xE7, CHR 0x90, CHR 0x86, CHR 0xEF, CHR 0xBC, CHR 0x89]"

definition txt_failed_write_pass :: string where
  "txt_failed_write_pass =
     [CHR 0x60, CHR 0xEF, CHR 0xBC, CHR 0x9B] @ ''Host '' @ [CHR 0xE5, CHR 0x8F, CHR 0xAA, CHR
     0xE6, CHR 0x8E, CHR 0xA5, CHR 0xE5, CHR 0x8F, CHR 0x97, CHR 0xE4, CHR 0xBF, CHR 0xAE, CHR
     0xE6, CHR 0x94, CHR 0xB9, CHR 0xE5, CHR 0x89, CHR 0x8D, CHR 0xE5, CHR 0xA4, CHR 0xB1, CHR
     0xE8, CHR 0xB4, CHR 0xA5, CHR 0xE2, CHR 0x86, CHR 0x92, CHR 0xE6, CHR 0x9C, CHR 0x89, CHR
     0xE6, CHR 0x95, CHR 0x88, CHR 0xE4, CHR 0xBF, CHR 0xAE, CHR 0xE6, CHR 0x94, CHR 0xB9, CHR
     0xE2, CHR 0x86, CHR 0x92, CHR 0xE6, CHR 0x9C, CHR 0x80, CHR 0xE7, CHR 0xBB, CHR 0x88, CHR
     0xE9, CHR 0x80, CHR 0x9A, CHR 0xE8, CHR 0xBF, CHR 0x87, CHR 0xE7, CHR 0x9A, CHR 0x84, CHR
     0xE6, CHR 0x9C, CHR 0x89, CHR 0xE5, CHR 0xBA, CHR 0x8F, CHR 0xE8, CHR 0xAF, CHR 0x81, CHR
     0xE6, CHR 0x8D, CHR 0xAE, CHR 0xEF, CHR 0xBC, CHR 0x89]"

definition txt_colon :: string where
  "txt_colon =
     [CHR 0xEF, CHR 0xBC, CHR 0x9A]"


section \<open>Text checks\<close>

definition require_id :: "string \<Rightarrow> string \<Rightarrow> string + unit" where
  "require_id kind value = (if blank value then Inl (kind @ '' must not be empty'') else Inr ())"

definition require_text :: "string \<Rightarrow> string \<Rightarrow> string + unit" where
  "require_text kind value = require_id kind value"

definition validate_text_list :: "string \<Rightarrow> string list \<Rightarrow> string + unit" where
  "validate_text_list kind values =
     (if list_ex blank values then Inl (kind @ '' entries must not be empty'') else Inr ())"

definition validate_ids :: "string \<Rightarrow> string list \<Rightarrow> string + unit" where
  "validate_ids kind values =
     check_unique (require_id kind) id
       (\<lambda>value. kind @ '' '' @ quote @ value @ quote @ '' appears more than once'') [] values"

section \<open>Verifier specifications\<close>

record verifier_step =
  vst_id :: string
  vst_program :: string
  vst_args :: "string list"
  vst_cwd :: string
  vst_env :: "(string \<times> string) list"
  vst_timeout_ms :: u64

record verifier_plan =
  vp_steps :: "verifier_step list"

record verifier_spec =
  vs_verifier_id :: string
  vs_parameters :: json
  vs_plan :: verifier_plan

definition is_separator :: "char \<Rightarrow> bool" where
  "is_separator c \<longleftrightarrow> c = CHR ''/'' \<or> c = CHR 0x5C"

definition verifier_step_validate :: "verifier_step \<Rightarrow> string + unit" where
  "verifier_step_validate s =
     and_then (require_id ''verifier step id'' (vst_id s))
     (and_then (require_id ''verifier program'' (vst_program s))
     (if vst_timeout_ms s = 0 then Inl ''verifier step timeout must be greater than zero''
      else if starts_with ''/'' (vst_cwd s) \<or> starts_with [CHR 0x5C] (vst_cwd s)
              \<or> list_ex (\<lambda>part. part = ''..'') (split_on is_separator (vst_cwd s))
      then Inl ''verifier step cwd must stay inside the workspace''
      else if list_ex (\<lambda>(key, _). blank key) (vst_env s)
      then Inl ''verifier environment variable names must not be empty''
      else Inr ()))"

definition verifier_plan_validate :: "verifier_plan \<Rightarrow> string + unit" where
  "verifier_plan_validate p =
     (if vp_steps p = [] then Inl ''verifier plan must contain at least one step''
      else check_unique verifier_step_validate vst_id
             (\<lambda>step. ''verifier plan contains duplicate step id '' @ quote @ vst_id step @ quote)
             [] (vp_steps p))"

definition verifier_spec_validate :: "verifier_spec \<Rightarrow> string + unit" where
  "verifier_spec_validate s =
     and_then (require_id ''verifier id'' (vs_verifier_id s))
     (if \<not> is_object (vs_parameters s) then Inl ''verifier parameters must be a JSON object''
      else verifier_plan_validate (vs_plan s))"

definition verifier_spec_canonicalized :: "verifier_spec \<Rightarrow> verifier_spec" where
  "verifier_spec_canonicalized s = s\<lparr>vs_parameters := canonical_json (vs_parameters s)\<rparr>"

text \<open>
  The digest of a specification. The SHA-256 function (as hexadecimal text) and the serialised
  form of a specification are code outside the repository, so they are arguments.
\<close>

definition verifier_spec_sha256 ::
  "(string \<Rightarrow> string) \<Rightarrow> (verifier_spec \<Rightarrow> string) \<Rightarrow> verifier_spec \<Rightarrow> string" where
  "verifier_spec_sha256 sha256_hex encode_spec s =
     ''sha256:'' @ sha256_hex (encode_spec (verifier_spec_canonicalized s))"

section \<open>Task definition and contract\<close>

datatype verifier_evidence_policy = LatestPassPolicy | FailedWritePassPolicy

datatype task_acceptance =
    HostAcceptance string string
  | VerifierAcceptance string string verifier_evidence_policy verifier_spec

record task_definition =
  td_objective :: string
  td_constraints :: "string list"
  td_non_goals :: "string list"
  td_acceptance :: "task_acceptance list"

record task_contract =
  tc_generation_id :: string
  tc_definition :: task_definition

fun acceptance_id :: "task_acceptance \<Rightarrow> string" where
  "acceptance_id (HostAcceptance i _) = i"
| "acceptance_id (VerifierAcceptance i _ _ _) = i"

fun is_host_acceptance :: "task_acceptance \<Rightarrow> bool" where
  "is_host_acceptance (HostAcceptance _ _) = True"
| "is_host_acceptance (VerifierAcceptance _ _ _ _) = False"

fun is_verifier_acceptance :: "task_acceptance \<Rightarrow> bool" where
  "is_verifier_acceptance (HostAcceptance _ _) = False"
| "is_verifier_acceptance (VerifierAcceptance _ _ _ _) = True"

fun task_acceptance_validate :: "task_acceptance \<Rightarrow> string + unit" where
  "task_acceptance_validate (HostAcceptance i description) =
     and_then (require_id ''acceptance id'' i) (require_text ''acceptance description'' description)"
| "task_acceptance_validate (VerifierAcceptance i description _ verifier) =
     and_then (verifier_spec_validate verifier)
     (and_then (require_id ''acceptance id'' i)
        (require_text ''acceptance description'' description))"

definition task_definition_host :: "string \<Rightarrow> task_definition" where
  "task_definition_host objective =
     \<lparr>td_objective = objective, td_constraints = [], td_non_goals = [],
      td_acceptance = [HostAcceptance ''host'' default_host_acceptance_description]\<rparr>"

definition append_model_list :: "string \<Rightarrow> string \<Rightarrow> string list \<Rightarrow> string" where
  "append_model_list message title values =
     (if values = [] then message
      else message @ nl_nl @ title @ txt_colon @ concat (map (\<lambda>v. nl_dash @ v) values))"

fun acceptance_line :: "task_acceptance \<Rightarrow> string" where
  "acceptance_line (HostAcceptance _ description) = nl_dash @ description"
| "acceptance_line (VerifierAcceptance i description policy _) =
     nl_dash @ description @ txt_frozen_verifier @ i @
     (case policy of LatestPassPolicy \<Rightarrow> txt_latest_pass
      | FailedWritePassPolicy \<Rightarrow> txt_failed_write_pass)"

definition default_host_task :: "task_definition \<Rightarrow> bool" where
  "default_host_task d \<longleftrightarrow>
     td_constraints d = [] \<and> td_non_goals d = [] \<and>
     (case td_acceptance d of
        [HostAcceptance i description] \<Rightarrow>
          i = ''host'' \<and> description = default_host_acceptance_description
      | _ \<Rightarrow> False)"

definition model_message :: "task_definition \<Rightarrow> string" where
  "model_message d =
     (if default_host_task d then td_objective d
      else
        let message = txt_objective @ td_objective d;
            message = append_model_list message txt_constraints (td_constraints d);
            message = append_model_list message txt_non_goals (td_non_goals d)
        in message @ txt_acceptance @ concat (map acceptance_line (td_acceptance d)))"

definition task_definition_validate :: "task_definition \<Rightarrow> string + unit" where
  "task_definition_validate d =
     and_then (require_text ''task objective'' (td_objective d))
     (and_then (validate_text_list ''constraint'' (td_constraints d))
     (and_then (validate_text_list ''non-goal'' (td_non_goals d))
     (if td_acceptance d = [] then Inl ''task acceptance must not be empty''
      else
        and_then
          (check_unique task_acceptance_validate acceptance_id
             (\<lambda>a. ''task contains duplicate acceptance id '' @ quote @ acceptance_id a @ quote)
             [] (td_acceptance d))
          (if length (filter is_verifier_acceptance (td_acceptance d)) > 1
           then Inl ''task must use one exact verifier plan; put multiple gates in that plan''
           else Inr ()))))"

definition task_contract_validate :: "task_contract \<Rightarrow> string + unit" where
  "task_contract_validate c =
     and_then (require_id ''task generation id'' (tc_generation_id c))
       (task_definition_validate (tc_definition c))"

section \<open>Workspace state\<close>

datatype workspace_revision = RevKnown string | RevUnknown string

record workspace_state =
  ws_generation :: u64
  ws_revision :: workspace_revision

fun workspace_revision_validate :: "workspace_revision \<Rightarrow> string + unit" where
  "workspace_revision_validate (RevKnown sha256) = require_id ''workspace revision'' sha256"
| "workspace_revision_validate (RevUnknown reason) = require_text ''workspace revision failure'' reason"

definition workspace_state_validate :: "workspace_state \<Rightarrow> string + unit" where
  "workspace_state_validate w = workspace_revision_validate (ws_revision w)"

fun is_unknown_revision :: "workspace_revision \<Rightarrow> bool" where
  "is_unknown_revision (RevKnown _) = False"
| "is_unknown_revision (RevUnknown _) = True"

definition require_known_workspace_state :: "string \<Rightarrow> workspace_state \<Rightarrow> string + unit" where
  "require_known_workspace_state kind w =
     and_then (workspace_state_validate w)
     (if is_unknown_revision (ws_revision w)
      then Inl (kind @ '' requires a known workspace revision'') else Inr ())"

section \<open>Verifier observations and temporal evidence\<close>

datatype verifier_verdict = VerdictPassed | VerdictFailed | VerdictPartial

record verifier_observation =
  vo_spec :: verifier_spec
  vo_verdict :: verifier_verdict
  vo_workspace_revision :: workspace_revision
  vo_artifact_ids :: "string list"

definition verifier_observation_validate :: "verifier_observation \<Rightarrow> string + unit" where
  "verifier_observation_validate obs =
     and_then (verifier_spec_validate (vo_spec obs))
     (and_then (workspace_revision_validate (vo_workspace_revision obs))
       (validate_ids ''verifier artifact id'' (vo_artifact_ids obs)))"

datatype failed_verifier_source = FailedTool string | FailedHost string

fun failed_verifier_source_validate :: "failed_verifier_source \<Rightarrow> string + unit" where
  "failed_verifier_source_validate (FailedTool operation_id) =
     require_id ''failed verifier operation id'' operation_id"
| "failed_verifier_source_validate (FailedHost verification_id) =
     require_id ''failed Host verification id'' verification_id"

record failed_verifier_evidence =
  fv_source :: failed_verifier_source
  fv_workspace_state :: workspace_state
  fv_artifact_ids :: "string list"

definition failed_verifier_evidence_validate :: "failed_verifier_evidence \<Rightarrow> string + unit" where
  "failed_verifier_evidence_validate f =
     and_then (failed_verifier_source_validate (fv_source f))
     (and_then (require_known_workspace_state ''failed verifier workspace'' (fv_workspace_state f))
     (if fv_artifact_ids f = []
      then Inl ''failed verifier evidence requires at least one artifact''
      else validate_ids ''failed verifier artifact id'' (fv_artifact_ids f)))"

record workspace_mutation_evidence =
  wm_operation_id :: string
  wm_before :: workspace_state
  wm_after :: workspace_state

definition workspace_mutation_validate :: "workspace_mutation_evidence \<Rightarrow> string + unit" where
  "workspace_mutation_validate m =
     and_then (require_id ''workspace mutation operation id'' (wm_operation_id m))
     (and_then (require_known_workspace_state ''workspace mutation before'' (wm_before m))
     (and_then (require_known_workspace_state ''workspace mutation after'' (wm_after m))
     (rbind (ok_or (checked_add (ws_generation (wm_before m)) 1)
               ''workspace mutation generation cannot overflow'')
     (\<lambda>expected_generation.
        if ws_generation (wm_after m) \<noteq> expected_generation
        then Inl ''workspace mutation must advance exactly one generation''
        else if ws_revision (wm_before m) = ws_revision (wm_after m)
        then Inl ''workspace mutation requires a real content revision change''
        else Inr ()))))"

datatype evidence_lineage =
    LatestPass
  | FailedWritePass failed_verifier_evidence workspace_mutation_evidence
  | DelegatedFailedWritePass string string workspace_mutation_evidence

fun lineage_satisfies :: "evidence_lineage \<Rightarrow> verifier_evidence_policy \<Rightarrow> bool" where
  "lineage_satisfies LatestPass LatestPassPolicy = True"
| "lineage_satisfies (FailedWritePass _ _) FailedWritePassPolicy = True"
| "lineage_satisfies (DelegatedFailedWritePass _ _ _) FailedWritePassPolicy = True"
| "lineage_satisfies _ _ = False"

fun is_failed_write_pass :: "evidence_lineage \<Rightarrow> bool" where
  "is_failed_write_pass (FailedWritePass _ _) = True"
| "is_failed_write_pass _ = False"

definition lineage_tail_validate ::
  "workspace_mutation_evidence \<Rightarrow> workspace_state \<Rightarrow> string + unit" where
  "lineage_tail_validate mutation final_workspace =
     and_then (workspace_mutation_validate mutation)
     (if ws_generation final_workspace \<le> ws_generation (wm_after mutation)
         \<or> ws_revision final_workspace \<noteq> ws_revision (wm_after mutation)
      then Inl ''temporal evidence must end at the workspace verified by the final Host pass''
      else Inr ())"

fun evidence_lineage_validate :: "evidence_lineage \<Rightarrow> workspace_state \<Rightarrow> string + unit" where
  "evidence_lineage_validate LatestPass final_workspace = Inr ()"
| "evidence_lineage_validate (FailedWritePass failure mutation) final_workspace =
     and_then (failed_verifier_evidence_validate failure)
     (if ws_generation (fv_workspace_state failure) > ws_generation (wm_before mutation)
      then Inl ''failed verifier must precede the effective mutation''
      else if ws_revision (fv_workspace_state failure) = ws_revision final_workspace
      then Inl ''failed_write_pass requires a final revision different from the failed revision''
      else lineage_tail_validate mutation final_workspace)"
| "evidence_lineage_validate (DelegatedFailedWritePass child_run child_receipt integration)
     final_workspace =
     and_then (require_id ''delegated child run id'' child_run)
     (and_then (require_id ''delegated child receipt id'' child_receipt)
       (lineage_tail_validate integration final_workspace))"

section \<open>Receipts, candidates and decisions\<close>

record evidence_receipt =
  er_id :: string
  er_generation_id :: string
  er_acceptance_id :: string
  er_verification_id :: string
  er_verifier :: verifier_spec
  er_workspace_state :: workspace_state
  er_artifact_ids :: "string list"
  er_lineage :: evidence_lineage

definition evidence_receipt_validate :: "evidence_receipt \<Rightarrow> string + unit" where
  "evidence_receipt_validate r =
     and_then (require_id ''evidence receipt id'' (er_id r))
     (and_then (require_id ''task generation id'' (er_generation_id r))
     (and_then (require_id ''acceptance id'' (er_acceptance_id r))
     (and_then (require_id ''verification id'' (er_verification_id r))
     (and_then (verifier_spec_validate (er_verifier r))
     (and_then (workspace_state_validate (er_workspace_state r))
     (if is_unknown_revision (ws_revision (er_workspace_state r))
      then Inl ''evidence receipt requires a known workspace revision''
      else if er_artifact_ids r = [] then Inl ''evidence receipt requires at least one artifact''
      else
        and_then (validate_ids ''evidence artifact id'' (er_artifact_ids r))
          (evidence_lineage_validate (er_lineage r) (er_workspace_state r))))))))"

record completion_candidate =
  cc_id :: string
  cc_generation_id :: string
  cc_message :: string
  cc_workspace_state :: workspace_state

definition completion_candidate_validate :: "completion_candidate \<Rightarrow> string + unit" where
  "completion_candidate_validate c =
     and_then (require_id ''completion candidate id'' (cc_id c))
     (and_then (require_id ''task generation id'' (cc_generation_id c))
     (and_then (require_text ''completion candidate message'' (cc_message c))
       (workspace_state_validate (cc_workspace_state c))))"

record host_completion_acceptance =
  ha_candidate_id :: string
  ha_generation_id :: string
  ha_workspace_state :: workspace_state

definition host_completion_acceptance_validate :: "host_completion_acceptance \<Rightarrow> string + unit" where
  "host_completion_acceptance_validate a =
     and_then (require_id ''completion candidate id'' (ha_candidate_id a))
     (and_then (require_id ''task generation id'' (ha_generation_id a))
       (require_known_workspace_state ''Host completion acceptance'' (ha_workspace_state a)))"

record host_acceptance_receipt =
  hr_id :: string
  hr_candidate_id :: string
  hr_generation_id :: string
  hr_workspace_state :: workspace_state

definition host_acceptance_receipt_validate :: "host_acceptance_receipt \<Rightarrow> string + unit" where
  "host_acceptance_receipt_validate r =
     and_then (require_id ''Host acceptance receipt id'' (hr_id r))
       (host_completion_acceptance_validate
          \<lparr>ha_candidate_id = hr_candidate_id r, ha_generation_id = hr_generation_id r,
           ha_workspace_state = hr_workspace_state r\<rparr>)"

datatype acceptance_satisfaction =
    HostSatisfaction string string
  | EvidenceSatisfaction string string

fun satisfaction_acceptance_id :: "acceptance_satisfaction \<Rightarrow> string" where
  "satisfaction_acceptance_id (HostSatisfaction i _) = i"
| "satisfaction_acceptance_id (EvidenceSatisfaction i _) = i"

record completion_decision =
  cd_candidate_id :: string
  cd_generation_id :: string
  cd_workspace_state :: workspace_state
  cd_satisfied :: "acceptance_satisfaction list"

definition satisfaction_validate :: "acceptance_satisfaction \<Rightarrow> string + unit" where
  "satisfaction_validate s =
     and_then (require_id ''acceptance id'' (satisfaction_acceptance_id s))
     (case s of
        HostSatisfaction _ receipt_id \<Rightarrow> require_id ''Host acceptance receipt id'' receipt_id
      | EvidenceSatisfaction _ receipt_id \<Rightarrow> require_id ''evidence receipt id'' receipt_id)"

definition completion_decision_validate :: "completion_decision \<Rightarrow> string + unit" where
  "completion_decision_validate d =
     and_then (require_id ''completion candidate id'' (cd_candidate_id d))
     (and_then (require_id ''task generation id'' (cd_generation_id d))
     (and_then (workspace_state_validate (cd_workspace_state d))
     (if cd_satisfied d = []
      then Inl ''completion decision must satisfy at least one criterion''
      else
        check_unique satisfaction_validate satisfaction_acceptance_id
          (\<lambda>s. ''completion decision satisfies acceptance '' @ quote
               @ satisfaction_acceptance_id s @ quote @ '' more than once'')
          [] (cd_satisfied d))))"

datatype evidence_seal_rejection =
    VerifierObservationMissing
  | VerifierSpecMismatch
  | VerifierWorkspaceUnstable
  | VerifierArtifactUnavailable
  | VerifierFailed
  | VerifierIncomplete
  | VerifierOutcomeInconsistent
  | EvidenceLineageUnavailable
  | EvidenceReceiptInvalid

datatype completion_required_transition =
    EffectiveWorkspaceMutation
  | EvidenceLineageRepair
  | HostVerifierContractRepair
  | HostVerifierExecutionRepair

fun required_transition :: "evidence_seal_rejection \<Rightarrow> completion_required_transition" where
  "required_transition VerifierFailed = EffectiveWorkspaceMutation"
| "required_transition VerifierSpecMismatch = HostVerifierContractRepair"
| "required_transition EvidenceLineageUnavailable = EvidenceLineageRepair"
| "required_transition VerifierObservationMissing = HostVerifierExecutionRepair"
| "required_transition VerifierWorkspaceUnstable = HostVerifierExecutionRepair"
| "required_transition VerifierArtifactUnavailable = HostVerifierExecutionRepair"
| "required_transition VerifierIncomplete = HostVerifierExecutionRepair"
| "required_transition VerifierOutcomeInconsistent = HostVerifierExecutionRepair"
| "required_transition EvidenceReceiptInvalid = HostVerifierExecutionRepair"

record completion_rejection =
  cr_candidate_id :: string
  cr_generation_id :: string
  cr_unmet_acceptance_ids :: "string list"
  cr_cause :: evidence_seal_rejection
  cr_required_transition :: completion_required_transition
  cr_reason :: string

definition completion_rejection_validate :: "completion_rejection \<Rightarrow> string + unit" where
  "completion_rejection_validate r =
     and_then (require_id ''completion candidate id'' (cr_candidate_id r))
     (and_then (require_id ''task generation id'' (cr_generation_id r))
     (if cr_unmet_acceptance_ids r = []
      then Inl ''completion rejection must identify unmet acceptance''
      else
        and_then (validate_ids ''unmet acceptance id'' (cr_unmet_acceptance_ids r))
        (if cr_required_transition r \<noteq> required_transition (cr_cause r)
         then Inl ''completion rejection transition does not match its typed cause''
         else require_text ''completion rejection reason'' (cr_reason r))))"

section \<open>Sample values\<close>

text \<open>Small concrete values on which the properties below are instantiated.\<close>

definition ex_workspace :: "u64 \<Rightarrow> string \<Rightarrow> workspace_state" where
  "ex_workspace generation sha = \<lparr>ws_generation = generation, ws_revision = RevKnown sha\<rparr>"

definition ex_verifier_spec :: verifier_spec where
  "ex_verifier_spec =
     \<lparr>vs_verifier_id = ''run_tests'', vs_parameters = JObject [(''all'', JBool True)],
      vs_plan = \<lparr>vp_steps =
        [\<lparr>vst_id = ''unit'', vst_program = ''cargo'', vst_args = [''test''], vst_cwd = [],
          vst_env = [], vst_timeout_ms = 1000\<rparr>]\<rparr>\<rparr>"

section \<open>What the validators accept\<close>

lemma require_id_eq_Inr [result_simps]: "require_id kind v = Inr u \<longleftrightarrow> \<not> blank v"
  by (simp add: require_id_def)

lemma require_text_eq_Inr [result_simps]: "require_text kind v = Inr u \<longleftrightarrow> \<not> blank v"
  by (simp add: require_text_def result_simps)

lemma validate_text_list_eq_Inr [result_simps]:
  "validate_text_list kind vs = Inr u \<longleftrightarrow> (\<forall>v \<in> set vs. \<not> blank v)"
  by (auto simp: validate_text_list_def list_ex_iff)

lemma validate_ids_eq_Inr [result_simps]:
  "validate_ids kind vs = Inr u \<longleftrightarrow> (\<forall>v \<in> set vs. \<not> blank v) \<and> distinct vs"
  by (simp add: validate_ids_def result_simps)

lemma verifier_plan_validate_eq_Inr [result_simps]:
  "verifier_plan_validate p = Inr u \<longleftrightarrow>
     vp_steps p \<noteq> [] \<and> (\<forall>s \<in> set (vp_steps p). verifier_step_validate s = Inr ()) \<and>
     distinct (map vst_id (vp_steps p))"
  by (simp add: verifier_plan_validate_def result_simps)

lemma require_known_workspace_state_eq_Inr [result_simps]:
  "require_known_workspace_state kind w = Inr u \<longleftrightarrow>
     (\<exists>sha. ws_revision w = RevKnown sha \<and> \<not> blank sha)"
  by (cases "ws_revision w")
     (simp_all add: require_known_workspace_state_def workspace_state_validate_def result_simps)

lemma workspace_mutation_validate_eq_Inr [result_simps]:
  "workspace_mutation_validate m = Inr u \<longleftrightarrow>
     \<not> blank (wm_operation_id m) \<and>
     (\<exists>sha. ws_revision (wm_before m) = RevKnown sha \<and> \<not> blank sha) \<and>
     (\<exists>sha. ws_revision (wm_after m) = RevKnown sha \<and> \<not> blank sha) \<and>
     unat (ws_generation (wm_after m)) = Suc (unat (ws_generation (wm_before m))) \<and>
     ws_revision (wm_before m) \<noteq> ws_revision (wm_after m)"
  by (auto simp: workspace_mutation_validate_def result_simps checked_add_eq_Some)

lemma lineage_tail_validate_eq_Inr [result_simps]:
  "lineage_tail_validate m w = Inr u \<longleftrightarrow>
     workspace_mutation_validate m = Inr () \<and>
     ws_generation (wm_after m) < ws_generation w \<and> ws_revision w = ws_revision (wm_after m)"
  by (auto simp: lineage_tail_validate_def result_simps not_le)

lemma verifier_acceptances_le_1:
  assumes "length (filter is_verifier_acceptance acs) \<le> 1"
    and "a \<in> set acs" "b \<in> set acs" "is_verifier_acceptance a" "is_verifier_acceptance b"
  shows "a = b"
proof -
  have "a \<in> set (filter is_verifier_acceptance acs)" "b \<in> set (filter is_verifier_acceptance acs)"
    using assms by auto
  with assms(1) show ?thesis
    by (cases "filter is_verifier_acceptance acs") auto
qed

lemma task_definition_validate_unfold [result_simps]:
  "task_definition_validate d = Inr u \<longleftrightarrow>
     \<not> blank (td_objective d) \<and>
     (\<forall>v \<in> set (td_constraints d). \<not> blank v) \<and> (\<forall>v \<in> set (td_non_goals d). \<not> blank v) \<and>
     td_acceptance d \<noteq> [] \<and>
     (\<forall>a \<in> set (td_acceptance d). task_acceptance_validate a = Inr ()) \<and>
     distinct (map acceptance_id (td_acceptance d)) \<and>
     length (filter is_verifier_acceptance (td_acceptance d)) \<le> 1"
  by (auto simp: task_definition_validate_def result_simps)

lemma canonicalized_validate:
  "verifier_spec_validate (verifier_spec_canonicalized s) = verifier_spec_validate s"
  by (cases "vs_parameters s")
     (simp_all add: verifier_spec_canonicalized_def verifier_spec_validate_def
        cong del: and_then_cong_weak)

section \<open>Properties\<close>

text \<open>
  A frozen task definition is accepted exactly when its objective, constraints and
  non-goals are not blank, it has at least one acceptance, every acceptance is valid by itself,
  the acceptance ids are pairwise distinct, and at most one acceptance carries a verifier.
\<close>

theorem task_definition_validate_iff:
  "is_ok (task_definition_validate d) \<longleftrightarrow>
     \<not> blank (td_objective d) \<and>
     list_all (\<lambda>v. \<not> blank v) (td_constraints d @ td_non_goals d) \<and>
     td_acceptance d \<noteq> [] \<and>
     list_all (\<lambda>a. is_ok (task_acceptance_validate a)) (td_acceptance d) \<and>
     distinct (map acceptance_id (td_acceptance d)) \<and>
     card {i. i < length (td_acceptance d) \<and> is_verifier_acceptance (td_acceptance d ! i)} \<le> 1"
  by (auto simp: is_ok_iff result_simps list_all_iff length_filter_conv_card)

text \<open>
  C34. The temporal evidence of a valid receipt is ordered. A failed-write-pass receipt proves
  that the verifier failed at a generation no later than the start of the mutation, that the
  mutation advanced the workspace by exactly one generation to a different content revision, and
  that the final Host pass ran at a strictly later generation on exactly the mutated content,
  which differs from the content that failed. All revisions involved are known.
\<close>

theorem receipt_lineage_ordered:
  assumes "evidence_receipt_validate r = Inr ()"
    and "er_lineage r = FailedWritePass failure mutation"
  shows "unat (ws_generation (fv_workspace_state failure)) \<le> unat (ws_generation (wm_before mutation)) \<and>
    unat (ws_generation (wm_after mutation)) = Suc (unat (ws_generation (wm_before mutation))) \<and>
    unat (ws_generation (wm_after mutation)) < unat (ws_generation (er_workspace_state r)) \<and>
    ws_revision (er_workspace_state r) = ws_revision (wm_after mutation) \<and>
    ws_revision (wm_before mutation) \<noteq> ws_revision (wm_after mutation) \<and>
    ws_revision (fv_workspace_state failure) \<noteq> ws_revision (er_workspace_state r) \<and>
    \<not> is_unknown_revision (ws_revision (er_workspace_state r))"
  using assms
  by (auto simp: evidence_receipt_validate_def result_simps word_less_nat_alt word_le_nat_alt
      not_less not_le)

text \<open>A receipt for a task whose verifier failed at generation 1 and passed at generation 4.\<close>

lemma receipt_lineage_ordered_witness:
  "\<exists>r failure mutation. evidence_receipt_validate r = Inr () \<and>
     er_lineage r = FailedWritePass failure mutation \<and>
     unat (ws_generation (wm_after mutation)) = 3 \<and>
     unat (ws_generation (wm_after mutation)) < unat (ws_generation (er_workspace_state r))"
proof -
  define failure where "failure =
    \<lparr>fv_source = FailedTool ''op-1'', fv_workspace_state = ex_workspace 1 ''r1'',
     fv_artifact_ids = [''a1'']\<rparr>"
  define mutation where "mutation =
    \<lparr>wm_operation_id = ''op-2'', wm_before = ex_workspace 2 ''r1'', wm_after = ex_workspace 3 ''r2''\<rparr>"
  define r where "r =
    \<lparr>er_id = ''receipt'', er_generation_id = ''gen'', er_acceptance_id = ''tests'',
     er_verification_id = ''v1'', er_verifier = ex_verifier_spec,
     er_workspace_state = ex_workspace 4 ''r2'', er_artifact_ids = [''a2''],
     er_lineage = FailedWritePass failure mutation\<rparr>"
  have valid: "evidence_receipt_validate r = Inr ()"
    unfolding r_def failure_def mutation_def by code_simp
  have lineage: "er_lineage r = FailedWritePass failure mutation" by (simp add: r_def)
  have "unat (ws_generation (wm_after mutation)) = 3"
    by (simp add: mutation_def ex_workspace_def)
  with valid lineage receipt_lineage_ordered [OF valid lineage] show ?thesis by blast
qed

end
