(* ===== verification/Tool_Outcome.thy ===== *)
theory Tool_Outcome
  imports Task
begin

text \<open>
  Tool calls and their outcomes, from crates/protocol/src/agent_runtime.rs: the text checks of
  that module, the lifecycle of one tool invocation (invocation, transport, operation, side
  effect, retry), the verification artifact whose id and digest are recomputed from its inline
  payload, the consistency check \<open>tool_outcome_validate\<close>, and the model-visible rendering of
  a failure.

  \<open>codec\<close> names the functions of third-party crates the module calls: SHA-256 as lower-case
  hexadecimal text (sha2), the compact rendering of a JSON value (serde_json), and the derived
  encoder and decoder of the verification payload (serde).
\<close>

section \<open>Text checks\<close>

definition require_agent_text :: "string \<Rightarrow> string \<Rightarrow> string + unit" where
  "require_agent_text label value =
     (if blank value then Inl (label @ '' must not be empty'')
      else if CHR 0x00 \<in> set value then Inl (label @ '' must not contain NUL'')
      else Inr ())"

definition reason_code_char :: "char \<Rightarrow> bool" where
  "reason_code_char byte \<longleftrightarrow> is_ascii_lowercase byte \<or> is_ascii_digit byte \<or> byte = CHR ''_''"

definition validate_reason_code :: "string \<Rightarrow> string \<Rightarrow> string + unit" where
  "validate_reason_code label value =
     and_then (require_agent_text label value)
     (if length value > 96 \<or> \<not> list_all reason_code_char value
      then Inl (label @ '' must be at most 96 lowercase ASCII letters, digits, or underscores'')
      else Inr ())"

definition validate_git_object_id :: "string \<Rightarrow> string \<Rightarrow> string + unit" where
  "validate_git_object_id label value =
     and_then (require_agent_text label value)
     (if \<not> (length value = 40 \<or> length value = 64) \<or> \<not> list_all is_ascii_hexdigit value
      then Inl (label @ '' must be a 40- or 64-character Git object id'')
      else Inr ())"

definition validate_sha256 :: "string \<Rightarrow> string \<Rightarrow> string + unit" where
  "validate_sha256 label value =
     and_then (require_agent_text label value)
     (if length value \<noteq> 64 \<or> \<not> list_all is_ascii_hexdigit value
      then Inl (label @ '' must be a 64-character hexadecimal digest'')
      else Inr ())"

definition validate_unique_non_empty_text :: "string \<Rightarrow> string list \<Rightarrow> string + unit" where
  "validate_unique_non_empty_text label values =
     check_unique (require_agent_text label) id
       (\<lambda>value. label @ '' '' @ quote @ value @ quote @ '' appears more than once'') [] values"

text \<open>
  The path checks of \<open>std::path\<close> on Unix: a path is absolute when it starts with a slash, and
  it has a \<open>ParentDir\<close> component when one of its slash-separated segments is \<open>..\<close>.
\<close>

definition path_is_absolute :: "string \<Rightarrow> bool" where
  "path_is_absolute path \<longleftrightarrow> starts_with ''/'' path"

definition path_has_parent_dir :: "string \<Rightarrow> bool" where
  "path_has_parent_dir path \<longleftrightarrow> list_ex (\<lambda>part. part = ''..'') (split_on (\<lambda>c. c = CHR ''/'') path)"

definition validate_relative_path_list :: "string \<Rightarrow> string list \<Rightarrow> string + unit" where
  "validate_relative_path_list label values =
     and_then (validate_unique_non_empty_text label values)
     (and_then
       (for_each (\<lambda>value.
          if path_is_absolute value \<or> path_has_parent_dir value
          then Inl (label @ '' '' @ quote @ value @ quote @ '' must stay relative to its workspace'')
          else Inr ()) values)
     (if any_pair (\<lambda>a b. a \<ge> b) values
      then Inl (label @ '' values must be sorted in canonical order'')
      else Inr ()))"

section \<open>Invocations\<close>

record tool_arguments =
  ta_raw :: string
  ta_parsed :: "json option"

record model_tool_call =
  tcall_id :: string
  tcall_name :: string
  tcall_arguments :: tool_arguments

record tool_invocation =
  ti_run_id :: string
  ti_call_id :: string
  ti_name :: string
  ti_arguments :: tool_arguments

datatype tool_invocation_status = InvocationAccepted | InvocationRejectedStatus

datatype tool_transport_status =
  TransportNotStarted | TransportSucceeded | TransportFailedStatus | TransportIndeterminate

datatype tool_operation_status =
    OperationNotStarted | OperationSucceeded | OperationFailedStatus | OperationCancelled
  | OperationIndeterminate

datatype tool_side_effect_status =
  EffectNotApplicable | EffectNotApplied | EffectApplied | EffectIndeterminate

datatype tool_retry_disposition =
  RetryNotNeeded | RetryAfterCorrection | RetrySafe | RetryUnsafe | RetryNotRetryable

datatype tool_failure_code =
    MalformedArguments | SchemaValidation | InvocationRejected | AuthorizationStale | UnknownTool
  | MissingField | InvalidField | WorkspacePrecondition | StaleRead | AmbiguousEdit | PatchParse
  | OperationFailed | TransportFailed | SideEffectAmbiguous | ToolVerifierFailed

fun failure_code_as_str :: "tool_failure_code \<Rightarrow> string" where
  "failure_code_as_str MalformedArguments = ''malformed_arguments''"
| "failure_code_as_str SchemaValidation = ''schema_validation''"
| "failure_code_as_str InvocationRejected = ''invocation_rejected''"
| "failure_code_as_str AuthorizationStale = ''authorization_stale''"
| "failure_code_as_str UnknownTool = ''unknown_tool''"
| "failure_code_as_str MissingField = ''missing_field''"
| "failure_code_as_str InvalidField = ''invalid_field''"
| "failure_code_as_str WorkspacePrecondition = ''workspace_precondition''"
| "failure_code_as_str StaleRead = ''stale_read''"
| "failure_code_as_str AmbiguousEdit = ''ambiguous_edit''"
| "failure_code_as_str PatchParse = ''patch_parse''"
| "failure_code_as_str OperationFailed = ''operation_failed''"
| "failure_code_as_str TransportFailed = ''transport_failed''"
| "failure_code_as_str SideEffectAmbiguous = ''side_effect_ambiguous''"
| "failure_code_as_str ToolVerifierFailed = ''verifier_failed''"

datatype tool_evidence_status =
  EvidenceNotApplicable | EvidenceMissing | EvidenceProduced | EvidenceRejected | EvidenceStale

record tool_evidence =
  te_status :: tool_evidence_status
  te_references :: "string list"

definition tool_evidence_default :: tool_evidence where
  "tool_evidence_default = \<lparr>te_status = EvidenceNotApplicable, te_references = []\<rparr>"

section \<open>Verification artifacts\<close>

datatype tool_artifact_status =
  ArtifactNotApplicable | ArtifactAvailable | ArtifactMissing | ArtifactCorrupt

record tool_artifact =
  art_id :: string
  art_status :: tool_artifact_status
  art_sha256 :: "string option"
  art_media_type :: "string option"
  art_byte_len :: "u64 option"
  art_inline_content :: "json option"

record verification_artifact_payload =
  vap_summary :: string
  vap_verifier :: verifier_spec
  vap_verdict :: verifier_verdict
  vap_workspace_revision :: workspace_revision

record codec =
  cx_sha256_hex :: "string \<Rightarrow> string"
  cx_json_text :: "json \<Rightarrow> string"
  cx_encode_payload :: "verification_artifact_payload \<Rightarrow> json"
  cx_decode_payload :: "json \<Rightarrow> string + verification_artifact_payload"

definition format_prefixed_sha256 :: "'x codec_scheme \<Rightarrow> string \<Rightarrow> string" where
  "format_prefixed_sha256 cx bytes = ''sha256:'' @ cx_sha256_hex cx bytes"

definition arguments_sha256 :: "'x codec_scheme \<Rightarrow> tool_invocation \<Rightarrow> string" where
  "arguments_sha256 cx i = format_prefixed_sha256 cx (ta_raw (ti_arguments i))"

definition verification_payload_validate :: "verification_artifact_payload \<Rightarrow> string + unit" where
  "verification_payload_validate p =
     and_then (require_agent_text ''verification artifact summary'' (vap_summary p))
     (and_then (verifier_spec_validate (vap_verifier p))
       (workspace_revision_validate (vap_workspace_revision p)))"

definition canonical_verification_artifact_bytes :: "'x codec_scheme \<Rightarrow> json \<Rightarrow> string" where
  "canonical_verification_artifact_bytes cx content = cx_json_text cx (canonical_json content)"

definition verification_id_prefix :: string where
  "verification_id_prefix = ''verification-evidence:''"

definition verification_media_type :: string where
  "verification_media_type = ''application/vnd.dse.verification+json''"

text \<open>\<open>None\<close> is the panic of the \<open>expect\<close> on an invalid payload.\<close>

definition inline_verification ::
  "'x codec_scheme \<Rightarrow> verification_artifact_payload \<Rightarrow> tool_artifact option" where
  "inline_verification cx payload =
     (if \<not> is_ok (verification_payload_validate payload) then None
      else
        let content = canonical_json (cx_encode_payload cx payload);
            bytes = canonical_verification_artifact_bytes cx content;
            sha256 = format_prefixed_sha256 cx bytes
        in Some \<lparr>art_id = verification_id_prefix @ sha256, art_status = ArtifactAvailable,
                 art_sha256 = Some sha256, art_media_type = Some verification_media_type,
                 art_byte_len = Some (of_nat (length bytes)), art_inline_content = Some content\<rparr>)"

definition validate_inline_verification ::
  "'x codec_scheme \<Rightarrow> tool_artifact \<Rightarrow> string + verification_artifact_payload" where
  "validate_inline_verification cx art =
     rbind (ok_or (art_inline_content art) ''verification artifact is missing its inline payload'')
     (\<lambda>content.
        let bytes = canonical_verification_artifact_bytes cx content;
            sha256 = format_prefixed_sha256 cx bytes
        in if art_status art \<noteq> ArtifactAvailable
              \<or> art_sha256 art \<noteq> Some sha256
              \<or> art_id art \<noteq> verification_id_prefix @ sha256
              \<or> art_media_type art \<noteq> Some verification_media_type
              \<or> art_byte_len art \<noteq> Some (of_nat (length bytes))
           then Inl ''verification artifact metadata does not match its inline payload''
           else
             rbind (map_err (\<lambda>e. ''verification artifact payload is invalid: '' @ e)
                      (cx_decode_payload cx content))
             (\<lambda>payload. and_then (verification_payload_validate payload) (Inr payload)))"

section \<open>Tool outcomes\<close>

datatype workspace_access = ReadOnly | MayWrite

record tool_outcome =
  to_failure_code :: "tool_failure_code option"
  to_invocation :: tool_invocation_status
  to_transport :: tool_transport_status
  to_operation :: tool_operation_status
  to_side_effect :: tool_side_effect_status
  to_retry :: tool_retry_disposition
  to_evidence :: tool_evidence
  to_artifacts :: "tool_artifact list"
  to_workspace_revision :: "string option"
  to_verifier_observation :: "verifier_observation option"
  to_content :: string
  to_metadata :: "json option"

definition tool_outcome_success :: "string \<Rightarrow> tool_outcome" where
  "tool_outcome_success content =
     \<lparr>to_failure_code = None, to_invocation = InvocationAccepted,
      to_transport = TransportSucceeded, to_operation = OperationSucceeded,
      to_side_effect = EffectNotApplicable, to_retry = RetryNotNeeded,
      to_evidence = tool_evidence_default, to_artifacts = [], to_workspace_revision = None,
      to_verifier_observation = None, to_content = content, to_metadata = None\<rparr>"

definition tool_outcome_error :: "string \<Rightarrow> tool_outcome" where
  "tool_outcome_error content =
     \<lparr>to_failure_code = Some OperationFailed, to_invocation = InvocationAccepted,
      to_transport = TransportSucceeded, to_operation = OperationFailedStatus,
      to_side_effect = EffectIndeterminate, to_retry = RetryNotRetryable,
      to_evidence = tool_evidence_default, to_artifacts = [], to_workspace_revision = None,
      to_verifier_observation = None, to_content = content, to_metadata = None\<rparr>"

definition tool_outcome_rejected :: "string \<Rightarrow> tool_retry_disposition \<Rightarrow> tool_outcome" where
  "tool_outcome_rejected content retry =
     \<lparr>to_failure_code = Some InvocationRejected, to_invocation = InvocationRejectedStatus,
      to_transport = TransportNotStarted, to_operation = OperationNotStarted,
      to_side_effect = EffectNotApplied, to_retry = retry,
      to_evidence = tool_evidence_default, to_artifacts = [], to_workspace_revision = None,
      to_verifier_observation = None, to_content = content, to_metadata = None\<rparr>"

definition tool_outcome_transport_failure :: "string \<Rightarrow> tool_outcome" where
  "tool_outcome_transport_failure content =
     \<lparr>to_failure_code = Some TransportFailed, to_invocation = InvocationAccepted,
      to_transport = TransportFailedStatus, to_operation = OperationIndeterminate,
      to_side_effect = EffectIndeterminate, to_retry = RetryUnsafe,
      to_evidence = tool_evidence_default, to_artifacts = [], to_workspace_revision = None,
      to_verifier_observation = None, to_content = content, to_metadata = None\<rparr>"

definition tool_outcome_recovery_ambiguous :: "string \<Rightarrow> tool_outcome" where
  "tool_outcome_recovery_ambiguous content =
     \<lparr>to_failure_code = Some SideEffectAmbiguous, to_invocation = InvocationAccepted,
      to_transport = TransportIndeterminate, to_operation = OperationIndeterminate,
      to_side_effect = EffectIndeterminate, to_retry = RetryUnsafe,
      to_evidence = tool_evidence_default, to_artifacts = [], to_workspace_revision = None,
      to_verifier_observation = None, to_content = content, to_metadata = None\<rparr>"

definition is_success :: "tool_outcome \<Rightarrow> bool" where
  "is_success t \<longleftrightarrow>
     to_invocation t = InvocationAccepted \<and> to_transport t = TransportSucceeded \<and>
     to_operation t = OperationSucceeded"

definition with_workspace_access_guarantee :: "tool_outcome \<Rightarrow> workspace_access \<Rightarrow> tool_outcome" where
  "with_workspace_access_guarantee t workspace_access =
     (if workspace_access = ReadOnly \<and> \<not> is_success t then
        let t1 = (if to_side_effect t = EffectIndeterminate
                  then t\<lparr>to_side_effect := EffectNotApplicable\<rparr> else t);
            t2 = (if to_retry t1 = RetryUnsafe then t1\<lparr>to_retry := RetrySafe\<rparr> else t1)
        in if to_failure_code t2 = Some SideEffectAmbiguous
           then t2\<lparr>to_failure_code := Some OperationFailed\<rparr> else t2
      else t)"

definition has_stable_verifier_revision ::
  "tool_outcome \<Rightarrow> workspace_revision \<Rightarrow> workspace_revision \<Rightarrow> bool" where
  "has_stable_verifier_revision t before after =
     (case to_verifier_observation t of
        None \<Rightarrow> False
      | Some observation \<Rightarrow>
          to_side_effect t \<noteq> EffectApplied \<and>
          (case (before, after, vo_workspace_revision observation, to_workspace_revision t) of
             (RevKnown before, RevKnown after, RevKnown observed, Some outcome) \<Rightarrow>
               before = after \<and> after = observed \<and> observed = outcome
           | _ \<Rightarrow> False))"

definition preflight_failure_codes :: "tool_failure_code list" where
  "preflight_failure_codes =
     [MalformedArguments, SchemaValidation, InvocationRejected, AuthorizationStale, UnknownTool,
      MissingField, PatchParse]"

definition observed_failure_codes :: "tool_failure_code list" where
  "observed_failure_codes = [WorkspacePrecondition, StaleRead, AmbiguousEdit, ToolVerifierFailed]"

fun failure_code_in :: "tool_failure_code option \<Rightarrow> tool_failure_code list \<Rightarrow> bool" where
  "failure_code_in None codes = False"
| "failure_code_in (Some code) codes = (code \<in> set codes)"

definition validate_tool_artifact :: "'x codec_scheme \<Rightarrow> tool_artifact \<Rightarrow> string + unit" where
  "validate_tool_artifact cx art =
     (if art_status art = ArtifactAvailable \<and> art_sha256 art = None
      then Inl (''available artifact '' @ quote @ art_id art @ quote @ '' must carry a sha256 digest'')
      else if art_inline_content art \<noteq> None
      then rbind (validate_inline_verification cx art) (\<lambda>_. Inr ())
      else Inr ())"

definition tool_outcome_validate :: "'x codec_scheme \<Rightarrow> tool_outcome \<Rightarrow> string + unit" where
  "tool_outcome_validate cx t =
     (if is_success t \<and> to_failure_code t \<noteq> None
      then Inl ''a successful tool outcome cannot carry a failure code''
      else if \<not> is_success t \<and> to_failure_code t = None
      then Inl ''an unsuccessful tool outcome requires a failure code''
      else if failure_code_in (to_failure_code t) preflight_failure_codes
              \<and> to_invocation t \<noteq> InvocationRejectedStatus
      then Inl ''a preflight failure code requires a rejected invocation''
      else if failure_code_in (to_failure_code t) observed_failure_codes
              \<and> (to_invocation t \<noteq> InvocationAccepted \<or> to_transport t \<noteq> TransportSucceeded
                 \<or> to_operation t \<noteq> OperationFailedStatus)
      then Inl ''an observed tool-operation failure code requires accepted/failed lifecycle facts''
      else if to_failure_code t = Some TransportFailed
              \<and> (to_invocation t \<noteq> InvocationAccepted \<or> to_transport t \<noteq> TransportFailedStatus
                 \<or> to_operation t \<noteq> OperationIndeterminate)
      then Inl ''a transport failure code requires accepted/failed/indeterminate lifecycle facts''
      else if to_failure_code t = Some SideEffectAmbiguous
              \<and> (to_side_effect t \<noteq> EffectIndeterminate \<or> to_retry t \<noteq> RetryUnsafe)
      then Inl ''a side-effect ambiguity requires indeterminate effects and unsafe retry''
      else if to_invocation t = InvocationRejectedStatus
              \<and> (to_transport t \<noteq> TransportNotStarted \<or> to_operation t \<noteq> OperationNotStarted
                 \<or> to_side_effect t \<noteq> EffectNotApplied)
      then Inl ''a rejected invocation must not start transport, operation, or side effects''
      else if to_transport t \<noteq> TransportSucceeded \<and> to_operation t = OperationSucceeded
      then Inl ''an operation cannot succeed when tool transport did not succeed''
      else if to_operation t = OperationSucceeded \<and> to_retry t \<noteq> RetryNotNeeded
      then Inl ''a successful operation cannot request a retry''
      else if to_retry t = RetrySafe
              \<and> \<not> (to_side_effect t = EffectNotApplicable \<or> to_side_effect t = EffectNotApplied)
      then Inl ''safe retry requires proof that no side effect was applied''
      else
        and_then (for_each (validate_tool_artifact cx) (to_artifacts t))
        (case to_verifier_observation t of
           None \<Rightarrow> Inr ()
         | Some observation \<Rightarrow> verifier_observation_validate observation))"

definition advice_correct_arguments :: string where
  "advice_correct_arguments =
     [CHR 0xE4, CHR 0xBF, CHR 0xAE, CHR 0xE6, CHR 0xAD, CHR 0xA3, CHR 0xE5, CHR 0x8F, CHR 0x82,
     CHR 0xE6, CHR 0x95, CHR 0xB0, CHR 0xE5, CHR 0x90, CHR 0x8E, CHR 0xE5, CHR 0x86, CHR 0x8D,
     CHR 0xE8, CHR 0xB0, CHR 0x83, CHR 0xE7, CHR 0x94, CHR 0xA8, CHR 0xEF, CHR 0xBC, CHR 0x9B,
     CHR 0xE4, CHR 0xB8, CHR 0x8D, CHR 0xE8, CHR 0xA6, CHR 0x81, CHR 0xE5, CHR 0x8E, CHR 0x9F,
     CHR 0xE6, CHR 0xA0, CHR 0xB7, CHR 0xE9, CHR 0x87, CHR 0x8D, CHR 0xE5, CHR 0xA4, CHR 0x8D,
     CHR 0xE3, CHR 0x80, CHR 0x82]"

definition advice_rejected_correctable :: string where
  "advice_rejected_correctable =
     [CHR 0xE6, CHR 0xA0, CHR 0xB9, CHR 0xE6, CHR 0x8D, CHR 0xAE] @ '' Host '' @ [CHR 0xE6, CHR
     0x8B, CHR 0x92, CHR 0xE7, CHR 0xBB, CHR 0x9D, CHR 0xE5, CHR 0x8E, CHR 0x9F, CHR 0xE5, CHR
     0x9B, CHR 0xA0, CHR 0xE4, CHR 0xBF, CHR 0xAE, CHR 0xE6, CHR 0xAD, CHR 0xA3, CHR 0xE8, CHR
     0xB0, CHR 0x83, CHR 0xE7, CHR 0x94, CHR 0xA8, CHR 0xE5, CHR 0x90, CHR 0x8E, CHR 0xE5, CHR
     0x86, CHR 0x8D, CHR 0xE8, CHR 0xAF, CHR 0x95, CHR 0xE3, CHR 0x80, CHR 0x82]"

definition advice_rejected :: string where
  "advice_rejected =
     [CHR 0xE5, CHR 0xBD, CHR 0x93, CHR 0xE5, CHR 0x89, CHR 0x8D] @ '' Host '' @ [CHR 0xE4, CHR
     0xB8, CHR 0x8D, CHR 0xE6, CHR 0x8E, CHR 0xA5, CHR 0xE5, CHR 0x8F, CHR 0x97, CHR 0xE8, CHR
     0xAF, CHR 0xA5, CHR 0xE8, CHR 0xB0, CHR 0x83, CHR 0xE7, CHR 0x94, CHR 0xA8, CHR 0xEF, CHR
     0xBC, CHR 0x9B, CHR 0xE4, CHR 0xB8, CHR 0x8D, CHR 0xE8, CHR 0xA6, CHR 0x81, CHR 0xE5, CHR
     0x8E, CHR 0x9F, CHR 0xE6, CHR 0xA0, CHR 0xB7, CHR 0xE9, CHR 0x87, CHR 0x8D, CHR 0xE5, CHR
     0xA4, CHR 0x8D, CHR 0xE3, CHR 0x80, CHR 0x82]"

definition advice_authorization_stale :: string where
  "advice_authorization_stale =
     [CHR 0xE5, CHR 0xB7, CHR 0xA5, CHR 0xE4, CHR 0xBD, CHR 0x9C, CHR 0xE5, CHR 0x8C, CHR 0xBA,
     CHR 0xE5, CHR 0x9C, CHR 0xA8, CHR 0xE6, CHR 0x8E, CHR 0x88, CHR 0xE6, CHR 0x9D, CHR 0x83,
     CHR 0xE5, CHR 0x90, CHR 0x8E, CHR 0xE5, CHR 0x8F, CHR 0x91, CHR 0xE7, CHR 0x94, CHR 0x9F,
     CHR 0xE5, CHR 0x8F, CHR 0x98, CHR 0xE5, CHR 0x8C, CHR 0x96, CHR 0xEF, CHR 0xBC, CHR 0x9B,
     CHR 0xE5, CHR 0x85, CHR 0x88, CHR 0xE8, CHR 0xAF, CHR 0xBB, CHR 0xE5, CHR 0x8F, CHR 0x96,
     CHR 0xE6, CHR 0x9C, CHR 0x80, CHR 0xE6, CHR 0x96, CHR 0xB0, CHR 0xE7, CHR 0x8A, CHR 0xB6,
     CHR 0xE6, CHR 0x80, CHR 0x81, CHR 0xEF, CHR 0xBC, CHR 0x8C, CHR 0xE5, CHR 0x86, CHR 0x8D,
     CHR 0xE9, CHR 0x87, CHR 0x8D, CHR 0xE6, CHR 0x96, CHR 0xB0, CHR 0xE6, CHR 0x8F, CHR 0x90,
     CHR 0xE5, CHR 0x87, CHR 0xBA, CHR 0xE8, CHR 0xB0, CHR 0x83, CHR 0xE7, CHR 0x94, CHR 0xA8,
     CHR 0xE3, CHR 0x80, CHR 0x82]"

definition advice_reread :: string where
  "advice_reread =
     [CHR 0xE5, CHR 0x85, CHR 0x88, CHR 0xE9, CHR 0x87, CHR 0x8D, CHR 0xE6, CHR 0x96, CHR 0xB0,
     CHR 0xE8, CHR 0xAF, CHR 0xBB, CHR 0xE5, CHR 0x8F, CHR 0x96, CHR 0xE7, CHR 0x9B, CHR 0xB8,
     CHR 0xE5, CHR 0x85, CHR 0xB3, CHR 0xE6, CHR 0x96, CHR 0x87, CHR 0xE4, CHR 0xBB, CHR 0xB6,
     CHR 0xE6, CHR 0x88, CHR 0x96, CHR 0xE5, CHR 0xB7, CHR 0xA5, CHR 0xE4, CHR 0xBD, CHR 0x9C,
     CHR 0xE5, CHR 0x8C, CHR 0xBA, CHR 0xE7, CHR 0x8A, CHR 0xB6, CHR 0xE6, CHR 0x80, CHR 0x81,
     CHR 0xEF, CHR 0xBC, CHR 0x8C, CHR 0xE5, CHR 0x86, CHR 0x8D, CHR 0xE6, CHR 0xA0, CHR 0xB9,
     CHR 0xE6, CHR 0x8D, CHR 0xAE, CHR 0xE6, CHR 0x9C, CHR 0x80, CHR 0xE6, CHR 0x96, CHR 0xB0,
     CHR 0xE5, CHR 0x86, CHR 0x85, CHR 0xE5, CHR 0xAE, CHR 0xB9, CHR 0xE4, CHR 0xBF, CHR 0xAE,
     CHR 0xE6, CHR 0xAD, CHR 0xA3, CHR 0xE8, CHR 0xB0, CHR 0x83, CHR 0xE7, CHR 0x94, CHR 0xA8,
     CHR 0xE3, CHR 0x80, CHR 0x82]"

definition advice_ambiguous_edit :: string where
  "advice_ambiguous_edit =
     [CHR 0xE5, CHR 0x85, CHR 0x88, CHR 0xE8, CHR 0xAF, CHR 0xBB, CHR 0xE5, CHR 0x8F, CHR 0x96,
     CHR 0xE6, CHR 0x9B, CHR 0xB4, CHR 0xE5, CHR 0xA4, CHR 0x9A, CHR 0xE4, CHR 0xB8, CHR 0x8A,
     CHR 0xE4, CHR 0xB8, CHR 0x8B, CHR 0xE6, CHR 0x96, CHR 0x87, CHR 0xEF, CHR 0xBC, CHR 0x8C,
     CHR 0xE5, CHR 0x86, CHR 0x8D, CHR 0xE4, CHR 0xBD, CHR 0xBF, CHR 0xE7, CHR 0x94, CHR 0xA8,
     CHR 0xE5, CHR 0x94, CHR 0xAF, CHR 0xE4, CHR 0xB8, CHR 0x80, CHR 0xE4, CHR 0xB8, CHR 0x94,
     CHR 0xE6, CHR 0x9B, CHR 0xB4, CHR 0xE7, CHR 0xB2, CHR 0xBE, CHR 0xE7, CHR 0xA1, CHR 0xAE,
     CHR 0xE7, CHR 0x9A, CHR 0x84, CHR 0xE7, CHR 0xBC, CHR 0x96, CHR 0xE8, CHR 0xBE, CHR 0x91,
     CHR 0xE8, CHR 0x8C, CHR 0x83, CHR 0xE5, CHR 0x9B, CHR 0xB4, CHR 0xE3, CHR 0x80, CHR 0x82]"

definition advice_unknown_tool :: string where
  "advice_unknown_tool =
     [CHR 0xE5, CHR 0x8F, CHR 0xAA, CHR 0xE4, CHR 0xBD, CHR 0xBF, CHR 0xE7, CHR 0x94, CHR 0xA8,
     CHR 0xE5, CHR 0xBD, CHR 0x93, CHR 0xE5, CHR 0x89, CHR 0x8D, CHR 0xE8, CHR 0xAF, CHR 0xB7,
     CHR 0xE6, CHR 0xB1, CHR 0x82, CHR 0xE5, CHR 0xAE, CHR 0x9E, CHR 0xE9, CHR 0x99, CHR 0x85,
     CHR 0xE6, CHR 0x8F, CHR 0x90, CHR 0xE4, CHR 0xBE, CHR 0x9B, CHR 0xE7, CHR 0x9A, CHR 0x84,
     CHR 0xE5, CHR 0xB7, CHR 0xA5, CHR 0xE5, CHR 0x85, CHR 0xB7, CHR 0xE5, CHR 0x90, CHR 0x8D,
     CHR 0xE3, CHR 0x80, CHR 0x82]"

definition advice_transport_safe :: string where
  "advice_transport_safe =
     [CHR 0xE4, CHR 0xBC, CHR 0xA0, CHR 0xE8, CHR 0xBE, CHR 0x93, CHR 0xE5, CHR 0xA4, CHR 0xB1,
     CHR 0xE8, CHR 0xB4, CHR 0xA5, CHR 0xEF, CHR 0xBC, CHR 0x8C, CHR 0xE4, CHR 0xBD, CHR 0x86,
     CHR 0xE5, CHR 0xB7, CHR 0xB2, CHR 0xE7, CHR 0xA1, CHR 0xAE, CHR 0xE8, CHR 0xAE, CHR 0xA4,
     CHR 0xE6, CHR 0xB2, CHR 0xA1, CHR 0xE6, CHR 0x9C, CHR 0x89, CHR 0xE5, CHR 0xB7, CHR 0xA5,
     CHR 0xE4, CHR 0xBD, CHR 0x9C, CHR 0xE5, CHR 0x8C, CHR 0xBA, CHR 0xE5, CHR 0x89, CHR 0xAF,
     CHR 0xE4, CHR 0xBD, CHR 0x9C, CHR 0xE7, CHR 0x94, CHR 0xA8, CHR 0xEF, CHR 0xBC, CHR 0x8C,
     CHR 0xE5, CHR 0x8F, CHR 0xAF, CHR 0xE4, CHR 0xBB, CHR 0xA5, CHR 0xE5, CHR 0xAE, CHR 0x89,
     CHR 0xE5, CHR 0x85, CHR 0xA8, CHR 0xE9, CHR 0x87, CHR 0x8D, CHR 0xE6, CHR 0x96, CHR 0xB0,
     CHR 0xE8, CHR 0xB0, CHR 0x83, CHR 0xE7, CHR 0x94, CHR 0xA8, CHR 0xE3, CHR 0x80, CHR 0x82]"

definition advice_transport_correctable :: string where
  "advice_transport_correctable =
     [CHR 0xE4, CHR 0xBF, CHR 0xAE, CHR 0xE6, CHR 0xAD, CHR 0xA3, CHR 0xE4, CHR 0xBC, CHR 0xA0,
     CHR 0xE8, CHR 0xBE, CHR 0x93, CHR 0xE5, CHR 0x8F, CHR 0x82, CHR 0xE6, CHR 0x95, CHR 0xB0,
     CHR 0xE6, CHR 0x88, CHR 0x96, CHR 0xE7, CHR 0x8E, CHR 0xAF, CHR 0xE5, CHR 0xA2, CHR 0x83,
     CHR 0xE5, CHR 0x90, CHR 0x8E, CHR 0xE5, CHR 0x86, CHR 0x8D, CHR 0xE8, CHR 0xB0, CHR 0x83,
     CHR 0xE7, CHR 0x94, CHR 0xA8, CHR 0xE3, CHR 0x80, CHR 0x82]"

definition advice_transport :: string where
  "advice_transport =
     [CHR 0xE4, CHR 0xB8, CHR 0x8D, CHR 0xE8, CHR 0xA6, CHR 0x81, CHR 0xE8, CHR 0x87, CHR 0xAA,
     CHR 0xE5, CHR 0x8A, CHR 0xA8, CHR 0xE9, CHR 0x87, CHR 0x8D, CHR 0xE6, CHR 0x94, CHR 0xBE,
     CHR 0xEF, CHR 0xBC, CHR 0x9B, CHR 0xE5, CHR 0x85, CHR 0x88, CHR 0xE7, CHR 0xA1, CHR 0xAE,
     CHR 0xE8, CHR 0xAE, CHR 0xA4, CHR 0xE5, CHR 0x89, CHR 0xAF, CHR 0xE4, CHR 0xBD, CHR 0x9C,
     CHR 0xE7, CHR 0x94, CHR 0xA8, CHR 0xE7, CHR 0x8A, CHR 0xB6, CHR 0xE6, CHR 0x80, CHR 0x81,
     CHR 0xE6, CHR 0x88, CHR 0x96, CHR 0xE7, CHR 0xAD, CHR 0x89, CHR 0xE5, CHR 0xBE, CHR 0x85]
     @ '' Host recovery'' @ [CHR 0xE3, CHR 0x80, CHR 0x82]"

definition advice_side_effect_ambiguous :: string where
  "advice_side_effect_ambiguous =
     [CHR 0xE5, CHR 0x89, CHR 0xAF, CHR 0xE4, CHR 0xBD, CHR 0x9C, CHR 0xE7, CHR 0x94, CHR 0xA8,
     CHR 0xE7, CHR 0x8A, CHR 0xB6, CHR 0xE6, CHR 0x80, CHR 0x81, CHR 0xE6, CHR 0x97, CHR 0xA0,
     CHR 0xE6, CHR 0xB3, CHR 0x95, CHR 0xE5, CHR 0xAE, CHR 0x89, CHR 0xE5, CHR 0x85, CHR 0xA8,
     CHR 0xE7, CHR 0xA1, CHR 0xAE, CHR 0xE8, CHR 0xAE, CHR 0xA4, CHR 0xEF, CHR 0xBC, CHR 0x9B,
     CHR 0xE4, CHR 0xB8, CHR 0x8D, CHR 0xE8, CHR 0xA6, CHR 0x81, CHR 0xE8, CHR 0x87, CHR 0xAA,
     CHR 0xE5, CHR 0x8A, CHR 0xA8, CHR 0xE9, CHR 0x87, CHR 0x8D, CHR 0xE6, CHR 0x94, CHR 0xBE,
     CHR 0xEF, CHR 0xBC, CHR 0x8C, CHR 0xE7, CHR 0xAD, CHR 0x89, CHR 0xE5, CHR 0xBE, CHR 0x85]
     @ '' Host recovery '' @ [CHR 0xE6, CHR 0x88, CHR 0x96, CHR 0xE4, CHR 0xBA, CHR 0xBA, CHR
     0xE5, CHR 0xB7, CHR 0xA5, CHR 0xE5, CHR 0xA4, CHR 0x84, CHR 0xE7, CHR 0x90, CHR 0x86, CHR
     0xE3, CHR 0x80, CHR 0x82]"

definition advice_verifier_failed :: string where
  "advice_verifier_failed =
     [CHR 0xE6, CHR 0xA0, CHR 0xB9, CHR 0xE6, CHR 0x8D, CHR 0xAE, CHR 0xE7, CHR 0xA1, CHR 0xAE,
     CHR 0xE5, CHR 0xAE, CHR 0x9A, CHR 0xE6, CHR 0x80, CHR 0xA7] @ '' verifier '' @ [CHR 0xE7,
     CHR 0xBB, CHR 0x93, CHR 0xE6, CHR 0x9E, CHR 0x9C, CHR 0xE4, CHR 0xBF, CHR 0xAE, CHR 0xE6,
     CHR 0x94, CHR 0xB9, CHR 0xE5, CHR 0xB7, CHR 0xA5, CHR 0xE4, CHR 0xBD, CHR 0x9C, CHR 0xE5,
     CHR 0x8C, CHR 0xBA, CHR 0xE5, CHR 0x90, CHR 0x8E, CHR 0xE9, CHR 0x87, CHR 0x8D, CHR 0xE6,
     CHR 0x96, CHR 0xB0, CHR 0xE9, CHR 0xAA, CHR 0x8C, CHR 0xE8, CHR 0xAF, CHR 0x81, CHR 0xE3,
     CHR 0x80, CHR 0x82]"

definition advice_operation_correctable :: string where
  "advice_operation_correctable =
     [CHR 0xE6, CHR 0xA0, CHR 0xB9, CHR 0xE6, CHR 0x8D, CHR 0xAE, CHR 0xE9, CHR 0x94, CHR 0x99,
     CHR 0xE8, CHR 0xAF, CHR 0xAF, CHR 0xE8, CHR 0xAF, CHR 0xA6, CHR 0xE6, CHR 0x83, CHR 0x85,
     CHR 0xE4, CHR 0xBF, CHR 0xAE, CHR 0xE6, CHR 0xAD, CHR 0xA3, CHR 0xE6, CHR 0x93, CHR 0x8D,
     CHR 0xE4, CHR 0xBD, CHR 0x9C, CHR 0xE5, CHR 0x90, CHR 0x8E, CHR 0xE5, CHR 0x86, CHR 0x8D,
     CHR 0xE8, CHR 0xB0, CHR 0x83, CHR 0xE7, CHR 0x94, CHR 0xA8, CHR 0xE3, CHR 0x80, CHR 0x82]"

definition advice_operation_safe :: string where
  "advice_operation_safe =
     [CHR 0xE5, CHR 0xB7, CHR 0xB2, CHR 0xE7, CHR 0xA1, CHR 0xAE, CHR 0xE8, CHR 0xAE, CHR 0xA4,
     CHR 0xE6, CHR 0xB2, CHR 0xA1, CHR 0xE6, CHR 0x9C, CHR 0x89, CHR 0xE5, CHR 0x89, CHR 0xAF,
     CHR 0xE4, CHR 0xBD, CHR 0x9C, CHR 0xE7, CHR 0x94, CHR 0xA8, CHR 0xEF, CHR 0xBC, CHR 0x8C,
     CHR 0xE5, CHR 0x8F, CHR 0xAF, CHR 0xE4, CHR 0xBB, CHR 0xA5, CHR 0xE5, CHR 0xAE, CHR 0x89,
     CHR 0xE5, CHR 0x85, CHR 0xA8, CHR 0xE9, CHR 0x87, CHR 0x8D, CHR 0xE8, CHR 0xAF, CHR 0x95,
     CHR 0xE3, CHR 0x80, CHR 0x82]"

definition advice_operation :: string where
  "advice_operation =
     [CHR 0xE4, CHR 0xB8, CHR 0x8D, CHR 0xE8, CHR 0xA6, CHR 0x81, CHR 0xE7, CHR 0x9B, CHR 0xB2,
     CHR 0xE7, CHR 0x9B, CHR 0xAE, CHR 0xE9, CHR 0x87, CHR 0x8D, CHR 0xE8, CHR 0xAF, CHR 0x95,
     CHR 0xEF, CHR 0xBC, CHR 0x9B, CHR 0xE5, CHR 0x85, CHR 0x88, CHR 0xE6, CHR 0xA0, CHR 0xB9,
     CHR 0xE6, CHR 0x8D, CHR 0xAE, CHR 0xE9, CHR 0x94, CHR 0x99, CHR 0xE8, CHR 0xAF, CHR 0xAF,
     CHR 0xE8, CHR 0xAF, CHR 0xA6, CHR 0xE6, CHR 0x83, CHR 0x85, CHR 0xE9, CHR 0x80, CHR 0x89,
     CHR 0xE6, CHR 0x8B, CHR 0xA9, CHR 0xE4, CHR 0xBF, CHR 0xAE, CHR 0xE6, CHR 0xAD, CHR 0xA3,
     CHR 0xE6, CHR 0x88, CHR 0x96, CHR 0xE5, CHR 0x81, CHR 0x9C, CHR 0xE6, CHR 0xAD, CHR 0xA2,
     CHR 0xE3, CHR 0x80, CHR 0x82]"

definition txt_tool_failure :: string where
  "txt_tool_failure =
     [CHR 0xE5, CHR 0xB7, CHR 0xA5, CHR 0xE5, CHR 0x85, CHR 0xB7, CHR 0xE5, CHR 0xA4, CHR 0xB1,
     CHR 0xE8, CHR 0xB4, CHR 0xA5, CHR 0xEF, CHR 0xBC, CHR 0x9A] @ ''code=''"

definition txt_recovery_advice :: string where
  "txt_recovery_advice =
     [CHR 0xE3, CHR 0x80, CHR 0x82, CHR 0x0A, CHR 0xE6, CHR 0x81, CHR 0xA2, CHR 0xE5, CHR 0xA4,
     CHR 0x8D, CHR 0xE5, CHR 0xBB, CHR 0xBA, CHR 0xE8, CHR 0xAE, CHR 0xAE, CHR 0xEF, CHR 0xBC,
     CHR 0x9A]"


fun tool_operation_status_name :: "tool_operation_status \<Rightarrow> string" where
  "tool_operation_status_name OperationNotStarted = ''not_started''"
| "tool_operation_status_name OperationSucceeded = ''succeeded''"
| "tool_operation_status_name OperationFailedStatus = ''failed''"
| "tool_operation_status_name OperationCancelled = ''cancelled''"
| "tool_operation_status_name OperationIndeterminate = ''indeterminate''"

fun tool_side_effect_status_name :: "tool_side_effect_status \<Rightarrow> string" where
  "tool_side_effect_status_name EffectNotApplicable = ''not_applicable''"
| "tool_side_effect_status_name EffectNotApplied = ''not_applied''"
| "tool_side_effect_status_name EffectApplied = ''applied''"
| "tool_side_effect_status_name EffectIndeterminate = ''indeterminate''"

fun tool_retry_disposition_name :: "tool_retry_disposition \<Rightarrow> string" where
  "tool_retry_disposition_name RetryNotNeeded = ''not_needed''"
| "tool_retry_disposition_name RetryAfterCorrection = ''after_correction''"
| "tool_retry_disposition_name RetrySafe = ''safe''"
| "tool_retry_disposition_name RetryUnsafe = ''unsafe''"
| "tool_retry_disposition_name RetryNotRetryable = ''not_retryable''"

fun recovery_advice :: "tool_failure_code \<Rightarrow> tool_retry_disposition \<Rightarrow> string" where
  "recovery_advice MalformedArguments retry = advice_correct_arguments"
| "recovery_advice SchemaValidation retry = advice_correct_arguments"
| "recovery_advice MissingField retry = advice_correct_arguments"
| "recovery_advice InvalidField retry = advice_correct_arguments"
| "recovery_advice PatchParse retry = advice_correct_arguments"
| "recovery_advice InvocationRejected retry =
     (if retry = RetryAfterCorrection then advice_rejected_correctable else advice_rejected)"
| "recovery_advice AuthorizationStale retry = advice_authorization_stale"
| "recovery_advice WorkspacePrecondition retry = advice_reread"
| "recovery_advice StaleRead retry = advice_reread"
| "recovery_advice AmbiguousEdit retry = advice_ambiguous_edit"
| "recovery_advice UnknownTool retry = advice_unknown_tool"
| "recovery_advice TransportFailed retry =
     (case retry of RetrySafe \<Rightarrow> advice_transport_safe
      | RetryAfterCorrection \<Rightarrow> advice_transport_correctable
      | _ \<Rightarrow> advice_transport)"
| "recovery_advice SideEffectAmbiguous retry = advice_side_effect_ambiguous"
| "recovery_advice ToolVerifierFailed retry = advice_verifier_failed"
| "recovery_advice OperationFailed retry =
     (case retry of RetryAfterCorrection \<Rightarrow> advice_operation_correctable
      | RetrySafe \<Rightarrow> advice_operation_safe
      | _ \<Rightarrow> advice_operation)"

definition model_content :: "tool_outcome \<Rightarrow> string" where
  "model_content t =
     (case to_failure_code t of
        None \<Rightarrow> to_content t
      | Some code \<Rightarrow>
          txt_tool_failure @ failure_code_as_str code
          @ ''; operation='' @ tool_operation_status_name (to_operation t)
          @ ''; side_effect='' @ tool_side_effect_status_name (to_side_effect t)
          @ ''; retry='' @ tool_retry_disposition_name (to_retry t)
          @ txt_recovery_advice @ recovery_advice code (to_retry t)
          @ [CHR 0x0A] @ to_content t)"

section \<open>Host verification facts\<close>

record host_verification_failure =
  hvf_outcome :: tool_outcome
  hvf_workspace_state :: workspace_state
  hvf_rejection :: completion_rejection

record temporal_evidence_progress =
  tp_acceptance_id :: string
  tp_verifier :: verifier_spec
  tp_failure :: failed_verifier_evidence
  tp_mutation :: "workspace_mutation_evidence option"

definition temporal_progress_validate :: "temporal_evidence_progress \<Rightarrow> string + unit" where
  "temporal_progress_validate p =
     and_then (require_agent_text ''temporal evidence acceptance id'' (tp_acceptance_id p))
     (and_then (verifier_spec_validate (tp_verifier p))
     (and_then (failed_verifier_evidence_validate (tp_failure p))
     (case tp_mutation p of
        None \<Rightarrow> Inr ()
      | Some mutation \<Rightarrow>
          and_then (workspace_mutation_validate mutation)
          (if ws_generation (fv_workspace_state (tp_failure p)) > ws_generation (wm_before mutation)
           then Inl ''temporal verifier failure must precede its mutation''
           else Inr ()))))"

record inherited_run_facts =
  if_workspace_state :: workspace_state
  if_last_completion_rejection :: "completion_rejection option"
  if_last_host_verification_failure :: "host_verification_failure option"

end
