(* ===== verification/Accounting.thy ===== *)
theory Accounting
  imports Prelude
begin

text \<open>
  Token usage, response evidence and physical model accounting of
  crates/protocol/src/agent_runtime.rs. Counters are 64-bit words and every addition of the
  source saturates.
\<close>

section \<open>Usage\<close>

record usage =
  us_input_tokens :: u64
  us_output_tokens :: u64
  us_cache_hit_tokens :: u64
  us_cache_miss_tokens :: u64
  us_cache_write_tokens :: u64
  us_reasoning_tokens :: u64
  us_reasoning_replay_tokens :: u64

definition usage_default :: usage where
  "usage_default =
     \<lparr>us_input_tokens = 0, us_output_tokens = 0, us_cache_hit_tokens = 0, us_cache_miss_tokens = 0,
      us_cache_write_tokens = 0, us_reasoning_tokens = 0, us_reasoning_replay_tokens = 0\<rparr>"

definition usage_total_tokens :: "usage \<Rightarrow> u64" where
  "usage_total_tokens u = sat_add (us_input_tokens u) (us_output_tokens u)"

definition usage_add_assign :: "usage \<Rightarrow> usage \<Rightarrow> usage" where
  "usage_add_assign u other =
     \<lparr>us_input_tokens = sat_add (us_input_tokens u) (us_input_tokens other),
      us_output_tokens = sat_add (us_output_tokens u) (us_output_tokens other),
      us_cache_hit_tokens = sat_add (us_cache_hit_tokens u) (us_cache_hit_tokens other),
      us_cache_miss_tokens = sat_add (us_cache_miss_tokens u) (us_cache_miss_tokens other),
      us_cache_write_tokens = sat_add (us_cache_write_tokens u) (us_cache_write_tokens other),
      us_reasoning_tokens = sat_add (us_reasoning_tokens u) (us_reasoning_tokens other),
      us_reasoning_replay_tokens =
        sat_add (us_reasoning_replay_tokens u) (us_reasoning_replay_tokens other)\<rparr>"

section \<open>Response evidence\<close>

record model_response_evidence =
  re_response_headers_received :: bool
  re_content_observed :: bool
  re_reasoning_observed :: bool
  re_tool_call_observed :: bool
  re_tool_call_id_observed :: bool
  re_tool_call_name_observed :: bool
  re_tool_call_arguments_observed :: bool
  re_finish_reason_observed :: bool
  re_finish_reason_trusted :: bool
  re_usage_received :: bool
  re_stream_done_received :: bool

definition response_evidence_default :: model_response_evidence where
  "response_evidence_default =
     \<lparr>re_response_headers_received = False, re_content_observed = False,
      re_reasoning_observed = False, re_tool_call_observed = False,
      re_tool_call_id_observed = False, re_tool_call_name_observed = False,
      re_tool_call_arguments_observed = False, re_finish_reason_observed = False,
      re_finish_reason_trusted = False, re_usage_received = False,
      re_stream_done_received = False\<rparr>"

definition response_evidence_merge ::
  "model_response_evidence \<Rightarrow> model_response_evidence \<Rightarrow> model_response_evidence" where
  "response_evidence_merge e other =
     \<lparr>re_response_headers_received =
        (re_response_headers_received e \<or> re_response_headers_received other),
      re_content_observed = (re_content_observed e \<or> re_content_observed other),
      re_reasoning_observed = (re_reasoning_observed e \<or> re_reasoning_observed other),
      re_tool_call_observed = (re_tool_call_observed e \<or> re_tool_call_observed other),
      re_tool_call_id_observed = (re_tool_call_id_observed e \<or> re_tool_call_id_observed other),
      re_tool_call_name_observed =
        (re_tool_call_name_observed e \<or> re_tool_call_name_observed other),
      re_tool_call_arguments_observed =
        (re_tool_call_arguments_observed e \<or> re_tool_call_arguments_observed other),
      re_finish_reason_observed = (re_finish_reason_observed e \<or> re_finish_reason_observed other),
      re_finish_reason_trusted = (re_finish_reason_trusted e \<or> re_finish_reason_trusted other),
      re_usage_received = (re_usage_received e \<or> re_usage_received other),
      re_stream_done_received = (re_stream_done_received e \<or> re_stream_done_received other)\<rparr>"

definition actionable_output :: "model_response_evidence \<Rightarrow> bool" where
  "actionable_output e \<longleftrightarrow> re_content_observed e \<or> re_reasoning_observed e \<or> re_tool_call_observed e"

definition replay_safe :: "model_response_evidence \<Rightarrow> bool" where
  "replay_safe e \<longleftrightarrow>
     \<not> actionable_output e \<and> \<not> re_finish_reason_observed e \<and> \<not> re_stream_done_received e"

section \<open>Model accounting\<close>

record actor_request_accounting =
  aa_started :: u64
  aa_completed :: u64
  aa_in_flight :: u64

datatype api_surface = StandardChat | StrictChat

record surface_usage =
  su_surface :: api_surface
  su_model :: string
  su_response_count :: u64
  su_usage_response_count :: u64
  su_usage :: usage
  su_cost_nanousd :: u64
  su_cost_nanocny :: u64

record model_accounting =
  ma_hard_request_limit :: "u32 option"
  ma_root :: actor_request_accounting
  ma_child :: actor_request_accounting
  ma_runtime_retries :: u64
  ma_sealed_denied :: u64
  ma_exhausted_denied :: u64
  ma_budget_exhausted :: bool
  ma_sealed :: bool
  ma_complete :: bool
  ma_usage_complete :: bool
  ma_usage_missing :: bool
  ma_usage_incomplete :: bool
  ma_billing_unknown :: bool
  ma_unpriced :: bool
  ma_usage_responses :: u64
  ma_usage_missing_responses :: u64
  ma_incomplete_responses :: u64
  ma_billing_unknown_attempts :: u64
  ma_unpriced_usage_responses :: u64
  ma_records_after_seal :: u64
  ma_usage :: usage
  ma_surface_usage :: "surface_usage list"
  ma_cost_nanousd :: u64
  ma_cost_nanocny :: u64

definition actor_accounting_default :: actor_request_accounting where
  "actor_accounting_default = \<lparr>aa_started = 0, aa_completed = 0, aa_in_flight = 0\<rparr>"

definition accounting_default :: model_accounting where
  "accounting_default =
     \<lparr>ma_hard_request_limit = None, ma_root = actor_accounting_default,
      ma_child = actor_accounting_default, ma_runtime_retries = 0, ma_sealed_denied = 0,
      ma_exhausted_denied = 0, ma_budget_exhausted = False, ma_sealed = False,
      ma_complete = False, ma_usage_complete = False, ma_usage_missing = False,
      ma_usage_incomplete = False, ma_billing_unknown = False, ma_unpriced = False,
      ma_usage_responses = 0, ma_usage_missing_responses = 0, ma_incomplete_responses = 0,
      ma_billing_unknown_attempts = 0, ma_unpriced_usage_responses = 0,
      ma_records_after_seal = 0, ma_usage = usage_default, ma_surface_usage = [],
      ma_cost_nanousd = 0, ma_cost_nanocny = 0\<rparr>"

definition total_started :: "model_accounting \<Rightarrow> u64" where
  "total_started a = sat_add (aa_started (ma_root a)) (aa_started (ma_child a))"

definition total_completed :: "model_accounting \<Rightarrow> u64" where
  "total_completed a = sat_add (aa_completed (ma_root a)) (aa_completed (ma_child a))"

definition total_in_flight :: "model_accounting \<Rightarrow> u64" where
  "total_in_flight a = sat_add (aa_in_flight (ma_root a)) (aa_in_flight (ma_child a))"

definition add_actor_accounting ::
  "actor_request_accounting \<Rightarrow> actor_request_accounting \<Rightarrow> actor_request_accounting" where
  "add_actor_accounting target other =
     \<lparr>aa_started = sat_add (aa_started target) (aa_started other),
      aa_completed = sat_add (aa_completed target) (aa_completed other),
      aa_in_flight = sat_add (aa_in_flight target) (aa_in_flight other)\<rparr>"

definition add_surface :: "surface_usage \<Rightarrow> surface_usage \<Rightarrow> surface_usage" where
  "add_surface existing surface =
     existing\<lparr>su_response_count := sat_add (su_response_count existing) (su_response_count surface),
       su_usage_response_count :=
         sat_add (su_usage_response_count existing) (su_usage_response_count surface),
       su_usage := usage_add_assign (su_usage existing) (su_usage surface),
       su_cost_nanousd := sat_add (su_cost_nanousd existing) (su_cost_nanousd surface),
       su_cost_nanocny := sat_add (su_cost_nanocny existing) (su_cost_nanocny surface)\<rparr>"

text \<open>The first entry with the same surface and model is updated in place, else appended.\<close>

definition same_surface :: "surface_usage \<Rightarrow> surface_usage \<Rightarrow> bool" where
  "same_surface existing surface \<longleftrightarrow>
     su_surface existing = su_surface surface \<and> su_model existing = su_model surface"

fun merge_surface :: "surface_usage list \<Rightarrow> surface_usage \<Rightarrow> surface_usage list" where
  "merge_surface [] surface = [surface]"
| "merge_surface (existing # rest) surface =
     (if same_surface existing surface then add_surface existing surface # rest
      else existing # merge_surface rest surface)"

definition accounting_is_fresh :: "model_accounting \<Rightarrow> bool" where
  "accounting_is_fresh a \<longleftrightarrow>
     total_started a = 0 \<and> ma_usage a = usage_default \<and> ma_surface_usage a = [] \<and>
     ma_cost_nanousd a = 0 \<and> ma_cost_nanocny a = 0"

definition accounting_add_assign :: "model_accounting \<Rightarrow> model_accounting \<Rightarrow> model_accounting" where
  "accounting_add_assign a other =
     (if accounting_is_fresh a then other
      else
        \<lparr>ma_hard_request_limit =
           (case ma_hard_request_limit a of Some l \<Rightarrow> Some l | None \<Rightarrow> ma_hard_request_limit other),
         ma_root = add_actor_accounting (ma_root a) (ma_root other),
         ma_child = add_actor_accounting (ma_child a) (ma_child other),
         ma_runtime_retries = sat_add (ma_runtime_retries a) (ma_runtime_retries other),
         ma_sealed_denied = sat_add (ma_sealed_denied a) (ma_sealed_denied other),
         ma_exhausted_denied = sat_add (ma_exhausted_denied a) (ma_exhausted_denied other),
         ma_budget_exhausted = (ma_budget_exhausted a \<or> ma_budget_exhausted other),
         ma_sealed = (ma_sealed a \<or> ma_sealed other),
         ma_complete = (ma_complete a \<and> ma_complete other),
         ma_usage_complete = (ma_usage_complete a \<and> ma_usage_complete other),
         ma_usage_missing = (ma_usage_missing a \<or> ma_usage_missing other),
         ma_usage_incomplete = (ma_usage_incomplete a \<or> ma_usage_incomplete other),
         ma_billing_unknown = (ma_billing_unknown a \<or> ma_billing_unknown other),
         ma_unpriced = (ma_unpriced a \<or> ma_unpriced other),
         ma_usage_responses = sat_add (ma_usage_responses a) (ma_usage_responses other),
         ma_usage_missing_responses =
           sat_add (ma_usage_missing_responses a) (ma_usage_missing_responses other),
         ma_incomplete_responses =
           sat_add (ma_incomplete_responses a) (ma_incomplete_responses other),
         ma_billing_unknown_attempts =
           sat_add (ma_billing_unknown_attempts a) (ma_billing_unknown_attempts other),
         ma_unpriced_usage_responses =
           sat_add (ma_unpriced_usage_responses a) (ma_unpriced_usage_responses other),
         ma_records_after_seal = sat_add (ma_records_after_seal a) (ma_records_after_seal other),
         ma_usage = usage_add_assign (ma_usage a) (ma_usage other),
         ma_surface_usage = foldl merge_surface (ma_surface_usage a) (ma_surface_usage other),
         ma_cost_nanousd = sat_add (ma_cost_nanousd a) (ma_cost_nanousd other),
         ma_cost_nanocny = sat_add (ma_cost_nanocny a) (ma_cost_nanocny other)\<rparr>)"

section \<open>Laws of merging\<close>

lemma usage_add_assign_commute: "usage_add_assign u v = usage_add_assign v u"
  by (simp add: usage_add_assign_def sat_add_commute)

lemma usage_add_assign_assoc:
  "usage_add_assign (usage_add_assign u v) w = usage_add_assign u (usage_add_assign v w)"
  by (simp add: usage_add_assign_def sat_add_assoc)

lemma usage_add_assign_default [simp]:
  "usage_add_assign usage_default u = u" "usage_add_assign u usage_default = u"
  by (simp_all add: usage_add_assign_def usage_default_def)

definition surface_key :: "surface_usage \<Rightarrow> api_surface \<times> string" where
  "surface_key s = (su_surface s, su_model s)"

lemma same_surface_iff_key: "same_surface e s \<longleftrightarrow> surface_key e = surface_key s"
  by (auto simp: same_surface_def surface_key_def)

lemma surface_key_add_surface [simp]: "surface_key (add_surface e s) = surface_key e"
  by (simp add: surface_key_def add_surface_def)

lemma merge_surface_keys:
  "surface_key ` set (merge_surface xs s) = insert (surface_key s) (surface_key ` set xs)"
  by (induction xs) (auto simp: same_surface_iff_key)

lemma merge_surface_distinct:
  "distinct (map surface_key xs) \<Longrightarrow> distinct (map surface_key (merge_surface xs s))"
proof (induction xs)
  case Nil
  then show ?case by simp
next
  case (Cons e xs)
  then show ?case
    using merge_surface_keys [of xs s] by (auto simp: same_surface_iff_key)
qed

lemma fold_merge_surface_distinct:
  "distinct (map surface_key xs) \<Longrightarrow> distinct (map surface_key (foldl merge_surface xs ys))"
  by (induction ys arbitrary: xs) (auto simp: merge_surface_distinct)

text \<open>The entry of a key after a merge, as a lookup in the list read as a map.\<close>

definition surface_lookup :: "surface_usage list \<Rightarrow> api_surface \<times> string \<Rightarrow> surface_usage option" where
  "surface_lookup xs k = find (\<lambda>s. surface_key s = k) xs"

lemma surface_lookup_merge:
  "surface_lookup (merge_surface xs s) k =
     (if k = surface_key s
      then Some (case surface_lookup xs k of None \<Rightarrow> s | Some e \<Rightarrow> add_surface e s)
      else surface_lookup xs k)"
  by (induction xs) (auto simp: surface_lookup_def same_surface_iff_key)

definition surface_sum :: "surface_usage option \<Rightarrow> surface_usage option \<Rightarrow> surface_usage option" where
  "surface_sum m n =
     (case m of None \<Rightarrow> n
      | Some e \<Rightarrow> (case n of None \<Rightarrow> Some e | Some s \<Rightarrow> Some (add_surface e s)))"

lemma surface_lookup_eq_None: "surface_lookup xs k = None \<longleftrightarrow> k \<notin> surface_key ` set xs"
  by (auto simp: surface_lookup_def find_None_iff)

lemma surface_lookup_fold_merge:
  "distinct (map surface_key ys) \<Longrightarrow>
     surface_lookup (foldl merge_surface xs ys) k =
       surface_sum (surface_lookup xs k) (surface_lookup ys k)"
proof (induction ys arbitrary: xs)
  case Nil
  then show ?case by (simp add: surface_lookup_def surface_sum_def split: option.splits)
next
  case (Cons y ys)
  then have "surface_lookup ys (surface_key y) = None" by (simp add: surface_lookup_eq_None)
  with Cons show ?case
    by (auto simp: surface_lookup_merge surface_sum_def split: option.splits)
       (auto simp: surface_lookup_def)
qed

section \<open>Properties\<close>

text \<open>
  Merging the accounting of a reopened process into a durable baseline that already holds
  requests loses nothing: the started, completed and denied counters and the cost become the
  exact sums, capped at the largest 64-bit value; completeness is claimed only when both parts
  claim it; and the per-surface table keeps one entry per (surface, model) pair, which is the sum
  of the two entries of that pair.
\<close>

theorem accounting_add_assign_spec:
  assumes "\<not> accounting_is_fresh a"
    and "distinct (map surface_key (ma_surface_usage a))"
    and "distinct (map surface_key (ma_surface_usage b))"
  shows "let m = accounting_add_assign a b in
    unat (aa_started (ma_root m)) =
      min (unat (aa_started (ma_root a)) + unat (aa_started (ma_root b))) (2 ^ 64 - 1) \<and>
    unat (aa_completed (ma_child m)) =
      min (unat (aa_completed (ma_child a)) + unat (aa_completed (ma_child b))) (2 ^ 64 - 1) \<and>
    unat (ma_exhausted_denied m) =
      min (unat (ma_exhausted_denied a) + unat (ma_exhausted_denied b)) (2 ^ 64 - 1) \<and>
    unat (ma_cost_nanousd m) =
      min (unat (ma_cost_nanousd a) + unat (ma_cost_nanousd b)) (2 ^ 64 - 1) \<and>
    (ma_complete m \<longleftrightarrow> ma_complete a \<and> ma_complete b) \<and>
    distinct (map surface_key (ma_surface_usage m)) \<and>
    surface_lookup (ma_surface_usage m) k =
      surface_sum (surface_lookup (ma_surface_usage a) k) (surface_lookup (ma_surface_usage b) k)"
  using assms
  by (simp add: accounting_add_assign_def Let_def add_actor_accounting_def sat_simps
      fold_merge_surface_distinct surface_lookup_fold_merge)

definition ex_surface :: "string \<Rightarrow> u64 \<Rightarrow> surface_usage" where
  "ex_surface model cost =
     \<lparr>su_surface = StandardChat, su_model = model, su_response_count = 1,
      su_usage_response_count = 1, su_usage = usage_default, su_cost_nanousd = cost,
      su_cost_nanocny = 0\<rparr>"

lemma accounting_add_assign_spec_witness:
  "\<exists>a b. unat (ma_cost_nanousd (accounting_add_assign a b)) = 2 ^ 64 - 1 \<and>
     surface_lookup (ma_surface_usage (accounting_add_assign a b)) (StandardChat, ''m'') =
       Some (add_surface (ex_surface ''m'' 5) (ex_surface ''m'' 7))"
proof -
  define a where "a = accounting_default
    \<lparr>ma_cost_nanousd := - 1, ma_surface_usage := [ex_surface ''m'' 5]\<rparr>"
  define b where "b = accounting_default
    \<lparr>ma_cost_nanousd := 7, ma_surface_usage := [ex_surface ''k'' 1, ex_surface ''m'' 7]\<rparr>"
  have 1: "\<not> accounting_is_fresh a" by (simp add: a_def accounting_is_fresh_def)
  have 2: "distinct (map surface_key (ma_surface_usage a))" by (simp add: a_def)
  have 3: "distinct (map surface_key (ma_surface_usage b))"
    by (simp add: b_def surface_key_def ex_surface_def)
  have "unat (ma_cost_nanousd a) = 2 ^ 64 - 1" by (simp add: a_def unat_minus_one_word')
  with accounting_add_assign_spec [OF 1 2 3, of "(StandardChat, ''m'')"] show ?thesis
    by (intro exI [of _ a] exI [of _ b])
       (simp add: Let_def b_def a_def surface_sum_def surface_lookup_def surface_key_def ex_surface_def)
qed

end
