(* ===== verification/Agent_Result.thy ===== *)
theory Agent_Result
  imports Tool_Outcome Accounting
begin

text \<open>
  The result of an Agent run (crates/protocol/src/agent_runtime.rs): the workspace assigned to
  a child Agent, the Host checks and receipts of a result, the integration state of a writer and
  the plan and result of its cleanup, the terminal states, and the outcome that carries them.
\<close>

section \<open>Workspace assignment\<close>

datatype agent_workspace_access = AgentReadOnly | IsolatedWrite

record agent_workspace_assignment =
  aw_access :: agent_workspace_access
  aw_root_workspace :: string
  aw_base_commit :: string
  aw_worktree_path :: "string option"
  aw_root_branch :: "string option"
  aw_branch :: "string option"
  aw_allowed_paths :: "string list"
  aw_owner_token :: "string option"

definition execution_workspace :: "agent_workspace_assignment \<Rightarrow> string" where
  "execution_workspace a =
     (case aw_worktree_path a of Some path \<Rightarrow> path | None \<Rightarrow> aw_root_workspace a)"

definition workspace_assignment_validate :: "agent_workspace_assignment \<Rightarrow> string + unit" where
  "workspace_assignment_validate a =
     and_then (require_agent_text ''root workspace'' (aw_root_workspace a))
     (and_then (validate_git_object_id ''base commit'' (aw_base_commit a))
     (and_then (validate_relative_path_list ''allowed path'' (aw_allowed_paths a))
     (case aw_access a of
        AgentReadOnly \<Rightarrow>
          if aw_worktree_path a \<noteq> None \<or> aw_root_branch a \<noteq> None \<or> aw_branch a \<noteq> None
             \<or> aw_allowed_paths a \<noteq> [] \<or> aw_owner_token a \<noteq> None
          then Inl ''read-only Agent workspace cannot own a worktree, root branch, writer branch, allowed write paths, or owner token''
          else Inr ()
      | IsolatedWrite \<Rightarrow>
          rbind (ok_or (aw_worktree_path a) ''isolated writer workspace requires a worktree path'')
          (\<lambda>worktree.
             and_then (require_agent_text ''worktree path'' worktree)
             (if worktree = aw_root_workspace a
              then Inl ''isolated writer worktree must differ from the root workspace''
              else
                rbind (ok_or (aw_root_branch a)
                         ''isolated writer workspace requires the exact root branch'')
                (\<lambda>root_branch. and_then (require_agent_text ''root worktree branch'' root_branch)
                (rbind (ok_or (aw_branch a) ''isolated writer workspace requires a branch'')
                (\<lambda>branch. and_then (require_agent_text ''worktree branch'' branch)
                (rbind (ok_or (aw_owner_token a)
                          ''isolated writer workspace requires an owner token'')
                (\<lambda>token. and_then (require_agent_text ''worktree owner token'' token)
                (if aw_allowed_paths a = []
                 then Inl ''isolated writer workspace requires at least one allowed path''
                 else Inr ())))))))))))"

section \<open>Checks and writer integration\<close>

record agent_check =
  ac_check_id :: string
  ac_verifier :: verifier_spec
  ac_workspace_state :: workspace_state
  ac_outcome :: tool_outcome

definition agent_check_validate :: "'x codec_scheme \<Rightarrow> agent_check \<Rightarrow> string + unit" where
  "agent_check_validate cx c =
     and_then (require_agent_text ''Agent check id'' (ac_check_id c))
     (and_then (verifier_spec_validate (ac_verifier c))
     (and_then (workspace_state_validate (ac_workspace_state c))
     (and_then (tool_outcome_validate cx (ac_outcome c))
     (case to_verifier_observation (ac_outcome c) of
        None \<Rightarrow> Inr ()
      | Some observation \<Rightarrow>
          if vo_spec observation \<noteq> ac_verifier c
          then Inl ''Agent check verifier does not match its observation''
          else if vo_workspace_revision observation \<noteq> ws_revision (ac_workspace_state c)
          then Inl ''Agent check workspace does not match its verifier observation''
          else Inr ()))))"

datatype writer_integration_status =
    IntegrationNotApplicable
  | IntegrationAwaitingHost
  | IntegrationRejected string
  | IntegrationConflict string
  | IntegrationRecoveryRequired string
  | Integrated string string workspace_state

fun writer_integration_validate :: "writer_integration_status \<Rightarrow> string + unit" where
  "writer_integration_validate IntegrationNotApplicable = Inr ()"
| "writer_integration_validate IntegrationAwaitingHost = Inr ()"
| "writer_integration_validate (IntegrationRejected reason) =
     require_agent_text ''writer integration reason'' reason"
| "writer_integration_validate (IntegrationConflict reason) =
     require_agent_text ''writer integration reason'' reason"
| "writer_integration_validate (IntegrationRecoveryRequired reason) =
     require_agent_text ''writer integration reason'' reason"
| "writer_integration_validate (Integrated integration_id writer_commit root_workspace_state) =
     and_then (require_agent_text ''writer integration id'' integration_id)
     (and_then (validate_git_object_id ''writer commit'' writer_commit)
       (require_known_workspace_state ''integrated root workspace'' root_workspace_state))"

section \<open>Writer cleanup\<close>

datatype writer_cleanup_phase =
  CleanupBinding | CleanupChild | CleanupSeal | CleanupIntegration | CleanupPostIntegration

datatype writer_artifact_state =
    KnownUnsealed
  | KnownHostSealed string string
  | ArtifactStateUnknown

datatype writer_cleanup_scope =
    ScopeKnown workspace_revision u32 u32 u32 string
  | ScopeUnknown string

datatype writer_cleanup_ownership = OwnershipKnown string | OwnershipUnknown string

datatype writer_cleanup_mode = RemoveExact string | RetainForRecovery string

record writer_cleanup_plan =
  wcp_phase :: writer_cleanup_phase
  wcp_reason_code :: string
  wcp_ownership :: writer_cleanup_ownership
  wcp_artifact_state :: writer_artifact_state
  wcp_scope :: writer_cleanup_scope
  wcp_mode :: writer_cleanup_mode

fun cleanup_ownership_validate :: "writer_cleanup_ownership \<Rightarrow> string + unit" where
  "cleanup_ownership_validate (OwnershipKnown identity_sha256) =
     validate_sha256 ''writer cleanup owner identity'' identity_sha256"
| "cleanup_ownership_validate (OwnershipUnknown uncertainty_code) =
     validate_reason_code ''writer cleanup owner uncertainty'' uncertainty_code"

fun cleanup_artifact_validate :: "writer_artifact_state \<Rightarrow> string + unit" where
  "cleanup_artifact_validate KnownUnsealed = Inr ()"
| "cleanup_artifact_validate ArtifactStateUnknown = Inr ()"
| "cleanup_artifact_validate (KnownHostSealed final_commit diff_sha256) =
     and_then (validate_git_object_id ''cleanup sealed commit'' final_commit)
       (validate_sha256 ''cleanup sealed diff sha256'' diff_sha256)"

fun cleanup_scope_validate :: "writer_cleanup_scope \<Rightarrow> string + unit" where
  "cleanup_scope_validate (ScopeKnown revision changed in_scope out_of_scope path_set_sha256) =
     (case revision of
        RevUnknown _ \<Rightarrow> Inl ''known writer cleanup scope requires a known revision''
      | RevKnown sha256 \<Rightarrow>
          and_then (validate_sha256 ''writer cleanup workspace revision'' sha256)
          (if checked_add in_scope out_of_scope \<noteq> Some changed
           then Inl ''writer cleanup scope counts must cover every changed path''
           else validate_sha256 ''writer cleanup path set sha256'' path_set_sha256))"
| "cleanup_scope_validate (ScopeUnknown uncertainty_code) =
     validate_reason_code ''writer cleanup scope uncertainty'' uncertainty_code"

fun ownership_is_unknown :: "writer_cleanup_ownership \<Rightarrow> bool" where
  "ownership_is_unknown (OwnershipKnown _) = False"
| "ownership_is_unknown (OwnershipUnknown _) = True"

fun scope_is_unknown :: "writer_cleanup_scope \<Rightarrow> bool" where
  "scope_is_unknown (ScopeKnown _ _ _ _ _) = False"
| "scope_is_unknown (ScopeUnknown _) = True"

definition cleanup_mode_validate :: "writer_cleanup_plan \<Rightarrow> string + unit" where
  "cleanup_mode_validate p =
     (case wcp_mode p of
        RemoveExact expected_branch_commit \<Rightarrow>
          and_then (validate_git_object_id ''cleanup expected branch commit'' expected_branch_commit)
          (if ownership_is_unknown (wcp_ownership p) \<or> wcp_artifact_state p = ArtifactStateUnknown
              \<or> scope_is_unknown (wcp_scope p)
           then Inl ''destructive cleanup requires known artifact and scope facts''
           else Inr ())
      | RetainForRecovery uncertainty_code \<Rightarrow>
          and_then (validate_reason_code ''writer cleanup retention uncertainty'' uncertainty_code)
          (case wcp_ownership p of
             OwnershipUnknown owner_code \<Rightarrow>
               if owner_code \<noteq> uncertainty_code
               then Inl ''writer cleanup owner and retention codes disagree'' else Inr ()
           | OwnershipKnown _ \<Rightarrow> Inr ()))"

definition cleanup_plan_validate :: "writer_cleanup_plan \<Rightarrow> string + unit" where
  "cleanup_plan_validate p =
     and_then (validate_reason_code ''writer cleanup reason code'' (wcp_reason_code p))
     (and_then (cleanup_ownership_validate (wcp_ownership p))
     (and_then (cleanup_artifact_validate (wcp_artifact_state p))
     (and_then (cleanup_scope_validate (wcp_scope p))
       (cleanup_mode_validate p))))"

text \<open>
  \<open>sort\<close> then \<open>dedup\<close>, the path check, and the digest of the paths as a JSON array of strings.
\<close>

definition writer_path_set_sha256 :: "'x codec_scheme \<Rightarrow> string list \<Rightarrow> string + string" where
  "writer_path_set_sha256 cx paths =
     (let canonical = remdups_adj (sort paths)
      in and_then (validate_relative_path_list ''writer cleanup path'' canonical)
           (Inr (cx_sha256_hex cx (cx_json_text cx (JArray (map JString canonical))))))"

datatype writer_removal_state = RemovalRemoved | RemovalAlreadyAbsent

datatype writer_resource_state =
  ResourceRemoved | ResourceAlreadyAbsent | ResourceRetained | ResourceUnknown

datatype writer_cleanup_metadata_state = MetadataClear | MetadataUncertain

datatype writer_cleanup_result =
    CleanupRemoved writer_removal_state writer_removal_state
  | CleanupAlreadyAbsent
  | CleanupRetained writer_resource_state writer_resource_state writer_cleanup_metadata_state string

definition resource_held :: "writer_resource_state \<Rightarrow> bool" where
  "resource_held r \<longleftrightarrow> r = ResourceRetained \<or> r = ResourceUnknown"

fun cleanup_result_validate :: "writer_cleanup_result \<Rightarrow> string + unit" where
  "cleanup_result_validate (CleanupRemoved worktree branch) =
     (if worktree = RemovalAlreadyAbsent \<and> branch = RemovalAlreadyAbsent
      then Inl ''writer cleanup with no removed resource must use already_absent''
      else Inr ())"
| "cleanup_result_validate CleanupAlreadyAbsent = Inr ()"
| "cleanup_result_validate (CleanupRetained worktree branch metadata uncertainty_code) =
     and_then (validate_reason_code ''writer cleanup result uncertainty'' uncertainty_code)
     (if \<not> resource_held worktree \<and> \<not> resource_held branch \<and> metadata = MetadataClear
      then Inl ''retained writer cleanup requires a retained resource or uncertain cleanup metadata''
      else Inr ())"

fun retained_for_recovery :: "writer_cleanup_result \<Rightarrow> bool" where
  "retained_for_recovery (CleanupRetained _ _ _ _) = True"
| "retained_for_recovery _ = False"

section \<open>Result details\<close>

record agent_result_details =
  ad_summary :: string
  ad_completion_candidate :: "completion_candidate option"
  ad_evidence :: "evidence_receipt list"
  ad_host_acceptance_receipts :: "host_acceptance_receipt list"
  ad_changed_files :: "string list"
  ad_checks :: "agent_check list"
  ad_unresolved :: "string list"
  ad_artifacts :: "tool_artifact list"
  ad_workspace :: "agent_workspace_assignment option"
  ad_workspace_state :: "workspace_state option"
  ad_base_commit :: "string option"
  ad_final_commit :: "string option"
  ad_diff_sha256 :: "string option"
  ad_integration :: writer_integration_status

definition result_details_default :: agent_result_details where
  "result_details_default =
     \<lparr>ad_summary = [], ad_completion_candidate = None, ad_evidence = [],
      ad_host_acceptance_receipts = [], ad_changed_files = [], ad_checks = [],
      ad_unresolved = [], ad_artifacts = [], ad_workspace = None, ad_workspace_state = None,
      ad_base_commit = None, ad_final_commit = None, ad_diff_sha256 = None,
      ad_integration = IntegrationNotApplicable\<rparr>"

definition option_validate :: "('a \<Rightarrow> 'e + unit) \<Rightarrow> 'a option \<Rightarrow> 'e + unit" where
  "option_validate f m = (case m of None \<Rightarrow> Inr () | Some a \<Rightarrow> f a)"

definition agent_artifact_validate :: "'x codec_scheme \<Rightarrow> tool_artifact \<Rightarrow> string + unit" where
  "agent_artifact_validate cx art =
     and_then (require_agent_text ''Agent artifact id'' (art_id art))
     (if art_status art = ArtifactAvailable \<and> art_sha256 art = None
      then Inl (''available Agent artifact '' @ quote @ art_id art @ quote
                @ '' requires a sha256 digest'')
      else if art_inline_content art \<noteq> None
      then rbind (validate_inline_verification cx art) (\<lambda>_. Inr ())
      else Inr ())"

definition is_isolated_writer :: "agent_workspace_assignment option \<Rightarrow> bool" where
  "is_isolated_writer m = (case m of None \<Rightarrow> False | Some w \<Rightarrow> aw_access w = IsolatedWrite)"

definition integration_state_validate :: "agent_result_details \<Rightarrow> string + unit" where
  "integration_state_validate d =
     (if \<not> is_isolated_writer (ad_workspace d) \<and> ad_integration d \<noteq> IntegrationNotApplicable
      then Inl ''only an isolated writer workspace may carry writer integration state''
      else if is_isolated_writer (ad_workspace d) \<and> ad_integration d = IntegrationNotApplicable
      then Inl ''isolated writer result must report an explicit integration state''
      else Inr ())"

definition writer_fields_validate :: "agent_result_details \<Rightarrow> string + unit" where
  "writer_fields_validate d =
     (case ad_workspace d of
        Some workspace \<Rightarrow>
          if aw_access workspace = IsolatedWrite then
            rbind (ok_or (ad_workspace_state d)
                     ''isolated writer result requires its sealed workspace state'')
            (\<lambda>workspace_state.
               and_then (require_known_workspace_state ''sealed writer workspace'' workspace_state)
               (rbind (ok_or (ad_base_commit d) ''isolated writer result requires its base commit'')
               (\<lambda>base_commit.
                  rbind (ok_or (ad_final_commit d)
                           ''isolated writer result requires its sealed final commit'')
                  (\<lambda>final_commit.
                     rbind (ok_or (ad_diff_sha256 d)
                              ''isolated writer result requires its sealed diff digest'')
                     (\<lambda>diff_sha256.
                        and_then (validate_git_object_id ''writer result base commit'' base_commit)
                        (and_then (validate_git_object_id ''writer result final commit'' final_commit)
                        (and_then (validate_sha256 ''writer result diff sha256'' diff_sha256)
                        (if aw_base_commit workspace \<noteq> base_commit
                         then Inl ''writer result base commit must match its workspace assignment''
                         else if base_commit = final_commit
                         then Inl ''writer result final commit must differ from its base commit''
                         else Inr ()))))))))
          else if ad_base_commit d \<noteq> None \<or> ad_final_commit d \<noteq> None \<or> ad_diff_sha256 d \<noteq> None
          then Inl ''non-writer Agent result cannot carry writer commit or diff fields''
          else Inr ()
      | None \<Rightarrow>
          if ad_base_commit d \<noteq> None \<or> ad_final_commit d \<noteq> None \<or> ad_diff_sha256 d \<noteq> None
          then Inl ''non-writer Agent result cannot carry writer commit or diff fields''
          else Inr ())"

definition result_details_validate ::
  "'x codec_scheme \<Rightarrow> agent_result_details \<Rightarrow> string + unit" where
  "result_details_validate cx d =
     and_then (option_validate completion_candidate_validate (ad_completion_candidate d))
     (and_then (validate_relative_path_list ''changed file'' (ad_changed_files d))
     (and_then (validate_unique_non_empty_text ''unresolved item'' (ad_unresolved d))
     (and_then (validate_unique_non_empty_text ''evidence receipt id'' (map er_id (ad_evidence d)))
     (and_then (for_each evidence_receipt_validate (ad_evidence d))
     (and_then (validate_unique_non_empty_text ''Host acceptance receipt id''
                  (map hr_id (ad_host_acceptance_receipts d)))
     (and_then (for_each host_acceptance_receipt_validate (ad_host_acceptance_receipts d))
     (and_then (validate_unique_non_empty_text ''Agent check id'' (map ac_check_id (ad_checks d)))
     (and_then (for_each (agent_check_validate cx) (ad_checks d))
     (and_then (validate_unique_non_empty_text ''Agent artifact id'' (map art_id (ad_artifacts d)))
     (and_then (for_each (agent_artifact_validate cx) (ad_artifacts d))
     (and_then (option_validate workspace_assignment_validate (ad_workspace d))
     (and_then (option_validate workspace_state_validate (ad_workspace_state d))
     (and_then (writer_integration_validate (ad_integration d))
     (and_then (integration_state_validate d)
       (writer_fields_validate d)))))))))))))))"

section \<open>Terminal states and outcomes\<close>

datatype model_error_category =
    CategoryTransport | CategoryTimeout | CategoryStreamStall | CategoryRateLimit
  | CategoryAuthentication | CategoryProtocol | CategoryService | CategoryCancelled
  | CategoryUnknown

datatype runtime_timeout_phase = TimeoutModel | TimeoutTool | TimeoutRun

datatype recovery_ambiguity_phase =
  AmbiguousModelRequest | AmbiguousToolExecution | AmbiguousHostVerification | AmbiguousChildRun

record recovery_ambiguity =
  ra_phase :: recovery_ambiguity_phase
  ra_action_id :: string
  ra_message :: string

datatype runtime_failure =
    EmptyModelOutput
  | IncompleteModelStream
  | OutputLimit
  | ContentFiltered
  | InsufficientSystemResourceFailure
  | ModelRequestBudgetExceeded u32
  | ApiRequestBudgetExceeded u32
  | TurnBudgetExceeded u32
  | ToolBudgetExceeded u32
  | DepthLimit u8
  | TimeoutFailure runtime_timeout_phase u64
  | InvalidModelOutput string
  | AccountingIncomplete string
  | ContextLimitExceededFailure u64 u64
  | ModelFailure string model_error_category string bool
  | StoreFailure string
  | JoinFailure string

datatype terminal_state =
    AwaitingHostAcceptance completion_candidate
  | Completed string completion_decision
  | Blocked string
  | TerminalFailed runtime_failure
  | TerminalCancelled
  | TerminalInterrupted
  | RecoveryRequired recovery_ambiguity

record agent_outcome =
  ao_run_id :: string
  ao_parent_run_id :: "string option"
  ao_terminal :: terminal_state
  ao_accounting :: model_accounting
  ao_runtime_model_requests :: u32
  ao_runtime_retries :: u32
  ao_tool_calls :: u32
  ao_details :: agent_result_details

fun terminal_state_validate :: "terminal_state \<Rightarrow> string + unit" where
  "terminal_state_validate (AwaitingHostAcceptance candidate) =
     completion_candidate_validate candidate"
| "terminal_state_validate (Completed message decision) =
     and_then (require_agent_text ''completed Agent message'' message)
       (completion_decision_validate decision)"
| "terminal_state_validate (Blocked reason) = require_agent_text ''blocked Agent reason'' reason"
| "terminal_state_validate _ = Inr ()"

definition agent_outcome_validate :: "'x codec_scheme \<Rightarrow> agent_outcome \<Rightarrow> string + unit" where
  "agent_outcome_validate cx outcome =
     and_then (require_agent_text ''Agent outcome run id'' (ao_run_id outcome))
     (if ao_parent_run_id outcome = Some (ao_run_id outcome)
      then Inl ''Agent outcome cannot be its own parent''
      else
        and_then (terminal_state_validate (ao_terminal outcome))
          (result_details_validate cx (ao_details outcome)))"

end
