(* ===== verification/Transcript.thy ===== *)
theory Transcript
  imports Agent_Result
begin

text \<open>
  The canonical transcript and its projection to model messages, the frozen child task and the
  immutable run request (crates/protocol/src/agent_runtime.rs). A transcript is complete when
  every tool call of an assistant entry is answered, once and under its own name, before the next
  assistant entry and before the end.
\<close>

section \<open>Prompts and messages\<close>

datatype prompt_cache_control = CacheStable | CacheVolatile

record system_prompt_block =
  spb_text :: string
  spb_cache_control :: prompt_cache_control

type_synonym system_prompt = "system_prompt_block list"

definition system_prompt_from_text :: "string \<Rightarrow> system_prompt" where
  "system_prompt_from_text text = [\<lparr>spb_text = text, spb_cache_control = CacheStable\<rparr>]"

datatype model_message =
    UserMessage string
  | AssistantMessage "string option" "string option" "model_tool_call list"
  | ToolMessage string string string

datatype transcript_entry =
    SystemEntry system_prompt
  | UserEntry string
  | AssistantEntry "string option" "string option" "model_tool_call list"
  | ToolEntry string string tool_outcome
  | ChildOutcomeEntry string string agent_outcome string

type_synonym canonical_transcript = "transcript_entry list"

definition validate_model_tool_calls :: "model_tool_call list \<Rightarrow> string + unit" where
  "validate_model_tool_calls calls =
     check_unique
       (\<lambda>call. if blank (tcall_id call) then Inl ''tool call id must not be empty''
               else if blank (tcall_name call)
               then Inl (''tool call '' @ quote @ tcall_id call @ quote @ '' has an empty name'')
               else Inr ())
       tcall_id
       (\<lambda>call. ''duplicate tool call id '' @ quote @ tcall_id call @ quote)
       [] calls"

text \<open>
  The loop of \<^verbatim>\<open>validate_complete_tool_history\<close>: \<open>entry_index\<close> is the position of
  the next entry and \<open>pending\<close> the calls of the latest assistant entry with no result yet.
\<close>

fun tool_history_loop ::
  "'x codec_scheme \<Rightarrow> nat \<Rightarrow> model_tool_call list \<Rightarrow> canonical_transcript \<Rightarrow> string + unit" where
  "tool_history_loop cx entry_index pending [] =
     (if pending \<noteq> []
      then Inl (''settled transcript ends with '' @ decimal (length pending)
                @ '' unresolved tool call(s)'')
      else Inr ())"
| "tool_history_loop cx entry_index pending (AssistantEntry _ _ tool_calls # rest) =
     (if pending \<noteq> []
      then Inl (''assistant transcript entry '' @ decimal entry_index @ '' begins before ''
                @ decimal (length pending) @ '' tool result(s) are settled'')
      else and_then (validate_model_tool_calls tool_calls)
             (tool_history_loop cx (Suc entry_index) tool_calls rest))"
| "tool_history_loop cx entry_index pending (ToolEntry call_id name outcome # rest) =
     and_then (tool_outcome_validate cx outcome)
     (case position (\<lambda>call. tcall_id call = call_id) pending of
        None \<Rightarrow>
          Inl (''tool transcript entry '' @ decimal entry_index
               @ '' has orphan or duplicate call id '' @ quote @ call_id @ quote)
      | Some i \<Rightarrow>
          if tcall_name (pending ! i) \<noteq> name
          then Inl (''tool transcript entry '' @ decimal entry_index @ '' names '' @ quote @ name
                    @ quote @ '' instead of '' @ quote @ tcall_name (pending ! i) @ quote
                    @ '' for call id '' @ quote @ call_id @ quote)
          else tool_history_loop cx (Suc entry_index) (remove_nth i pending) rest)"
| "tool_history_loop cx entry_index pending (SystemEntry _ # rest) =
     tool_history_loop cx (Suc entry_index) pending rest"
| "tool_history_loop cx entry_index pending (UserEntry _ # rest) =
     tool_history_loop cx (Suc entry_index) pending rest"
| "tool_history_loop cx entry_index pending (ChildOutcomeEntry _ _ _ _ # rest) =
     tool_history_loop cx (Suc entry_index) pending rest"

definition validate_complete_tool_history ::
  "'x codec_scheme \<Rightarrow> canonical_transcript \<Rightarrow> string + unit" where
  "validate_complete_tool_history cx transcript = tool_history_loop cx 0 [] transcript"

fun project_message :: "transcript_entry \<Rightarrow> model_message option" where
  "project_message (SystemEntry _) = None"
| "project_message (UserEntry content) = Some (UserMessage content)"
| "project_message (AssistantEntry content reasoning tool_calls) =
     Some (AssistantMessage content reasoning tool_calls)"
| "project_message (ToolEntry call_id name outcome) =
     Some (ToolMessage call_id name (model_content outcome))"
| "project_message (ChildOutcomeEntry _ _ _ handoff_content) = Some (UserMessage handoff_content)"

definition project_messages :: "canonical_transcript \<Rightarrow> model_message list" where
  "project_messages transcript = List.map_filter project_message transcript"

section \<open>Run requests\<close>

datatype reasoning_effort = EffortOff | EffortLow | EffortMedium | EffortHigh | EffortMax

datatype model_route_profile = RouteExplicit | RouteFixedActor

record model_route_audit =
  mr_profile :: model_route_profile
  mr_policy_version :: string
  mr_reason_code :: string

definition route_audit_validate :: "model_route_audit \<Rightarrow> string + unit" where
  "route_audit_validate r =
     and_then (validate_reason_code ''model route policy version'' (mr_policy_version r))
       (validate_reason_code ''model route reason code'' (mr_reason_code r))"

datatype agent_actor_kind = ActorRoot | ActorChild

record agent_actor =
  actor_kind :: agent_actor_kind
  actor_depth :: u8

definition agent_actor_default :: agent_actor where
  "agent_actor_default = \<lparr>actor_kind = ActorRoot, actor_depth = 0\<rparr>"

datatype write_execution_mode = WriteRoot | WriteIsolatedWriter

datatype run_permission_mode = PermissionAsk | PermissionAgent | PermissionFullAccess

record tool_policy =
  tp_enabled :: bool
  tp_allowed :: "string list option"
  tp_denied :: "string list"

definition tool_policy_default :: tool_policy where
  "tool_policy_default = \<lparr>tp_enabled = True, tp_allowed = None, tp_denied = []\<rparr>"

definition tool_policy_permits :: "tool_policy \<Rightarrow> string \<Rightarrow> bool" where
  "tool_policy_permits p name \<longleftrightarrow>
     tp_enabled p \<and> \<not> list_ex (\<lambda>denied. denied = name) (tp_denied p) \<and>
     (case tp_allowed p of None \<Rightarrow> True | Some allowed \<Rightarrow> list_ex (\<lambda>c. c = name) allowed)"

record run_limits =
  rl_max_turns :: u32
  rl_max_model_requests :: u32
  rl_max_model_retries :: u32
  rl_max_tool_calls :: u32
  rl_max_depth :: u8
  rl_max_concurrent_children :: u32
  rl_model_event_idle_ms :: "u64 option"
  rl_wall_time_ms :: "u64 option"

definition run_limits_default :: run_limits where
  "run_limits_default =
     \<lparr>rl_max_turns = 64, rl_max_model_requests = 64, rl_max_model_retries = 2,
      rl_max_tool_calls = 256, rl_max_depth = 4, rl_max_concurrent_children = 64,
      rl_model_event_idle_ms = Some 900000, rl_wall_time_ms = None\<rparr>"

record context_policy =
  cp_hard_input_tokens :: u32

record context_projection =
  pj_source_entry_count :: u64
  pj_source_projection_sha256 :: string
  pj_selected_entry_indices :: "u64 list"
  pj_messages :: "model_message list"

record run_environment =
  env_workspace :: string
  env_provider :: string
  env_tool_catalog_sha256 :: "string option"
  env_execution_fingerprint_sha256 :: "string option"
  env_write_execution_mode :: write_execution_mode
  env_permission_mode :: run_permission_mode
  env_interactive :: bool

definition run_environment_default :: run_environment where
  "run_environment_default =
     \<lparr>env_workspace = [], env_provider = [], env_tool_catalog_sha256 = None,
      env_execution_fingerprint_sha256 = None, env_write_execution_mode = WriteRoot,
      env_permission_mode = PermissionAsk, env_interactive = False\<rparr>"

record agent_task =
  at_task_id :: string
  at_root_run_id :: string
  at_parent_run_id :: string
  at_child_run_id :: string
  at_call_id :: string
  at_role :: string
  at_task_contract :: task_contract
  at_workspace :: agent_workspace_assignment
  at_model :: string
  at_reasoning_effort :: reasoning_effort
  at_max_output_tokens :: "u32 option"
  at_context_policy :: context_policy
  at_route :: model_route_audit
  at_tool_policy :: tool_policy
  at_limits :: run_limits
  at_deadline_unix_ms :: "u64 option"
  at_expected_artifact :: string

definition agent_task_validate :: "agent_task \<Rightarrow> string + unit" where
  "agent_task_validate t =
     and_then (require_agent_text ''Agent task id'' (at_task_id t))
     (and_then (require_agent_text ''root run id'' (at_root_run_id t))
     (and_then (require_agent_text ''parent run id'' (at_parent_run_id t))
     (and_then (require_agent_text ''child run id'' (at_child_run_id t))
     (and_then (require_agent_text ''Agent call id'' (at_call_id t))
     (and_then (require_agent_text ''Agent role'' (at_role t))
     (and_then (require_agent_text ''expected artifact'' (at_expected_artifact t))
     (and_then (require_agent_text ''Agent task model'' (at_model t))
     (and_then (route_audit_validate (at_route t))
     (if at_child_run_id t = at_root_run_id t \<or> at_child_run_id t = at_parent_run_id t
      then Inl ''child run id must differ from root and parent run ids''
      else
        and_then (task_contract_validate (at_task_contract t))
        (if tc_generation_id (at_task_contract t) \<noteq> at_child_run_id t
         then Inl ''Agent task generation id must equal the child run id''
         else
           and_then (workspace_assignment_validate (at_workspace t))
           (if rl_max_turns (at_limits t) = 0 \<or> rl_max_model_requests (at_limits t) = 0
               \<or> rl_max_tool_calls (at_limits t) = 0
            then Inl ''Agent task limits must admit turns, model requests, and tools''
            else if at_deadline_unix_ms t = Some 0
            then Inl ''Agent task deadline must be a positive Unix timestamp''
            else Inr ())))))))))))"

record run_request =
  rq_run_id :: "string option"
  rq_parent_run_id :: "string option"
  rq_continued_from_run_id :: "string option"
  rq_model :: string
  rq_route :: model_route_audit
  rq_task_contract :: "task_contract option"
  rq_system_prompt :: system_prompt
  rq_transcript :: canonical_transcript
  rq_reasoning_effort :: reasoning_effort
  rq_max_output_tokens :: "u32 option"
  rq_streaming :: bool
  rq_actor :: agent_actor
  rq_agent_task :: "agent_task option"
  rq_deadline_unix_ms :: "u64 option"
  rq_tool_policy :: tool_policy
  rq_limits :: run_limits
  rq_environment :: run_environment
  rq_context_policy :: context_policy
  rq_context_projection :: "context_projection option"
  rq_inherited_facts :: "inherited_run_facts option"
  rq_accounting_baseline :: model_accounting

definition run_request_new :: "task_contract \<Rightarrow> system_prompt \<Rightarrow> run_request" where
  "run_request_new task_contract system_prompt =
     \<lparr>rq_run_id = Some (tc_generation_id task_contract), rq_parent_run_id = None,
      rq_continued_from_run_id = None, rq_model = ''deepseek-v4-flash'',
      rq_route = \<lparr>mr_profile = RouteExplicit, mr_policy_version = ''runtime_explicit_v1'',
                  mr_reason_code = ''explicit_model''\<rparr>,
      rq_task_contract = Some task_contract, rq_system_prompt = system_prompt,
      rq_transcript = [], rq_reasoning_effort = EffortHigh, rq_max_output_tokens = None,
      rq_streaming = True, rq_actor = agent_actor_default, rq_agent_task = None,
      rq_deadline_unix_ms = None, rq_tool_policy = tool_policy_default,
      rq_limits = run_limits_default, rq_environment = run_environment_default,
      rq_context_policy = \<lparr>cp_hard_input_tokens = 0\<rparr>, rq_context_projection = None,
      rq_inherited_facts = None, rq_accounting_baseline = accounting_default\<rparr>"

definition request_matches_task :: "run_request \<Rightarrow> agent_task \<Rightarrow> bool" where
  "request_matches_task r task \<longleftrightarrow>
     rq_run_id r = Some (at_child_run_id task) \<and>
     rq_parent_run_id r = Some (at_parent_run_id task) \<and>
     rq_task_contract r = Some (at_task_contract task) \<and>
     rq_model r = at_model task \<and>
     rq_reasoning_effort r = at_reasoning_effort task \<and>
     rq_max_output_tokens r = at_max_output_tokens task \<and>
     rq_context_policy r = at_context_policy task \<and>
     rq_route r = at_route task \<and>
     rq_tool_policy r = at_tool_policy task \<and>
     rq_limits r = at_limits task \<and>
     rq_deadline_unix_ms r = at_deadline_unix_ms task \<and>
     env_workspace (rq_environment r) = execution_workspace (at_workspace task)"

definition validate_agent_task_binding :: "run_request \<Rightarrow> string + unit" where
  "validate_agent_task_binding r =
     and_then (require_agent_text ''RunRequest model'' (rq_model r))
     (and_then (route_audit_validate (rq_route r))
     (case actor_kind (rq_actor r) of
        ActorRoot \<Rightarrow>
          if rq_parent_run_id r \<noteq> None \<or> rq_agent_task r \<noteq> None
          then Inl ''root Agent run cannot carry a parent run or AgentTask''
          else Inr ()
      | ActorChild \<Rightarrow>
          rbind (ok_or (rq_agent_task r) ''child Agent run requires an AgentTask'')
          (\<lambda>task.
             and_then (agent_task_validate task)
             (if \<not> request_matches_task r task
              then Inl ''child RunRequest does not exactly match its frozen AgentTask''
              else Inr ()))))"

end
