(* ===== verification/Interaction.thy ===== *)
theory Interaction
  imports Transcript
begin

text \<open>
  Tool authorization and user interaction of crates/protocol/src/agent_runtime.rs: the grant and
  the Host decision bound to one exact invocation, the approval and question prompts, and the
  responses that may resolve them.
\<close>

section \<open>Authorization\<close>

datatype approval_risk = RiskRoutine | RiskElevated | RiskCritical

record tool_approval_prompt =
  tap_title :: string
  tap_description :: string
  tap_risk :: approval_risk

datatype tool_authorization_disposition = DispositionAllow | DispositionAsk | DispositionDeny

datatype tool_execution_grant = GrantOrdinary | GrantTaskContractVerifier string string

fun execution_grant_validate :: "tool_execution_grant \<Rightarrow> string + unit" where
  "execution_grant_validate GrantOrdinary = Inr ()"
| "execution_grant_validate (GrantTaskContractVerifier acceptance verifier_sha256) =
     and_then (require_agent_text ''verifier execution grant acceptance id'' acceptance)
     (case strip_prefix ''sha256:'' verifier_sha256 of
        None \<Rightarrow> Inl ''verifier execution grant digest must use the sha256: prefix''
      | Some hex \<Rightarrow> validate_sha256 ''verifier execution grant digest'' hex)"

record tool_authorization_decision =
  tad_mode :: run_permission_mode
  tad_execution_grant :: tool_execution_grant
  tad_tool_name :: string
  tad_arguments_sha256 :: string
  tad_workspace_state :: workspace_state
  tad_disposition :: tool_authorization_disposition
  tad_risk :: approval_risk
  tad_matched_rule :: "string option"
  tad_reason :: string
  tad_prompt :: "tool_approval_prompt option"

definition authorization_validate_for ::
  "'x codec_scheme \<Rightarrow> tool_authorization_decision \<Rightarrow> tool_execution_grant \<Rightarrow> tool_invocation \<Rightarrow>
     workspace_state \<Rightarrow> string + unit" where
  "authorization_validate_for cx d execution_grant invocation workspace_state =
     and_then (require_agent_text ''authorization tool name'' (tad_tool_name d))
     (and_then (require_agent_text ''authorization reason'' (tad_reason d))
     (and_then (execution_grant_validate (tad_execution_grant d))
     (and_then (workspace_state_validate (tad_workspace_state d))
     (if tad_execution_grant d \<noteq> execution_grant \<or> tad_tool_name d \<noteq> ti_name invocation
         \<or> tad_arguments_sha256 d \<noteq> arguments_sha256 cx invocation
         \<or> tad_workspace_state d \<noteq> workspace_state
      then Inl ''tool authorization does not bind the exact invocation and workspace revision''
      else
        (case (tad_disposition d, tad_prompt d) of
           (DispositionAsk, Some _) \<Rightarrow> Inr ()
         | (DispositionAsk, None) \<Rightarrow> Inl ''ask authorization requires a durable approval prompt''
         | (_, None) \<Rightarrow> Inr ()
         | (_, Some _) \<Rightarrow> Inl ''non-ask authorization cannot carry an approval prompt'')))))"

section \<open>Questions and answers\<close>

record user_input_option =
  uo_label :: string
  uo_description :: string

record user_input_question =
  uq_header :: string
  uq_id :: string
  uq_question :: string
  uq_options :: "user_input_option list"
  uq_allow_free_text :: bool
  uq_multi_select :: bool

type_synonym user_input_request = "user_input_question list"

fun user_input_questions_loop :: "string list \<Rightarrow> user_input_question list \<Rightarrow> string + unit" where
  "user_input_questions_loop question_ids [] = Inr ()"
| "user_input_questions_loop question_ids (q # qs) =
     (if blank (uq_header q) \<or> blank (uq_id q) \<or> blank (uq_question q)
      then Inl ''question header, id, and text must not be empty''
      else if uq_id q \<in> set question_ids
      then Inl (''duplicate question id '' @ quote @ uq_id q @ quote)
      else if \<not> (2 \<le> length (uq_options q) \<and> length (uq_options q) \<le> 4)
      then Inl ''each question must contain 2 to 4 options''
      else if list_ex (\<lambda>opt. blank (uo_label opt) \<or> blank (uo_description opt)) (uq_options q)
      then Inl ''option label and description must not be empty''
      else
        and_then
          (check_unique (\<lambda>_. Inr ()) uo_label
             (\<lambda>opt. ''question '' @ quote @ uq_id q @ quote @ '' contains duplicate option label ''
                    @ quote @ uo_label opt @ quote)
             [] (uq_options q))
          (user_input_questions_loop (uq_id q # question_ids) qs))"

definition user_input_request_validate :: "user_input_request \<Rightarrow> string + unit" where
  "user_input_request_validate questions =
     (if questions = [] \<or> length questions > 3 then Inl ''questions must contain 1 to 3 items''
      else user_input_questions_loop [] questions)"

record user_input_answer =
  ua_id :: string
  ua_label :: string
  ua_value :: string

datatype user_interaction_prompt =
    ApprovalPrompt tool_approval_prompt json
  | UserInputPrompt user_input_request

record user_interaction_request =
  ui_interaction_id :: string
  ui_operation_id :: string
  ui_call_id :: string
  ui_tool_name :: string
  ui_prompt :: user_interaction_prompt

datatype user_interaction_response =
    Approved
  | Denied "string option"
  | Answered "user_input_answer list"
  | InteractionCancelled

fun user_input_answers_loop ::
  "user_input_request \<Rightarrow> (string \<times> string) list \<Rightarrow> user_input_answer list \<Rightarrow> string + unit" where
  "user_input_answers_loop request seen_answers [] = Inr ()"
| "user_input_answers_loop request seen_answers (a # rest) =
     (case find (\<lambda>q. uq_id q = ua_id a) request of
        None \<Rightarrow> Inl (''answer references unknown question id '' @ quote @ ua_id a @ quote)
      | Some question \<Rightarrow>
          if blank (ua_value a) \<or> blank (ua_label a)
          then Inl (''answer for question '' @ quote @ ua_id a @ quote
                    @ '' must contain a label and value'')
          else if (ua_id a, ua_label a) \<in> set seen_answers
          then Inl (''question '' @ quote @ ua_id a @ quote @ '' contains duplicate answer ''
                    @ quote @ ua_label a @ quote)
          else
            (case find (\<lambda>opt. uo_label opt = ua_label a) (uq_options question) of
               Some opt \<Rightarrow>
                 if ua_value a \<noteq> uo_label opt
                 then Inl (''answer '' @ quote @ ua_label a @ quote @ '' for question '' @ quote
                           @ ua_id a @ quote @ '' changed the selected option value'')
                 else user_input_answers_loop request ((ua_id a, ua_label a) # seen_answers) rest
             | None \<Rightarrow>
                 if \<not> uq_allow_free_text question
                 then Inl (''question '' @ quote @ ua_id a @ quote
                           @ '' does not allow a free-text answer'')
                 else user_input_answers_loop request ((ua_id a, ua_label a) # seen_answers) rest))"

definition question_answer_count :: "user_input_answer list \<Rightarrow> user_input_question \<Rightarrow> nat" where
  "question_answer_count answers question =
     length (filter (\<lambda>a. ua_id a = uq_id question) answers)"

definition validate_user_input_answers ::
  "user_input_request \<Rightarrow> user_input_answer list \<Rightarrow> string + unit" where
  "validate_user_input_answers request answers =
     and_then (user_input_request_validate request)
     (and_then (user_input_answers_loop request [] answers)
       (for_each (\<lambda>question.
          if question_answer_count answers question = 0
          then Inl (''question '' @ quote @ uq_id question @ quote @ '' has no answer'')
          else if \<not> uq_multi_select question \<and> question_answer_count answers question > 1
          then Inl (''question '' @ quote @ uq_id question @ quote
                    @ '' does not allow multiple answers'')
          else Inr ()) request))"

definition interaction_validate_response ::
  "user_interaction_request \<Rightarrow> user_interaction_response \<Rightarrow> string + unit" where
  "interaction_validate_response r response =
     (case (ui_prompt r, response) of
        (ApprovalPrompt _ _, Answered _) \<Rightarrow>
          Inl ''approval interaction cannot be resolved with user-input answers''
      | (ApprovalPrompt _ _, _) \<Rightarrow> Inr ()
      | (UserInputPrompt _, InteractionCancelled) \<Rightarrow> Inr ()
      | (UserInputPrompt request, Answered answers) \<Rightarrow> validate_user_input_answers request answers
      | (UserInputPrompt _, _) \<Rightarrow> Inl ''user-input interaction requires answers or cancellation'')"

section \<open>What the checks accept\<close>

lemma user_input_questions_loop_eq_Inr:
  "user_input_questions_loop ids qs = Inr () \<longleftrightarrow>
     (\<forall>q \<in> set qs. \<not> blank (uq_header q) \<and> \<not> blank (uq_id q) \<and> \<not> blank (uq_question q) \<and>
        2 \<le> length (uq_options q) \<and> length (uq_options q) \<le> 4 \<and>
        (\<forall>opt \<in> set (uq_options q). \<not> blank (uo_label opt) \<and> \<not> blank (uo_description opt)) \<and>
        distinct (map uo_label (uq_options q))) \<and>
     distinct (map uq_id qs) \<and> uq_id ` set qs \<inter> set ids = {}"
proof (induction qs arbitrary: ids)
  case Nil
  then show ?case by simp
next
  case (Cons q qs)
  show ?case
    by (simp add: result_simps Cons.IH list_ex_iff cong del: and_then_cong_weak) blast
qed

text \<open>One answer of a request: for a known question, with its option label unchanged.\<close>

definition answer_admissible :: "user_input_request \<Rightarrow> user_input_answer \<Rightarrow> bool" where
  "answer_admissible request a \<longleftrightarrow>
     \<not> blank (ua_value a) \<and> \<not> blank (ua_label a) \<and>
     (\<exists>q \<in> set request. uq_id q = ua_id a \<and>
        (if ua_label a \<in> set (map uo_label (uq_options q)) then ua_value a = ua_label a
         else uq_allow_free_text q))"

lemma find_distinct_key:
  "distinct (map key xs) \<Longrightarrow> x \<in> set xs \<Longrightarrow> find (\<lambda>y. key y = key x) xs = Some x"
  by (induction xs) auto

lemma answer_step:
  assumes "distinct (map uq_id request)"
  shows "(case find (\<lambda>q. uq_id q = ua_id a) request of None \<Rightarrow> False
     | Some question \<Rightarrow> \<not> blank (ua_value a) \<and> \<not> blank (ua_label a) \<and>
         (case find (\<lambda>opt. uo_label opt = ua_label a) (uq_options question) of
            Some opt \<Rightarrow> ua_value a = uo_label opt
          | None \<Rightarrow> uq_allow_free_text question)) \<longleftrightarrow> answer_admissible request a"
proof (cases "find (\<lambda>q. uq_id q = ua_id a) request")
  case None
  then have "\<not> answer_admissible request a" by (auto simp: answer_admissible_def find_None_iff)
  with None show ?thesis by simp
next
  case (Some q)
  then have q: "q \<in> set request" "uq_id q = ua_id a" by (auto dest: find_SomeD)
  have uniq: "q' = q" if "q' \<in> set request" "uq_id q' = ua_id a" for q'
    using find_distinct_key [OF assms that(1)] that(2) Some by simp
  have adm: "answer_admissible request a \<longleftrightarrow> \<not> blank (ua_value a) \<and> \<not> blank (ua_label a) \<and>
    (if ua_label a \<in> set (map uo_label (uq_options q)) then ua_value a = ua_label a
     else uq_allow_free_text q)"
    unfolding answer_admissible_def using q uniq by metis
  show ?thesis
  proof (cases "find (\<lambda>opt. uo_label opt = ua_label a) (uq_options q)")
    case None
    then have "ua_label a \<notin> set (map uo_label (uq_options q))" by (auto simp: find_None_iff)
    with None Some show ?thesis by (simp add: adm)
  next
    case (Some opt)
    then have "uo_label opt = ua_label a" "ua_label a \<in> set (map uo_label (uq_options q))"
      by (auto dest!: find_SomeD intro: rev_image_eqI)
    with Some \<open>find (\<lambda>q. uq_id q = ua_id a) request = Some q\<close> show ?thesis
      by (simp add: adm)
  qed
qed

lemma user_input_answers_loop_eq_Inr:
  assumes "distinct (map uq_id request)"
  shows "user_input_answers_loop request seen as = Inr () \<longleftrightarrow>
     (\<forall>a \<in> set as. answer_admissible request a) \<and>
     distinct (map (\<lambda>a. (ua_id a, ua_label a)) as) \<and>
     (\<lambda>a. (ua_id a, ua_label a)) ` set as \<inter> set seen = {}"
proof (induction as arbitrary: seen)
  case Nil
  then show ?case by simp
next
  case (Cons a as)
  have "user_input_answers_loop request seen (a # as) = Inr () \<longleftrightarrow>
    answer_admissible request a \<and> (ua_id a, ua_label a) \<notin> set seen \<and>
    user_input_answers_loop request ((ua_id a, ua_label a) # seen) as = Inr ()"
    unfolding answer_step [OF assms, symmetric]
    by (simp split: option.split)
  then show ?case using Cons.IH by auto
qed

lemma answer_count_ok:
  "(if n = (0::nat) then Inl a else if \<not> m \<and> n > 1 then Inl b else Inr ()) = Inr () \<longleftrightarrow>
     n = 1 \<or> m \<and> 1 \<le> n"
  by (cases "n = 0"; cases "n = 1"; cases m; simp)

section \<open>Properties\<close>

text \<open>
  The answers to a question prompt are accepted exactly when the prompt itself is well
  formed, every answer belongs to one of its questions and either repeats an offered option
  unchanged or is a free text the question allows, no answer repeats a (question, label) pair,
  and every question has an answer, one only unless it allows several.
\<close>

theorem validate_user_input_answers_iff:
  "is_ok (validate_user_input_answers request answers) \<longleftrightarrow>
     is_ok (user_input_request_validate request) \<and>
     list_all (answer_admissible request) answers \<and>
     distinct (map (\<lambda>a. (ua_id a, ua_label a)) answers) \<and>
     list_all (\<lambda>q. question_answer_count answers q = 1 \<or>
                   uq_multi_select q \<and> 1 \<le> question_answer_count answers q) request"
proof (cases "user_input_request_validate request = Inr ()")
  case True
  then have "distinct (map uq_id request)"
    by (simp add: user_input_request_validate_def result_simps user_input_questions_loop_eq_Inr)
  with True show ?thesis
    by (simp add: is_ok_iff validate_user_input_answers_def and_then_eq_Inr for_each_eq_Inr
        answer_count_ok list_all_iff user_input_answers_loop_eq_Inr)
next
  case False
  then show ?thesis
    by (simp add: is_ok_iff validate_user_input_answers_def and_then_eq_Inr)
qed

end
