(* ===== verification/Runtime_Event.thy ===== *)
theory Runtime_Event
  imports Interaction
begin

text \<open>
  The events of a run (crates/protocol/src/agent_runtime.rs): the model request and its retry
  decision, \<open>runtime_event_kind\<close> with the constructors of \<^verbatim>\<open>RuntimeEventKind\<close>, the
  checks of one lifecycle payload by itself, and the stored event with its header.
\<close>

section \<open>Model requests and responses\<close>

definition AGENT_RUNTIME_EVENT_SCHEMA_VERSION :: u32 where
  "AGENT_RUNTIME_EVENT_SCHEMA_VERSION = 23"

definition AGENT_TOOL_NAME :: string where
  "AGENT_TOOL_NAME = ''agent''"

definition REQUEST_USER_INPUT_TOOL_NAME :: string where
  "REQUEST_USER_INPUT_TOOL_NAME = ''request_user_input''"

record tool_definition =
  tdef_name :: string
  tdef_description :: string
  tdef_input_schema :: json

record model_request =
  mq_run_id :: string
  mq_parent_run_id :: "string option"
  mq_actor :: agent_actor
  mq_model :: string
  mq_system_prompt :: system_prompt
  mq_messages :: "model_message list"
  mq_tools :: "tool_definition list"
  mq_reasoning_effort :: reasoning_effort
  mq_max_output_tokens :: "u32 option"
  mq_streaming :: bool
  mq_request_number :: u32
  mq_attempt :: u32

datatype model_finish_reason =
  FinishStop | FinishToolCalls | FinishLength | FinishContentFilter | FinishInsufficientSystemResource

record model_output =
  mo_content :: string
  mo_reasoning_content :: "string option"
  mo_tool_calls :: "model_tool_call list"
  mo_finish_reason :: model_finish_reason
  mo_usage :: usage

record model_attempt_failure =
  mf_code :: string
  mf_category :: model_error_category
  mf_message :: string
  mf_retryable :: bool
  mf_retry_after_ms :: "u64 option"
  mf_retry_safe :: bool
  mf_actionable_output :: bool
  mf_response :: model_response_evidence

datatype model_retry_stop_reason =
    StopActionableOutput | StopUnsafeReplay | StopNotRetryable | StopFailureChanged
  | StopRetryLimitReached | StopModelRequestBudgetExceeded

record prepared_model_retry =
  pr_attempt_id :: string
  pr_request :: model_request
  pr_decision_unix_ms :: u64
  pr_backoff_ms :: u64
  pr_not_before_unix_ms :: u64
  pr_max_retries :: u32

datatype model_retry_decision =
    RetryStop model_retry_stop_reason
  | RetryPrepared prepared_model_retry

datatype durable_control_action = ControlInterrupt | ControlCancel

section \<open>Events\<close>

datatype (plugins only: code size) runtime_event_kind =
    RunCreated run_request
  | ContextCompactionCommitted context_projection "tool_definition list" model_accounting u64 u64
  | ModelRequestPrepared string model_request
  | ModelRequestInFlight string
  | ModelRequestFailed string model_attempt_failure model_accounting model_retry_decision
  | ModelResponseCommitted string model_output model_accounting
  | ContentDelta string u64 string
  | ReasoningDelta string u64 string
  | ToolPrepared string tool_invocation workspace_access
  | ToolAuthorizationCommitted string tool_authorization_decision
  | ToolExecutionStarted string
  | InteractionRequested user_interaction_request
  | InteractionResolved string string user_interaction_response
  | ToolOutcomeCommitted string string string tool_outcome "workspace_state option"
  | WorkspaceObserved workspace_state
  | CompletionProposed completion_candidate
  | HostCompletionAccepted string host_acceptance_receipt
  | HostVerificationPrepared string completion_candidate string verifier_spec workspace_state
  | HostVerificationStarted string
  | HostVerificationCommitted string tool_outcome "evidence_receipt option" workspace_state
  | CompletionRejected completion_rejection
  | AgentTaskPrepared agent_task
  | AgentWorkspaceCreated string agent_workspace_assignment workspace_state
  | AgentSealPrepared string string workspace_state
  | AgentSealCommitted string string string "string list" workspace_state
  | ChildStarted string string string u8
  | AgentResultCollected string agent_outcome
  | AgentIntegrationPrepared string string string string string workspace_state
  | AgentIntegrationStarted string string
  | AgentIntegrationFailed string string writer_integration_status workspace_state
  | AgentIntegrationCommitted string string string workspace_state
  | AgentCleanupPrepared string writer_cleanup_plan
  | AgentCleanupCommitted string writer_cleanup_result
  | ChildFinished string agent_outcome model_accounting string
  | SteerQueued string string
  | SteerApplied string string
  | ControlRequested string durable_control_action
  | Terminal agent_outcome

definition is_terminal :: "runtime_event_kind \<Rightarrow> bool" where
  "is_terminal e = (case e of Terminal _ \<Rightarrow> True | _ \<Rightarrow> False)"

record stored_runtime_event =
  se_schema_version :: u32
  se_run_id :: string
  se_parent_run_id :: "string option"
  se_event_id :: string
  se_sequence :: u64
  se_occurred_at_unix_ms :: u64
  se_event :: runtime_event_kind

record pending_runtime_event =
  pe_event_id :: string
  pe_event :: runtime_event_kind

definition pending_terminal :: "agent_outcome \<Rightarrow> pending_runtime_event" where
  "pending_terminal outcome = \<lparr>pe_event_id = ''terminal'', pe_event = Terminal outcome\<rparr>"

section \<open>Lifecycle payloads\<close>

definition workspace_created_payload ::
  "string \<Rightarrow> agent_workspace_assignment \<Rightarrow> workspace_state \<Rightarrow> string + unit" where
  "workspace_created_payload task_id assignment writer_workspace_state =
     and_then (require_agent_text ''Agent task id'' task_id)
     (and_then (workspace_assignment_validate assignment)
     (if aw_access assignment \<noteq> IsolatedWrite
      then Inl ''Agent workspace creation requires an isolated writer assignment''
      else require_known_workspace_state ''created writer workspace'' writer_workspace_state))"

definition seal_prepared_payload :: "string \<Rightarrow> string \<Rightarrow> workspace_state \<Rightarrow> string + unit" where
  "seal_prepared_payload task_id base_commit before =
     and_then (require_agent_text ''Agent task id'' task_id)
     (and_then (validate_git_object_id ''writer base commit'' base_commit)
       (require_known_workspace_state ''writer workspace before seal'' before))"

definition seal_committed_payload ::
  "string \<Rightarrow> string \<Rightarrow> string \<Rightarrow> string list \<Rightarrow> workspace_state \<Rightarrow> string + unit" where
  "seal_committed_payload task_id final_commit diff_sha256 changed_files after =
     and_then (require_agent_text ''Agent task id'' task_id)
     (and_then (validate_git_object_id ''writer final commit'' final_commit)
     (and_then (validate_sha256 ''writer diff sha256'' diff_sha256)
     (and_then (validate_relative_path_list ''changed file'' changed_files)
     (if changed_files = [] then Inl ''writer seal requires at least one changed file''
      else require_known_workspace_state ''writer workspace after seal'' after))))"

definition child_started_payload :: "string \<Rightarrow> string \<Rightarrow> string \<Rightarrow> u8 \<Rightarrow> string + unit" where
  "child_started_payload task_id call_id child_run_id depth =
     and_then (require_agent_text ''Agent task id'' task_id)
     (and_then (require_agent_text ''Agent call id'' call_id)
     (and_then (require_agent_text ''child run id'' child_run_id)
     (if depth = 0 then Inl ''child Agent depth must be greater than zero'' else Inr ())))"

definition integration_prepared_payload ::
  "string \<Rightarrow> string \<Rightarrow> string \<Rightarrow> string \<Rightarrow> string \<Rightarrow> workspace_state \<Rightarrow> string + unit" where
  "integration_prepared_payload task_id integration_id base_commit writer_commit diff_sha256 expected =
     and_then (require_agent_text ''Agent task id'' task_id)
     (and_then (require_agent_text ''writer integration id'' integration_id)
     (and_then (validate_git_object_id ''integration base commit'' base_commit)
     (and_then (validate_git_object_id ''integration writer commit'' writer_commit)
     (if base_commit = writer_commit
      then Inl ''writer integration commit must differ from its base commit''
      else
        and_then (validate_sha256 ''integration diff sha256'' diff_sha256)
          (require_known_workspace_state ''expected root workspace'' expected)))))"

definition integration_failed_payload ::
  "string \<Rightarrow> string \<Rightarrow> writer_integration_status \<Rightarrow> workspace_state \<Rightarrow> string + unit" where
  "integration_failed_payload task_id integration_id status root_workspace_state =
     and_then (require_agent_text ''Agent task id'' task_id)
     (and_then (require_agent_text ''writer integration id'' integration_id)
     (and_then
       (case status of
          IntegrationRejected _ \<Rightarrow> writer_integration_validate status
        | IntegrationConflict _ \<Rightarrow> writer_integration_validate status
        | IntegrationRecoveryRequired _ \<Rightarrow> writer_integration_validate status
        | _ \<Rightarrow> Inl ''failed writer integration requires rejected, conflict, or recovery-required status'')
       (require_known_workspace_state ''root workspace after failed integration''
          root_workspace_state)))"

definition integration_committed_payload ::
  "string \<Rightarrow> string \<Rightarrow> string \<Rightarrow> workspace_state \<Rightarrow> string + unit" where
  "integration_committed_payload task_id integration_id root_head_commit after =
     and_then (require_agent_text ''Agent task id'' task_id)
     (and_then (require_agent_text ''writer integration id'' integration_id)
     (and_then (validate_git_object_id ''integrated root commit'' root_head_commit)
       (require_known_workspace_state ''root workspace after integration'' after)))"

definition validate_agent_lifecycle_payload ::
  "'x codec_scheme \<Rightarrow> runtime_event_kind \<Rightarrow> string + unit" where
  "validate_agent_lifecycle_payload cx e =
     (case e of
        AgentTaskPrepared task \<Rightarrow> agent_task_validate task
      | AgentWorkspaceCreated task_id assignment w \<Rightarrow> workspace_created_payload task_id assignment w
      | AgentSealPrepared task_id base_commit w \<Rightarrow> seal_prepared_payload task_id base_commit w
      | AgentSealCommitted task_id final_commit diff files w \<Rightarrow>
          seal_committed_payload task_id final_commit diff files w
      | ChildStarted task_id call_id child_run_id depth \<Rightarrow>
          child_started_payload task_id call_id child_run_id depth
      | AgentResultCollected task_id outcome \<Rightarrow>
          and_then (require_agent_text ''Agent task id'' task_id) (agent_outcome_validate cx outcome)
      | AgentIntegrationPrepared task_id integration_id base_commit writer_commit diff w \<Rightarrow>
          integration_prepared_payload task_id integration_id base_commit writer_commit diff w
      | AgentIntegrationStarted task_id integration_id \<Rightarrow>
          and_then (require_agent_text ''Agent task id'' task_id)
            (require_agent_text ''writer integration id'' integration_id)
      | AgentIntegrationFailed task_id integration_id status w \<Rightarrow>
          integration_failed_payload task_id integration_id status w
      | AgentIntegrationCommitted task_id integration_id head w \<Rightarrow>
          integration_committed_payload task_id integration_id head w
      | AgentCleanupPrepared task_id plan \<Rightarrow>
          and_then (require_agent_text ''Agent task id'' task_id) (cleanup_plan_validate plan)
      | AgentCleanupCommitted task_id result \<Rightarrow>
          and_then (require_agent_text ''Agent task id'' task_id) (cleanup_result_validate result)
      | ChildFinished _ outcome _ _ \<Rightarrow> agent_outcome_validate cx outcome
      | Terminal outcome \<Rightarrow> agent_outcome_validate cx outcome
      | _ \<Rightarrow> Inr ())"

end
