(* ===== verification/Text.thy ===== *)
theory Text
  imports Prelude
begin

text \<open>
  The text functions of the standard library that the components use, on the UTF-8 bytes of a
  \<^verbatim>\<open>str\<close>: code points, trimming and splitting at white space, \<^verbatim>\<open>lines\<close>, substring search and
  replacement, ASCII case mapping and the parser of unsigned decimal numbers.

  A function that looks for an ASCII character or for a whole \<^verbatim>\<open>str\<close> works on the bytes: in
  UTF-8 a byte below 128 is never part of a longer code point, and the encoding of one text
  occurs in another only at code point boundaries.
\<close>

section \<open>UTF-8 text\<close>

definition byte :: "char \<Rightarrow> nat" where
  "byte c = of_char c"

definition is_ascii :: "char \<Rightarrow> bool" where
  "is_ascii c \<longleftrightarrow> byte c < 128"

text \<open>The length of a code point from its first byte.\<close>

definition len_utf8 :: "char \<Rightarrow> nat" where
  "len_utf8 c =
     (if byte c < 128 then 1 else if byte c < 224 then 2 else if byte c < 240 then 3 else 4)"

lemma is_ascii_code [code]: "is_ascii (Char b0 b1 b2 b3 b4 b5 b6 b7) \<longleftrightarrow> \<not> b7"
  by (cases b0; cases b1; cases b2; cases b3; cases b4; cases b5; cases b6; cases b7;
      simp add: is_ascii_def byte_def of_char_def)

lemma len_utf8_code [code]:
  "len_utf8 (Char b0 b1 b2 b3 b4 b5 b6 b7) =
     (if \<not> b7 then 1 else if \<not> (b6 \<and> b5) then 2 else if \<not> b4 then 3 else 4)"
  by (cases b0; cases b1; cases b2; cases b3; cases b4; cases b5; cases b6; cases b7;
      simp add: len_utf8_def byte_def of_char_def)

lemma len_utf8_bounds: "1 \<le> len_utf8 c" "len_utf8 c \<le> 4"
  by (simp_all add: len_utf8_def)

text \<open>The code points of a text, each as its bytes.\<close>

fun utf8_chars :: "string \<Rightarrow> string list" where
  "utf8_chars [] = []"
| "utf8_chars (b # s) = (b # take (len_utf8 b - 1) s) # utf8_chars (drop (len_utf8 b - 1) s)"

definition is_ascii_whitespace :: "char \<Rightarrow> bool" where
  "is_ascii_whitespace c \<longleftrightarrow> c \<in> set [CHR 0x09, CHR 0x0A, CHR 0x0C, CHR 0x0D, CHR 0x20]"

definition is_ascii_alphabetic :: "char \<Rightarrow> bool" where
  "is_ascii_alphabetic c \<longleftrightarrow> is_ascii_lowercase c \<or> is_ascii_uppercase c"

definition is_ascii_alphanumeric :: "char \<Rightarrow> bool" where
  "is_ascii_alphanumeric c \<longleftrightarrow> is_ascii_alphabetic c \<or> is_ascii_digit c"

definition u64_of_usize :: "nat \<Rightarrow> u64" where
  "u64_of_usize n = (if n < 2 ^ 64 then of_nat n else - 1)"

lemma u64_of_usize_code [code]:
  "u64_of_usize n = (if int n < 2 ^ 64 then word_of_int (int n) else - 1)"
proof -
  have "int n < 2 ^ 64 \<longleftrightarrow> n < 2 ^ 64" by simp
  then show ?thesis by (simp add: u64_of_usize_def)
qed

text \<open>\<^verbatim>\<open>char::is_whitespace\<close> on the bytes of one code point.\<close>

definition is_whitespace :: "string \<Rightarrow> bool" where
  "is_whitespace cp =
     (case cp of [a] \<Rightarrow> ws1 a | [a, b] \<Rightarrow> ws2 a b | [a, b, c] \<Rightarrow> ws3 a b c | _ \<Rightarrow> False)"

section \<open>Trimming and splitting\<close>

definition trim_start :: "string \<Rightarrow> string" where
  "trim_start s = concat (dropWhile is_whitespace (utf8_chars s))"

definition trim_end :: "string \<Rightarrow> string" where
  "trim_end s = concat (rev (dropWhile is_whitespace (rev (utf8_chars s))))"

definition trim :: "string \<Rightarrow> string" where
  "trim s = trim_end (trim_start s)"

definition trim_start_matches :: "char \<Rightarrow> string \<Rightarrow> string" where
  "trim_start_matches c s = dropWhile (\<lambda>d. d = c) s"

definition trim_matches :: "(char \<Rightarrow> bool) \<Rightarrow> string \<Rightarrow> string" where
  "trim_matches P s = rev (dropWhile P (rev (dropWhile P s)))"

text \<open>The maximal runs of code points that are not white space.\<close>

function words_of :: "string list \<Rightarrow> string list" where
  "words_of cps =
     (case dropWhile is_whitespace cps of
        [] \<Rightarrow> []
      | cp # rest \<Rightarrow>
          concat (cp # takeWhile (\<lambda>c. \<not> is_whitespace c) rest) #
          words_of (dropWhile (\<lambda>c. \<not> is_whitespace c) rest))"
  by pat_completeness auto

termination
proof (relation "measure length", goal_cases)
  case (2 cps cp rest)
  have "length (dropWhile (\<lambda>c. \<not> is_whitespace c) rest) \<le> length rest"
    by (rule length_dropWhile_le)
  also have "\<dots> < length (dropWhile is_whitespace cps)" using 2 by simp
  also have "\<dots> \<le> length cps" by (rule length_dropWhile_le)
  finally show ?case by simp
qed simp

declare words_of.simps [simp del]

definition split_whitespace :: "string \<Rightarrow> string list" where
  "split_whitespace s = words_of (utf8_chars s)"

text \<open>
  \<^verbatim>\<open>str::lines\<close>: the pieces that a line feed ends, and what follows the last one if anything
  does; a carriage return right before the line feed belongs to the line ending.
\<close>

definition strip_cr :: "string \<Rightarrow> string" where
  "strip_cr l = (if l \<noteq> [] \<and> last l = CHR 0x0D then butlast l else l)"

fun lines_from :: "string \<Rightarrow> string \<Rightarrow> string list" where
  "lines_from acc [] = (if acc = [] then [] else [rev acc])"
| "lines_from acc (c # s) =
     (if c = CHR 0x0A then strip_cr (rev acc) # lines_from [] s else lines_from (c # acc) s)"

definition lines_of :: "string \<Rightarrow> string list" where
  "lines_of s = lines_from [] s"

section \<open>Searching and replacing\<close>

fun contains_str :: "string \<Rightarrow> string \<Rightarrow> bool" where
  "contains_str p [] = (p = [])"
| "contains_str p (c # s) = (starts_with p (c # s) \<or> contains_str p s)"

text \<open>
  \<^verbatim>\<open>str::match_indices\<close> of a non-empty pattern: the leftmost occurrences that do not overlap.
  The first argument counts the bytes of an occurrence that are still to be skipped.
\<close>

fun match_indices_from :: "nat \<Rightarrow> nat \<Rightarrow> string \<Rightarrow> string \<Rightarrow> nat list" where
  "match_indices_from skip i p [] = []"
| "match_indices_from (Suc skip) i p (c # s) = match_indices_from skip (Suc i) p s"
| "match_indices_from 0 i p (c # s) =
     (if starts_with p (c # s) then i # match_indices_from (length p - 1) (Suc i) p s
      else match_indices_from 0 (Suc i) p s)"

definition match_indices :: "string \<Rightarrow> string \<Rightarrow> nat list" where
  "match_indices p s = match_indices_from 0 0 p s"

text \<open>\<^verbatim>\<open>str::replace\<close> of a non-empty pattern.\<close>

fun replace_from :: "nat \<Rightarrow> string \<Rightarrow> string \<Rightarrow> string \<Rightarrow> string" where
  "replace_from skip p r [] = []"
| "replace_from (Suc skip) p r (c # s) = replace_from skip p r s"
| "replace_from 0 p r (c # s) =
     (if starts_with p (c # s) then r @ replace_from (length p - 1) p r s
      else c # replace_from 0 p r s)"

definition replace_str :: "string \<Rightarrow> string \<Rightarrow> string \<Rightarrow> string" where
  "replace_str p r s = replace_from 0 p r s"

definition split_once :: "char \<Rightarrow> string \<Rightarrow> (string \<times> string) option" where
  "split_once c s =
     (case dropWhile (\<lambda>d. d \<noteq> c) s of [] \<Rightarrow> None | _ # r \<Rightarrow> Some (takeWhile (\<lambda>d. d \<noteq> c) s, r))"

definition ends_with :: "string \<Rightarrow> string \<Rightarrow> bool" where
  "ends_with p s \<longleftrightarrow> starts_with (rev p) (rev s)"

section \<open>Case and numbers\<close>

definition ascii_lower :: "char \<Rightarrow> char" where
  "ascii_lower c = (if is_ascii_uppercase c then char_of (byte c + 32) else c)"

lemma ascii_lower_code [code]:
  "ascii_lower (Char b0 b1 b2 b3 b4 b5 b6 b7) =
     (if \<not> b7 \<and> b6 \<and> \<not> b5 \<and> letter_bits b0 b1 b2 b3 b4 then Char b0 b1 b2 b3 b4 True b6 b7
      else Char b0 b1 b2 b3 b4 b5 b6 b7)"
  by (cases b0; cases b1; cases b2; cases b3; cases b4; cases b5; cases b6; cases b7;
      simp add: ascii_lower_def is_ascii_uppercase_code byte_def letter_bits_def of_char_def
        char_of_def bit_simps)

definition to_ascii_lowercase :: "string \<Rightarrow> string" where
  "to_ascii_lowercase s = map ascii_lower s"

text \<open>\<^verbatim>\<open>parse::<usize>\<close>: an optional plus sign and decimal digits, below two to the 64.\<close>

definition parse_usize :: "string \<Rightarrow> nat option" where
  "parse_usize s =
     (let ds = (case s of c # r \<Rightarrow> if c = CHR ''+'' then r else s | [] \<Rightarrow> [])
      in if ds \<noteq> [] \<and> list_all is_ascii_digit ds \<and> int (digits_value ds) < 2 ^ 64
         then Some (digits_value ds) else None)"

section \<open>Validity\<close>

text \<open>The byte strings that are UTF-8, as \<^verbatim>\<open>String::from_utf8\<close> accepts them.\<close>

definition between :: "nat \<Rightarrow> nat \<Rightarrow> char \<Rightarrow> bool" where
  "between lo hi c \<longleftrightarrow> lo \<le> byte c \<and> byte c \<le> hi"

function utf8_valid :: "string \<Rightarrow> bool" where
  "utf8_valid s =
     (case s of
        [] \<Rightarrow> True
      | a # r \<Rightarrow>
          if byte a < 0x80 then utf8_valid r
          else
            (case r of
               [] \<Rightarrow> False
             | b # r1 \<Rightarrow>
                 if between 0xC2 0xDF a then between 0x80 0xBF b \<and> utf8_valid r1
                 else
                   (case r1 of
                      [] \<Rightarrow> False
                    | c # r2 \<Rightarrow>
                        if between 0xE0 0xEF a
                        then between (if byte a = 0xE0 then 0xA0 else 0x80)
                               (if byte a = 0xED then 0x9F else 0xBF) b
                             \<and> between 0x80 0xBF c \<and> utf8_valid r2
                        else
                          (case r2 of
                             [] \<Rightarrow> False
                           | d # r3 \<Rightarrow>
                               between 0xF0 0xF4 a
                               \<and> between (if byte a = 0xF0 then 0x90 else 0x80)
                                    (if byte a = 0xF4 then 0x8F else 0xBF) b
                               \<and> between 0x80 0xBF c \<and> between 0x80 0xBF d \<and> utf8_valid r3))))"
  by pat_completeness auto

termination
  by (relation "measure length") auto

declare utf8_valid.simps [simp del]

lemma utf8_valid_ascii: "list_all is_ascii s \<Longrightarrow> utf8_valid s"
  by (induction s) (simp_all add: utf8_valid.simps is_ascii_def)

section \<open>Laws\<close>

lemma concat_utf8_chars [simp]: "concat (utf8_chars s) = s"
  by (induction s rule: utf8_chars.induct) auto

lemma utf8_chars_nonempty: "cp \<in> set (utf8_chars s) \<Longrightarrow> cp \<noteq> []"
  by (induction s rule: utf8_chars.induct) auto

lemma utf8_chars_eq_Nil [simp]: "utf8_chars s = [] \<longleftrightarrow> s = []"
  by (cases s) auto

lemma utf8_chars_ascii: "list_all is_ascii s \<Longrightarrow> utf8_chars s = map (\<lambda>c. [c]) s"
  by (induction s) (auto simp: len_utf8_def is_ascii_def)

lemma starts_with_iff: "starts_with p s \<longleftrightarrow> (\<exists>r. s = p @ r)"
  by (auto simp: starts_with_def) (metis append_take_drop_id)

lemma contains_str_iff: "contains_str p s \<longleftrightarrow> (\<exists>u v. s = u @ p @ v)"
proof (induction s)
  case (Cons c s)
  have "(\<exists>u v. c # s = u @ p @ v) \<longleftrightarrow> starts_with p (c # s) \<or> (\<exists>u v. s = u @ p @ v)"
    by (auto simp: starts_with_iff Cons_eq_append_conv)
  with Cons show ?case by simp
qed simp

lemma is_ascii_digit_decimal: "list_all is_ascii_digit (decimal n) \<and> decimal n \<noteq> []"
proof (induction n rule: decimal.induct)
  case (1 n)
  have "is_ascii_digit (char_of (48 + d))" if "d < 10" for d :: nat
    using that by (auto simp: is_ascii_digit_def less_eq_char_def)
  with 1 show ?case by (cases "n < 10") (simp_all add: decimal.simps [of n])
qed

lemma decimal_hd_digit: "is_ascii_digit (hd (decimal n))"
  using is_ascii_digit_decimal [of n] by (cases "decimal n") auto

lemma parse_usize_decimal:
  assumes "n < 2 ^ 64"
  shows "parse_usize (decimal n) = Some n"
proof -
  obtain c r where d: "decimal n = c # r"
    using is_ascii_digit_decimal [of n] by (cases "decimal n") auto
  have "list_all is_ascii_digit (c # r)" using is_ascii_digit_decimal [of n] by (simp add: d)
  moreover from this have "c \<noteq> CHR ''+''"
    by (auto simp: is_ascii_digit_def less_eq_char_def)
  moreover have "digits_value (c # r) = n" using digits_value_decimal [of n] by (simp add: d)
  moreover have "int n < 2 ^ 64" using assms by simp
  ultimately show ?thesis by (simp add: parse_usize_def Let_def d del: digits_value.simps)
qed

end
