(* ===== verification/Context.thy ===== *)
theory Context
  imports Runtime_Event Text
begin

text \<open>
  The request projector of crates/context/src/compaction.rs. It materialises the model-visible
  context of a run (a committed projection of an older prefix, the newer transcript entries, and
  one tail message with the Host facts), estimates its size, and plans one local compaction:
  the mandatory entries, closed under complete reasoning/tool groups, then the newest complete
  groups that fit.

  Sizes and indices are natural numbers where the source has \<open>usize\<close>; a \<open>usize\<close> stored as
  \<open>u64\<close> goes through \<open>u64_of_usize\<close>, which saturates as the source does. \<open>context_codec\<close> adds
  the serde_json renderings this module uses to the digests of \<open>codec\<close>.
\<close>

section \<open>Sizes of texts\<close>

definition take_chars :: "string \<Rightarrow> nat \<Rightarrow> string" where
  "take_chars value n = concat (take n (utf8_chars value))"

definition take_tail_chars :: "string \<Rightarrow> nat \<Rightarrow> string" where
  "take_tail_chars value n =
     (let total = length (utf8_chars value) in concat (drop (total - n) (utf8_chars value)))"

definition div_ceil :: "nat \<Rightarrow> nat \<Rightarrow> nat" where
  "div_ceil a b = (a + b - 1) div b"

definition is_ascii_symbol :: "char \<Rightarrow> bool" where
  "is_ascii_symbol c \<longleftrightarrow> is_ascii c \<and> \<not> is_ascii_whitespace c \<and> \<not> is_ascii_alphanumeric c"

definition word_run_tokens :: "string \<Rightarrow> nat" where
  "word_run_tokens run =
     (let size = length run;
          distinct_count = length (remdups run);
          has_alpha = list_ex is_ascii_alphabetic run;
          has_digit = list_ex is_ascii_digit run
      in if has_digit \<and> \<not> has_alpha then div_ceil size 2
         else if distinct_count = 1 \<and> size \<ge> 16 then div_ceil size 6
         else if size \<ge> 32 then div_ceil (size * 2) 3
         else div_ceil size 4)"

definition symbol_run_tokens :: "string \<Rightarrow> nat" where
  "symbol_run_tokens run =
     (if list_all (\<lambda>c. c = hd run) run then div_ceil (length run) 2 else length run)"

text \<open>
  The cursor loop, on the bytes from the cursor on. A byte that starts a run of one class moves
  the cursor past that run.
\<close>

function estimate_text_tokens :: "string \<Rightarrow> nat" where
  "estimate_text_tokens [] = 0"
| "estimate_text_tokens (b # s) =
     (if \<not> is_ascii b
      then div_ceil (len_utf8 b) 3 + estimate_text_tokens (drop (len_utf8 b) (b # s))
      else if is_ascii_whitespace b
      then div_ceil (length (takeWhile is_ascii_whitespace (b # s))) 4
             + estimate_text_tokens (dropWhile is_ascii_whitespace (b # s))
      else if is_ascii_alphanumeric b
      then word_run_tokens (takeWhile is_ascii_alphanumeric (b # s))
             + estimate_text_tokens (dropWhile is_ascii_alphanumeric (b # s))
      else symbol_run_tokens (takeWhile is_ascii_symbol (b # s))
             + estimate_text_tokens (dropWhile is_ascii_symbol (b # s)))"
  by pat_completeness auto

lemma length_dropWhile_less: "P b \<Longrightarrow> length (dropWhile P (b # s)) < length (b # s)"
  by (simp add: le_imp_less_Suc length_dropWhile_le)

lemma is_ascii_symbol_intro:
  "is_ascii b \<Longrightarrow> \<not> is_ascii_whitespace b \<Longrightarrow> \<not> is_ascii_alphanumeric b \<Longrightarrow> is_ascii_symbol b"
  by (simp add: is_ascii_symbol_def)

termination estimate_text_tokens
proof (relation "measure length", goal_cases)
  case (2 b s)
  then show ?case using len_utf8_bounds(1) [of b] by simp
next
  case (5 b s)
  then have "is_ascii_symbol b" by (simp add: is_ascii_symbol_intro)
  then show ?case by (simp only: in_measure length_dropWhile_less)
qed (simp_all only: in_measure length_dropWhile_less wf_measure)

section \<open>Texts\<close>

definition HOST_FACTS_HEADER :: string where
  "HOST_FACTS_HEADER =
     ''## '' @ [CHR 0xE5, CHR 0xBD, CHR 0x93, CHR 0xE5, CHR 0x89, CHR 0x8D] @ '' Host '' @ [CHR
     0xE4, CHR 0xBA, CHR 0x8B, CHR 0xE5, CHR 0xAE, CHR 0x9E]"

definition txt_frozen_contract :: string where
  "txt_frozen_contract =
     ''### '' @ [CHR 0xE5, CHR 0x86, CHR 0xBB, CHR 0xE7, CHR 0xBB, CHR 0x93, CHR 0xE4, CHR
     0xBB, CHR 0xBB, CHR 0xE5, CHR 0x8A, CHR 0xA1, CHR 0xE5, CHR 0xA5, CHR 0x91, CHR 0xE7, CHR
     0xBA, CHR 0xA6]"

definition txt_valid_receipt :: string where
  "txt_valid_receipt =
     ''### '' @ [CHR 0xE5, CHR 0xBD, CHR 0x93, CHR 0xE5, CHR 0x89, CHR 0x8D, CHR 0xE6, CHR
     0x9C, CHR 0x89, CHR 0xE6, CHR 0x95, CHR 0x88] @ '' EvidenceReceipt'' @ [CHR 0x0A, CHR
     0x60]"

definition txt_no_receipt :: string where
  "txt_no_receipt =
     ''- current_evidence_receipt: '' @ [CHR 0x60] @ ''none'' @ [CHR 0x60]"

definition txt_unresolved_rejection :: string where
  "txt_unresolved_rejection =
     ''### '' @ [CHR 0xE6, CHR 0x9C, CHR 0xAA, CHR 0xE8, CHR 0xA7, CHR 0xA3, CHR 0xE5, CHR
     0x86, CHR 0xB3, CHR 0xE7, CHR 0x9A, CHR 0x84, CHR 0xE5, CHR 0xAE, CHR 0x8C, CHR 0xE6, CHR
     0x88, CHR 0x90, CHR 0xE6, CHR 0x8B, CHR 0x92, CHR 0xE7, CHR 0xBB, CHR 0x9D, CHR 0x0A, CHR
     0x60]"

definition txt_verifier_failure :: string where
  "txt_verifier_failure =
     ''### '' @ [CHR 0xE6, CHR 0x9C, CHR 0x80, CHR 0xE8, CHR 0xBF, CHR 0x91, CHR 0xE4, CHR
     0xB8, CHR 0x80, CHR 0xE6, CHR 0xAC, CHR 0xA1] @ '' verifier '' @ [CHR 0xE5, CHR 0xA4, CHR
     0xB1, CHR 0xE8, CHR 0xB4, CHR 0xA5, CHR 0x0A, CHR 0x60]"

definition txt_old_tool_result :: string where
  "txt_old_tool_result =
     '' '' @ [CHR 0xE7, CHR 0x9A, CHR 0x84, CHR 0xE6, CHR 0x97, CHR 0xA7, CHR 0xE5, CHR 0xB7,
     CHR 0xA5, CHR 0xE5, CHR 0x85, CHR 0xB7, CHR 0xE7, CHR 0xBB, CHR 0x93, CHR 0xE6, CHR 0x9E,
     CHR 0x9C, CHR 0xE5, CHR 0xB7, CHR 0xB2, CHR 0xE5, CHR 0x9C, CHR 0xA8, CHR 0xE8, CHR 0xAF,
     CHR 0xB7, CHR 0xE6, CHR 0xB1, CHR 0x82, CHR 0xE6, CHR 0x8A, CHR 0x95, CHR 0xE5, CHR 0xBD,
     CHR 0xB1, CHR 0xE4, CHR 0xB8, CHR 0xAD, CHR 0xE5, CHR 0x8E, CHR 0x8B, CHR 0xE7, CHR 0xBC,
     CHR 0xA9, CHR 0xEF, CHR 0xBC, CHR 0x8C] @ ''canonical '' @ [CHR 0xE8, CHR 0xAE, CHR 0xB0,
     CHR 0xE5, CHR 0xBD, CHR 0x95, CHR 0xE4, CHR 0xBF, CHR 0x9D, CHR 0xE7, CHR 0x95, CHR 0x99]
     @ '' ''"

definition txt_verifier_output :: string where
  "txt_verifier_output =
     ''[verifier '' @ [CHR 0xE8, CHR 0xBE, CHR 0x93, CHR 0xE5, CHR 0x87, CHR 0xBA, CHR 0xE5,
     CHR 0xB7, CHR 0xB2, CHR 0xE7, CHR 0xA1, CHR 0xAE, CHR 0xE5, CHR 0xAE, CHR 0x9A, CHR 0xE6,
     CHR 0x80, CHR 0xA7, CHR 0xE5, CHR 0x8E, CHR 0x8B, CHR 0xE7, CHR 0xBC, CHR 0xA9, CHR 0xEF,
     CHR 0xBC, CHR 0x8C] @ ''canonical '' @ [CHR 0xE8, CHR 0xAE, CHR 0xB0, CHR 0xE5, CHR 0xBD,
     CHR 0x95, CHR 0xE4, CHR 0xBF, CHR 0x9D, CHR 0xE7, CHR 0x95, CHR 0x99] @ '' ''"

definition txt_characters :: string where
  "txt_characters =
     '' '' @ [CHR 0xE5, CHR 0xAD, CHR 0x97, CHR 0xE7, CHR 0xAC, CHR 0xA6] @ '']'' @ [CHR 0x0A]"

definition txt_ellipsis :: string where
  "txt_ellipsis =
     [CHR 0x0A, CHR 0xE2, CHR 0x80, CHR 0xA6, CHR 0x0A]"

section \<open>Context input\<close>

definition TOOL_RESULT_PRUNE_CHARS :: nat where "TOOL_RESULT_PRUNE_CHARS = 16 * 1024"

definition TOOL_RESULT_RETAIN_CHARS :: nat where "TOOL_RESULT_RETAIN_CHARS = 2 * 1024"

definition LIMIT_TARGET_NUMERATOR :: u64 where "LIMIT_TARGET_NUMERATOR = 3"

definition LIMIT_TARGET_DENOMINATOR :: u64 where "LIMIT_TARGET_DENOMINATOR = 4"

record context_codec = codec +
  cx_receipt_text :: "evidence_receipt \<Rightarrow> string"
  cx_rejection_text :: "completion_rejection \<Rightarrow> string"
  cx_outcome_text :: "tool_outcome \<Rightarrow> string"
  cx_workspace_text :: "workspace_state \<Rightarrow> string"
  cx_projection_text ::
    "system_prompt \<times> model_message list \<times> u64 list \<times> u64 \<times> tool_definition list \<Rightarrow> string"

record context_input =
  ci_transcript :: canonical_transcript
  ci_projection :: "context_projection option"
  ci_task_contract :: "task_contract option"
  ci_workspace_state :: workspace_state
  ci_evidence_receipts :: "evidence_receipt list"
  ci_last_completion_rejection :: "completion_rejection option"
  ci_last_verifier_failure :: "tool_outcome option"
  ci_last_verifier_failure_workspace :: "workspace_state option"
  ci_tools :: "tool_definition list"

record effective_context =
  ec_system_prompt :: system_prompt
  ec_messages :: "model_message list"
  ec_source_entry_indices :: "u64 list"
  ec_source_entry_count :: u64
  ec_sha256 :: string
  ec_estimated_tokens :: u64

datatype context_compaction_preparation =
    NotNeeded u64
  | Local context_projection u64 u64
  | LimitExceeded u64 u64

datatype context_projection_error =
    BoundaryAhead u64 nat
  | InvalidSourceIndices
  | SourceMessageMismatch
  | DigestError string
  | InvalidPolicy string

section \<open>Projected entries\<close>

text \<open>The projection of one entry is that of \<^verbatim>\<open>CanonicalTranscript::project_messages\<close>.\<close>

fun project_entry :: "transcript_entry \<Rightarrow> model_message option" where
  "project_entry (SystemEntry _) = None"
| "project_entry (UserEntry content) = Some (UserMessage content)"
| "project_entry (AssistantEntry content reasoning tool_calls) =
     Some (AssistantMessage content reasoning tool_calls)"
| "project_entry (ToolEntry call_id name outcome) =
     Some (ToolMessage call_id name (model_content outcome))"
| "project_entry (ChildOutcomeEntry _ _ _ handoff_content) = Some (UserMessage handoff_content)"

fun compact_tool_result :: "model_message \<Rightarrow> model_message" where
  "compact_tool_result (ToolMessage call_id name content) =
     (let original = length (utf8_chars content)
      in if original \<le> TOOL_RESULT_PRUNE_CHARS then ToolMessage call_id name content
         else ToolMessage call_id name
                (''['' @ name @ txt_old_tool_result @ decimal original @ txt_characters
                 @ take_chars content TOOL_RESULT_RETAIN_CHARS @ txt_ellipsis
                 @ take_tail_chars content TOOL_RESULT_RETAIN_CHARS))"
| "compact_tool_result message = message"

definition project_indices ::
  "canonical_transcript \<Rightarrow> bool \<Rightarrow> nat list \<Rightarrow> (model_message \<times> nat) list" where
  "project_indices transcript compact_tools indices =
     List.map_filter (\<lambda>index.
       case project_entry (transcript ! index) of
         None \<Rightarrow> None
       | Some message \<Rightarrow>
           Some (if compact_tools then compact_tool_result message else message, index)) indices"

definition project_selected ::
  "canonical_transcript \<Rightarrow> nat set \<Rightarrow> nat \<Rightarrow> bool \<Rightarrow> model_message list \<times> u64 list" where
  "project_selected transcript selected boundary compact_tools =
     (let ps = project_indices transcript compact_tools
                 (filter (\<lambda>index. index < boundary) (sorted_list_of_set selected))
      in (map fst ps, map (u64_of_usize \<circ> snd) ps))"

definition project_range ::
  "canonical_transcript \<Rightarrow> nat \<Rightarrow> nat \<Rightarrow> bool \<Rightarrow> model_message list \<times> u64 list" where
  "project_range transcript start end compact_tools =
     (let ps = project_indices transcript compact_tools [start..<end]
      in (map fst ps, map (u64_of_usize \<circ> snd) ps))"

definition projected_history ::
  "canonical_transcript \<Rightarrow> context_projection \<Rightarrow>
     context_projection_error + (model_message list \<times> u64 list)" where
  "projected_history transcript projection =
     (let boundary = unat (pj_source_entry_count projection)
      in if boundary > length transcript
         then Inl (BoundaryAhead (pj_source_entry_count projection) (length transcript))
         else if length (pj_selected_entry_indices projection) \<noteq> length (pj_messages projection)
                 \<or> any_pair (\<lambda>a b. \<not> a < b) (pj_selected_entry_indices projection)
                 \<or> list_ex (\<lambda>index. index \<ge> pj_source_entry_count projection)
                     (pj_selected_entry_indices projection)
         then Inl InvalidSourceIndices
         else
           let selected = set (map unat (pj_selected_entry_indices projection));
               expected = project_selected transcript selected boundary True
           in if fst expected \<noteq> pj_messages projection
                 \<or> snd expected \<noteq> pj_selected_entry_indices projection
              then Inl SourceMessageMismatch
              else
                let suffix = project_range transcript boundary (length transcript) False
                in Inr (pj_messages projection @ fst suffix,
                        pj_selected_entry_indices projection @ snd suffix))"

section \<open>Host facts\<close>

fun is_current_receipt_for :: "evidence_receipt \<Rightarrow> task_acceptance \<Rightarrow> bool" where
  "is_current_receipt_for receipt (VerifierAcceptance i _ policy verifier) =
     (i = er_acceptance_id receipt \<and> verifier = er_verifier receipt \<and>
      lineage_satisfies (er_lineage receipt) policy)"
| "is_current_receipt_for receipt (HostAcceptance _ _) = False"

definition latest_valid_receipt :: "context_input \<Rightarrow> evidence_receipt option" where
  "latest_valid_receipt input =
     (case ci_task_contract input of
        None \<Rightarrow> None
      | Some contract \<Rightarrow>
          find (\<lambda>receipt.
            er_generation_id receipt = tc_generation_id contract \<and>
            er_workspace_state receipt = ci_workspace_state input \<and>
            list_ex (is_current_receipt_for receipt) (td_acceptance (tc_definition contract)))
          (rev (ci_evidence_receipts input)))"

definition rejection_resolved :: "context_input \<Rightarrow> task_contract \<Rightarrow> completion_rejection \<Rightarrow> bool" where
  "rejection_resolved input contract rejection =
     list_all (\<lambda>acceptance.
       list_ex (\<lambda>receipt.
         er_generation_id receipt = tc_generation_id contract \<and>
         er_acceptance_id receipt = acceptance \<and>
         er_workspace_state receipt = ci_workspace_state input \<and>
         list_ex (\<lambda>a. acceptance_id a = acceptance \<and> is_current_receipt_for receipt a)
           (td_acceptance (tc_definition contract)))
       (ci_evidence_receipts input)) (cr_unmet_acceptance_ids rejection)"

definition unresolved_rejection :: "context_input \<Rightarrow> completion_rejection option" where
  "unresolved_rejection input =
     (case ci_last_completion_rejection input of
        None \<Rightarrow> None
      | Some rejection \<Rightarrow>
          (case ci_task_contract input of
             None \<Rightarrow> None
           | Some contract \<Rightarrow>
               if cr_generation_id rejection \<noteq> tc_generation_id contract then None
               else if rejection_resolved input contract rejection then None
               else Some rejection))"

text \<open>\<open>backquoted s\<close> is the text between backquotes.\<close>

definition backquoted :: "string \<Rightarrow> string" where
  "backquoted s = [CHR 0x60] @ s @ [CHR 0x60]"

definition contract_facts :: "task_contract \<Rightarrow> model_message list \<Rightarrow> string list" where
  "contract_facts contract history =
     (let rendered = model_message (tc_definition contract);
          already_present = list_ex (\<lambda>m. m = UserMessage rendered) history;
          acceptance_ids = join '','' (map acceptance_id (td_acceptance (tc_definition contract)))
      in (if already_present then [] else [txt_frozen_contract, rendered]) @
         [''- task_generation: '' @ backquoted (tc_generation_id contract) @ [CHR 0x0A]
          @ ''- acceptance_ids: '' @ backquoted acceptance_ids])"

definition workspace_facts :: "workspace_state \<Rightarrow> string" where
  "workspace_facts w =
     ''- workspace_generation: '' @ backquoted (decimal (unat (ws_generation w))) @ [CHR 0x0A]
     @ ''- workspace_revision: ''
     @ backquoted (case ws_revision w of RevKnown sha256 \<Rightarrow> ''known:'' @ sha256
             | RevUnknown reason \<Rightarrow> ''unknown:'' @ reason)"

definition compact_verifier_failure :: "tool_outcome \<Rightarrow> tool_outcome" where
  "compact_verifier_failure outcome =
     (let outcome = outcome\<lparr>to_artifacts :=
                      map (\<lambda>artifact. artifact\<lparr>art_inline_content := None\<rparr>) (to_artifacts outcome)\<rparr>;
          original = length (utf8_chars (to_content outcome))
      in if original > TOOL_RESULT_PRUNE_CHARS
         then outcome\<lparr>to_content :=
                txt_verifier_output @ decimal original @ txt_characters
                @ take_chars (to_content outcome) (TOOL_RESULT_RETAIN_CHARS * 3) @ txt_ellipsis
                @ take_tail_chars (to_content outcome) TOOL_RESULT_RETAIN_CHARS\<rparr>
         else outcome)"

definition rejection_facts :: "'x context_codec_scheme \<Rightarrow> context_input \<Rightarrow> string list" where
  "rejection_facts cx input =
     (case unresolved_rejection input of
        None \<Rightarrow> []
      | Some rejection \<Rightarrow>
          [txt_unresolved_rejection @ cx_rejection_text cx rejection @ [CHR 0x60]] @
          (case ci_last_verifier_failure input of
             None \<Rightarrow> []
           | Some outcome \<Rightarrow>
               [txt_verifier_failure @ cx_outcome_text cx (compact_verifier_failure outcome)
                @ [CHR 0x60]]) @
          (case ci_last_verifier_failure_workspace input of
             None \<Rightarrow> []
           | Some workspace \<Rightarrow>
               [''- verifier_failure_workspace: '' @ backquoted (cx_workspace_text cx workspace)]))"

definition render_host_facts ::
  "'x context_codec_scheme \<Rightarrow> context_input \<Rightarrow> model_message list \<Rightarrow> string" where
  "render_host_facts cx input history =
     join [CHR 0x0A]
       ([HOST_FACTS_HEADER] @
        (case ci_task_contract input of None \<Rightarrow> [] | Some contract \<Rightarrow> contract_facts contract history) @
        [workspace_facts (ci_workspace_state input)] @
        [case latest_valid_receipt input of
           Some receipt \<Rightarrow> txt_valid_receipt @ cx_receipt_text cx receipt @ [CHR 0x60]
         | None \<Rightarrow> txt_no_receipt] @
        rejection_facts cx input)"

section \<open>Estimates and the effective context\<close>

definition estimate_option_tokens :: "string option \<Rightarrow> nat" where
  "estimate_option_tokens m = (case m of None \<Rightarrow> 0 | Some s \<Rightarrow> estimate_text_tokens s)"

fun estimate_message_tokens :: "model_message \<Rightarrow> nat" where
  "estimate_message_tokens (UserMessage content) = estimate_text_tokens content"
| "estimate_message_tokens (AssistantMessage content reasoning tool_calls) =
     estimate_option_tokens content + estimate_option_tokens reasoning +
     sum_list (map (\<lambda>call. estimate_text_tokens (tcall_id call) + estimate_text_tokens (tcall_name call)
                           + estimate_text_tokens (ta_raw (tcall_arguments call))) tool_calls)"
| "estimate_message_tokens (ToolMessage call_id name content) =
     estimate_text_tokens call_id + estimate_text_tokens name + estimate_text_tokens content"

definition estimate_tool_tokens :: "'x codec_scheme \<Rightarrow> tool_definition \<Rightarrow> nat" where
  "estimate_tool_tokens cx tool =
     estimate_text_tokens (tdef_name tool) + estimate_text_tokens (tdef_description tool)
     + estimate_text_tokens (cx_json_text cx (tdef_input_schema tool))"

definition estimate_context_tokens ::
  "'x codec_scheme \<Rightarrow> system_prompt \<Rightarrow> model_message list \<Rightarrow> tool_definition list \<Rightarrow> u64" where
  "estimate_context_tokens cx system_prompt messages tools =
     (let lexical_tokens =
            sum_list (map (\<lambda>b. estimate_text_tokens (spb_text b)) system_prompt)
            + sum_list (map estimate_message_tokens messages)
            + sum_list (map (estimate_tool_tokens cx) tools)
      in sat_add
           (sat_add (u64_of_usize lexical_tokens)
              (sat_mul (u64_of_usize (length messages + length tools)) 12))
           48)"

definition projection_digest ::
  "'x context_codec_scheme \<Rightarrow> system_prompt \<Rightarrow> model_message list \<Rightarrow> u64 list \<Rightarrow> u64 \<Rightarrow>
     tool_definition list \<Rightarrow> string" where
  "projection_digest cx system_prompt messages indices entries tools =
     ''sha256:'' @ cx_sha256_hex cx
       (cx_projection_text cx (system_prompt, messages, indices, entries, tools))"

fun entry_system_prompt :: "transcript_entry \<Rightarrow> system_prompt option" where
  "entry_system_prompt (SystemEntry prompt) = Some prompt"
| "entry_system_prompt _ = None"

definition effective_context ::
  "'x context_codec_scheme \<Rightarrow> context_input \<Rightarrow> context_projection_error + effective_context" where
  "effective_context cx input =
     (let system_prompt =
            (case find_map entry_system_prompt (ci_transcript input) of None \<Rightarrow> [] | Some p \<Rightarrow> p)
      in rbind
           (case ci_projection input of
              Some projection \<Rightarrow> projected_history (ci_transcript input) projection
            | None \<Rightarrow> Inr (project_range (ci_transcript input) 0 (length (ci_transcript input)) False))
         (\<lambda>(history, source_entry_indices).
            let messages = history @ [UserMessage (render_host_facts cx input history)];
                source_entry_count = u64_of_usize (length (ci_transcript input))
            in Inr \<lparr>ec_system_prompt = system_prompt, ec_messages = messages,
                    ec_source_entry_indices = source_entry_indices,
                    ec_source_entry_count = source_entry_count,
                    ec_sha256 = projection_digest cx system_prompt messages source_entry_indices
                                  source_entry_count (ci_tools input),
                    ec_estimated_tokens =
                      estimate_context_tokens cx system_prompt messages (ci_tools input)\<rparr>))"

definition estimate_projection_tokens ::
  "'x context_codec_scheme \<Rightarrow> context_input \<Rightarrow> context_projection \<Rightarrow>
     context_projection_error + u64" where
  "estimate_projection_tokens cx input projection =
     rbind (effective_context cx (input\<lparr>ci_projection := Some projection\<rparr>))
       (\<lambda>e. Inr (ec_estimated_tokens e))"

section \<open>Compaction\<close>

definition validate_policy :: "context_policy \<Rightarrow> context_projection_error + unit" where
  "validate_policy policy =
     (if cp_hard_input_tokens policy = 0
      then Inl (InvalidPolicy ''hard_input_tokens must be greater than zero'') else Inr ())"

definition projection_from_indices ::
  "effective_context \<Rightarrow> canonical_transcript \<Rightarrow> nat set \<Rightarrow> context_projection" where
  "projection_from_indices source transcript selected =
     (let boundary = length transcript;
          p = project_selected transcript selected boundary True
      in \<lparr>pj_source_entry_count = u64_of_usize boundary,
          pj_source_projection_sha256 = ec_sha256 source,
          pj_selected_entry_indices = snd p, pj_messages = fst p\<rparr>)"

fun is_user_or_child_entry :: "transcript_entry \<Rightarrow> bool" where
  "is_user_or_child_entry (UserEntry _) = True"
| "is_user_or_child_entry (ChildOutcomeEntry _ _ _ _) = True"
| "is_user_or_child_entry _ = False"

fun is_mutation_entry :: "transcript_entry \<Rightarrow> bool" where
  "is_mutation_entry (ToolEntry _ _ outcome) =
     (to_side_effect outcome = EffectApplied \<or> to_workspace_revision outcome \<noteq> None)"
| "is_mutation_entry _ = False"

fun is_tool_entry_named :: "string \<Rightarrow> transcript_entry \<Rightarrow> bool" where
  "is_tool_entry_named name (ToolEntry _ tool _) = (tool = name)"
| "is_tool_entry_named name _ = False"

text \<open>\<open>entries.iter().enumerate().rev().find_map(...)\<close>: the last position of an entry.\<close>

definition last_position :: "('a \<Rightarrow> bool) \<Rightarrow> 'a list \<Rightarrow> nat option" where
  "last_position P xs = map_option fst (find (\<lambda>(_, x). P x) (rev (enumerate 0 xs)))"

text \<open>The positions from \<open>start\<close> on of the entries with a property, in order.\<close>

definition positions_from :: "('a \<Rightarrow> bool) \<Rightarrow> nat \<Rightarrow> 'a list \<Rightarrow> nat list" where
  "positions_from P start xs = map fst (filter (\<lambda>(_, x). P x) (drop start (enumerate 0 xs)))"

definition task_entry_index :: "context_input \<Rightarrow> nat option" where
  "task_entry_index input =
     (case ci_task_contract input of
        None \<Rightarrow> None
      | Some contract \<Rightarrow>
          last_position (\<lambda>e. e = UserEntry (model_message (tc_definition contract)))
            (ci_transcript input))"

definition mandatory_entry_indices :: "context_input \<Rightarrow> nat set" where
  "mandatory_entry_indices input =
     (let entries = ci_transcript input;
          task_index = task_entry_index input;
          task_start = (case task_index of None \<Rightarrow> 0 | Some i \<Rightarrow> i);
          mutations = positions_from is_mutation_entry task_start entries;
          latest_mutation = (if mutations = [] then None else Some (last mutations));
          current = (\<lambda>name. case last_position (is_tool_entry_named name) entries of
             None \<Rightarrow> {}
           | Some index \<Rightarrow>
               (case latest_mutation of None \<Rightarrow> {index}
                | Some mutation \<Rightarrow> if index > mutation then {index} else {}))
      in set_option task_index
         \<union> set (positions_from is_user_or_child_entry task_start entries)
         \<union> set mutations \<union> current ''git_diff'' \<union> current ''git_status'')"

text \<open>The inner loop over the results of one assistant entry, from position \<open>nxt\<close> on.\<close>

fun scan_group ::
  "string list \<Rightarrow> nat \<Rightarrow> canonical_transcript \<Rightarrow> nat list \<times> nat \<times> canonical_transcript" where
  "scan_group call_ids nxt (ToolEntry call_id name outcome # rest) =
     (let (grp, nxt', rest') = scan_group call_ids (Suc nxt) rest
      in (if call_id \<in> set call_ids then nxt # grp else grp, nxt', rest'))"
| "scan_group call_ids nxt (ChildOutcomeEntry a b c d # rest) = scan_group call_ids (Suc nxt) rest"
| "scan_group call_ids nxt rest = ([], nxt, rest)"

lemma scan_group_length:
  "scan_group call_ids nxt es = (grp, nxt', rest) \<Longrightarrow>
     nxt' + length rest = nxt + length es \<and> length rest \<le> length es"
  by (induction call_ids nxt es arbitrary: grp rule: scan_group.induct)
     (auto split: prod.splits)

lemma scan_group_shrinks:
  "(grp, nxt', rest) = scan_group call_ids nxt es \<Longrightarrow> length rest < Suc (length es)"
  using scan_group_length [of call_ids nxt es grp nxt' rest] by simp

text \<open>The cursor loop, on the entries from the cursor on.\<close>

function history_groups :: "nat \<Rightarrow> canonical_transcript \<Rightarrow> nat list list" where
  "history_groups cursor [] = []"
| "history_groups cursor (SystemEntry p # rest) = history_groups (Suc cursor) rest"
| "history_groups cursor (AssistantEntry content reasoning tool_calls # rest) =
     (if tool_calls = [] then [cursor] # history_groups (Suc cursor) rest
      else let (grp, nxt, rest') = scan_group (map tcall_id tool_calls) (Suc cursor) rest
           in (cursor # grp) # history_groups nxt rest')"
| "history_groups cursor (ToolEntry call_id name outcome # rest) = history_groups (Suc cursor) rest"
| "history_groups cursor (UserEntry content # rest) = [cursor] # history_groups (Suc cursor) rest"
| "history_groups cursor (ChildOutcomeEntry a b c d # rest) = [cursor] # history_groups (Suc cursor) rest"
  by pat_completeness auto

termination history_groups
  by (relation "measure (\<lambda>(_, es). length es)") (auto dest: scan_group_shrinks)

definition atomic_history_groups :: "canonical_transcript \<Rightarrow> nat list list" where
  "atomic_history_groups transcript = history_groups 0 transcript"

text \<open>One pass over the groups; the flag records that an index was new.\<close>

definition insert_index :: "nat set \<times> bool \<Rightarrow> nat \<Rightarrow> nat set \<times> bool" where
  "insert_index s index = (insert index (fst s), snd s \<or> index \<notin> fst s)"

definition expand_group :: "nat set \<times> bool \<Rightarrow> nat list \<Rightarrow> nat set \<times> bool" where
  "expand_group s grp =
     (if list_ex (\<lambda>index. index \<in> fst s) grp then foldl insert_index s grp else s)"

definition expand_pass :: "nat list list \<Rightarrow> nat set \<Rightarrow> nat set \<times> bool" where
  "expand_pass groups selected = foldl expand_group (selected, False) groups"

lemma foldl_insert_index:
  "foldl insert_index s grp = (fst s \<union> set grp, snd s \<or> \<not> set grp \<subseteq> fst s)"
  by (induction grp arbitrary: s) (auto simp: insert_index_def)

lemma expand_group_eq:
  "expand_group s grp =
     (if set grp \<inter> fst s = {} then s else (fst s \<union> set grp, snd s \<or> \<not> set grp \<subseteq> fst s))"
  by (auto simp: expand_group_def foldl_insert_index list_ex_iff)

lemma growth_flag_trans:
  "A \<subseteq> B \<Longrightarrow> B \<subseteq> C \<Longrightarrow> f \<longleftrightarrow> e \<or> B \<noteq> A \<Longrightarrow> g \<longleftrightarrow> f \<or> C \<noteq> B \<Longrightarrow> g \<longleftrightarrow> e \<or> C \<noteq> A"
  by blast

lemma foldl_expand_group:
  "fst s \<subseteq> fst (foldl expand_group s groups) \<and>
   fst (foldl expand_group s groups) \<subseteq> fst s \<union> \<Union> (set ` set groups) \<and>
   (snd (foldl expand_group s groups) \<longleftrightarrow> snd s \<or> fst (foldl expand_group s groups) \<noteq> fst s)"
proof (induction groups arbitrary: s)
  case Nil
  then show ?case by simp
next
  case (Cons g groups)
  define t where "t = expand_group s g"
  have t: "fst s \<subseteq> fst t" "fst t \<subseteq> fst s \<union> set g" "snd t \<longleftrightarrow> snd s \<or> fst t \<noteq> fst s"
    by (auto simp: t_def expand_group_eq)
  define r where "r = foldl expand_group t groups"
  have r: "fst t \<subseteq> fst r" "fst r \<subseteq> fst t \<union> \<Union> (set ` set groups)"
    "snd r \<longleftrightarrow> snd t \<or> fst r \<noteq> fst t"
    using Cons.IH [of t] by (simp_all add: r_def)
  have "fst s \<subseteq> fst r" using t(1) r(1) by blast
  moreover have "fst r \<subseteq> fst s \<union> \<Union> (set ` set (g # groups))" using t(2) r(2) by auto
  moreover have "snd r \<longleftrightarrow> snd s \<or> fst r \<noteq> fst s"
    using growth_flag_trans [OF t(1) r(1) t(3) r(3)] .
  ultimately show ?case by (simp only: r_def t_def foldl_Cons)
qed

lemma expand_pass_grows:
  "selected \<subseteq> fst (expand_pass groups selected)"
  "fst (expand_pass groups selected) \<subseteq> selected \<union> \<Union> (set ` set groups)"
  "snd (expand_pass groups selected) \<longleftrightarrow> fst (expand_pass groups selected) \<noteq> selected"
  using foldl_expand_group [of "(selected, False)" groups] by (auto simp: expand_pass_def)

function expand_selected_groups :: "nat set \<Rightarrow> nat list list \<Rightarrow> nat set" where
  "expand_selected_groups selected groups =
     (let (selected', changed) = expand_pass groups selected
      in if changed then expand_selected_groups selected' groups else selected')"
  by pat_completeness auto

lemma expand_pass_measure:
  assumes "snd (expand_pass groups selected)"
  shows "card (\<Union> (set ` set groups) - fst (expand_pass groups selected))
       < card (\<Union> (set ` set groups) - selected)"
proof (rule psubset_card_mono)
  show "finite (\<Union> (set ` set groups) - selected)" by simp
  note grows = expand_pass_grows [where selected = selected and groups = groups]
  from assms grows(1,3) obtain x where x: "x \<in> fst (expand_pass groups selected)" "x \<notin> selected"
    by (metis subset_antisym subsetI)
  with grows(2) have "x \<in> \<Union> (set ` set groups) - selected" by (meson DiffI UnE subsetD)
  moreover from x(1) have "x \<notin> \<Union> (set ` set groups) - fst (expand_pass groups selected)"
    by simp
  moreover have "\<Union> (set ` set groups) - fst (expand_pass groups selected)
      \<subseteq> \<Union> (set ` set groups) - selected"
    by (rule Diff_mono [OF subset_refl grows(1)])
  ultimately show "\<Union> (set ` set groups) - fst (expand_pass groups selected)
      \<subset> \<Union> (set ` set groups) - selected"
    by (metis psubsetI)
qed

termination expand_selected_groups
proof (relation "measure (\<lambda>(selected, groups). card (\<Union> (set ` set groups) - selected))", goal_cases)
  case (2 selected groups x selected' changed)
  then have "expand_pass groups selected = (selected', True)" by simp
  with expand_pass_measure [of groups selected] show ?case by simp
qed simp

declare expand_selected_groups.simps [simp del]

text \<open>The loop over the groups, newest first, that spends the remaining budget.\<close>

fun select_groups ::
  "'x context_codec_scheme \<Rightarrow> context_input \<Rightarrow> effective_context \<Rightarrow> u64 \<Rightarrow> nat list list \<Rightarrow>
     nat set \<times> context_projection \<times> u64 \<Rightarrow>
     context_projection_error + (nat set \<times> context_projection \<times> u64)" where
  "select_groups cx input effective target [] s = Inr s"
| "select_groups cx input effective target (grp # rest) (selected, candidate, after_tokens) =
     (if list_all (\<lambda>index. index \<in> selected) grp
      then select_groups cx input effective target rest (selected, candidate, after_tokens)
      else
        let trial = selected \<union> set grp;
            trial_projection = projection_from_indices effective (ci_transcript input) trial
        in rbind (estimate_projection_tokens cx input trial_projection)
           (\<lambda>trial_tokens.
              select_groups cx input effective target rest
                (if trial_tokens \<le> target then (trial, trial_projection, trial_tokens)
                 else (selected, candidate, after_tokens))))"

definition prepare_compaction ::
  "'x context_codec_scheme \<Rightarrow> context_input \<Rightarrow> context_policy \<Rightarrow>
     context_projection_error + context_compaction_preparation" where
  "prepare_compaction cx input policy =
     and_then (validate_policy policy)
     (rbind (effective_context cx input)
     (\<lambda>effective.
        let hard = ucast (cp_hard_input_tokens policy);
            estimated = ec_estimated_tokens effective
        in if estimated \<le> hard then Inr (NotNeeded estimated)
           else
             let groups = atomic_history_groups (ci_transcript input);
                 selected = expand_selected_groups (mandatory_entry_indices input) groups;
                 candidate = projection_from_indices effective (ci_transcript input) selected
             in rbind (estimate_projection_tokens cx input candidate)
                (\<lambda>after_tokens.
                   if after_tokens > hard then Inr (LimitExceeded after_tokens hard)
                   else
                     let target = max (min hard (sat_mul estimated LIMIT_TARGET_NUMERATOR
                                                 div LIMIT_TARGET_DENOMINATOR)) after_tokens
                     in rbind (select_groups cx input effective target (rev groups)
                                 (selected, candidate, after_tokens))
                        (\<lambda>(selected, candidate, after_tokens).
                           if after_tokens \<ge> estimated then Inr (LimitExceeded estimated hard)
                           else Inr (Local candidate estimated after_tokens)))))"

end
