(* ===== verification/Context_Laws.thy ===== *)
theory Context_Laws
  imports Context
begin

text \<open>
  What the request projector guarantees: the token estimate is bounded by the size of the text,
  the reasoning/tool groups are disjoint and in order, the expansion of a selection is the least
  selection closed under groups, a projection built by the compactor is accepted again when the
  context is rebuilt from it, and a planned compaction fits its budget, keeps every mandatory
  entry and never splits a group.
\<close>

section \<open>The token estimate\<close>

text \<open>Every code point has all its bytes.\<close>

fun utf8_complete :: "string \<Rightarrow> bool" where
  "utf8_complete [] = True"
| "utf8_complete (b # s) \<longleftrightarrow>
     len_utf8 b - 1 \<le> length s \<and> utf8_complete (drop (len_utf8 b - 1) s)"

lemma div_ceil_bounds:
  assumes "0 < b"
  shows "a \<le> b * div_ceil a b" "div_ceil a b \<le> a"
proof -
  have "b * ((a + b - 1) div b) = a + b - 1 - (a + b - 1) mod b"
    by (simp add: minus_mod_eq_mult_div)
  moreover have "(a + b - 1) mod b \<le> b - 1" using assms by (simp add: Suc_leI less_Suc_eq_le [symmetric] )
  ultimately show "a \<le> b * div_ceil a b" using assms unfolding div_ceil_def by linarith
  show "div_ceil a b \<le> a"
  proof (cases a)
    case 0
    with assms show ?thesis by (simp add: div_ceil_def)
  next
    case (Suc n)
    have "a + b - 1 \<le> b * a" using Suc assms by (cases b) auto
    then have "(a + b - 1) div b \<le> (b * a) div b" by (rule div_le_mono)
    with assms show ?thesis by (simp add: div_ceil_def)
  qed
qed

lemma div_ceil_2_3: "div_ceil (n * 2) 3 \<le> n"
  unfolding div_ceil_def by (cases n) auto

lemma word_run_tokens_bounds:
  "word_run_tokens run \<le> length run" "length run \<le> 6 * word_run_tokens run"
proof -
  let ?n = "length run"
  have "?n \<le> 2 * div_ceil ?n 2" "?n \<le> 6 * div_ceil ?n 6" "?n * 2 \<le> 3 * div_ceil (?n * 2) 3"
    "?n \<le> 4 * div_ceil ?n 4"
    by (rule div_ceil_bounds; simp)+
  then show "length run \<le> 6 * word_run_tokens run"
    by (simp add: word_run_tokens_def Let_def)
  have "div_ceil ?n 2 \<le> ?n" "div_ceil ?n 6 \<le> ?n" "div_ceil ?n 4 \<le> ?n"
    by (rule div_ceil_bounds; simp)+
  then show "word_run_tokens run \<le> length run"
    using div_ceil_2_3 [of ?n] by (simp add: word_run_tokens_def Let_def)
qed

lemma symbol_run_tokens_bounds:
  "symbol_run_tokens run \<le> length run" "length run \<le> 6 * symbol_run_tokens run"
  using div_ceil_bounds [of 2 "length run"] by (simp_all add: symbol_run_tokens_def)

lemma ascii_len_utf8: "is_ascii b \<Longrightarrow> len_utf8 b = 1"
  by (simp add: is_ascii_def len_utf8_def)

lemma utf8_complete_dropWhile:
  "(\<And>c. P c \<Longrightarrow> is_ascii c) \<Longrightarrow> utf8_complete s \<Longrightarrow> utf8_complete (dropWhile P s)"
  by (induction s) (auto simp: ascii_len_utf8)

lemma ascii_classes:
  "is_ascii_whitespace c \<Longrightarrow> is_ascii c" "is_ascii_alphanumeric c \<Longrightarrow> is_ascii c"
  "is_ascii_symbol c \<Longrightarrow> is_ascii c"
  by (auto simp: is_ascii_whitespace_def is_ascii_def byte_def is_ascii_alphanumeric_def
      is_ascii_alphabetic_def is_ascii_lowercase_def is_ascii_uppercase_def is_ascii_digit_def
      is_ascii_symbol_def less_eq_char_def)

lemma length_takeWhile_dropWhile: "length (takeWhile P s) + length (dropWhile P s) = length s"
  by (metis length_append takeWhile_dropWhile_id)

text \<open>One turn of the loop: the tokens of the run and the bytes after it.\<close>

definition run_step :: "string \<Rightarrow> nat \<Rightarrow> string \<Rightarrow> bool" where
  "run_step s t r \<longleftrightarrow>
     estimate_text_tokens s = t + estimate_text_tokens r \<and> length r < length s \<and>
     length s \<le> 6 * t + length r \<and>
     (utf8_complete s \<longrightarrow> utf8_complete r \<and> t + length r \<le> length s)"

lemma run_step_takeWhile:
  assumes "estimate_text_tokens (b # s) = t + estimate_text_tokens (dropWhile P (b # s))"
    and "P b" and "\<And>c. P c \<Longrightarrow> is_ascii c"
    and "t \<le> length (takeWhile P (b # s))" "length (takeWhile P (b # s)) \<le> 6 * t"
  shows "run_step (b # s) t (dropWhile P (b # s))"
proof -
  let ?r = "dropWhile P (b # s)"
  have len: "length (takeWhile P (b # s)) + length ?r = length (b # s)"
    by (rule length_takeWhile_dropWhile)
  have "length ?r < length (b # s)" using assms(2) by (rule length_dropWhile_less)
  moreover have "length (b # s) \<le> 6 * t + length ?r" using len assms(5) by linarith
  moreover have "t + length ?r \<le> length (b # s)" using len assms(4) by linarith
  moreover have "utf8_complete ?r" if "utf8_complete (b # s)"
    using assms(3) that by (rule utf8_complete_dropWhile)
  ultimately show ?thesis using assms(1) unfolding run_step_def by blast
qed

lemma run_step_exists: "\<exists>t r. run_step (b # s) t r"
proof -
  let ?w = "is_ascii_whitespace" and ?a = "is_ascii_alphanumeric" and ?y = "is_ascii_symbol"
  consider "\<not> is_ascii b" | "is_ascii b" "?w b" | "is_ascii b" "\<not> ?w b" "?a b"
    | "is_ascii b" "\<not> ?w b" "\<not> ?a b" by blast
  then show ?thesis
  proof cases
    case 1
    obtain k where k: "len_utf8 b = Suc k" "k \<le> 3"
      using len_utf8_bounds [of b] by (cases "len_utf8 b") auto
    have "div_ceil (Suc k) 3 \<le> Suc k" "Suc k \<le> 3 * div_ceil (Suc k) 3"
      by (rule div_ceil_bounds; simp)+
    with 1 k show ?thesis
      by (intro exI [of _ "div_ceil (Suc k) 3"] exI [of _ "drop k s"]) (auto simp: run_step_def)
  next
    case 2
    let ?n = "length (takeWhile ?w (b # s))"
    have "div_ceil ?n 4 \<le> ?n" "?n \<le> 4 * div_ceil ?n 4" by (rule div_ceil_bounds; simp)+
    then have "div_ceil ?n 4 \<le> ?n" "?n \<le> 6 * div_ceil ?n 4" by linarith+
    with 2 have "run_step (b # s) (div_ceil ?n 4) (dropWhile ?w (b # s))"
      by (intro run_step_takeWhile) (simp_all add: ascii_classes)
    then show ?thesis by blast
  next
    case 3
    with word_run_tokens_bounds [of "takeWhile ?a (b # s)"]
    have "run_step (b # s) (word_run_tokens (takeWhile ?a (b # s))) (dropWhile ?a (b # s))"
      by (intro run_step_takeWhile) (simp_all add: ascii_classes)
    then show ?thesis by blast
  next
    case 4
    then have "?y b" by (simp add: is_ascii_symbol_intro)
    with 4 symbol_run_tokens_bounds [of "takeWhile ?y (b # s)"]
    have "run_step (b # s) (symbol_run_tokens (takeWhile ?y (b # s))) (dropWhile ?y (b # s))"
      by (intro run_step_takeWhile) (simp_all add: ascii_classes)
    then show ?thesis by blast
  qed
qed

lemma estimate_text_tokens_bounds:
  "length s \<le> 6 * estimate_text_tokens s \<and>
   (utf8_complete s \<longrightarrow> estimate_text_tokens s \<le> length s)"
proof (induction s rule: length_induct)
  case (1 s)
  show ?case
  proof (cases s)
    case Nil
    then show ?thesis by simp
  next
    case (Cons b s')
    then obtain t r where "run_step s t r" using run_step_exists by blast
    with 1 show ?thesis by (fastforce simp: run_step_def)
  qed
qed

section \<open>Reasoning/tool groups\<close>

lemma scan_group_indices:
  "scan_group call_ids nxt es = (grp, nxt', rest) \<Longrightarrow>
     sorted_wrt (<) grp \<and> set grp \<subseteq> {nxt..<nxt'} \<and> nxt \<le> nxt' \<and>
     rest = drop (nxt' - nxt) es \<and>
     (\<forall>i \<in> set grp. \<exists>call_id name outcome.
        es ! (i - nxt) = ToolEntry call_id name outcome \<and> call_id \<in> set call_ids)"
proof (induction call_ids nxt es arbitrary: grp rule: scan_group.induct)
  case (1 call_ids nxt call_id name outcome es)
  obtain grp0 where scan: "scan_group call_ids (Suc nxt) es = (grp0, nxt', rest)"
    and grp: "grp = (if call_id \<in> set call_ids then nxt # grp0 else grp0)"
    using 1(2) by (auto simp: Let_def split: prod.splits)
  from 1(1) [OF scan] have IH: "sorted_wrt (<) grp0" "set grp0 \<subseteq> {Suc nxt..<nxt'}" "Suc nxt \<le> nxt'"
    "rest = drop (nxt' - Suc nxt) es"
    "\<forall>i \<in> set grp0. \<exists>call_id name outcome.
        es ! (i - Suc nxt) = ToolEntry call_id name outcome \<and> call_id \<in> set call_ids"
    by blast+
  have "rest = drop (nxt' - nxt) (ToolEntry call_id name outcome # es)"
    using IH(3,4) by (simp add: Suc_diff_le [symmetric] Suc_le_eq drop_Cons')
  moreover have "(ToolEntry call_id name outcome # es) ! (i - nxt) = es ! (i - Suc nxt)"
    if "i \<in> set grp0" for i
    using IH(2) that by (auto simp: nth_Cons')
  ultimately show ?case using IH grp by (auto split: if_splits)
next
  case (2 call_ids nxt a b c d es)
  from 2 have IH: "sorted_wrt (<) grp" "set grp \<subseteq> {Suc nxt..<nxt'}" "Suc nxt \<le> nxt'"
    "rest = drop (nxt' - Suc nxt) es"
    "\<forall>i \<in> set grp. \<exists>call_id name outcome.
        es ! (i - Suc nxt) = ToolEntry call_id name outcome \<and> call_id \<in> set call_ids"
    by simp_all
  have "rest = drop (nxt' - nxt) (ChildOutcomeEntry a b c d # es)"
    using IH(3,4) by (simp add: Suc_diff_le [symmetric] Suc_le_eq drop_Cons')
  moreover have "(ChildOutcomeEntry a b c d # es) ! (i - nxt) = es ! (i - Suc nxt)"
    if "i \<in> set grp" for i
    using IH(2) that by (auto simp: nth_Cons')
  ultimately show ?case using IH by auto
qed auto

text \<open>What a group is: one entry that is not a tool result, then results of its own calls.\<close>

fun group_shape :: "canonical_transcript \<Rightarrow> nat list \<Rightarrow> bool" where
  "group_shape es [] = False"
| "group_shape es (i # js) =
     (case es ! i of
        AssistantEntry content reasoning tool_calls \<Rightarrow>
          list_all (\<lambda>j. case es ! j of
            ToolEntry call_id name outcome \<Rightarrow> call_id \<in> tcall_id ` set tool_calls
          | _ \<Rightarrow> False) js
      | UserEntry content \<Rightarrow> js = []
      | ChildOutcomeEntry a b c d \<Rightarrow> js = []
      | _ \<Rightarrow> False)"

lemma history_groups_laws:
  assumes "drop cursor es = rest" "cursor \<le> length es"
  shows "sorted_wrt (<) (concat (history_groups cursor rest)) \<and>
     set (concat (history_groups cursor rest)) \<subseteq> {cursor..<length es} \<and>
     list_all (group_shape es) (history_groups cursor rest)"
  using assms
proof (induction cursor rest rule: history_groups.induct)
  case (1 cursor)
  then show ?case by simp
next
  case (2 cursor p rest)
  then have "drop (Suc cursor) es = rest" by (metis drop_Suc list.sel(3) tl_drop)
  moreover have "Suc cursor \<le> length es" using 2(2) by (metis drop_all list.distinct(1) not_less_eq_eq)
  ultimately show ?case using 2(1) by fastforce
next
  case (3 cursor content reasoning tool_calls rest)
  then have nth: "es ! cursor = AssistantEntry content reasoning tool_calls" and len: "cursor < length es"
    by (metis hd_drop_conv_nth list.sel(1) drop_all list.distinct(1) not_le)+
  have tl: "drop (Suc cursor) es = rest" using 3(3) by (metis drop_Suc list.sel(3) tl_drop)
  show ?case
  proof (cases "tool_calls = []")
    case True
    with 3(1) [OF True tl] nth len show ?thesis by fastforce
  next
    case False
    obtain grp nxt rest' where scan:
      "scan_group (map tcall_id tool_calls) (Suc cursor) rest = (grp, nxt, rest')"
      by (metis prod_cases3)
    note laws = scan_group_indices [OF scan]
    have nxt: "nxt \<le> length es"
      using scan_group_length [OF scan] tl len by (metis length_drop add_diff_inverse_nat le_add1 less_or_eq_imp_le not_less_eq trans_le_add1)
    have "drop nxt es = rest'" using laws tl by (metis drop_drop le_add_diff_inverse2)
    then have IH: "sorted_wrt (<) (concat (history_groups nxt rest'))"
      "set (concat (history_groups nxt rest')) \<subseteq> {nxt..<length es}"
      "list_all (group_shape es) (history_groups nxt rest')"
      using 3(2) [OF False refl] scan nxt by auto
    have entry: "rest ! (i - Suc cursor) = es ! i" if "i \<in> set grp" for i
      using laws that tl by (metis atLeastLessThan_iff le_add_diff_inverse nth_drop subsetD len Suc_leI)
    have shape: "group_shape es (cursor # grp)"
      using laws nth entry by (fastforce simp: list_all_iff)
    have "sorted_wrt (<) ((cursor # grp) @ concat (history_groups nxt rest'))"
      using laws IH(1,2) by (fastforce simp: sorted_wrt_append)
    moreover have "set ((cursor # grp) @ concat (history_groups nxt rest')) \<subseteq> {cursor..<length es}"
      using laws IH(2) nxt len by fastforce
    ultimately show ?thesis using False scan shape IH(3) by simp
  qed
next
  case (4 cursor call_id name outcome rest)
  then have "drop (Suc cursor) es = rest" by (metis drop_Suc list.sel(3) tl_drop)
  moreover have "Suc cursor \<le> length es" using 4(2) by (metis drop_all list.distinct(1) not_less_eq_eq)
  ultimately show ?case using 4(1) by fastforce
next
  case (5 cursor content rest)
  then have nth: "es ! cursor = UserEntry content" and len: "cursor < length es"
    by (metis hd_drop_conv_nth list.sel(1) drop_all list.distinct(1) not_le)+
  have tl: "drop (Suc cursor) es = rest" using 5(2) by (metis drop_Suc list.sel(3) tl_drop)
  from 5(1) [OF tl] nth len show ?case by fastforce
next
  case (6 cursor a b c d rest)
  then have nth: "es ! cursor = ChildOutcomeEntry a b c d" and len: "cursor < length es"
    by (metis hd_drop_conv_nth list.sel(1) drop_all list.distinct(1) not_le)+
  have tl: "drop (Suc cursor) es = rest" using 6(2) by (metis drop_Suc list.sel(3) tl_drop)
  from 6(1) [OF tl] nth len show ?case by fastforce
qed

lemma group_shape_projects:
  "group_shape es g \<Longrightarrow> i \<in> set g \<Longrightarrow> project_entry (es ! i) \<noteq> None"
  by (cases g; cases "es ! i")
     (auto simp: list_all_iff split: transcript_entry.splits)

lemma atomic_history_groups_laws:
  "sorted_wrt (<) (concat (atomic_history_groups es))"
  "set (concat (atomic_history_groups es)) \<subseteq> {..<length es}"
  "g \<in> set (atomic_history_groups es) \<Longrightarrow> group_shape es g"
  using history_groups_laws [of 0 es es] unfolding atomic_history_groups_def
  by (auto simp: list_all_iff)

lemma sorted_concat_disjoint:
  "sorted_wrt (<) (concat gs) \<Longrightarrow> g \<in> set gs \<Longrightarrow> h \<in> set gs \<Longrightarrow>
     set g \<inter> set h \<noteq> {} \<Longrightarrow> g = h" for gs :: "'a::order list list"
proof (induction gs)
  case Nil
  then show ?case by simp
next
  case (Cons x gs)
  have apart: "a < b" if "a \<in> set x" "k \<in> set gs" "b \<in> set k" for a b k
    using Cons.prems(1) that by (auto simp: sorted_wrt_append)
  have "set x \<inter> set k = {}" if "k \<in> set gs" for k
    using apart [OF _ that] by fastforce
  with Cons show ?case by (auto simp: sorted_wrt_append)
qed

section \<open>Expansion of a selection\<close>

definition closed_under :: "nat list list \<Rightarrow> nat set \<Rightarrow> bool" where
  "closed_under groups S \<longleftrightarrow> (\<forall>g \<in> set groups. set g \<subseteq> S \<or> set g \<inter> S = {})"

lemma foldl_expand_group_fixed:
  "fst (foldl expand_group s groups) = fst s \<Longrightarrow> closed_under groups (fst s)"
proof (induction groups arbitrary: s)
  case Nil
  then show ?case by (simp add: closed_under_def)
next
  case (Cons g groups)
  have "fst s \<subseteq> fst (expand_group s g)" by (auto simp: expand_group_eq)
  moreover have "fst (expand_group s g) \<subseteq> fst (foldl expand_group s (g # groups))"
    using foldl_expand_group [of "expand_group s g" groups] by simp
  ultimately have same: "fst (expand_group s g) = fst s" using Cons.prems by auto
  with Cons.IH [of "expand_group s g"] Cons.prems have "closed_under groups (fst s)" by simp
  moreover have "set g \<subseteq> fst s \<or> set g \<inter> fst s = {}"
    using same by (auto simp: expand_group_eq split: if_splits)
  ultimately show ?case by (simp add: closed_under_def)
qed

lemma foldl_expand_group_least:
  "fst s \<subseteq> S \<Longrightarrow> closed_under groups S \<Longrightarrow> fst (foldl expand_group s groups) \<subseteq> S"
proof (induction groups arbitrary: s)
  case Nil
  then show ?case by simp
next
  case (Cons g groups)
  have "fst (expand_group s g) \<subseteq> S"
    using Cons.prems by (auto simp: expand_group_eq closed_under_def)
  with Cons.IH [of "expand_group s g"] Cons.prems(2) show ?case by (simp add: closed_under_def)
qed

lemma expand_selected_groups_laws:
  "sel \<subseteq> expand_selected_groups sel groups \<and>
   closed_under groups (expand_selected_groups sel groups) \<and>
   (\<forall>S. sel \<subseteq> S \<longrightarrow> closed_under groups S \<longrightarrow> expand_selected_groups sel groups \<subseteq> S)"
proof (induction sel groups rule: expand_selected_groups.induct)
  case (1 sel groups)
  obtain sel' changed where pass: "expand_pass groups sel = (sel', changed)" by (cases "expand_pass groups sel")
  have grows: "sel \<subseteq> sel'" "changed \<longleftrightarrow> sel' \<noteq> sel"
    using expand_pass_grows [where selected = sel and groups = groups] pass by simp_all
  have least: "sel' \<subseteq> S" if "sel \<subseteq> S" "closed_under groups S" for S
    using foldl_expand_group_least [of "(sel, False)" S groups] that pass by (simp add: expand_pass_def)
  show ?case
  proof (cases changed)
    case True
    with pass have "expand_selected_groups sel groups = expand_selected_groups sel' groups"
      by (simp add: expand_selected_groups.simps [of sel])
    with 1 [OF pass [symmetric] refl True] grows least show ?thesis by (metis subset_trans)
  next
    case False
    with pass grows have "expand_selected_groups sel groups = sel"
      by (simp add: expand_selected_groups.simps [of sel])
    moreover have "closed_under groups sel"
      using foldl_expand_group_fixed [of "(sel, False)" groups] pass False grows
      by (simp add: expand_pass_def)
    ultimately show ?thesis by simp
  qed
qed

section \<open>Projections are accepted again\<close>

lemma unat_u64_of_usize [simp]: "n < 2 ^ 64 \<Longrightarrow> unat (u64_of_usize n) = n"
  by (simp add: u64_of_usize_def unsigned_of_nat take_bit_nat_eq_self)

lemma u64_of_usize_less: "m < n \<Longrightarrow> n < 2 ^ 64 \<Longrightarrow> u64_of_usize m < u64_of_usize n"
  using unat_u64_of_usize [of m] unat_u64_of_usize [of n] by (simp add: word_less_nat_alt)

definition projected :: "canonical_transcript \<Rightarrow> nat \<Rightarrow> bool" where
  "projected es i \<longleftrightarrow> project_entry (es ! i) \<noteq> None"

lemma project_indices_eq:
  "project_indices es c is =
     map (\<lambda>i. (let m = the (project_entry (es ! i)) in if c then compact_tool_result m else m, i))
       (filter (projected es) is)"
  by (induction "is")
     (auto simp: project_indices_def projected_def map_filter_def Let_def split: option.splits)

definition projected_list :: "canonical_transcript \<Rightarrow> nat set \<Rightarrow> nat list" where
  "projected_list es sel =
     filter (projected es) (filter (\<lambda>i. i < length es) (sorted_list_of_set sel))"

lemma projected_list_laws:
  assumes "finite sel"
  shows "sorted_wrt (<) (projected_list es sel)"
    and "set (projected_list es sel) = {i \<in> sel. i < length es \<and> projected es i}"
    and "projected_list es (set (projected_list es sel)) = projected_list es sel"
proof -
  let ?l = "projected_list es sel"
  show sorted: "sorted_wrt (<) ?l"
    unfolding projected_list_def
    by (intro sorted_wrt_filter) (rule strict_sorted_list_of_set)
  show set: "set ?l = {i \<in> sel. i < length es \<and> projected es i}"
    using assms by (auto simp: projected_list_def)
  have "sorted_list_of_set (set ?l) = ?l"
    using sorted by (simp add: sorted_list_of_set.idem_if_sorted_distinct strict_sorted_iff)
  then have "projected_list es (set ?l) = filter (projected es) (filter (\<lambda>i. i < length es) ?l)"
    by (simp only: projected_list_def [of es "set ?l"])
  also have "\<dots> = ?l" using set by (simp add: filter_id_conv)
  finally show "projected_list es (set ?l) = ?l" .
qed

lemma project_selected_eq:
  "project_selected es sel (length es) True =
     (map (\<lambda>i. compact_tool_result (the (project_entry (es ! i)))) (projected_list es sel),
      map u64_of_usize (projected_list es sel))"
  by (simp add: project_selected_def project_indices_eq projected_list_def Let_def comp_def)

lemma any_pair_map_less:
  "sorted_wrt (\<lambda>a b. f a < f b) xs \<Longrightarrow> \<not> any_pair (\<lambda>a b. \<not> a < b) (map f xs)"
proof (induction xs)
  case Nil
  then show ?case by simp
next
  case (Cons x xs)
  then show ?case by (cases xs) auto
qed

lemma projected_history_accepts:
  assumes "finite sel" "length es < 2 ^ 64"
  shows "projected_history es (projection_from_indices source es sel) =
     Inr (fst (project_selected es sel (length es) True), snd (project_selected es sel (length es) True))"
proof -
  let ?l = "projected_list es sel"
  note laws = projected_list_laws [OF assms(1), of es]
  have bound: "i < length es" if "i \<in> set ?l" for i using laws(2) that by simp
  have unat: "map (unat \<circ> u64_of_usize) ?l = ?l"
    using bound assms(2) by (intro map_idI) (simp add: less_trans [of _ "length es"])
  have "sorted_wrt (\<lambda>a b. u64_of_usize a < u64_of_usize b) ?l"
    using laws(1) by (rule sorted_wrt_mono_rel [rotated])
      (use bound assms(2) in \<open>meson u64_of_usize_less less_trans\<close>)
  then have "\<not> any_pair (\<lambda>a b. \<not> a < b) (map u64_of_usize ?l)" by (rule any_pair_map_less)
  moreover have "\<not> list_ex (\<lambda>index. index \<ge> u64_of_usize (length es)) (map u64_of_usize ?l)"
    using bound assms(2) by (auto simp: list_ex_iff not_le intro: u64_of_usize_less)
  moreover have "set (map unat (map u64_of_usize ?l)) = set ?l"
    using unat by (metis list.map_comp)
  ultimately show ?thesis
    using assms(2) laws(3)
    by (simp add: projected_history_def projection_from_indices_def project_selected_eq Let_def
        project_range_def project_indices_eq del: set_map)
qed

section \<open>Mandatory entries\<close>

lemma last_position_SomeD: "last_position P xs = Some i \<Longrightarrow> i < length xs \<and> P (xs ! i)"
  by (auto simp: last_position_def in_set_enumerate_eq dest!: find_SomeD)

lemma positions_fromD: "i \<in> set (positions_from P start xs) \<Longrightarrow> i < length xs \<and> P (xs ! i)"
  by (auto simp: positions_from_def in_set_enumerate_eq dest!: in_set_dropD)

lemma mandatory_projected:
  assumes "i \<in> mandatory_entry_indices input"
  shows "i < length (ci_transcript input) \<and> projected (ci_transcript input) i"
proof -
  let ?es = "ci_transcript input"
  have task: "i < length ?es \<and> projected ?es i" if "task_entry_index input = Some i"
    using that by (auto simp: task_entry_index_def projected_def split: option.splits
        dest: last_position_SomeD)
  have user: "projected ?es j" if "is_user_or_child_entry (?es ! j)" for j
    using that by (cases "?es ! j") (auto simp: projected_def)
  have mutation: "projected ?es j" if "is_mutation_entry (?es ! j)" for j
    using that by (cases "?es ! j") (auto simp: projected_def)
  have tool: "projected ?es j" if "is_tool_entry_named name (?es ! j)" for j name
    using that by (cases "?es ! j") (auto simp: projected_def)
  from assms show ?thesis
    unfolding mandatory_entry_indices_def Let_def
    by (auto dest!: positions_fromD last_position_SomeD dest: task user mutation tool
        split: option.splits if_splits)
qed

lemma finite_mandatory: "finite (mandatory_entry_indices input)"
  by (rule finite_subset [of _ "{..<length (ci_transcript input)}"])
     (auto dest: mandatory_projected)

section \<open>Compaction\<close>

lemma estimate_projection_tokens_ok:
  assumes "finite sel" "length (ci_transcript input) < 2 ^ 64"
  shows "\<exists>t. estimate_projection_tokens cx input
    (projection_from_indices effective (ci_transcript input) sel) = Inr t"
  using projected_history_accepts [OF assms, of effective]
  by (simp add: estimate_projection_tokens_def effective_context_def Let_def case_prod_beta)

lemma closed_under_add_group:
  assumes "closed_under groups S" "g \<in> set groups" "sorted_wrt (<) (concat groups)"
  shows "closed_under groups (S \<union> set g)"
  using assms sorted_concat_disjoint [OF assms(3,2)] unfolding closed_under_def by blast

text \<open>The state of the selection loop: what it holds at every group.\<close>

definition selection_ok ::
  "'x context_codec_scheme \<Rightarrow> context_input \<Rightarrow> effective_context \<Rightarrow> u64 \<Rightarrow>
     nat set \<times> context_projection \<times> u64 \<Rightarrow> bool" where
  "selection_ok cx input effective target s \<longleftrightarrow>
     (case s of (selected, candidate, tokens) \<Rightarrow>
        finite selected \<and> mandatory_entry_indices input \<subseteq> selected \<and>
        closed_under (atomic_history_groups (ci_transcript input)) selected \<and>
        candidate = projection_from_indices effective (ci_transcript input) selected \<and>
        estimate_projection_tokens cx input candidate = Inr tokens \<and> tokens \<le> target)"

lemma select_groups_ok:
  assumes "selection_ok cx input effective target s" "length (ci_transcript input) < 2 ^ 64"
    and "set gs \<subseteq> set (atomic_history_groups (ci_transcript input))"
  shows "\<exists>s'. select_groups cx input effective target gs s = Inr s' \<and>
    selection_ok cx input effective target s'"
  using assms
proof (induction gs arbitrary: s)
  case Nil
  then show ?case by (cases s) simp
next
  case (Cons g gs)
  obtain sel cand tok where s: "s = (sel, cand, tok)" by (cases s)
  let ?es = "ci_transcript input"
  let ?trial = "projection_from_indices effective ?es (sel \<union> set g)"
  from Cons.prems s have fin: "finite (sel \<union> set g)" by (simp add: selection_ok_def)
  obtain t where t: "estimate_projection_tokens cx input ?trial = Inr t"
    using estimate_projection_tokens_ok [OF fin Cons.prems(2)] by blast
  let ?s' = "if t \<le> target then (sel \<union> set g, ?trial, t) else (sel, cand, tok)"
  have "selection_ok cx input effective target ?s'"
    using Cons.prems(1,3) s t
      closed_under_add_group [OF _ _ atomic_history_groups_laws(1) [of ?es], of sel g]
    by (auto simp: selection_ok_def)
  then show ?case
    using Cons s t by (simp add: Let_def)
qed

lemma selected_indices:
  assumes "finite sel" "length es < 2 ^ 64"
  shows "set (map unat (pj_selected_entry_indices (projection_from_indices effective es sel))) =
    {i \<in> sel. i < length es \<and> projected es i}"
proof -
  have "\<forall>i \<in> set (projected_list es sel). unat (u64_of_usize i) = i"
    using projected_list_laws(2) [OF assms(1), of es] assms(2) by auto
  then show ?thesis
    using projected_list_laws(2) [OF assms(1), of es]
    by (auto simp: projection_from_indices_def project_selected_eq Let_def image_iff)
qed

lemma finite_initial_selection:
  "finite (expand_selected_groups (mandatory_entry_indices input)
             (atomic_history_groups (ci_transcript input)))"
proof -
  let ?gs = "atomic_history_groups (ci_transcript input)"
  let ?bound = "mandatory_entry_indices input \<union> set (concat ?gs)"
  have "closed_under ?gs ?bound" by (auto simp: closed_under_def)
  with expand_selected_groups_laws [of "mandatory_entry_indices input" ?gs]
  have "expand_selected_groups (mandatory_entry_indices input) ?gs \<subseteq> ?bound" by blast
  then show ?thesis by (rule finite_subset) (simp add: finite_mandatory)
qed

text \<open>The selection the compactor starts from.\<close>

lemma initial_selection_ok:
  assumes "sel = expand_selected_groups (mandatory_entry_indices input)
                   (atomic_history_groups (ci_transcript input))"
    and "estimate_projection_tokens cx input
           (projection_from_indices effective (ci_transcript input) sel) = Inr t" "t \<le> target"
  shows "selection_ok cx input effective target
    (sel, projection_from_indices effective (ci_transcript input) sel, t)"
  using expand_selected_groups_laws [of "mandatory_entry_indices input"] finite_initial_selection assms
  by (simp add: selection_ok_def)

text \<open>The two ways \<open>prepare_compaction\<close> goes on once the context is over the limit.\<close>

lemma prepare_compaction_cases:
  assumes "length (ci_transcript input) < 2 ^ 64" "cp_hard_input_tokens policy \<noteq> 0"
    and "effective_context cx input = Inr effective"
    and "ucast (cp_hard_input_tokens policy) < ec_estimated_tokens effective"
  shows "(\<exists>t. prepare_compaction cx input policy =
             Inr (LimitExceeded t (ucast (cp_hard_input_tokens policy)))) \<or>
    (\<exists>target sel candidate t.
       selection_ok cx input effective target (sel, candidate, t) \<and>
       target \<le> ucast (cp_hard_input_tokens policy) \<and> t < ec_estimated_tokens effective \<and>
       prepare_compaction cx input policy = Inr (Local candidate (ec_estimated_tokens effective) t))"
proof -
  define hard :: u64 where "hard = ucast (cp_hard_input_tokens policy)"
  define est where "est = ec_estimated_tokens effective"
  define groups where "groups = atomic_history_groups (ci_transcript input)"
  define sel where "sel = expand_selected_groups (mandatory_entry_indices input) groups"
  define cand where "cand = projection_from_indices effective (ci_transcript input) sel"
  have over: "\<not> est \<le> hard" using assms(4) by (simp add: est_def hard_def)
  have "finite sel" by (simp add: sel_def groups_def finite_initial_selection)
  from estimate_projection_tokens_ok [OF this assms(1)]
  obtain t where t: "estimate_projection_tokens cx input cand = Inr t"
    unfolding cand_def by blast
  define target where
    "target = max (min hard (sat_mul est LIMIT_TARGET_NUMERATOR div LIMIT_TARGET_DENOMINATOR)) t"
  have unfold: "prepare_compaction cx input policy =
    (if t > hard then Inr (LimitExceeded t hard)
     else rbind (select_groups cx input effective target (rev groups) (sel, cand, t))
            (\<lambda>(sel, cand, t). if t \<ge> est then Inr (LimitExceeded est hard)
                             else Inr (Local cand est t)))"
    using assms(2,3) over t
    by (simp add: prepare_compaction_def validate_policy_def Let_def hard_def [symmetric]
        est_def [symmetric] groups_def [symmetric] sel_def [symmetric] cand_def [symmetric]
        target_def [symmetric])
  show ?thesis
  proof (cases "t > hard")
    case True
    with unfold show ?thesis by (simp add: hard_def)
  next
    case False
    have "selection_ok cx input effective target (sel, cand, t)"
      unfolding cand_def by (rule initial_selection_ok)
        (use t in \<open>simp_all add: sel_def groups_def cand_def target_def\<close>)
    from select_groups_ok [OF this assms(1), of "rev groups"]
    obtain sel' cand' t' where loop:
      "select_groups cx input effective target (rev groups) (sel, cand, t) = Inr (sel', cand', t')"
      "selection_ok cx input effective target (sel', cand', t')"
      by (auto simp: groups_def)
    have "target \<le> hard" using False by (simp add: target_def)
    with loop False unfold show ?thesis
      by (cases "t' \<ge> est") (auto simp: hard_def est_def)
  qed
qed

section \<open>Sample context\<close>

text \<open>
  A run over its limit: the old answer is dropped and the task stays. The codec renders every
  external text as a constant.
\<close>

definition ex_context_codec :: context_codec where
  "ex_context_codec =
     \<lparr>cx_sha256_hex = (\<lambda>_. ''00''), cx_json_text = (\<lambda>_. ''{}''), cx_encode_payload = (\<lambda>_. JNull),
      cx_decode_payload = (\<lambda>_. Inl ''no payload''), cx_receipt_text = (\<lambda>_. ''{}''),
      cx_rejection_text = (\<lambda>_. ''{}''), cx_outcome_text = (\<lambda>_. ''{}''),
      cx_workspace_text = (\<lambda>_. ''{}''), cx_projection_text = (\<lambda>_. ''[]'')\<rparr>"

definition ex_context_input :: context_input where
  "ex_context_input =
     \<lparr>ci_transcript =
        [AssistantEntry (Some (concat (replicate 20 ''+-''))) None [], UserEntry ''Fix it''],
      ci_projection = None, ci_task_contract = None,
      ci_workspace_state = ex_workspace 1 ''r1'', ci_evidence_receipts = [],
      ci_last_completion_rejection = None, ci_last_verifier_failure = None,
      ci_last_verifier_failure_workspace = None, ci_tools = []\<rparr>"

definition ex_context_policy :: context_policy where
  "ex_context_policy = \<lparr>cp_hard_input_tokens = 150\<rparr>"

definition ex_planned_projection :: context_projection where
  "ex_planned_projection =
     \<lparr>pj_source_entry_count = 2, pj_source_projection_sha256 = ''sha256:00'',
      pj_selected_entry_indices = [1], pj_messages = [UserMessage ''Fix it'']\<rparr>"

lemma ex_context_length: "length (ci_transcript ex_context_input) < 2 ^ 64"
  by (simp add: ex_context_input_def)

lemma ex_prepare_compaction:
  "prepare_compaction ex_context_codec ex_context_input ex_context_policy =
     Inr (Local ex_planned_projection 184 132)"
  by code_simp

lemma ex_effective_context:
  "\<exists>e. effective_context ex_context_codec ex_context_input = Inr e"
  by (simp add: effective_context_def ex_context_input_def Let_def case_prod_beta)

section \<open>Properties\<close>

text \<open>
  C33. The token estimate of a text is conservative and bounded: it is never below a sixth of the
  number of bytes, and for UTF-8 text never above the number of bytes. The scanning loop ends on
  every input, being total by construction.
\<close>

theorem estimate_text_tokens_between:
  assumes "utf8_complete s"
  shows "length s \<le> 6 * estimate_text_tokens s \<and> estimate_text_tokens s \<le> length s"
  using estimate_text_tokens_bounds [of s] assms by blast

lemma estimate_text_tokens_between_witness:
  "estimate_text_tokens ''let x1 = 42;'' = 8 \<and>
   length ''let x1 = 42;'' \<le> 6 * estimate_text_tokens ''let x1 = 42;'' \<and>
   estimate_text_tokens ''let x1 = 42;'' \<le> length ''let x1 = 42;''"
proof -
  have valid: "utf8_complete ''let x1 = 42;''" by code_simp
  have "estimate_text_tokens ''let x1 = 42;'' = 8" by code_simp
  with estimate_text_tokens_between [OF valid] show ?thesis by blast
qed

text \<open>
  The reasoning/tool groups of a transcript are pairwise disjoint, in transcript order and
  inside it; each is one user, child-outcome or assistant entry, followed only by the results of
  that assistant's own calls.
\<close>

theorem atomic_history_groups_ordered:
  "sorted_wrt (<) (concat (atomic_history_groups es)) \<and>
   set (concat (atomic_history_groups es)) \<subseteq> {..<length es} \<and>
   list_all (group_shape es) (atomic_history_groups es)"
  using atomic_history_groups_laws by (auto simp: list_all_iff)

text \<open>
  C32. The expansion loop ends and computes the least selection that contains the given one and
  never splits a group.
\<close>

theorem expand_selected_groups_least:
  "expand_selected_groups sel groups = \<Inter> {S. sel \<subseteq> S \<and> closed_under groups S} \<and>
   closed_under groups (expand_selected_groups sel groups)"
  using expand_selected_groups_laws [of sel groups] by blast

text \<open>
  C30. A compaction plan is sound. When the compactor plans a local compaction, the context was
  over the hard limit, the compacted context is strictly smaller and within the limit, rebuilding
  the context from the planned projection succeeds with exactly the announced estimate, every
  mandatory entry is kept, and every reasoning/tool group is kept whole or dropped whole.
\<close>

theorem prepare_compaction_local_sound:
  assumes "length (ci_transcript input) < 2 ^ 64"
    and "prepare_compaction cx input policy = Inr (Local projection before after)"
  shows "unat after < unat before \<and> unat after \<le> unat (cp_hard_input_tokens policy) \<and>
    unat (cp_hard_input_tokens policy) < unat before \<and>
    estimate_projection_tokens cx input projection = Inr after \<and>
    mandatory_entry_indices input \<subseteq> set (map unat (pj_selected_entry_indices projection)) \<and>
    closed_under (atomic_history_groups (ci_transcript input))
      (set (map unat (pj_selected_entry_indices projection)))"
proof -
  let ?es = "ci_transcript input"
  let ?hard = "ucast (cp_hard_input_tokens policy) :: u64"
  from assms(2) obtain effective where eff: "cp_hard_input_tokens policy \<noteq> 0"
    "effective_context cx input = Inr effective" "\<not> ec_estimated_tokens effective \<le> ?hard"
    by (auto simp: prepare_compaction_def validate_policy_def Let_def result_simps split: if_splits)
  from prepare_compaction_cases [OF assms(1) eff(1,2)] eff(3) [unfolded not_le] assms(2)
  obtain target sel where sel: "selection_ok cx input effective target (sel, projection, after)"
    "target \<le> ?hard" "after < ec_estimated_tokens effective" "before = ec_estimated_tokens effective"
    by auto
  have fin: "finite sel" and mand: "mandatory_entry_indices input \<subseteq> sel"
    and closed: "closed_under (atomic_history_groups ?es) sel"
    and proj: "projection = projection_from_indices effective ?es sel"
    and est: "estimate_projection_tokens cx input projection = Inr after" "after \<le> target"
    using sel(1) unfolding selection_ok_def prod.case by blast+
  note idx = selected_indices [OF fin assms(1), of effective, folded proj]
  have "mandatory_entry_indices input \<subseteq> set (map unat (pj_selected_entry_indices projection))"
    unfolding idx using mand mandatory_projected by auto
  moreover have "i < length ?es \<and> projected ?es i" if "g \<in> set (atomic_history_groups ?es)" "i \<in> set g" for g i
    using atomic_history_groups_laws(2,3) [where es = ?es] group_shape_projects that
    by (force simp: projected_def)
  then have "closed_under (atomic_history_groups ?es) (set (map unat (pj_selected_entry_indices projection)))"
    unfolding idx using closed by (fastforce simp: closed_under_def)
  moreover have "unat ?hard = unat (cp_hard_input_tokens policy)" by simp
  ultimately show ?thesis
    using est sel(2-4) eff(3) by (auto simp: word_le_nat_alt word_less_nat_alt not_le)
qed

lemma prepare_compaction_local_sound_witness:
  "estimate_projection_tokens ex_context_codec ex_context_input ex_planned_projection = Inr 132 \<and>
   mandatory_entry_indices ex_context_input \<subseteq> {1}"
  using prepare_compaction_local_sound [OF ex_context_length ex_prepare_compaction]
  by (simp add: ex_planned_projection_def)

text \<open>
  C31. Planning a compaction never fails on a usable input: whenever the limit is positive and
  the current context can be built, the planner returns a decision, and that decision is
  \<open>NotNeeded\<close> exactly when the context already fits.
\<close>

theorem prepare_compaction_total:
  assumes "length (ci_transcript input) < 2 ^ 64"
    and "cp_hard_input_tokens policy \<noteq> 0" and "effective_context cx input = Inr effective"
  shows "\<exists>r. prepare_compaction cx input policy = Inr r \<and>
    ((\<exists>t. r = NotNeeded t) \<longleftrightarrow> unat (ec_estimated_tokens effective) \<le> unat (cp_hard_input_tokens policy))"
proof -
  let ?hard = "ucast (cp_hard_input_tokens policy) :: u64"
  have hard: "unat ?hard = unat (cp_hard_input_tokens policy)" by simp
  show ?thesis
  proof (cases "ec_estimated_tokens effective \<le> ?hard")
    case True
    with assms hard show ?thesis
      by (auto simp: prepare_compaction_def validate_policy_def word_le_nat_alt)
  next
    case False
    with prepare_compaction_cases [OF assms] hard show ?thesis
      by (auto simp: word_le_nat_alt word_less_nat_alt)
  qed
qed

lemma prepare_compaction_total_witness:
  "\<exists>r. prepare_compaction ex_context_codec ex_context_input ex_context_policy = Inr r"
proof -
  obtain e where e: "effective_context ex_context_codec ex_context_input = Inr e"
    using ex_effective_context by blast
  have "cp_hard_input_tokens ex_context_policy \<noteq> 0" by (simp add: ex_context_policy_def)
  from prepare_compaction_total [OF ex_context_length this e] show ?thesis by blast
qed

end
