(* ===== verification/Snapshot.thy ===== *)
theory Snapshot
  imports Context
begin

text \<open>
  The durable view of one run (crates/runtime/src/store.rs): the pending actions, the child and
  writer lifecycles, the snapshot itself, the errors of the store, and the checks and
  derivations the reducer shares between events. \<open>resolve_tool_execution\<close> and the retry backoff
  come from crates/runtime/src/lib.rs.
\<close>

section \<open>Store errors\<close>

datatype continuation_error =
    SourceNotTerminal | SourceIsChild | ContinuationRecoveryRequired | NewRunIsNotRoot
  | WorkspaceMismatch | TranscriptMismatch | ContextProjectionMismatch | InheritedFactsMismatch
  | LineageCorrupt

text \<open>
  The constructors of \<^verbatim>\<open>RunStoreError\<close>, and \<open>Panicked\<close>, which is not one of them: it
  stands for an \<open>expect\<close> of the source that fails.
\<close>

datatype run_store_error =
    AlreadyExists string
  | NotFound string
  | AlreadyRunning string
  | AlreadyTerminal string
  | InvalidContinuation string continuation_error
  | StaleLease string u64
  | EventConflict string string
  | CreationConflict string
  | Corrupt string string
  | UnsupportedSchema u32 u32 u32
  | Backend string
  | Panicked string

definition corrupt :: "string \<Rightarrow> string \<Rightarrow> run_store_error" where
  "corrupt run_id message = Corrupt run_id message"

section \<open>Pending actions\<close>

datatype durable_action_state = ActionPrepared | ActionInFlight

record prepared_model_retry_schedule =
  rs_decision_unix_ms :: u64
  rs_backoff_ms :: u64
  rs_not_before_unix_ms :: u64
  rs_max_retries :: u32

record pending_model_action =
  pm_attempt_id :: string
  pm_request :: model_request
  pm_primary_failure :: "model_attempt_failure option"
  pm_retry_schedule :: "prepared_model_retry_schedule option"
  pm_state :: durable_action_state

record stopped_model_failure =
  sf_failure :: model_attempt_failure
  sf_reason :: model_retry_stop_reason

record committed_context_compaction =
  ccc_source_projection_sha256 :: string
  ccc_before_tokens :: u64
  ccc_after_tokens :: u64
  ccc_sequence :: u64

record pending_user_interaction =
  pui_request :: user_interaction_request
  pui_response :: "user_interaction_response option"

record pending_tool_action =
  pt_operation_id :: string
  pt_invocation :: tool_invocation
  pt_workspace_access :: workspace_access
  pt_authorization :: "tool_authorization_decision option"
  pt_state :: durable_action_state
  pt_interaction :: "pending_user_interaction option"

record pending_host_verification =
  phv_verification_id :: string
  phv_candidate :: completion_candidate
  phv_acceptance_id :: string
  phv_verifier :: verifier_spec
  phv_workspace_state_before :: workspace_state
  phv_state :: durable_action_state

record pending_steer =
  ps_command_id :: string
  ps_content :: string

record pending_control =
  pc_command_id :: string
  pc_action :: durable_control_action

datatype durable_command =
    CommandSteer string
  | CommandStop durable_control_action
  | CommandResolveInteraction string user_interaction_response
  | CommandAcceptCompletion host_completion_acceptance

record command_receipt =
  crc_command_id :: string
  crc_sequence :: u64
  crc_command :: durable_command

section \<open>Child and writer lifecycles\<close>

record agent_workspace_created_fact =
  wcf_assignment :: agent_workspace_assignment
  wcf_writer_workspace_state :: workspace_state

record agent_child_started_fact =
  csf_call_id :: string
  csf_child_run_id :: string
  csf_depth :: u8

record agent_seal_committed_fact =
  scf_final_commit :: string
  scf_diff_sha256 :: string
  scf_changed_files :: "string list"
  scf_writer_workspace_state_after :: workspace_state

record agent_seal_lifecycle =
  sl_base_commit :: string
  sl_writer_workspace_state_before :: workspace_state
  sl_committed :: "agent_seal_committed_fact option"

record agent_integration_committed_fact =
  icf_root_head_commit :: string
  icf_root_workspace_state_after :: workspace_state

record agent_integration_failure_fact =
  iff_status :: writer_integration_status
  iff_root_workspace_state :: workspace_state

record agent_integration_lifecycle =
  il_integration_id :: string
  il_base_commit :: string
  il_writer_commit :: string
  il_diff_sha256 :: string
  il_expected_root_workspace_state :: workspace_state
  il_started :: bool
  il_committed :: "agent_integration_committed_fact option"
  il_failure :: "agent_integration_failure_fact option"

record agent_cleanup_lifecycle =
  cl_plan :: writer_cleanup_plan
  cl_committed :: "writer_cleanup_result option"

record agent_child_finished_fact =
  cff_call_id :: string
  cff_outcome :: agent_outcome
  cff_accounting :: model_accounting
  cff_handoff_content :: string

record agent_task_lifecycle =
  lc_task :: agent_task
  lc_workspace_created :: "agent_workspace_created_fact option"
  lc_child_started :: "agent_child_started_fact option"
  lc_seal :: "agent_seal_lifecycle option"
  lc_result :: "agent_outcome option"
  lc_integration :: "agent_integration_lifecycle option"
  lc_cleanup :: "agent_cleanup_lifecycle option"
  lc_finished :: "agent_child_finished_fact option"

fun is_completed :: "terminal_state \<Rightarrow> bool" where
  "is_completed (Completed _ _) = True"
| "is_completed _ = False"

fun is_recovery_required :: "terminal_state \<Rightarrow> bool" where
  "is_recovery_required (RecoveryRequired _) = True"
| "is_recovery_required _ = False"

definition is_writer :: "agent_task_lifecycle \<Rightarrow> bool" where
  "is_writer lc \<longleftrightarrow> aw_access (at_workspace (lc_task lc)) = IsolatedWrite"

definition integration_committed :: "agent_task_lifecycle \<Rightarrow> agent_integration_committed_fact option" where
  "integration_committed lc = Option.bind (lc_integration lc) il_committed"

definition cleanup_committed :: "agent_task_lifecycle \<Rightarrow> writer_cleanup_result option" where
  "cleanup_committed lc = Option.bind (lc_cleanup lc) cl_committed"

definition is_unintegrated_writer_recovery :: "agent_task_lifecycle \<Rightarrow> bool" where
  "is_unintegrated_writer_recovery lc \<longleftrightarrow>
     is_writer lc \<and> integration_committed lc = None \<and>
     (case lc_finished lc of None \<Rightarrow> False
      | Some finished \<Rightarrow> is_recovery_required (ao_terminal (cff_outcome finished)))"

section \<open>The snapshot\<close>

record run_snapshot =
  sn_request :: run_request
  sn_transcript :: canonical_transcript
  sn_context_projection :: "context_projection option"
  sn_usage :: usage
  sn_accounting :: model_accounting
  sn_terminal :: "agent_outcome option"
  sn_workspace_state :: workspace_state
  sn_evidence_receipts :: "evidence_receipt list"
  sn_host_acceptance_receipts :: "host_acceptance_receipt list"
  sn_pending_completion :: "completion_candidate option"
  sn_pending_host_verification :: "pending_host_verification option"
  sn_last_completion_rejection :: "completion_rejection option"
  sn_last_host_verification_failure :: "host_verification_failure option"
  sn_temporal_evidence_progress :: "temporal_evidence_progress option"
  sn_runtime_model_requests :: u32
  sn_runtime_retries :: u32
  sn_tool_calls :: u32
  sn_local_turns :: u32
  sn_last_sequence :: u64
  sn_last_model_output :: "model_output option"
  sn_last_model_advertised_tool_names :: "string list"
  sn_last_model_response_sequence :: "u64 option"
  sn_last_model_activity_sequence :: "u64 option"
  sn_last_model_failure :: "stopped_model_failure option"
  sn_last_context_compaction :: "committed_context_compaction option"
  sn_pending_model :: "pending_model_action option"
  sn_pending_tool :: "pending_tool_action option"
  sn_agent_tasks :: "agent_task_lifecycle list"
  sn_pending_steers :: "pending_steer list"
  sn_pending_control :: "pending_control option"
  sn_command_receipts :: "command_receipt list"

definition pending_child_run_ids :: "run_snapshot \<Rightarrow> string list" where
  "pending_child_run_ids s =
     map (\<lambda>lc. at_child_run_id (lc_task lc)) (filter (\<lambda>lc. lc_finished lc = None) (sn_agent_tasks s))"

definition unsettled_child :: "run_snapshot \<Rightarrow> bool" where
  "unsettled_child s \<longleftrightarrow> list_ex (\<lambda>lc. lc_finished lc = None) (sn_agent_tasks s)"

text \<open>
  \<open>store_codec\<close> adds the serialised verifier specification (its digest binds an execution grant)
  and the derived decoder of the question prompt.
\<close>

record store_codec = context_codec +
  cx_spec_text :: "verifier_spec \<Rightarrow> string"
  cx_decode_user_input :: "json \<Rightarrow> string + user_input_request"

section \<open>Headers and the initial transcript\<close>

definition validate_event_header ::
  "stored_runtime_event \<Rightarrow> u64 \<Rightarrow> string \<Rightarrow> run_store_error + unit" where
  "validate_event_header event expected_sequence run_id =
     (if se_schema_version event \<noteq> AGENT_RUNTIME_EVENT_SCHEMA_VERSION
      then Inl (UnsupportedSchema (se_schema_version event) AGENT_RUNTIME_EVENT_SCHEMA_VERSION
                  AGENT_RUNTIME_EVENT_SCHEMA_VERSION)
      else if se_run_id event \<noteq> run_id then Inl (corrupt run_id ''event log mixes run ids'')
      else if se_sequence event \<noteq> expected_sequence
      then Inl (corrupt run_id
             (''event sequence is not contiguous: expected '' @ decimal (unat expected_sequence)
              @ '', found '' @ decimal (unat (se_sequence event))))
      else Inr ())"

fun starts_with_system :: "canonical_transcript \<Rightarrow> bool" where
  "starts_with_system (SystemEntry _ # _) = True"
| "starts_with_system _ = False"

definition initial_transcript :: "run_request \<Rightarrow> canonical_transcript" where
  "initial_transcript request =
     (if starts_with_system (rq_transcript request) then rq_transcript request
      else SystemEntry (rq_system_prompt request) # rq_transcript request) @
     (case rq_task_contract request of
        None \<Rightarrow> []
      | Some contract \<Rightarrow> [UserEntry (model_message (tc_definition contract))])"

definition record_command ::
  "run_snapshot \<Rightarrow> string \<Rightarrow> string \<Rightarrow> u64 \<Rightarrow> durable_command \<Rightarrow> run_store_error + run_snapshot" where
  "record_command s run_id command_id sequence command =
     (if list_ex (\<lambda>receipt. crc_command_id receipt = command_id) (sn_command_receipts s)
      then Inl (corrupt run_id ''command id was committed more than once'')
      else Inr (s\<lparr>sn_command_receipts := sn_command_receipts s @
                    [\<lparr>crc_command_id = command_id, crc_sequence = sequence, crc_command = command\<rparr>]\<rparr>))"

definition expect_contract :: "run_snapshot \<Rightarrow> run_store_error + task_contract" where
  "expect_contract s =
     ok_or (rq_task_contract (sn_request s)) (Panicked ''Agent contract validated at run creation'')"

section \<open>Tool execution\<close>

fun named_verifier :: "task_acceptance \<Rightarrow> (string \<times> verifier_spec) option" where
  "named_verifier (VerifierAcceptance i _ _ verifier) = Some (i, verifier)"
| "named_verifier (HostAcceptance _ _) = None"

definition named_verifier_acceptance :: "task_definition \<Rightarrow> (string \<times> verifier_spec) option" where
  "named_verifier_acceptance d = find_map named_verifier (td_acceptance d)"

definition rej_verifier_failed :: string where
  "rej_verifier_failed =
     [CHR 0xE7, CHR 0xA1, CHR 0xAE, CHR 0xE5, CHR 0xAE, CHR 0x9A, CHR 0xE6, CHR 0x80, CHR 0xA7,
     CHR 0xE5, CHR 0xA4, CHR 0xB1, CHR 0xE8, CHR 0xB4, CHR 0xA5, CHR 0xEF, CHR 0xBC, CHR 0x9B,
     CHR 0xE5, CHR 0xBF, CHR 0x85, CHR 0xE9, CHR 0xA1, CHR 0xBB, CHR 0xE5, CHR 0x85, CHR 0x88,
     CHR 0xE6, CHR 0x9C, CHR 0x89, CHR 0xE6, CHR 0x95, CHR 0x88, CHR 0xE4, CHR 0xBF, CHR 0xAE,
     CHR 0xE6, CHR 0x94, CHR 0xB9, CHR 0xE5, CHR 0xB7, CHR 0xA5, CHR 0xE4, CHR 0xBD, CHR 0x9C,
     CHR 0xE5, CHR 0x8C, CHR 0xBA, CHR 0xEF, CHR 0xBC, CHR 0x8C, CHR 0xE5, CHR 0x86, CHR 0x8D,
     CHR 0xE5, CHR 0x9C, CHR 0xA8, CHR 0xE6, CHR 0x96, CHR 0xB0] @ '' revision '' @ [CHR 0xE6,
     CHR 0x8F, CHR 0x90, CHR 0xE5, CHR 0x87, CHR 0xBA, CHR 0xE5, CHR 0xAE, CHR 0x8C, CHR 0xE6,
     CHR 0x88, CHR 0x90]"

definition rej_spec_mismatch :: string where
  "rej_spec_mismatch =
     [CHR 0xE7, CHR 0x9A, CHR 0x84, CHR 0xE5, CHR 0xAE, CHR 0x9E, CHR 0xE9, CHR 0x99, CHR 0x85,
     CHR 0xE6, CHR 0x89, CHR 0xA7, CHR 0xE8, CHR 0xA1, CHR 0x8C, CHR 0xE8, CHR 0xA7, CHR 0x84,
     CHR 0xE6, CHR 0xA0, CHR 0xBC, CHR 0xE4, CHR 0xB8, CHR 0x8E, CHR 0xE5, CHR 0x86, CHR 0xBB,
     CHR 0xE7, CHR 0xBB, CHR 0x93] @ '' TaskContract '' @ [CHR 0xE4, CHR 0xB8, CHR 0x8D, CHR
     0xE4, CHR 0xB8, CHR 0x80, CHR 0xE8, CHR 0x87, CHR 0xB4, CHR 0xEF, CHR 0xBC, CHR 0x9B, CHR
     0xE8, CHR 0xBF, CHR 0x99, CHR 0xE6, CHR 0x98, CHR 0xAF] @ '' Host '' @ [CHR 0xE5, CHR
     0xA5, CHR 0x91, CHR 0xE7, CHR 0xBA, CHR 0xA6, CHR 0xE9, CHR 0x97, CHR 0xAE, CHR 0xE9, CHR
     0xA2, CHR 0x98, CHR 0xEF, CHR 0xBC, CHR 0x8C, CHR 0xE7, CHR 0xA6, CHR 0x81, CHR 0xE6, CHR
     0xAD, CHR 0xA2, CHR 0xE9, CHR 0x87, CHR 0x8D, CHR 0xE5, CHR 0xA4, CHR 0x8D, CHR 0xE9, CHR
     0xAA, CHR 0x8C, CHR 0xE8, CHR 0xAF, CHR 0x81]"

definition rej_workspace_unstable :: string where
  "rej_workspace_unstable =
     [CHR 0xE6, CHR 0x89, CHR 0xA7, CHR 0xE8, CHR 0xA1, CHR 0x8C, CHR 0xE6, CHR 0x9C, CHR 0x9F,
     CHR 0xE9, CHR 0x97, CHR 0xB4, CHR 0xE5, CHR 0xB7, CHR 0xA5, CHR 0xE4, CHR 0xBD, CHR 0x9C,
     CHR 0xE5, CHR 0x8C, CHR 0xBA] @ '' revision '' @ [CHR 0xE4, CHR 0xB8, CHR 0x8D, CHR 0xE7,
     CHR 0xA8, CHR 0xB3, CHR 0xE5, CHR 0xAE, CHR 0x9A, CHR 0xEF, CHR 0xBC, CHR 0x9B, CHR 0xE9,
     CHR 0x9C, CHR 0x80, CHR 0xE8, CHR 0xA6, CHR 0x81] @ '' Host '' @ [CHR 0xE4, CHR 0xBF, CHR
     0xAE, CHR 0xE5, CHR 0xA4, CHR 0x8D, CHR 0xE6, CHR 0x89, CHR 0xA7, CHR 0xE8, CHR 0xA1, CHR
     0x8C, CHR 0xE7, CHR 0x8E, CHR 0xAF, CHR 0xE5, CHR 0xA2, CHR 0x83]"

definition rej_artifact_unavailable :: string where
  "rej_artifact_unavailable =
     [CHR 0xE6, CHR 0xB2, CHR 0xA1, CHR 0xE6, CHR 0x9C, CHR 0x89, CHR 0xE4, CHR 0xBA, CHR 0xA7,
     CHR 0xE7, CHR 0x94, CHR 0x9F, CHR 0xE5, CHR 0xAE, CHR 0x8C, CHR 0xE6, CHR 0x95, CHR 0xB4,
     CHR 0xE3, CHR 0x80, CHR 0x81, CHR 0xE5, CHR 0x8F, CHR 0xAF, CHR 0xE6, CHR 0xA0, CHR 0xA1,
     CHR 0xE9, CHR 0xAA, CHR 0x8C, CHR 0xE7, CHR 0x9A, CHR 0x84, CHR 0xE8, CHR 0xAF, CHR 0x81,
     CHR 0xE6, CHR 0x8D, CHR 0xAE] @ '' artifact'' @ [CHR 0xEF, CHR 0xBC, CHR 0x9B, CHR 0xE9,
     CHR 0x9C, CHR 0x80, CHR 0xE8, CHR 0xA6, CHR 0x81] @ '' Host '' @ [CHR 0xE4, CHR 0xBF, CHR
     0xAE, CHR 0xE5, CHR 0xA4, CHR 0x8D, CHR 0xE6, CHR 0x89, CHR 0xA7, CHR 0xE8, CHR 0xA1, CHR
     0x8C, CHR 0xE9, CHR 0x93, CHR 0xBE]"

definition rej_observation_missing :: string where
  "rej_observation_missing =
     [CHR 0xE6, CHR 0xB2, CHR 0xA1, CHR 0xE6, CHR 0x9C, CHR 0x89, CHR 0xE4, CHR 0xBA, CHR 0xA7,
     CHR 0xE7, CHR 0x94, CHR 0x9F] @ '' typed verifier observation'' @ [CHR 0xEF, CHR 0xBC, CHR
     0x9B, CHR 0xE9, CHR 0x9C, CHR 0x80, CHR 0xE8, CHR 0xA6, CHR 0x81] @ '' Host '' @ [CHR
     0xE4, CHR 0xBF, CHR 0xAE, CHR 0xE5, CHR 0xA4, CHR 0x8D, CHR 0xE6, CHR 0x89, CHR 0xA7, CHR
     0xE8, CHR 0xA1, CHR 0x8C, CHR 0xE9, CHR 0x93, CHR 0xBE]"

definition rej_incomplete :: string where
  "rej_incomplete =
     [CHR 0xE5, CHR 0x8F, CHR 0xAA, CHR 0xE5, CHR 0xBE, CHR 0x97, CHR 0xE5, CHR 0x88, CHR 0xB0,
     CHR 0xE4, CHR 0xB8, CHR 0x8D, CHR 0xE5, CHR 0xAE, CHR 0x8C, CHR 0xE6, CHR 0x95, CHR 0xB4,
     CHR 0xE7, CHR 0xBB, CHR 0x93, CHR 0xE6, CHR 0x9E, CHR 0x9C, CHR 0xEF, CHR 0xBC, CHR 0x9B,
     CHR 0xE9, CHR 0x9C, CHR 0x80, CHR 0xE8, CHR 0xA6, CHR 0x81] @ '' Host '' @ [CHR 0xE4, CHR
     0xBF, CHR 0xAE, CHR 0xE5, CHR 0xA4, CHR 0x8D, CHR 0xE6, CHR 0x89, CHR 0xA7, CHR 0xE8, CHR
     0xA1, CHR 0x8C, CHR 0xE7, CHR 0x8E, CHR 0xAF, CHR 0xE5, CHR 0xA2, CHR 0x83]"

definition rej_outcome_inconsistent :: string where
  "rej_outcome_inconsistent =
     [CHR 0xE7, CHR 0x9A, CHR 0x84] @ '' verdict '' @ [CHR 0xE4, CHR 0xB8, CHR 0x8E, CHR 0xE5,
     CHR 0xB7, CHR 0xA5, CHR 0xE5, CHR 0x85, CHR 0xB7, CHR 0xE7, CHR 0xBB, CHR 0x93, CHR 0xE6,
     CHR 0x9E, CHR 0x9C, CHR 0xE4, CHR 0xB8, CHR 0x8D, CHR 0xE4, CHR 0xB8, CHR 0x80, CHR 0xE8,
     CHR 0x87, CHR 0xB4, CHR 0xEF, CHR 0xBC, CHR 0x9B, CHR 0xE9, CHR 0x9C, CHR 0x80, CHR 0xE8,
     CHR 0xA6, CHR 0x81] @ '' Host '' @ [CHR 0xE4, CHR 0xBF, CHR 0xAE, CHR 0xE5, CHR 0xA4, CHR
     0x8D, CHR 0xE6, CHR 0x89, CHR 0xA7, CHR 0xE8, CHR 0xA1, CHR 0x8C, CHR 0xE9, CHR 0x93, CHR
     0xBE]"

definition rej_lineage_unavailable :: string where
  "rej_lineage_unavailable =
     [CHR 0xE5, CHR 0xB7, CHR 0xB2, CHR 0xE9, CHR 0x80, CHR 0x9A, CHR 0xE8, CHR 0xBF, CHR 0x87,
     CHR 0xEF, CHR 0xBC, CHR 0x8C, CHR 0xE4, CHR 0xBD, CHR 0x86, CHR 0xE7, CHR 0xBC, CHR 0xBA,
     CHR 0xE5, CHR 0xB0, CHR 0x91] @ '' TaskContract '' @ [CHR 0xE8, CHR 0xA6, CHR 0x81, CHR
     0xE6, CHR 0xB1, CHR 0x82, CHR 0xE7, CHR 0x9A, CHR 0x84, CHR 0xE6, CHR 0x9C, CHR 0x89, CHR
     0xE5, CHR 0xBA, CHR 0x8F, CHR 0xE5, CHR 0xA4, CHR 0xB1, CHR 0xE8, CHR 0xB4, CHR 0xA5, CHR
     0xE2, CHR 0x80, CHR 0x94, CHR 0xE4, CHR 0xBF, CHR 0xAE, CHR 0xE6, CHR 0x94, CHR 0xB9, CHR
     0xE2, CHR 0x80, CHR 0x94, CHR 0xE9, CHR 0x80, CHR 0x9A, CHR 0xE8, CHR 0xBF, CHR 0x87, CHR
     0xE8, CHR 0xAF, CHR 0x81, CHR 0xE6, CHR 0x8D, CHR 0xAE, CHR 0xEF, CHR 0xBC, CHR 0x9B, CHR
     0xE7, CHR 0xA6, CHR 0x81, CHR 0xE6, CHR 0xAD, CHR 0xA2, CHR 0xE4, CHR 0xBC, CHR 0xAA, CHR
     0xE9, CHR 0x80, CHR 0xA0, CHR 0xE5, CHR 0xAE, CHR 0x8C, CHR 0xE6, CHR 0x88, CHR 0x90]"

definition rej_receipt_invalid :: string where
  "rej_receipt_invalid =
     [CHR 0xE7, CHR 0x9A, CHR 0x84] @ '' EvidenceReceipt '' @ [CHR 0xE6, CHR 0x97, CHR 0xA0,
     CHR 0xE6, CHR 0xB3, CHR 0x95, CHR 0xE9, CHR 0x80, CHR 0x9A, CHR 0xE8, CHR 0xBF, CHR 0x87]
     @ '' canonical '' @ [CHR 0xE6, CHR 0xA0, CHR 0xA1, CHR 0xE9, CHR 0xAA, CHR 0x8C, CHR 0xEF,
     CHR 0xBC, CHR 0x9B, CHR 0xE9, CHR 0x9C, CHR 0x80, CHR 0xE8, CHR 0xA6, CHR 0x81] @ '' Host
     '' @ [CHR 0xE4, CHR 0xBF, CHR 0xAE, CHR 0xE5, CHR 0xA4, CHR 0x8D, CHR 0xE9, CHR 0xAA, CHR
     0x8C, CHR 0xE6, CHR 0x94, CHR 0xB6, CHR 0xE9, CHR 0x93, CHR 0xBE]"

fun rejection_reason_text :: "evidence_seal_rejection \<Rightarrow> string" where
  "rejection_reason_text VerifierFailed = rej_verifier_failed"
| "rejection_reason_text VerifierSpecMismatch = rej_spec_mismatch"
| "rejection_reason_text VerifierWorkspaceUnstable = rej_workspace_unstable"
| "rejection_reason_text VerifierArtifactUnavailable = rej_artifact_unavailable"
| "rejection_reason_text VerifierObservationMissing = rej_observation_missing"
| "rejection_reason_text VerifierIncomplete = rej_incomplete"
| "rejection_reason_text VerifierOutcomeInconsistent = rej_outcome_inconsistent"
| "rejection_reason_text EvidenceLineageUnavailable = rej_lineage_unavailable"
| "rejection_reason_text EvidenceReceiptInvalid = rej_receipt_invalid"

definition txt_verifier_object_only :: string where
  "txt_verifier_object_only =
     [CHR 0xE5, CHR 0x86, CHR 0xBB, CHR 0xE7, CHR 0xBB, CHR 0x93] @ '' verifier '' @ [CHR 0xE5,
     CHR 0x8F, CHR 0xAA, CHR 0xE6, CHR 0x8E, CHR 0xA5, CHR 0xE5, CHR 0x8F, CHR 0x97, CHR 0xE5,
     CHR 0x8C, CHR 0x85, CHR 0xE5, CHR 0x90, CHR 0xAB] @ '' verifier_id '' @ [CHR 0xE7, CHR
     0x9A, CHR 0x84] @ '' JSON '' @ [CHR 0xE5, CHR 0xAF, CHR 0xB9, CHR 0xE8, CHR 0xB1, CHR
     0xA1]"

definition txt_verifier_id_only :: string where
  "txt_verifier_id_only =
     [CHR 0xE5, CHR 0x8F, CHR 0xAA, CHR 0xE6, CHR 0x8E, CHR 0xA5, CHR 0xE5, CHR 0x8F, CHR 0x97,
     CHR 0xE5, CHR 0x86, CHR 0xBB, CHR 0xE7, CHR 0xBB, CHR 0x93] @ '' verifier ID '' @ [CHR
     0x27]"

definition txt_no_override :: string where
  "txt_no_override =
     [CHR 0x27, CHR 0xEF, CHR 0xBC, CHR 0x8C, CHR 0xE4, CHR 0xB8, CHR 0x8D, CHR 0xE5, CHR 0xBE,
     CHR 0x97, CHR 0xE6, CHR 0x8F, CHR 0x90, CHR 0xE4, CHR 0xBA, CHR 0xA4, CHR 0xE6, CHR 0x88,
     CHR 0x96, CHR 0xE8, CHR 0xA6, CHR 0x86, CHR 0xE7, CHR 0x9B, CHR 0x96, CHR 0xE5, CHR 0xAE,
     CHR 0x8C, CHR 0xE6, CHR 0x95, CHR 0xB4] @ '' verifier '' @ [CHR 0xE5, CHR 0x8F, CHR 0x82,
     CHR 0xE6, CHR 0x95, CHR 0xB0]"

definition from_value :: "'x codec_scheme \<Rightarrow> json \<Rightarrow> tool_arguments" where
  "from_value cx v = \<lparr>ta_raw = cx_json_text cx v, ta_parsed = Some v\<rparr>"

definition verifier_digest :: "'x store_codec_scheme \<Rightarrow> verifier_spec \<Rightarrow> string" where
  "verifier_digest cx spec = verifier_spec_sha256 (cx_sha256_hex cx) (cx_spec_text cx) spec"

text \<open>The resolved invocation, or the refusal, and the grant it may carry.\<close>

definition resolve_tool_execution ::
  "'x store_codec_scheme \<Rightarrow> task_contract option \<Rightarrow> tool_invocation \<Rightarrow>
     (string + tool_invocation) \<times> tool_execution_grant" where
  "resolve_tool_execution cx contract invocation =
     (case Option.bind contract (\<lambda>c. named_verifier_acceptance (tc_definition c)) of
        None \<Rightarrow> (Inr invocation, GrantOrdinary)
      | Some (accept_id, verifier) \<Rightarrow>
          if ti_name invocation \<noteq> vs_verifier_id verifier then (Inr invocation, GrantOrdinary)
          else
            (case Option.bind (ta_parsed (ti_arguments invocation)) as_object of
               None \<Rightarrow> (Inl txt_verifier_object_only, GrantOrdinary)
             | Some arguments \<Rightarrow>
                 if length arguments \<noteq> 1
                    \<or> Option.bind (map_of arguments ''verifier_id'') as_str \<noteq> Some accept_id
                 then (Inl (txt_verifier_id_only @ accept_id @ txt_no_override), GrantOrdinary)
                 else
                   (Inr \<lparr>ti_run_id = ti_run_id invocation, ti_call_id = ti_call_id invocation,
                         ti_name = vs_verifier_id verifier,
                         ti_arguments = from_value cx (vs_parameters verifier)\<rparr>,
                    GrantTaskContractVerifier accept_id (verifier_digest cx verifier))))"

definition is_assistant_entry :: "transcript_entry \<Rightarrow> bool" where
  "is_assistant_entry e = (case e of AssistantEntry _ _ _ \<Rightarrow> True | _ \<Rightarrow> False)"

definition is_tool_result_for :: "string \<Rightarrow> transcript_entry \<Rightarrow> bool" where
  "is_tool_result_for call_id e = (case e of ToolEntry c _ _ \<Rightarrow> c = call_id | _ \<Rightarrow> False)"

definition entry_tool_calls :: "transcript_entry \<Rightarrow> model_tool_call list" where
  "entry_tool_calls e = (case e of AssistantEntry _ _ calls \<Rightarrow> calls | _ \<Rightarrow> [])"

definition validate_tool_preparation_binding ::
  "run_snapshot \<Rightarrow> string \<Rightarrow> tool_invocation \<Rightarrow> run_store_error + unit" where
  "validate_tool_preparation_binding s run_id invocation =
     (if ti_run_id invocation \<noteq> run_id
      then Inl (corrupt run_id ''prepared tool invocation run id does not match its canonical run'')
      else
        (case last_position is_assistant_entry (sn_transcript s) of
           None \<Rightarrow> Inl (corrupt run_id ''prepared tool invocation has no assistant turn'')
         | Some assistant_index \<Rightarrow>
             (case filter (\<lambda>call. tcall_id call = ti_call_id invocation)
                     (entry_tool_calls (sn_transcript s ! assistant_index)) of
                [call] \<Rightarrow>
                  if tcall_name call \<noteq> ti_name invocation
                     \<or> tcall_arguments call \<noteq> ti_arguments invocation
                  then Inl (corrupt run_id
                         ''prepared tool invocation changed the latest assistant call identity or arguments'')
                  else if list_ex (is_tool_result_for (ti_call_id invocation))
                            (drop (assistant_index + 1) (sn_transcript s))
                  then Inl (corrupt run_id
                         ''prepared tool invocation repeats an already settled call in the latest assistant turn'')
                  else Inr ()
              | _ \<Rightarrow>
                  Inl (corrupt run_id
                    ''prepared tool invocation does not bind one unique call in the latest assistant turn''))))"

definition pending_model_for ::
  "run_snapshot \<Rightarrow> string \<Rightarrow> string \<Rightarrow> run_store_error + pending_model_action" where
  "pending_model_for s run_id attempt_id =
     rbind (ok_or (sn_pending_model s) (corrupt run_id ''model event has no prepared request''))
     (\<lambda>pending.
        if pm_attempt_id pending \<noteq> attempt_id
        then Inl (corrupt run_id ''model event attempt id does not match pending request'')
        else Inr pending)"

definition pending_tool_for ::
  "run_snapshot \<Rightarrow> string \<Rightarrow> string \<Rightarrow> run_store_error + pending_tool_action" where
  "pending_tool_for s run_id operation_id =
     rbind (ok_or (sn_pending_tool s) (corrupt run_id ''tool event has no prepared invocation''))
     (\<lambda>pending.
        if pt_operation_id pending \<noteq> operation_id
        then Inl (corrupt run_id ''tool event operation id does not match pending call'')
        else Inr pending)"

section \<open>Model retries\<close>

definition model_retry_backoff_ms :: "u32 \<Rightarrow> u64 option \<Rightarrow> u64" where
  "model_retry_backoff_ms attempt retry_after_ms =
     (let exponent = min (unat attempt - 1) 31;
          policy_backoff = min (push_bit exponent 1000) 60000
      in max policy_backoff (case retry_after_ms of None \<Rightarrow> 0 | Some ms \<Rightarrow> ms))"

definition retry_policy_stop_reason ::
  "pending_model_action \<Rightarrow> model_attempt_failure \<Rightarrow> model_attempt_failure \<Rightarrow> u32 \<Rightarrow>
     model_retry_stop_reason option" where
  "retry_policy_stop_reason pending failure primary_failure max_model_retries =
     (if mf_actionable_output failure then Some StopActionableOutput
      else if \<not> mf_retry_safe failure then Some StopUnsafeReplay
      else if \<not> mf_retryable failure then Some StopNotRetryable
      else if mf_code failure \<noteq> mf_code primary_failure
              \<or> mf_category failure \<noteq> mf_category primary_failure then Some StopFailureChanged
      else if mq_attempt (pm_request pending) \<ge> max_model_retries then Some StopRetryLimitReached
      else None)"

definition validate_model_failure_evidence ::
  "string \<Rightarrow> model_attempt_failure \<Rightarrow> run_store_error + unit" where
  "validate_model_failure_evidence run_id failure =
     (let response = mf_response failure
      in if mf_actionable_output failure \<noteq> actionable_output response
            \<or> mf_retry_safe failure \<noteq> replay_safe response
         then Inl (corrupt run_id
                ''persisted model failure summary disagrees with response evidence'')
         else if (re_tool_call_id_observed response \<or> re_tool_call_name_observed response
                  \<or> re_tool_call_arguments_observed response) \<and> \<not> re_tool_call_observed response
         then Inl (corrupt run_id ''persisted model failure has tool fragments without a tool call'')
         else if re_finish_reason_trusted response
                 \<and> (\<not> re_finish_reason_observed response \<or> \<not> re_stream_done_received response)
         then Inl (corrupt run_id ''persisted model failure trusts a finish reason without [DONE]'')
         else if (actionable_output response \<or> re_finish_reason_observed response
                  \<or> re_usage_received response \<or> re_stream_done_received response)
                 \<and> \<not> re_response_headers_received response
         then Inl (corrupt run_id
                ''persisted model response evidence exists before response headers'')
         else if mf_retry_after_ms failure \<noteq> None
                 \<and> \<not> (mf_category failure = CategoryRateLimit \<or> mf_category failure = CategoryService)
         then Inl (corrupt run_id
                ''persisted retry-after hint is only valid for a retryable HTTP response'')
         else if mf_retry_after_ms failure \<noteq> None \<and> \<not> re_response_headers_received response
         then Inl (corrupt run_id
                ''persisted retry-after hint requires observed response headers'')
         else Inr ())"

definition validate_retry_stop ::
  "string \<Rightarrow> pending_model_action \<Rightarrow> model_attempt_failure \<Rightarrow> model_attempt_failure \<Rightarrow>
     model_retry_stop_reason \<Rightarrow> u32 \<Rightarrow> run_store_error + unit" where
  "validate_retry_stop run_id pending failure primary_failure reason max_model_retries =
     (let valid =
        (case retry_policy_stop_reason pending failure primary_failure max_model_retries of
           Some expected \<Rightarrow> reason = expected
         | None \<Rightarrow> reason = StopModelRequestBudgetExceeded)
      in if \<not> valid
         then Inl (corrupt run_id
                ''persisted model retry stop reason disagrees with the retry policy'')
         else Inr ())"

definition validate_prepared_retry ::
  "string \<Rightarrow> pending_model_action \<Rightarrow> model_attempt_failure \<Rightarrow> model_attempt_failure \<Rightarrow>
     prepared_model_retry \<Rightarrow> u32 \<Rightarrow> run_store_error + unit" where
  "validate_prepared_retry run_id pending failure primary_failure prepared max_model_retries =
     (if retry_policy_stop_reason pending failure primary_failure max_model_retries \<noteq> None
      then Inl (corrupt run_id
             ''model retry was prepared even though the retry policy required stopping'')
      else if pr_attempt_id prepared = pm_attempt_id pending
      then Inl (corrupt run_id ''model retry reused the failed attempt id'')
      else if pr_request prepared \<noteq>
                (pm_request pending)\<lparr>mq_attempt := sat_add (mq_attempt (pm_request pending)) 1\<rparr>
      then Inl (corrupt run_id ''prepared model retry changed fields other than the attempt number'')
      else if pr_max_retries prepared \<noteq> max_model_retries
      then Inl (corrupt run_id ''prepared model retry changed the frozen retry limit'')
      else if pr_backoff_ms prepared \<noteq>
                model_retry_backoff_ms (mq_attempt (pr_request prepared)) (mf_retry_after_ms failure)
              \<or> pr_not_before_unix_ms prepared \<noteq>
                  sat_add (pr_decision_unix_ms prepared) (pr_backoff_ms prepared)
      then Inl (corrupt run_id ''prepared model retry schedule disagrees with the retry policy'')
      else Inr ())"

section \<open>Action boundaries and the context input\<close>

definition validate_compaction_safe_boundary :: "run_snapshot \<Rightarrow> string \<Rightarrow> run_store_error + unit" where
  "validate_compaction_safe_boundary s run_id =
     (if sn_pending_model s \<noteq> None \<or> sn_pending_tool s \<noteq> None \<or> sn_pending_completion s \<noteq> None
         \<or> sn_pending_host_verification s \<noteq> None \<or> unsettled_child s \<or> sn_pending_steers s \<noteq> []
         \<or> sn_pending_control s \<noteq> None \<or> sn_last_model_failure s \<noteq> None
      then Inl (corrupt run_id ''context compaction must begin at a durable action boundary'')
      else Inr ())"

definition validate_model_request_safe_boundary ::
  "run_snapshot \<Rightarrow> string \<Rightarrow> run_store_error + unit" where
  "validate_model_request_safe_boundary s run_id =
     (if sn_pending_tool s \<noteq> None \<or> sn_pending_completion s \<noteq> None
         \<or> sn_pending_host_verification s \<noteq> None \<or> unsettled_child s \<or> sn_pending_steers s \<noteq> []
         \<or> sn_pending_control s \<noteq> None
      then Inl (corrupt run_id ''model request must begin at a settled durable action boundary'')
      else Inr ())"

definition context_input :: "run_snapshot \<Rightarrow> tool_definition list \<Rightarrow> context_input" where
  "context_input s tools =
     \<lparr>ci_transcript = sn_transcript s, ci_projection = sn_context_projection s,
      ci_task_contract = rq_task_contract (sn_request s), ci_workspace_state = sn_workspace_state s,
      ci_evidence_receipts = sn_evidence_receipts s,
      ci_last_completion_rejection = sn_last_completion_rejection s,
      ci_last_verifier_failure = map_option hvf_outcome (sn_last_host_verification_failure s),
      ci_last_verifier_failure_workspace =
        map_option hvf_workspace_state (sn_last_host_verification_failure s),
      ci_tools = tools\<rparr>"

end
