(* ===== verification/Reducer_Model.thy ===== *)
theory Reducer_Model
  imports Snapshot
begin

text \<open>
  The arms of \<^verbatim>\<open>apply_event\<close> (crates/runtime/src/store.rs) for context compaction and model
  requests. An arm takes the snapshot, the run id, the sequence of the stored event and the
  payload, and returns the new snapshot or the error of the source; the caller sets the last
  sequence afterwards.
\<close>

fun context_error_text :: "context_projection_error \<Rightarrow> string" where
  "context_error_text (BoundaryAhead boundary entries) =
     ''context projection boundary '' @ decimal (unat boundary)
     @ '' is beyond canonical transcript length '' @ decimal entries"
| "context_error_text InvalidSourceIndices = ''context projection source indices are invalid''"
| "context_error_text SourceMessageMismatch =
     ''context projection messages do not match their canonical sources''"
| "context_error_text (DigestError message) =
     ''failed to serialize context facts for a stable digest: '' @ message"
| "context_error_text (InvalidPolicy message) = ''invalid context policy: '' @ message"

definition context_result :: "string \<Rightarrow> context_projection_error + 'a \<Rightarrow> run_store_error + 'a" where
  "context_result run_id = map_err (\<lambda>error. corrupt run_id (context_error_text error))"

definition matches_local ::
  "context_compaction_preparation \<Rightarrow> context_projection \<Rightarrow> u64 \<Rightarrow> u64 \<Rightarrow> bool" where
  "matches_local preparation projection before_tokens after_tokens =
     (case preparation of
        Local expected_projection expected_before expected_after \<Rightarrow>
          expected_projection = projection \<and> expected_before = before_tokens \<and>
          expected_after = after_tokens
      | _ \<Rightarrow> False)"

definition apply_context_compaction ::
  "'x context_codec_scheme \<Rightarrow> run_snapshot \<Rightarrow> string \<Rightarrow> u64 \<Rightarrow> context_projection \<Rightarrow>
     tool_definition list \<Rightarrow> model_accounting \<Rightarrow> u64 \<Rightarrow> u64 \<Rightarrow> run_store_error + run_snapshot" where
  "apply_context_compaction cx s run_id sequence projection tools accounting before_tokens after_tokens =
     and_then (validate_compaction_safe_boundary s run_id)
     (let input = context_input s tools
      in rbind (context_result run_id (effective_context cx input))
         (\<lambda>current.
            if pj_source_entry_count projection \<noteq> ec_source_entry_count current
               \<or> pj_source_projection_sha256 projection \<noteq> ec_sha256 current
            then Inl (corrupt run_id
                   ''context compaction projection does not describe the current effective context'')
            else if accounting \<noteq> sn_accounting s
            then Inl (corrupt run_id ''deterministic context compaction changed model accounting'')
            else
              rbind (context_result run_id
                       (prepare_compaction cx input (rq_context_policy (sn_request s))))
              (\<lambda>preparation.
                 if \<not> matches_local preparation projection before_tokens after_tokens
                 then Inl (corrupt run_id
                        ''context compaction commit does not match the deterministic broker'')
                 else
                   rbind (context_result run_id (estimate_projection_tokens cx input projection))
                   (\<lambda>expected_after.
                      if expected_after \<noteq> after_tokens
                         \<or> before_tokens \<noteq> ec_estimated_tokens current
                      then Inl (corrupt run_id
                             ''context compaction token estimates do not match the committed projection'')
                      else if after_tokens \<ge> before_tokens
                              \<or> after_tokens > ucast (cp_hard_input_tokens
                                                  (rq_context_policy (sn_request s)))
                      then Inl (corrupt run_id
                             ''context compaction must reduce input below the configured hard limit'')
                      else Inr (s\<lparr>sn_context_projection := Some projection,
                                  sn_accounting := accounting,
                                  sn_last_context_compaction := Some
                                    \<lparr>ccc_source_projection_sha256 =
                                       pj_source_projection_sha256 projection,
                                     ccc_before_tokens = before_tokens,
                                     ccc_after_tokens = after_tokens,
                                     ccc_sequence = sequence\<rparr>\<rparr>)))))"

definition request_matches_projection :: "run_snapshot \<Rightarrow> effective_context \<Rightarrow> model_request \<Rightarrow> bool" where
  "request_matches_projection s effective request \<longleftrightarrow>
     mq_parent_run_id request = rq_parent_run_id (sn_request s) \<and>
     mq_actor request = rq_actor (sn_request s) \<and>
     mq_model request = rq_model (sn_request s) \<and>
     mq_system_prompt request = ec_system_prompt effective \<and>
     mq_messages request = ec_messages effective \<and>
     mq_reasoning_effort request = rq_reasoning_effort (sn_request s) \<and>
     mq_max_output_tokens request = rq_max_output_tokens (sn_request s) \<and>
     mq_streaming request = rq_streaming (sn_request s) \<and>
     mq_request_number request = sat_add (sn_local_turns s) 1"

definition apply_model_request_prepared ::
  "'x context_codec_scheme \<Rightarrow> run_snapshot \<Rightarrow> string \<Rightarrow> u64 \<Rightarrow> string \<Rightarrow> model_request \<Rightarrow>
     run_store_error + run_snapshot" where
  "apply_model_request_prepared cx s run_id sequence attempt_id request =
     (if sn_pending_model s \<noteq> None
      then Inl (corrupt run_id ''model request prepared while another model request is pending'')
      else if mq_run_id request \<noteq> run_id
      then Inl (corrupt run_id ''prepared model request belongs to another run'')
      else if mq_attempt request \<noteq> 0
      then Inl (corrupt run_id ''standalone model request prepared event must start at attempt zero'')
      else
        and_then (validate_model_request_safe_boundary s run_id)
        (rbind (context_result run_id (effective_context cx (context_input s (mq_tools request))))
        (\<lambda>effective.
           if \<not> request_matches_projection s effective request
           then Inl (corrupt run_id
                  ''ordinary model request does not match the canonical run projection'')
           else Inr (s\<lparr>sn_local_turns := max (sn_local_turns s) (mq_request_number request),
                       sn_runtime_model_requests := sat_add (sn_runtime_model_requests s) 1,
                       sn_last_model_activity_sequence := Some sequence,
                       sn_last_model_failure := None,
                       sn_pending_model := Some
                         \<lparr>pm_attempt_id = attempt_id, pm_request = request,
                          pm_primary_failure = None, pm_retry_schedule = None,
                          pm_state = ActionPrepared\<rparr>\<rparr>))))"

definition apply_model_request_in_flight ::
  "run_snapshot \<Rightarrow> string \<Rightarrow> string \<Rightarrow> run_store_error + run_snapshot" where
  "apply_model_request_in_flight s run_id attempt_id =
     rbind (pending_model_for s run_id attempt_id)
     (\<lambda>pending.
        if pm_state pending \<noteq> ActionPrepared
        then Inl (corrupt run_id ''model request entered in_flight twice'')
        else Inr (s\<lparr>sn_pending_model := Some (pending\<lparr>pm_state := ActionInFlight\<rparr>)\<rparr>))"

definition validate_retry_decision ::
  "run_snapshot \<Rightarrow> string \<Rightarrow> pending_model_action \<Rightarrow> model_attempt_failure \<Rightarrow>
     model_attempt_failure \<Rightarrow> model_retry_decision \<Rightarrow> run_store_error + unit" where
  "validate_retry_decision s run_id pending failure primary_failure retry =
     (case retry of
        RetryStop reason \<Rightarrow>
          validate_retry_stop run_id pending failure primary_failure reason
            (rl_max_model_retries (rq_limits (sn_request s)))
      | RetryPrepared prepared \<Rightarrow>
          validate_prepared_retry run_id pending failure primary_failure prepared
            (rl_max_model_retries (rq_limits (sn_request s))))"

definition commit_retry_decision ::
  "run_snapshot \<Rightarrow> model_attempt_failure \<Rightarrow> model_retry_decision \<Rightarrow> run_snapshot" where
  "commit_retry_decision s primary_failure retry =
     (case retry of
        RetryStop reason \<Rightarrow>
          s\<lparr>sn_last_model_failure := Some \<lparr>sf_failure = primary_failure, sf_reason = reason\<rparr>\<rparr>
      | RetryPrepared prepared \<Rightarrow>
          s\<lparr>sn_runtime_model_requests := sat_add (sn_runtime_model_requests s) 1,
            sn_runtime_retries := sat_add (sn_runtime_retries s) 1,
            sn_last_model_failure := None,
            sn_pending_model := Some
              \<lparr>pm_attempt_id = pr_attempt_id prepared, pm_request = pr_request prepared,
               pm_primary_failure = Some primary_failure,
               pm_retry_schedule = Some
                 \<lparr>rs_decision_unix_ms = pr_decision_unix_ms prepared,
                  rs_backoff_ms = pr_backoff_ms prepared,
                  rs_not_before_unix_ms = pr_not_before_unix_ms prepared,
                  rs_max_retries = pr_max_retries prepared\<rparr>,
               pm_state = ActionPrepared\<rparr>\<rparr>)"

definition apply_model_request_failed ::
  "run_snapshot \<Rightarrow> string \<Rightarrow> u64 \<Rightarrow> string \<Rightarrow> model_attempt_failure \<Rightarrow> model_accounting \<Rightarrow>
     model_retry_decision \<Rightarrow> run_store_error + run_snapshot" where
  "apply_model_request_failed s run_id sequence attempt_id failure accounting retry =
     rbind (pending_model_for s run_id attempt_id)
     (\<lambda>pending.
        if pm_state pending \<noteq> ActionInFlight
        then Inl (corrupt run_id ''model request failed before transport began'')
        else
          and_then (validate_model_failure_evidence run_id failure)
          (let primary_failure =
                 (case pm_primary_failure pending of Some f \<Rightarrow> f | None \<Rightarrow> failure)
           in and_then (validate_retry_decision s run_id pending failure primary_failure retry)
              (Inr (commit_retry_decision
                 (s\<lparr>sn_pending_model := None, sn_accounting := accounting,
                    sn_last_model_activity_sequence := Some sequence\<rparr>)
                 primary_failure retry))))"

definition apply_model_response_committed ::
  "run_snapshot \<Rightarrow> string \<Rightarrow> u64 \<Rightarrow> string \<Rightarrow> model_output \<Rightarrow> model_accounting \<Rightarrow>
     run_store_error + run_snapshot" where
  "apply_model_response_committed s run_id sequence attempt_id output accounting =
     rbind (pending_model_for s run_id attempt_id)
     (\<lambda>pending.
        if pm_state pending \<noteq> ActionInFlight
        then Inl (corrupt run_id ''model response committed before transport began'')
        else
          Inr (s\<lparr>sn_pending_model := None,
                 sn_usage := usage_add_assign (sn_usage s) (mo_usage output),
                 sn_accounting := accounting,
                 sn_last_model_output := Some output,
                 sn_last_model_advertised_tool_names := map tdef_name (mq_tools (pm_request pending)),
                 sn_last_model_response_sequence := Some sequence,
                 sn_last_model_activity_sequence := Some sequence,
                 sn_last_model_failure := None,
                 sn_transcript := sn_transcript s @
                   [AssistantEntry (if mo_content output = [] then None else Some (mo_content output))
                      (mo_reasoning_content output) (mo_tool_calls output)]\<rparr>))"

definition apply_model_delta ::
  "run_snapshot \<Rightarrow> string \<Rightarrow> string \<Rightarrow> run_store_error + run_snapshot" where
  "apply_model_delta s run_id attempt_id =
     rbind (pending_model_for s run_id attempt_id)
     (\<lambda>pending.
        if pm_state pending \<noteq> ActionInFlight
        then Inl (corrupt run_id ''model delta appeared before transport began'')
        else Inr s)"

end
