(* ===== verification/Evidence.thy ===== *)
theory Evidence
  imports Snapshot
begin

text \<open>
  How the reducer derives and seals evidence (crates/runtime/src/store.rs): the availability of
  verifier artifacts, the progress towards a failed-write-pass acceptance, the lineage of a
  receipt, the receipt itself or the typed reason it cannot be sealed, and the rejection built
  from that reason.
\<close>

section \<open>Verifier artifacts and revisions\<close>

definition payload_matches :: "verification_artifact_payload \<Rightarrow> verifier_observation \<Rightarrow> bool" where
  "payload_matches payload observation \<longleftrightarrow>
     vap_verifier payload = vo_spec observation \<and> vap_verdict payload = vo_verdict observation \<and>
     vap_workspace_revision payload = vo_workspace_revision observation"

definition verifier_artifacts_are_available ::
  "'x codec_scheme \<Rightarrow> tool_outcome \<Rightarrow> verifier_observation \<Rightarrow> bool" where
  "verifier_artifacts_are_available cx outcome observation \<longleftrightarrow>
     vo_artifact_ids observation \<noteq> [] \<and>
     te_status (to_evidence outcome) = EvidenceProduced \<and>
     te_references (to_evidence outcome) = vo_artifact_ids observation \<and>
     list_all (\<lambda>artifact_id.
       list_ex (\<lambda>artifact.
         art_id artifact = artifact_id \<and>
         (case validate_inline_verification cx artifact of
            Inl _ \<Rightarrow> False
          | Inr payload \<Rightarrow> payload_matches payload observation)) (to_artifacts outcome))
       (vo_artifact_ids observation) \<and>
     (case (vo_workspace_revision observation, to_workspace_revision outcome) of
        (RevKnown sha256, Some outcome_revision) \<Rightarrow> sha256 = outcome_revision
      | _ \<Rightarrow> False)"

definition workspace_revision_changed :: "workspace_state \<Rightarrow> workspace_state \<Rightarrow> bool" where
  "workspace_revision_changed before after =
     (case (ws_revision before, ws_revision after) of
        (RevKnown before, RevKnown after) \<Rightarrow> before \<noteq> after
      | _ \<Rightarrow> False)"

section \<open>Temporal progress and lineage\<close>

definition temporal_acceptance ::
  "verifier_spec \<Rightarrow> (string \<times> verifier_spec) option \<Rightarrow> task_acceptance \<Rightarrow>
     (string \<times> verifier_spec) option" where
  "temporal_acceptance spec expected acc =
     (case acc of
        VerifierAcceptance i _ FailedWritePassPolicy verifier \<Rightarrow>
          if verifier = spec \<and>
             (case expected of None \<Rightarrow> True
              | Some (expected_id, expected_verifier) \<Rightarrow> i = expected_id \<and> verifier = expected_verifier)
          then Some (i, verifier) else None
      | _ \<Rightarrow> None)"

definition failed_temporal_progress ::
  "'x codec_scheme \<Rightarrow> run_snapshot \<Rightarrow> tool_outcome \<Rightarrow> failed_verifier_source \<Rightarrow> workspace_state \<Rightarrow>
     (string \<times> verifier_spec) option \<Rightarrow> temporal_evidence_progress option" where
  "failed_temporal_progress cx s outcome source workspace_state expected_acceptance =
     (case to_verifier_observation outcome of
        None \<Rightarrow> None
      | Some observation \<Rightarrow>
          if to_invocation outcome \<noteq> InvocationAccepted
             \<or> to_transport outcome \<noteq> TransportSucceeded
             \<or> to_operation outcome \<noteq> OperationFailedStatus
             \<or> to_side_effect outcome = EffectApplied
             \<or> vo_verdict observation \<noteq> VerdictFailed
             \<or> \<not> verifier_artifacts_are_available cx outcome observation
             \<or> vo_workspace_revision observation \<noteq> ws_revision workspace_state
          then None
          else
            (case rq_task_contract (sn_request s) of
               None \<Rightarrow> None
             | Some contract \<Rightarrow>
                 (case find_map (temporal_acceptance (vo_spec observation) expected_acceptance)
                         (td_acceptance (tc_definition contract)) of
                    None \<Rightarrow> None
                  | Some (accept_id, verifier) \<Rightarrow>
                      let failure =
                            \<lparr>fv_source = source, fv_workspace_state = workspace_state,
                             fv_artifact_ids = vo_artifact_ids observation\<rparr>;
                          progress =
                            \<lparr>tp_acceptance_id = accept_id, tp_verifier = verifier,
                             tp_failure = failure, tp_mutation = None\<rparr>
                      in if is_ok (failed_verifier_evidence_validate failure)
                            \<and> is_ok (temporal_progress_validate progress)
                         then Some progress else None)))"

definition local_lineage ::
  "run_snapshot \<Rightarrow> temporal_evidence_progress \<Rightarrow> string \<Rightarrow> verifier_spec \<Rightarrow> evidence_lineage option" where
  "local_lineage s progress accept_id verifier =
     (case tp_mutation progress of
        None \<Rightarrow> None
      | Some mutation \<Rightarrow>
          if tp_acceptance_id progress \<noteq> accept_id \<or> tp_verifier progress \<noteq> verifier
             \<or> ws_revision (fv_workspace_state (tp_failure progress)) = ws_revision (sn_workspace_state s)
             \<or> ws_generation (wm_after mutation) > ws_generation (sn_workspace_state s)
             \<or> ws_revision (wm_after mutation) \<noteq> ws_revision (sn_workspace_state s)
          then None
          else Some (FailedWritePass (tp_failure progress) mutation))"

definition delegated_lineage ::
  "run_snapshot \<Rightarrow> string \<Rightarrow> verifier_spec \<Rightarrow> agent_task_lifecycle \<Rightarrow> evidence_lineage option" where
  "delegated_lineage s accept_id verifier lc =
     Option.bind (lc_integration lc) (\<lambda>integration.
     Option.bind (il_committed integration) (\<lambda>committed.
       if \<not> is_writer lc \<or> icf_root_workspace_state_after committed \<noteq> sn_workspace_state s then None
       else
         Option.bind (lc_result lc) (\<lambda>result.
         Option.bind
           (find (\<lambda>receipt. er_acceptance_id receipt = accept_id \<and> er_verifier receipt = verifier
                            \<and> is_failed_write_pass (er_lineage receipt))
              (ad_evidence (ao_details result)))
         (\<lambda>child_receipt.
            let integration_evidence =
                  \<lparr>wm_operation_id = il_integration_id integration,
                   wm_before = il_expected_root_workspace_state integration,
                   wm_after = icf_root_workspace_state_after committed\<rparr>
            in if is_ok (workspace_mutation_validate integration_evidence)
               then Some (DelegatedFailedWritePass (at_child_run_id (lc_task lc)) (er_id child_receipt)
                            integration_evidence)
               else None))))"

definition expected_evidence_lineage ::
  "run_snapshot \<Rightarrow> string \<Rightarrow> verifier_spec \<Rightarrow> verifier_evidence_policy \<Rightarrow> evidence_lineage option" where
  "expected_evidence_lineage s accept_id verifier policy =
     (case policy of
        LatestPassPolicy \<Rightarrow> Some LatestPass
      | FailedWritePassPolicy \<Rightarrow>
          (case sn_temporal_evidence_progress s of
             Some progress \<Rightarrow> local_lineage s progress accept_id verifier
           | None \<Rightarrow> find_map (delegated_lineage s accept_id verifier) (rev (sn_agent_tasks s))))"

section \<open>Sealing and rejection\<close>

definition verdict_rejection ::
  "verifier_observation \<Rightarrow> tool_outcome \<Rightarrow> evidence_seal_rejection + unit" where
  "verdict_rejection observation outcome =
     (case vo_verdict observation of
        VerdictPassed \<Rightarrow> if is_success outcome then Inr () else Inl VerifierOutcomeInconsistent
      | VerdictFailed \<Rightarrow>
          if to_invocation outcome = InvocationAccepted \<and> to_transport outcome = TransportSucceeded
             \<and> to_operation outcome = OperationFailedStatus
          then Inl VerifierFailed else Inl VerifierOutcomeInconsistent
      | VerdictPartial \<Rightarrow> Inl VerifierIncomplete)"

definition seal_evidence_receipt ::
  "'x codec_scheme \<Rightarrow> run_snapshot \<Rightarrow> string \<Rightarrow> string \<Rightarrow> verifier_evidence_policy \<Rightarrow> verifier_spec \<Rightarrow>
     tool_outcome \<Rightarrow> workspace_state \<Rightarrow> evidence_seal_rejection + evidence_receipt" where
  "seal_evidence_receipt cx s verification_id accept_id evidence_policy verifier outcome workspace_state =
     rbind (ok_or (to_verifier_observation outcome) VerifierObservationMissing)
     (\<lambda>observation.
        if vo_spec observation \<noteq> verifier then Inl VerifierSpecMismatch
        else if \<not> has_stable_verifier_revision outcome (ws_revision (sn_workspace_state s))
                   (ws_revision workspace_state) then Inl VerifierWorkspaceUnstable
        else if \<not> verifier_artifacts_are_available cx outcome observation
        then Inl VerifierArtifactUnavailable
        else
          and_then (verdict_rejection observation outcome)
          (rbind (ok_or (rq_task_contract (sn_request s)) EvidenceReceiptInvalid)
          (\<lambda>contract.
             rbind (ok_or (expected_evidence_lineage s accept_id verifier evidence_policy)
                      EvidenceLineageUnavailable)
             (\<lambda>lineage.
                let receipt =
                      \<lparr>er_id = ''receipt:'' @ verification_id,
                       er_generation_id = tc_generation_id contract, er_acceptance_id = accept_id,
                       er_verification_id = verification_id, er_verifier = verifier,
                       er_workspace_state = workspace_state,
                       er_artifact_ids = vo_artifact_ids observation, er_lineage = lineage\<rparr>
                in and_then (map_err (\<lambda>_. EvidenceReceiptInvalid) (evidence_receipt_validate receipt))
                     (Inr receipt)))))"

definition completion_rejection ::
  "string \<Rightarrow> string \<Rightarrow> string \<Rightarrow> string \<Rightarrow> evidence_seal_rejection \<Rightarrow> completion_rejection" where
  "completion_rejection candidate_id generation_id accept_id verifier_id cause =
     \<lparr>cr_candidate_id = candidate_id, cr_generation_id = generation_id,
      cr_unmet_acceptance_ids = [accept_id], cr_cause = cause,
      cr_required_transition = required_transition cause,
      cr_reason = ''Host verifier '' @ quote @ verifier_id @ quote @ '' ''
                  @ rejection_reason_text cause\<rparr>"

end
