(* ===== verification/Reducer_Tool.thy ===== *)
theory Reducer_Tool
  imports Evidence
begin

text \<open>
  The arms of \<^verbatim>\<open>apply_event\<close> (crates/runtime/src/store.rs) for one tool call: its
  preparation, the Host authorization, the user interaction, the start of execution and the
  committed outcome.
\<close>

definition apply_tool_prepared ::
  "run_snapshot \<Rightarrow> string \<Rightarrow> string \<Rightarrow> tool_invocation \<Rightarrow> workspace_access \<Rightarrow>
     run_store_error + run_snapshot" where
  "apply_tool_prepared s run_id operation_id invocation workspace_access =
     (if sn_pending_tool s \<noteq> None
      then Inl (corrupt run_id ''tool prepared while another durable action is pending'')
      else
        and_then (validate_tool_preparation_binding s run_id invocation)
        (Inr (s\<lparr>sn_tool_calls := sat_add (sn_tool_calls s) 1,
                sn_pending_tool := Some
                  \<lparr>pt_operation_id = operation_id, pt_invocation = invocation,
                   pt_workspace_access = workspace_access, pt_authorization = None,
                   pt_state = ActionPrepared, pt_interaction = None\<rparr>\<rparr>)))"

definition apply_tool_authorization ::
  "'x store_codec_scheme \<Rightarrow> run_snapshot \<Rightarrow> string \<Rightarrow> string \<Rightarrow> tool_authorization_decision \<Rightarrow>
     run_store_error + run_snapshot" where
  "apply_tool_authorization cx s run_id operation_id decision =
     rbind (ok_or (sn_pending_tool s)
              (corrupt run_id ''tool authorization committed without a prepared invocation''))
     (\<lambda>prepared.
        let resolved = resolve_tool_execution cx (rq_task_contract (sn_request s)) (pt_invocation prepared)
        in rbind (map_err (corrupt run_id) (fst resolved))
           (\<lambda>execution_invocation.
              rbind (pending_tool_for s run_id operation_id)
              (\<lambda>pending.
                 if pt_state pending \<noteq> ActionPrepared
                 then Inl (corrupt run_id ''tool authorization committed after execution began'')
                 else if pt_authorization pending \<noteq> None
                 then Inl (corrupt run_id ''tool authorization committed more than once'')
                 else
                   and_then (map_err (corrupt run_id)
                     (authorization_validate_for cx decision (snd resolved) execution_invocation
                        (sn_workspace_state s)))
                   (if tad_mode decision \<noteq> env_permission_mode (rq_environment (sn_request s))
                    then Inl (corrupt run_id
                           ''tool authorization mode differs from the frozen Run permission'')
                    else Inr (s\<lparr>sn_pending_tool :=
                                  Some (pending\<lparr>pt_authorization := Some decision\<rparr>)\<rparr>)))))"

definition interactive_root :: "run_snapshot \<Rightarrow> bool" where
  "interactive_root s \<longleftrightarrow>
     actor_kind (rq_actor (sn_request s)) = ActorRoot \<and> env_interactive (rq_environment (sn_request s))"

definition validate_interaction_prompt ::
  "'x store_codec_scheme \<Rightarrow> run_snapshot \<Rightarrow> string \<Rightarrow> pending_tool_action \<Rightarrow>
     user_interaction_request \<Rightarrow> run_store_error + unit" where
  "validate_interaction_prompt cx s run_id pending request =
     (case ui_prompt request of
        ApprovalPrompt prompt arguments \<Rightarrow>
          if ui_tool_name request = REQUEST_USER_INPUT_TOOL_NAME
          then Inl (corrupt run_id ''request_user_input requires a user-input interaction'')
          else if ta_parsed (ti_arguments (pt_invocation pending)) \<noteq> Some arguments
          then Inl (corrupt run_id ''approval arguments do not match the prepared tool invocation'')
          else
            rbind (ok_or (pt_authorization pending)
                     (corrupt run_id ''approval interaction has no committed tool authorization''))
            (\<lambda>authorization.
               if tad_disposition authorization \<noteq> DispositionAsk
                  \<or> tad_prompt authorization \<noteq> Some prompt
               then Inl (corrupt run_id ''approval interaction differs from committed authorization'')
               else Inr ())
      | UserInputPrompt user_input \<Rightarrow>
          if ui_tool_name request \<noteq> REQUEST_USER_INPUT_TOOL_NAME \<or> \<not> interactive_root s
          then Inl (corrupt run_id
                 ''user-input interaction is only valid for an interactive root request_user_input call'')
          else
            and_then (map_err (corrupt run_id) (user_input_request_validate user_input))
            (rbind (ok_or (ta_parsed (ti_arguments (pt_invocation pending)))
                      (corrupt run_id ''request_user_input requires parsed tool arguments''))
            (\<lambda>arguments.
               rbind (map_err (\<lambda>error. corrupt run_id
                        (''request_user_input arguments are not a valid request: '' @ error))
                        (cx_decode_user_input cx arguments))
               (\<lambda>decoded.
                  if decoded \<noteq> user_input
                  then Inl (corrupt run_id
                         ''user-input request does not match the prepared tool invocation'')
                  else Inr ()))))"

definition apply_interaction_requested ::
  "'x store_codec_scheme \<Rightarrow> run_snapshot \<Rightarrow> string \<Rightarrow> user_interaction_request \<Rightarrow>
     run_store_error + run_snapshot" where
  "apply_interaction_requested cx s run_id request =
     rbind (pending_tool_for s run_id (ui_operation_id request))
     (\<lambda>pending.
        if ti_call_id (pt_invocation pending) \<noteq> ui_call_id request
           \<or> ti_name (pt_invocation pending) \<noteq> ui_tool_name request
        then Inl (corrupt run_id ''interaction request identity does not match the prepared tool'')
        else if pt_state pending \<noteq> ActionPrepared
        then Inl (corrupt run_id ''interaction requested after tool execution began'')
        else if pt_interaction pending \<noteq> None
        then Inl (corrupt run_id ''tool requested more than one interaction'')
        else
          and_then (validate_interaction_prompt cx s run_id pending request)
          (Inr (s\<lparr>sn_pending_tool := Some (pending\<lparr>pt_interaction :=
                   Some \<lparr>pui_request = request, pui_response = None\<rparr>\<rparr>)\<rparr>)))"

definition apply_interaction_resolved ::
  "run_snapshot \<Rightarrow> string \<Rightarrow> u64 \<Rightarrow> string \<Rightarrow> string \<Rightarrow> user_interaction_response \<Rightarrow>
     run_store_error + run_snapshot" where
  "apply_interaction_resolved s run_id sequence command_id interaction_id response =
     rbind (ok_or (sn_pending_tool s) (corrupt run_id ''interaction resolved without a pending tool''))
     (\<lambda>pending.
        rbind (ok_or (pt_interaction pending)
                 (corrupt run_id ''interaction resolved before it was requested''))
        (\<lambda>interaction.
           if ui_interaction_id (pui_request interaction) \<noteq> interaction_id
           then Inl (corrupt run_id ''interaction resolution id does not match the pending request'')
           else if pui_response interaction \<noteq> None
           then Inl (corrupt run_id ''interaction was resolved more than once'')
           else
             and_then (map_err (corrupt run_id)
               (interaction_validate_response (pui_request interaction) response))
             (rbind (record_command s run_id command_id sequence
                       (CommandResolveInteraction interaction_id response))
             (\<lambda>s'. Inr (s'\<lparr>sn_pending_tool := Some (pending\<lparr>pt_interaction :=
                              Some (interaction\<lparr>pui_response := Some response\<rparr>)\<rparr>)\<rparr>)))))"

definition interaction_approved :: "pending_user_interaction \<Rightarrow> bool" where
  "interaction_approved interaction =
     (case (ui_prompt (pui_request interaction), pui_response interaction) of
        (ApprovalPrompt _ _, Some Approved) \<Rightarrow> True
      | _ \<Rightarrow> False)"

definition authorize_execution :: "string \<Rightarrow> pending_tool_action \<Rightarrow> run_store_error + unit" where
  "authorize_execution run_id pending =
     (if ti_name (pt_invocation pending) \<noteq> AGENT_TOOL_NAME
         \<and> ti_name (pt_invocation pending) \<noteq> REQUEST_USER_INPUT_TOOL_NAME
      then
        rbind (ok_or (pt_authorization pending)
                 (corrupt run_id ''executable tool started without committed authorization''))
        (\<lambda>authorization.
           case tad_disposition authorization of
             DispositionAllow \<Rightarrow>
               if pt_interaction pending \<noteq> None
               then Inl (corrupt run_id
                      ''allowed tool unexpectedly carried an approval interaction'')
               else Inr ()
           | DispositionAsk \<Rightarrow>
               if \<not> (case pt_interaction pending of None \<Rightarrow> False
                       | Some interaction \<Rightarrow> pui_response interaction = Some Approved)
               then Inl (corrupt run_id ''ask-authorized tool started without exact approval'')
               else Inr ()
           | DispositionDeny \<Rightarrow>
               Inl (corrupt run_id ''denied tool authorization reached execution start''))
      else Inr ())"

definition apply_tool_execution_started ::
  "run_snapshot \<Rightarrow> string \<Rightarrow> string \<Rightarrow> run_store_error + run_snapshot" where
  "apply_tool_execution_started s run_id operation_id =
     rbind (pending_tool_for s run_id operation_id)
     (\<lambda>pending.
        if pt_state pending \<noteq> ActionPrepared
        then Inl (corrupt run_id ''tool execution entered in_flight twice'')
        else if (case pt_interaction pending of None \<Rightarrow> False
                 | Some interaction \<Rightarrow> \<not> interaction_approved interaction)
        then Inl (corrupt run_id ''tool execution began without an approved interaction'')
        else
          and_then (authorize_execution run_id pending)
          (Inr (s\<lparr>sn_pending_tool := Some (pending\<lparr>pt_state := ActionInFlight\<rparr>)\<rparr>)))"

section \<open>Committing an outcome\<close>

text \<open>
  The arm is long; its checks are grouped as the source orders them: the lifecycle against the
  prepared call and its interaction, the child lifecycle an \<open>agent\<close> call settles, the workspace
  the outcome settles, the temporal progress, and the verifier observation.
\<close>

definition validate_outcome_interaction ::
  "string \<Rightarrow> pending_tool_action \<Rightarrow> tool_outcome \<Rightarrow> run_store_error + unit" where
  "validate_outcome_interaction run_id pending outcome =
     (case pt_interaction pending of
        None \<Rightarrow> Inr ()
      | Some interaction \<Rightarrow>
          (case (ui_prompt (pui_request interaction), pui_response interaction, pt_state pending) of
             (_, None, _) \<Rightarrow>
               if to_operation outcome \<noteq> OperationCancelled
               then Inl (corrupt run_id ''tool interaction was bypassed without cancellation'')
               else Inr ()
           | (ApprovalPrompt _ _, Some Approved, ActionPrepared) \<Rightarrow>
               if to_failure_code outcome \<noteq> Some AuthorizationStale
               then Inl (corrupt run_id ''approved tool committed an outcome before execution began'')
               else Inr ()
           | (ApprovalPrompt _ _, Some (Denied _), _) \<Rightarrow>
               if to_invocation outcome \<noteq> InvocationRejectedStatus
               then Inl (corrupt run_id
                      ''denied or cancelled approval must commit a rejected tool outcome'')
               else Inr ()
           | (ApprovalPrompt _ _, Some InteractionCancelled, _) \<Rightarrow>
               if to_invocation outcome \<noteq> InvocationRejectedStatus
               then Inl (corrupt run_id
                      ''denied or cancelled approval must commit a rejected tool outcome'')
               else Inr ()
           | _ \<Rightarrow> Inr ()))"

definition validate_outcome_lifecycle ::
  "string \<Rightarrow> pending_tool_action \<Rightarrow> string \<Rightarrow> string \<Rightarrow> tool_outcome \<Rightarrow> run_store_error + unit" where
  "validate_outcome_lifecycle run_id pending call_id name outcome =
     (if ti_call_id (pt_invocation pending) \<noteq> call_id \<or> ti_name (pt_invocation pending) \<noteq> name
      then Inl (corrupt run_id ''tool outcome identity does not match prepared call'')
      else if pt_state pending = ActionInFlight
              \<and> (to_invocation outcome = InvocationRejectedStatus
                 \<or> to_transport outcome = TransportNotStarted
                 \<or> to_operation outcome = OperationNotStarted)
      then Inl (corrupt run_id ''an in-flight tool cannot commit a preflight rejection lifecycle'')
      else if pt_state pending = ActionPrepared \<and> pt_interaction pending = None
              \<and> to_invocation outcome \<noteq> InvocationRejectedStatus
      then Inl (corrupt run_id ''an unstarted tool can only commit a preflight rejection'')
      else
        and_then (validate_outcome_interaction run_id pending outcome)
        (if pt_workspace_access pending = ReadOnly
            \<and> ti_name (pt_invocation pending) \<noteq> AGENT_TOOL_NAME
            \<and> ti_name (pt_invocation pending) \<noteq> REQUEST_USER_INPUT_TOOL_NAME
            \<and> (to_side_effect outcome = EffectApplied \<or> to_side_effect outcome = EffectIndeterminate)
         then Inl (corrupt run_id
                ''read-only executable tool outcome cannot claim an applied or indeterminate workspace side effect'')
         else Inr ()))"

definition settles_agent_call :: "pending_tool_action \<Rightarrow> bool" where
  "settles_agent_call pending \<longleftrightarrow> ti_name (pt_invocation pending) = AGENT_TOOL_NAME"

definition settled_agent_lifecycle ::
  "run_snapshot \<Rightarrow> pending_tool_action \<Rightarrow> agent_task_lifecycle option" where
  "settled_agent_lifecycle s pending =
     (if settles_agent_call pending
      then find (\<lambda>lc. at_call_id (lc_task lc) = ti_call_id (pt_invocation pending)) (sn_agent_tasks s)
      else None)"

definition validate_agent_settlement ::
  "run_snapshot \<Rightarrow> string \<Rightarrow> pending_tool_action \<Rightarrow> tool_outcome \<Rightarrow> run_store_error + unit" where
  "validate_agent_settlement s run_id pending outcome =
     (if \<not> settles_agent_call pending then Inr ()
      else
        (case settled_agent_lifecycle s pending of
           None \<Rightarrow>
             if to_operation outcome \<noteq> OperationSucceeded \<and> to_side_effect outcome = EffectNotApplied
             then Inr ()
             else Inl (corrupt run_id
                    ''agent tool outcome without a lifecycle must prove preflight rejection without side effects'')
         | Some lc \<Rightarrow>
             if \<not> is_writer lc \<and> lc_child_started lc = None \<and> lc_finished lc = None
             then Inl (corrupt run_id ''read-only agent launch outcome committed before child start'')
             else if is_writer lc \<and> lc_finished lc = None
             then Inl (corrupt run_id
                    ''writer agent tool outcome committed before its canonical child lifecycle finished'')
             else Inr ()))"

definition rejected_before_lifecycle ::
  "run_snapshot \<Rightarrow> pending_tool_action \<Rightarrow> tool_outcome \<Rightarrow> bool" where
  "rejected_before_lifecycle s pending outcome \<longleftrightarrow>
     settles_agent_call pending \<and> settled_agent_lifecycle s pending = None \<and>
     to_operation outcome \<noteq> OperationSucceeded \<and> to_side_effect outcome = EffectNotApplied"

definition failed_writer_without_integration :: "run_snapshot \<Rightarrow> pending_tool_action \<Rightarrow> bool" where
  "failed_writer_without_integration s pending =
     (case settled_agent_lifecycle s pending of None \<Rightarrow> False
      | Some lc \<Rightarrow> is_writer lc \<and> lc_integration lc = None \<and>
          (case lc_result lc of None \<Rightarrow> False | Some result \<Rightarrow> \<not> is_completed (ao_terminal result)))"

definition writer_integration_failed :: "run_snapshot \<Rightarrow> pending_tool_action \<Rightarrow> bool" where
  "writer_integration_failed s pending =
     (case settled_agent_lifecycle s pending of None \<Rightarrow> False
      | Some lc \<Rightarrow> is_writer lc \<and>
          (case lc_integration lc of None \<Rightarrow> False | Some integration \<Rightarrow> il_failure integration \<noteq> None))"

definition unintegrated_writer_recovery :: "run_snapshot \<Rightarrow> pending_tool_action \<Rightarrow> bool" where
  "unintegrated_writer_recovery s pending =
     (case settled_agent_lifecycle s pending of None \<Rightarrow> False
      | Some lc \<Rightarrow> is_unintegrated_writer_recovery lc)"

definition integrated_writer_state ::
  "run_snapshot \<Rightarrow> pending_tool_action \<Rightarrow> workspace_state option" where
  "integrated_writer_state s pending =
     (case settled_agent_lifecycle s pending of None \<Rightarrow> None
      | Some lc \<Rightarrow>
          if is_writer lc
          then map_option icf_root_workspace_state_after (integration_committed lc) else None)"

definition settles_writer :: "run_snapshot \<Rightarrow> pending_tool_action \<Rightarrow> bool" where
  "settles_writer s pending =
     (case settled_agent_lifecycle s pending of None \<Rightarrow> False | Some lc \<Rightarrow> is_writer lc)"

definition may_omit_workspace_state ::
  "run_snapshot \<Rightarrow> pending_tool_action \<Rightarrow> tool_outcome \<Rightarrow> bool" where
  "may_omit_workspace_state s pending outcome \<longleftrightarrow>
     (failed_writer_without_integration s pending \<or> writer_integration_failed s pending
        \<or> rejected_before_lifecycle s pending outcome) \<and> to_side_effect outcome = EffectNotApplied
     \<or> pt_state pending = ActionPrepared \<and> to_side_effect outcome = EffectNotApplied
     \<or> unintegrated_writer_recovery s pending \<and> pt_state pending = ActionInFlight
        \<and> to_invocation outcome = InvocationAccepted
        \<and> to_transport outcome = TransportIndeterminate
        \<and> to_operation outcome = OperationCancelled
        \<and> to_side_effect outcome = EffectIndeterminate
        \<and> to_retry outcome = RetryUnsafe \<and> to_workspace_revision outcome = None"

definition settle_workspace ::
  "run_snapshot \<Rightarrow> string \<Rightarrow> pending_tool_action \<Rightarrow> tool_outcome \<Rightarrow> workspace_state option \<Rightarrow>
     run_store_error + run_snapshot" where
  "settle_workspace s run_id pending outcome workspace_state =
     (case (pt_workspace_access pending, workspace_state) of
        (ReadOnly, None) \<Rightarrow> Inr s
      | (ReadOnly, Some _) \<Rightarrow>
          Inl (corrupt run_id ''read-only tool outcome cannot advance workspace state'')
      | (MayWrite, None) \<Rightarrow>
          if may_omit_workspace_state s pending outcome then Inr s
          else Inl (corrupt run_id ''workspace-mutating tool outcome must settle workspace state'')
      | (MayWrite, Some state) \<Rightarrow>
          if pt_state pending \<noteq> ActionInFlight
          then Inl (corrupt run_id ''unstarted workspace-mutating tool cannot settle workspace state'')
          else if settles_agent_call pending
                  \<and> (case integrated_writer_state s pending of None \<Rightarrow> False
                     | Some integrated \<Rightarrow> integrated \<noteq> state)
          then Inl (corrupt run_id ''writer agent tool outcome does not settle the integrated root state'')
          else if settles_agent_call pending \<and> settles_writer s pending
                  \<and> integrated_writer_state s pending = None
          then Inl (corrupt run_id
                 ''unintegrated writer agent tool outcome cannot advance the root workspace'')
          else
            and_then (map_err (corrupt run_id) (workspace_state_validate state))
            (if ws_generation state \<noteq> sat_add (ws_generation (sn_workspace_state s)) 1
             then Inl (corrupt run_id ''workspace-mutating tool outcome did not advance one generation'')
             else Inr (s\<lparr>sn_workspace_state := state\<rparr>)))"

definition is_temporal_verifier :: "run_snapshot \<Rightarrow> string \<Rightarrow> bool" where
  "is_temporal_verifier s name =
     (case sn_temporal_evidence_progress s of None \<Rightarrow> False
      | Some progress \<Rightarrow> name = vs_verifier_id (tp_verifier progress))"

definition effective_mutation ::
  "run_snapshot \<Rightarrow> pending_tool_action \<Rightarrow> string \<Rightarrow> tool_outcome \<Rightarrow> bool \<Rightarrow> bool" where
  "effective_mutation s pending name outcome revision_changed \<longleftrightarrow>
     pt_workspace_access pending = MayWrite \<and> pt_state pending = ActionInFlight \<and>
     to_invocation outcome = InvocationAccepted \<and> to_transport outcome = TransportSucceeded \<and>
     to_side_effect outcome = EffectApplied \<and> \<not> is_temporal_verifier s name \<and> revision_changed"

definition advance_temporal_progress ::
  "run_snapshot \<Rightarrow> string \<Rightarrow> string \<Rightarrow> workspace_state \<Rightarrow> bool \<Rightarrow> bool \<Rightarrow>
     run_store_error + run_snapshot" where
  "advance_temporal_progress s run_id operation_id before revision_changed effective =
     (if revision_changed \<and> \<not> effective then Inr (s\<lparr>sn_temporal_evidence_progress := None\<rparr>)
      else
        (case (effective, sn_temporal_evidence_progress s) of
           (True, Some progress) \<Rightarrow>
             let mutation =
                   \<lparr>wm_operation_id = operation_id, wm_before = before,
                    wm_after = sn_workspace_state s\<rparr>
             in and_then (map_err (corrupt run_id) (workspace_mutation_validate mutation))
                (if ws_generation (fv_workspace_state (tp_failure progress))
                      \<le> ws_generation (wm_before mutation)
                 then
                   let progress' = progress\<lparr>tp_mutation := Some mutation\<rparr>
                   in and_then (map_err (corrupt run_id) (temporal_progress_validate progress'))
                        (Inr (s\<lparr>sn_temporal_evidence_progress := Some progress'\<rparr>))
                 else Inr s)
         | _ \<Rightarrow> Inr s))"

definition authorized_verifier_observation ::
  "'x codec_scheme \<Rightarrow> run_snapshot \<Rightarrow> pending_tool_action \<Rightarrow> string \<Rightarrow> tool_outcome \<Rightarrow>
     workspace_state \<Rightarrow> bool" where
  "authorized_verifier_observation cx s pending name outcome before =
     (case to_verifier_observation outcome of
        None \<Rightarrow> True
      | Some observation \<Rightarrow>
          pt_state pending = ActionInFlight \<and>
          name = vs_verifier_id (vo_spec observation) \<and>
          to_invocation outcome = InvocationAccepted \<and>
          to_transport outcome = TransportSucceeded \<and>
          has_stable_verifier_revision outcome (ws_revision before)
            (ws_revision (sn_workspace_state s)) \<and>
          verifier_artifacts_are_available cx outcome observation \<and>
          (case (vo_verdict observation, to_operation outcome) of
             (VerdictPassed, OperationSucceeded) \<Rightarrow> True
           | (VerdictFailed, OperationFailedStatus) \<Rightarrow> True
           | _ \<Rightarrow> False))"

definition record_tool_verifier_failure ::
  "'x codec_scheme \<Rightarrow> run_snapshot \<Rightarrow> pending_tool_action \<Rightarrow> string \<Rightarrow> string \<Rightarrow> tool_outcome \<Rightarrow>
     run_snapshot" where
  "record_tool_verifier_failure cx s pending operation_id name outcome =
     (if pt_workspace_access pending = MayWrite \<and> pt_state pending = ActionInFlight
         \<and> (case to_verifier_observation outcome of None \<Rightarrow> False
            | Some observation \<Rightarrow> name = vs_verifier_id (vo_spec observation))
      then
        (case failed_temporal_progress cx s outcome (FailedTool operation_id)
                (sn_workspace_state s) None of
           None \<Rightarrow> s
         | Some progress \<Rightarrow> s\<lparr>sn_temporal_evidence_progress := Some progress\<rparr>)
      else s)"

definition apply_tool_outcome ::
  "'x codec_scheme \<Rightarrow> run_snapshot \<Rightarrow> string \<Rightarrow> string \<Rightarrow> string \<Rightarrow> string \<Rightarrow> tool_outcome \<Rightarrow>
     workspace_state option \<Rightarrow> run_store_error + run_snapshot" where
  "apply_tool_outcome cx s run_id operation_id call_id name outcome workspace_state =
     and_then (map_err (corrupt run_id) (tool_outcome_validate cx outcome))
     (rbind (pending_tool_for s run_id operation_id)
     (\<lambda>pending.
        and_then (validate_outcome_lifecycle run_id pending call_id name outcome)
        (and_then (validate_agent_settlement s run_id pending outcome)
        (rbind (settle_workspace s run_id pending outcome workspace_state)
        (\<lambda>s1.
           let before = sn_workspace_state s;
               revision_changed = workspace_revision_changed before (sn_workspace_state s1)
           in if revision_changed \<and> to_side_effect outcome = EffectNotApplied
              then Inl (corrupt run_id
                     ''tool reporting no side effect cannot settle a changed workspace revision'')
              else
                rbind (advance_temporal_progress s1 run_id operation_id before revision_changed
                         (effective_mutation s1 pending name outcome revision_changed))
                (\<lambda>s2.
                   if \<not> authorized_verifier_observation cx s2 pending name outcome before
                   then Inl (corrupt run_id
                          ''tool verifier observation does not match an exact deterministic execution'')
                   else
                     let s3 = record_tool_verifier_failure cx s2 pending operation_id name outcome
                     in Inr (s3\<lparr>sn_pending_tool := None,
                                sn_transcript := sn_transcript s3 @ [ToolEntry call_id name outcome]\<rparr>)))))))"

section \<open>Workspace observations\<close>

definition apply_workspace_observed ::
  "run_snapshot \<Rightarrow> string \<Rightarrow> workspace_state \<Rightarrow> run_store_error + run_snapshot" where
  "apply_workspace_observed s run_id workspace_state =
     and_then (map_err (corrupt run_id) (workspace_state_validate workspace_state))
     (let expected_generation =
        (case (ws_revision (sn_workspace_state s), ws_revision workspace_state) of
           (RevKnown previous, RevKnown current) \<Rightarrow>
             if previous = current then ws_generation (sn_workspace_state s)
             else sat_add (ws_generation (sn_workspace_state s)) 1
         | _ \<Rightarrow> sat_add (ws_generation (sn_workspace_state s)) 1)
      in if ws_generation workspace_state \<noteq> expected_generation
         then Inl (corrupt run_id ''workspace observation carries an invalid generation'')
         else
           let s1 = (if ws_revision (sn_workspace_state s) \<noteq> ws_revision workspace_state
                     then s\<lparr>sn_temporal_evidence_progress := None\<rparr> else s)
           in Inr (s1\<lparr>sn_workspace_state := workspace_state\<rparr>))"

end
