(* ===== verification/Reducer_Completion.thy ===== *)
theory Reducer_Completion
  imports Evidence
begin

text \<open>
  The arms of \<^verbatim>\<open>apply_event\<close> (crates/runtime/src/store.rs) for completion: the proposal of
  the model, the explicit acceptance of the Host, the Host verification with its sealed receipt
  or typed rejection, and the check of the decision a completed terminal carries. The arms for
  steers and control requests are here too.
\<close>

section \<open>Proposals and Host acceptance\<close>

definition proposal_is_current ::
  "run_snapshot \<Rightarrow> completion_candidate \<Rightarrow> u64 \<Rightarrow> model_output \<Rightarrow> bool" where
  "proposal_is_current s candidate model_response_sequence output \<longleftrightarrow>
     sn_last_model_activity_sequence s = Some model_response_sequence \<and>
     sn_pending_model s = None \<and> sn_pending_tool s = None \<and> sn_pending_steers s = [] \<and>
     sn_pending_control s = None \<and> pending_child_run_ids s = [] \<and>
     mo_finish_reason output = FinishStop \<and> mo_tool_calls output = [] \<and>
     \<not> blank (mo_content output) \<and>
     cc_id candidate = ''completion-'' @ decimal (unat model_response_sequence) \<and>
     cc_message candidate = mo_content output \<and>
     \<not> (case sn_last_completion_rejection s of None \<Rightarrow> False
         | Some rejection \<Rightarrow> cr_candidate_id rejection = cc_id candidate
             \<and> cr_generation_id rejection = cc_generation_id candidate)"

definition apply_completion_proposed ::
  "run_snapshot \<Rightarrow> string \<Rightarrow> completion_candidate \<Rightarrow> run_store_error + run_snapshot" where
  "apply_completion_proposed s run_id candidate =
     and_then (map_err (corrupt run_id) (completion_candidate_validate candidate))
     (rbind (ok_or (sn_last_model_response_sequence s)
               (corrupt run_id ''completion proposal has no committed model response origin''))
     (\<lambda>model_response_sequence.
        rbind (ok_or (sn_last_model_output s)
                 (corrupt run_id ''completion proposal has no committed model output origin''))
        (\<lambda>output.
           if \<not> proposal_is_current s candidate model_response_sequence output
           then Inl (corrupt run_id
                  ''completion proposal does not match the current actionable model Stop'')
           else
             rbind (expect_contract s)
             (\<lambda>contract.
                if cc_generation_id candidate \<noteq> tc_generation_id contract
                then Inl (corrupt run_id ''completion candidate belongs to another task generation'')
                else if cc_workspace_state candidate \<noteq> sn_workspace_state s
                then Inl (corrupt run_id
                       ''completion candidate does not bind the current workspace state'')
                else if sn_pending_completion s \<noteq> None
                then Inl (corrupt run_id
                       ''completion proposal cannot replace an existing pending candidate'')
                else Inr (s\<lparr>sn_pending_completion := Some candidate\<rparr>)))))"

definition host_acceptance_matches ::
  "run_snapshot \<Rightarrow> task_contract \<Rightarrow> completion_candidate \<Rightarrow> string \<Rightarrow> host_acceptance_receipt \<Rightarrow> bool" where
  "host_acceptance_matches s contract candidate command_id receipt \<longleftrightarrow>
     hr_id receipt = ''host-acceptance:'' @ command_id \<and>
     hr_candidate_id receipt = cc_id candidate \<and>
     hr_generation_id receipt = tc_generation_id contract \<and>
     hr_workspace_state receipt = cc_workspace_state candidate \<and>
     hr_workspace_state receipt = sn_workspace_state s \<and>
     list_ex is_host_acceptance (td_acceptance (tc_definition contract))"

definition apply_host_completion_accepted ::
  "run_snapshot \<Rightarrow> string \<Rightarrow> u64 \<Rightarrow> string \<Rightarrow> host_acceptance_receipt \<Rightarrow>
     run_store_error + run_snapshot" where
  "apply_host_completion_accepted s run_id sequence command_id receipt =
     and_then (map_err (corrupt run_id) (host_acceptance_receipt_validate receipt))
     (rbind (ok_or (sn_pending_completion s)
               (corrupt run_id ''Host completion acceptance has no pending candidate''))
     (\<lambda>candidate.
        rbind (expect_contract s)
        (\<lambda>contract.
           if \<not> host_acceptance_matches s contract candidate command_id receipt
           then Inl (corrupt run_id
                  ''Host completion acceptance does not match the current candidate, generation, workspace, or contract'')
           else
             rbind (record_command s run_id command_id sequence
                      (CommandAcceptCompletion
                         \<lparr>ha_candidate_id = hr_candidate_id receipt,
                          ha_generation_id = hr_generation_id receipt,
                          ha_workspace_state = hr_workspace_state receipt\<rparr>))
             (\<lambda>s1.
                if list_ex (\<lambda>existing. hr_id existing = hr_id receipt) (sn_host_acceptance_receipts s1)
                then Inl (corrupt run_id ''Host completion acceptance receipt appears more than once'')
                else Inr (s1\<lparr>sn_host_acceptance_receipts :=
                                sn_host_acceptance_receipts s1 @ [receipt]\<rparr>)))))"

section \<open>Host verification\<close>

fun is_verifier_acceptance_for :: "string \<Rightarrow> verifier_spec \<Rightarrow> task_acceptance \<Rightarrow> bool" where
  "is_verifier_acceptance_for accept_id verifier (VerifierAcceptance i _ _ expected) =
     (i = accept_id \<and> expected = verifier)"
| "is_verifier_acceptance_for accept_id verifier (HostAcceptance _ _) = False"

definition apply_host_verification_prepared ::
  "run_snapshot \<Rightarrow> string \<Rightarrow> string \<Rightarrow> completion_candidate \<Rightarrow> string \<Rightarrow> verifier_spec \<Rightarrow>
     workspace_state \<Rightarrow> run_store_error + run_snapshot" where
  "apply_host_verification_prepared s run_id verification_id candidate accept_id verifier before =
     (if sn_pending_host_verification s \<noteq> None
      then Inl (corrupt run_id ''Host verification prepared twice'')
      else if sn_pending_completion s \<noteq> Some candidate
      then Inl (corrupt run_id ''Host verification does not match the pending completion candidate'')
      else
        rbind (expect_contract s)
        (\<lambda>contract.
           if \<not> list_ex (is_verifier_acceptance_for accept_id verifier)
                 (td_acceptance (tc_definition contract))
              \<or> before \<noteq> sn_workspace_state s
           then Inl (corrupt run_id ''Host verification does not match the contract or current workspace'')
           else if cc_workspace_state candidate \<noteq> before
           then Inl (corrupt run_id ''Host verification candidate is stale for the prepared workspace'')
           else Inr (s\<lparr>sn_pending_host_verification := Some
                   \<lparr>phv_verification_id = verification_id, phv_candidate = candidate,
                    phv_acceptance_id = accept_id, phv_verifier = verifier,
                    phv_workspace_state_before = before, phv_state = ActionPrepared\<rparr>\<rparr>)))"

definition apply_host_verification_started ::
  "run_snapshot \<Rightarrow> string \<Rightarrow> string \<Rightarrow> run_store_error + run_snapshot" where
  "apply_host_verification_started s run_id verification_id =
     rbind (ok_or (sn_pending_host_verification s)
              (corrupt run_id ''Host verification started before preparation''))
     (\<lambda>pending.
        if phv_verification_id pending \<noteq> verification_id \<or> phv_state pending \<noteq> ActionPrepared
           \<or> phv_workspace_state_before pending \<noteq> sn_workspace_state s
        then Inl (corrupt run_id ''Host verification start does not match the prepared action'')
        else Inr (s\<lparr>sn_pending_host_verification := Some (pending\<lparr>phv_state := ActionInFlight\<rparr>)\<rparr>))"

fun verifier_policy_for :: "string \<Rightarrow> verifier_spec \<Rightarrow> task_acceptance \<Rightarrow> verifier_evidence_policy option" where
  "verifier_policy_for accept_id verifier (VerifierAcceptance i _ policy expected) =
     (if i = accept_id \<and> expected = verifier then Some policy else None)"
| "verifier_policy_for accept_id verifier (HostAcceptance _ _) = None"

definition commit_evidence_receipt ::
  "run_snapshot \<Rightarrow> string \<Rightarrow> evidence_receipt \<Rightarrow> evidence_receipt \<Rightarrow> run_store_error + run_snapshot" where
  "commit_evidence_receipt s run_id expected receipt =
     (if expected \<noteq> receipt
      then Inl (corrupt run_id ''Host verification receipt does not equal the canonical seal result'')
      else if list_ex (\<lambda>existing. er_id existing = er_id receipt) (sn_evidence_receipts s)
      then Inl (corrupt run_id ''evidence receipt id was committed twice'')
      else Inr (s\<lparr>sn_evidence_receipts := sn_evidence_receipts s @ [receipt],
                  sn_last_completion_rejection := None,
                  sn_last_host_verification_failure := None,
                  sn_temporal_evidence_progress := None\<rparr>))"

definition commit_verification_failure ::
  "'x codec_scheme \<Rightarrow> run_snapshot \<Rightarrow> pending_host_verification \<Rightarrow> string \<Rightarrow> string \<Rightarrow> tool_outcome \<Rightarrow>
     workspace_state \<Rightarrow> evidence_seal_rejection \<Rightarrow> run_snapshot" where
  "commit_verification_failure cx s pending generation_id verification_id outcome after cause =
     (let s1 = (if ws_revision (sn_workspace_state s) \<noteq> ws_revision after
                then s\<lparr>sn_temporal_evidence_progress := None\<rparr> else s);
          rejection = completion_rejection (cc_id (phv_candidate pending)) generation_id
                        (phv_acceptance_id pending) (vs_verifier_id (phv_verifier pending)) cause;
          s2 = s1\<lparr>sn_last_host_verification_failure := Some
                  \<lparr>hvf_outcome = outcome, hvf_workspace_state = after, hvf_rejection = rejection\<rparr>\<rparr>
      in case failed_temporal_progress cx s2 outcome (FailedHost verification_id) after
                (Some (phv_acceptance_id pending, phv_verifier pending)) of
           None \<Rightarrow> s2
         | Some progress \<Rightarrow> s2\<lparr>sn_temporal_evidence_progress := Some progress\<rparr>)"

definition apply_host_verification_committed ::
  "'x codec_scheme \<Rightarrow> run_snapshot \<Rightarrow> string \<Rightarrow> string \<Rightarrow> tool_outcome \<Rightarrow> evidence_receipt option \<Rightarrow>
     workspace_state \<Rightarrow> run_store_error + run_snapshot" where
  "apply_host_verification_committed cx s run_id verification_id outcome receipt after =
     and_then (map_err (corrupt run_id) (tool_outcome_validate cx outcome))
     (rbind (ok_or (sn_pending_host_verification s)
               (corrupt run_id ''Host verification committed before preparation''))
     (\<lambda>pending.
        if phv_verification_id pending \<noteq> verification_id \<or> phv_state pending \<noteq> ActionInFlight
        then Inl (corrupt run_id ''Host verification outcome does not match the in-flight action'')
        else if phv_workspace_state_before pending \<noteq> sn_workspace_state s
        then Inl (corrupt run_id
               ''Host verification workspace changed after its exact action was prepared'')
        else if ws_generation after \<noteq>
                  sat_add (ws_generation (phv_workspace_state_before pending)) 1
        then Inl (corrupt run_id ''Host verification did not advance the workspace generation'')
        else
          and_then (map_err (corrupt run_id) (workspace_state_validate after))
          (rbind (expect_contract s)
          (\<lambda>contract.
             rbind (ok_or (find_map (verifier_policy_for (phv_acceptance_id pending) (phv_verifier pending))
                             (td_acceptance (tc_definition contract)))
                      (corrupt run_id ''Host verification lost its verifier acceptance''))
             (\<lambda>evidence_policy.
                rbind
                  (case (seal_evidence_receipt cx s verification_id (phv_acceptance_id pending)
                           evidence_policy (phv_verifier pending) outcome after, receipt) of
                     (Inr expected, Some receipt) \<Rightarrow> commit_evidence_receipt s run_id expected receipt
                   | (Inr _, None) \<Rightarrow>
                       Inl (corrupt run_id
                         ''Host verification omitted a receipt that canonical sealing accepted'')
                   | (Inl _, Some _) \<Rightarrow>
                       Inl (corrupt run_id
                         ''Host verification carried a receipt that canonical sealing rejected'')
                   | (Inl cause, None) \<Rightarrow>
                       Inr (commit_verification_failure cx s pending (tc_generation_id contract)
                              verification_id outcome after cause))
                (\<lambda>s1. Inr (s1\<lparr>sn_workspace_state := after,
                               sn_pending_host_verification := None\<rparr>)))))))"

definition apply_completion_rejected ::
  "run_snapshot \<Rightarrow> string \<Rightarrow> completion_rejection \<Rightarrow> run_store_error + run_snapshot" where
  "apply_completion_rejected s run_id rejection =
     and_then (map_err (corrupt run_id) (completion_rejection_validate rejection))
     (if (case sn_pending_completion s of None \<Rightarrow> True
          | Some candidate \<Rightarrow> cc_id candidate \<noteq> cr_candidate_id rejection)
      then Inl (corrupt run_id ''completion rejection does not match the pending candidate'')
      else
        rbind (expect_contract s)
        (\<lambda>contract.
           if cr_generation_id rejection \<noteq> tc_generation_id contract
           then Inl (corrupt run_id ''completion rejection belongs to another task generation'')
           else if (case sn_last_host_verification_failure s of None \<Rightarrow> True
                    | Some failure \<Rightarrow> hvf_rejection failure \<noteq> rejection)
           then Inl (corrupt run_id
                  ''completion rejection does not match the canonical Host verification failure'')
           else Inr (s\<lparr>sn_last_completion_rejection := Some rejection,
                       sn_pending_completion := None\<rparr>)))"

section \<open>The completion decision\<close>

definition receipt_is_current ::
  "run_snapshot \<Rightarrow> task_contract \<Rightarrow> string \<Rightarrow> verifier_spec \<Rightarrow> verifier_evidence_policy \<Rightarrow>
     evidence_receipt \<Rightarrow> bool" where
  "receipt_is_current s contract accept_id verifier policy receipt \<longleftrightarrow>
     er_generation_id receipt = tc_generation_id contract \<and>
     er_acceptance_id receipt = accept_id \<and> er_verifier receipt = verifier \<and>
     lineage_satisfies (er_lineage receipt) policy \<and>
     er_workspace_state receipt = sn_workspace_state s"

definition satisfaction_for ::
  "completion_decision \<Rightarrow> string \<Rightarrow> acceptance_satisfaction option" where
  "satisfaction_for decision accept_id =
     find (\<lambda>item. satisfaction_acceptance_id item = accept_id) (cd_satisfied decision)"

definition verifier_satisfied_now ::
  "run_snapshot \<Rightarrow> task_contract \<Rightarrow> completion_decision \<Rightarrow> task_acceptance \<Rightarrow> bool" where
  "verifier_satisfied_now s contract decision acc =
     (case acc of
        HostAcceptance _ _ \<Rightarrow> False
      | VerifierAcceptance i _ policy verifier \<Rightarrow>
          (case satisfaction_for decision i of
             Some (EvidenceSatisfaction _ receipt_id) \<Rightarrow>
               list_ex (\<lambda>receipt. er_id receipt = receipt_id
                          \<and> receipt_is_current s contract i verifier policy receipt)
                 (sn_evidence_receipts s)
           | _ \<Rightarrow> False))"

definition validate_host_satisfaction ::
  "run_snapshot \<Rightarrow> string \<Rightarrow> task_contract \<Rightarrow> completion_candidate \<Rightarrow> completion_decision \<Rightarrow> bool \<Rightarrow>
     string \<Rightarrow> run_store_error + unit" where
  "validate_host_satisfaction s run_id contract candidate decision verifier_now receipt_id =
     rbind (ok_or (find (\<lambda>receipt. hr_id receipt = receipt_id) (sn_host_acceptance_receipts s))
              (corrupt run_id ''completion references an unknown Host acceptance receipt''))
     (\<lambda>receipt.
        let exact_current_workspace = hr_workspace_state receipt = sn_workspace_state s;
            verifier_advanced_same_revision =
              verifier_now
              \<and> hr_workspace_state receipt = cc_workspace_state candidate
              \<and> checked_add (ws_generation (hr_workspace_state receipt)) 1
                  = Some (ws_generation (sn_workspace_state s))
              \<and> ws_revision (hr_workspace_state receipt) = ws_revision (sn_workspace_state s)
        in if hr_candidate_id receipt \<noteq> cd_candidate_id decision
              \<or> hr_generation_id receipt \<noteq> tc_generation_id contract
              \<or> \<not> (exact_current_workspace \<or> verifier_advanced_same_revision)
           then Inl (corrupt run_id
                  ''Host acceptance receipt does not match the current candidate, generation, or workspace'')
           else Inr ())"

definition validate_acceptance_satisfied ::
  "run_snapshot \<Rightarrow> string \<Rightarrow> task_contract \<Rightarrow> completion_candidate \<Rightarrow> completion_decision \<Rightarrow> bool \<Rightarrow>
     task_acceptance \<Rightarrow> run_store_error + unit" where
  "validate_acceptance_satisfied s run_id contract candidate decision verifier_now acc =
     (case satisfaction_for decision (acceptance_id acc) of
        None \<Rightarrow>
          Inl (corrupt run_id (''acceptance '' @ quote @ acceptance_id acc @ quote @ '' is not satisfied''))
      | Some satisfaction \<Rightarrow>
          (case (acc, satisfaction) of
             (HostAcceptance _ _, HostSatisfaction _ receipt_id) \<Rightarrow>
               validate_host_satisfaction s run_id contract candidate decision verifier_now receipt_id
           | (VerifierAcceptance i _ policy verifier, EvidenceSatisfaction _ receipt_id) \<Rightarrow>
               rbind (ok_or (find (\<lambda>receipt. er_id receipt = receipt_id) (sn_evidence_receipts s))
                        (corrupt run_id ''completion references an unknown receipt''))
               (\<lambda>receipt.
                  if \<not> receipt_is_current s contract i verifier policy receipt
                  then Inl (corrupt run_id
                         ''completion receipt does not match the current contract or workspace'')
                  else Inr ())
           | _ \<Rightarrow>
               Inl (corrupt run_id ''completion satisfaction kind does not match task acceptance'')))"

definition validate_completion_decision ::
  "run_snapshot \<Rightarrow> string \<Rightarrow> completion_decision \<Rightarrow> run_store_error + unit" where
  "validate_completion_decision s run_id decision =
     and_then (map_err (corrupt run_id) (completion_decision_validate decision))
     (rbind (ok_or (sn_pending_completion s)
               (corrupt run_id ''completed terminal has no completion candidate''))
     (\<lambda>candidate.
        rbind (ok_or (rq_task_contract (sn_request s))
                 (corrupt run_id ''completed Agent has no task contract''))
        (\<lambda>contract.
           if cd_candidate_id decision \<noteq> cc_id candidate
              \<or> cd_generation_id decision \<noteq> tc_generation_id contract
              \<or> cd_workspace_state decision \<noteq> sn_workspace_state s
           then Inl (corrupt run_id
                  ''completion decision does not match the current candidate, generation, or workspace'')
           else if length (cd_satisfied decision) \<noteq> length (td_acceptance (tc_definition contract))
           then Inl (corrupt run_id ''completion decision does not satisfy the whole task contract'')
           else
             let verifier_now =
                   list_ex (verifier_satisfied_now s contract decision)
                     (td_acceptance (tc_definition contract))
             in for_each
                  (validate_acceptance_satisfied s run_id contract candidate decision verifier_now)
                  (td_acceptance (tc_definition contract)))))"

section \<open>Steers and control\<close>

definition apply_steer_queued ::
  "run_snapshot \<Rightarrow> string \<Rightarrow> u64 \<Rightarrow> string \<Rightarrow> string \<Rightarrow> run_store_error + run_snapshot" where
  "apply_steer_queued s run_id sequence command_id content =
     rbind (record_command s run_id command_id sequence (CommandSteer content))
     (\<lambda>s1. Inr (s1\<lparr>sn_pending_steers :=
                      sn_pending_steers s1 @ [\<lparr>ps_command_id = command_id, ps_content = content\<rparr>]\<rparr>))"

definition apply_steer_applied ::
  "run_snapshot \<Rightarrow> string \<Rightarrow> u64 \<Rightarrow> string \<Rightarrow> string \<Rightarrow> run_store_error + run_snapshot" where
  "apply_steer_applied s run_id sequence command_id content =
     (case sn_pending_steers s of
        [] \<Rightarrow> Inl (corrupt run_id ''steer applied without a queued command'')
      | pending # rest \<Rightarrow>
          if ps_command_id pending \<noteq> command_id \<or> ps_content pending \<noteq> content
          then Inl (corrupt run_id ''steers must be applied in queued order with unchanged content'')
          else Inr (s\<lparr>sn_pending_steers := rest,
                      sn_transcript := sn_transcript s @ [UserEntry content],
                      sn_last_model_activity_sequence := Some sequence\<rparr>))"

definition apply_control_requested ::
  "run_snapshot \<Rightarrow> string \<Rightarrow> u64 \<Rightarrow> string \<Rightarrow> durable_control_action \<Rightarrow> run_store_error + run_snapshot" where
  "apply_control_requested s run_id sequence command_id action =
     (if sn_pending_control s \<noteq> None
      then Inl (corrupt run_id ''more than one terminal control was requested'')
      else
        rbind (record_command s run_id command_id sequence (CommandStop action))
        (\<lambda>s1. Inr (s1\<lparr>sn_pending_control :=
                         Some \<lparr>pc_command_id = command_id, pc_action = action\<rparr>\<rparr>)))"

end
