(* ===== verification/Reducer_Agent.thy ===== *)
theory Reducer_Agent
  imports Snapshot
begin

text \<open>
  The arms of \<^verbatim>\<open>apply_event\<close> (crates/runtime/src/store.rs) for child Agents: the prepared task,
  the writer's isolated workspace, the start of the child, the sealed commit, the collected
  result, its integration into the root workspace, the cleanup of the writer's resources and
  the finished child, with the checks of what a child may report.
\<close>

section \<open>Finding a task\<close>

definition has_task_id :: "string \<Rightarrow> agent_task_lifecycle \<Rightarrow> bool" where
  "has_task_id task_id lc \<longleftrightarrow> at_task_id (lc_task lc) = task_id"

text \<open>
  \<^verbatim>\<open>agent_task_mut\<close> hands out a reference to the first lifecycle with the task id; the arm
  checks and updates it in place. Here \<open>step\<close> is what the arm does to that lifecycle.
\<close>

definition agent_task_mut ::
  "run_snapshot \<Rightarrow> string \<Rightarrow> string \<Rightarrow>
     (agent_task_lifecycle \<Rightarrow> run_store_error + agent_task_lifecycle) \<Rightarrow>
     run_store_error + run_snapshot" where
  "agent_task_mut s run_id task_id step =
     rbind (ok_or (position (has_task_id task_id) (sn_agent_tasks s))
              (corrupt run_id ''Agent lifecycle event has no prepared task''))
     (\<lambda>i. rbind (step (sn_agent_tasks s ! i))
       (\<lambda>lc. Inr (s\<lparr>sn_agent_tasks := (sn_agent_tasks s)[i := lc]\<rparr>)))"

section \<open>Preparation and start\<close>

fun tool_access_of :: "agent_workspace_access \<Rightarrow> workspace_access" where
  "tool_access_of AgentReadOnly = ReadOnly"
| "tool_access_of IsolatedWrite = MayWrite"

definition expected_root ::
  "run_snapshot \<Rightarrow> string \<Rightarrow> run_store_error + (string \<times> string)" where
  "expected_root s run_id =
     (case actor_kind (rq_actor (sn_request s)) of
        ActorRoot \<Rightarrow> Inr (run_id, env_workspace (rq_environment (sn_request s)))
      | ActorChild \<Rightarrow>
          rbind (ok_or (rq_agent_task (sn_request s))
                   (Panicked ''child RunRequest binding validated at creation''))
          (\<lambda>task. Inr (at_root_run_id task, aw_root_workspace (at_workspace task))))"

definition new_lifecycle :: "agent_task \<Rightarrow> agent_task_lifecycle" where
  "new_lifecycle task =
     \<lparr>lc_task = task, lc_workspace_created = None, lc_child_started = None, lc_seal = None,
      lc_result = None, lc_integration = None, lc_cleanup = None, lc_finished = None\<rparr>"

definition reuses_identity :: "agent_task \<Rightarrow> agent_task_lifecycle \<Rightarrow> bool" where
  "reuses_identity task existing \<longleftrightarrow>
     at_task_id (lc_task existing) = at_task_id task
     \<or> at_child_run_id (lc_task existing) = at_child_run_id task
     \<or> at_call_id (lc_task existing) = at_call_id task"

definition apply_agent_task_prepared ::
  "run_snapshot \<Rightarrow> string \<Rightarrow> agent_task \<Rightarrow> run_store_error + run_snapshot" where
  "apply_agent_task_prepared s run_id task =
     rbind (ok_or (sn_pending_tool s)
              (corrupt run_id ''Agent task prepared without an in-flight agent tool''))
     (\<lambda>pending.
        if aw_access (at_workspace task) = IsolatedWrite
           \<and> env_write_execution_mode (rq_environment (sn_request s)) \<noteq> WriteIsolatedWriter
        then Inl (corrupt run_id
               ''isolated writer task was prepared without explicit Writer admission'')
        else if pt_state pending \<noteq> ActionInFlight
           \<or> ti_name (pt_invocation pending) \<noteq> AGENT_TOOL_NAME
           \<or> ti_call_id (pt_invocation pending) \<noteq> at_call_id task
           \<or> pt_workspace_access pending \<noteq> tool_access_of (aw_access (at_workspace task))
        then Inl (corrupt run_id ''Agent task does not match the in-flight agent tool authority'')
        else
          rbind (expected_root s run_id)
          (\<lambda>(root_run_id, root_workspace).
             if at_parent_run_id task \<noteq> run_id \<or> at_root_run_id task \<noteq> root_run_id
                \<or> aw_root_workspace (at_workspace task) \<noteq> root_workspace
             then Inl (corrupt run_id
                    ''Agent task parent, root, or root workspace does not match this run'')
             else if list_ex (reuses_identity task) (sn_agent_tasks s)
             then Inl (corrupt run_id
                    ''Agent task reused a task, child run, or tool call identity'')
             else if aw_access (at_workspace task) = IsolatedWrite
                     \<and> list_ex is_writer (sn_agent_tasks s)
             then Inl (corrupt run_id ''M6-A admits only one isolated writer task per root run'')
             else Inr (s\<lparr>sn_agent_tasks := sn_agent_tasks s @ [new_lifecycle task]\<rparr>)))"

definition apply_agent_workspace_created ::
  "run_snapshot \<Rightarrow> string \<Rightarrow> string \<Rightarrow> agent_workspace_assignment \<Rightarrow> workspace_state \<Rightarrow>
     run_store_error + run_snapshot" where
  "apply_agent_workspace_created s run_id task_id assignment writer_workspace_state =
     agent_task_mut s run_id task_id
     (\<lambda>lc.
        if \<not> is_writer lc \<or> at_workspace (lc_task lc) \<noteq> assignment
           \<or> lc_workspace_created lc \<noteq> None \<or> lc_child_started lc \<noteq> None
        then Inl (corrupt run_id ''writer workspace creation does not match the prepared Agent task'')
        else Inr (lc\<lparr>lc_workspace_created := Some
               \<lparr>wcf_assignment = assignment,
                wcf_writer_workspace_state = writer_workspace_state\<rparr>\<rparr>))"

definition workspace_ready :: "agent_task_lifecycle \<Rightarrow> bool" where
  "workspace_ready lc =
     (case aw_access (at_workspace (lc_task lc)) of
        AgentReadOnly \<Rightarrow> lc_workspace_created lc = None
      | IsolatedWrite \<Rightarrow> lc_workspace_created lc \<noteq> None)"

definition apply_child_started ::
  "run_snapshot \<Rightarrow> string \<Rightarrow> string \<Rightarrow> string \<Rightarrow> string \<Rightarrow> u8 \<Rightarrow> run_store_error + run_snapshot" where
  "apply_child_started s run_id task_id call_id child_run_id depth =
     (if list_ex (\<lambda>lc. lc_child_started lc \<noteq> None \<and> lc_finished lc = None
                       \<and> at_child_run_id (lc_task lc) = child_run_id) (sn_agent_tasks s)
      then Inl (corrupt run_id ''child run started twice'')
      else
        agent_task_mut s run_id task_id
        (\<lambda>lc.
           if \<not> workspace_ready lc \<or> lc_child_started lc \<noteq> None
              \<or> at_call_id (lc_task lc) \<noteq> call_id \<or> at_child_run_id (lc_task lc) \<noteq> child_run_id
              \<or> depth \<noteq> sat_add (actor_depth (rq_actor (sn_request s))) 1
           then Inl (corrupt run_id
                  ''child start does not match its prepared task and workspace boundary'')
           else Inr (lc\<lparr>lc_child_started := Some
                  \<lparr>csf_call_id = call_id, csf_child_run_id = child_run_id, csf_depth = depth\<rparr>\<rparr>)))"

section \<open>Sealing\<close>

definition apply_agent_seal_prepared ::
  "run_snapshot \<Rightarrow> string \<Rightarrow> string \<Rightarrow> string \<Rightarrow> workspace_state \<Rightarrow> run_store_error + run_snapshot" where
  "apply_agent_seal_prepared s run_id task_id base_commit before =
     agent_task_mut s run_id task_id
     (\<lambda>lc.
        rbind (ok_or (lc_workspace_created lc)
                 (corrupt run_id ''writer seal prepared before workspace creation''))
        (\<lambda>created.
           if \<not> is_writer lc \<or> lc_child_started lc = None \<or> lc_seal lc \<noteq> None \<or> lc_result lc \<noteq> None
              \<or> base_commit \<noteq> aw_base_commit (at_workspace (lc_task lc))
              \<or> ws_generation before < ws_generation (wcf_writer_workspace_state created)
           then Inl (corrupt run_id ''writer seal preparation does not match its started task'')
           else Inr (lc\<lparr>lc_seal := Some
                  \<lparr>sl_base_commit = base_commit, sl_writer_workspace_state_before = before,
                   sl_committed = None\<rparr>\<rparr>)))"

definition path_within :: "string \<Rightarrow> string \<Rightarrow> bool" where
  "path_within changed allowed \<longleftrightarrow>
     changed = allowed
     \<or> (case strip_prefix allowed changed of None \<Rightarrow> False | Some suffix \<Rightarrow> starts_with ''/'' suffix)"

definition paths_stay_within :: "string list \<Rightarrow> string list \<Rightarrow> bool" where
  "paths_stay_within changed_files allowed_paths \<longleftrightarrow>
     list_all (\<lambda>changed. list_ex (path_within changed) allowed_paths) changed_files"

definition apply_agent_seal_committed ::
  "run_snapshot \<Rightarrow> string \<Rightarrow> string \<Rightarrow> string \<Rightarrow> string \<Rightarrow> string list \<Rightarrow> workspace_state \<Rightarrow>
     run_store_error + run_snapshot" where
  "apply_agent_seal_committed s run_id task_id final_commit diff_sha256 changed_files after =
     agent_task_mut s run_id task_id
     (\<lambda>lc.
        rbind (ok_or (lc_seal lc) (corrupt run_id ''writer seal committed before it was prepared''))
        (\<lambda>seal.
           if sl_committed seal \<noteq> None \<or> lc_result lc \<noteq> None \<or> final_commit = sl_base_commit seal
              \<or> ws_generation after \<noteq>
                  sat_add (ws_generation (sl_writer_workspace_state_before seal)) 1
              \<or> \<not> paths_stay_within changed_files (aw_allowed_paths (at_workspace (lc_task lc)))
           then Inl (corrupt run_id ''writer seal commit changed identity, scope, or generation'')
           else Inr (lc\<lparr>lc_seal := Some (seal\<lparr>sl_committed := Some
                  \<lparr>scf_final_commit = final_commit, scf_diff_sha256 = diff_sha256,
                   scf_changed_files = changed_files,
                   scf_writer_workspace_state_after = after\<rparr>\<rparr>)\<rparr>)))"

section \<open>The result of a child\<close>

definition child_host_satisfied ::
  "agent_task \<Rightarrow> agent_outcome \<Rightarrow> completion_candidate \<Rightarrow> string \<Rightarrow> string + unit" where
  "child_host_satisfied task outcome candidate receipt_id =
     rbind (ok_or (find (\<lambda>receipt. hr_id receipt = receipt_id)
                     (ad_host_acceptance_receipts (ao_details outcome)))
              ''successful read-only Agent references an unknown Host acceptance receipt'')
     (\<lambda>receipt.
        if hr_id receipt \<noteq> ''host-acceptance:parent-host-accept:'' @ at_parent_run_id task @ '':''
              @ at_task_id task @ '':'' @ cc_id candidate
           \<or> hr_candidate_id receipt \<noteq> cc_id candidate
           \<or> hr_generation_id receipt \<noteq> tc_generation_id (at_task_contract task)
           \<or> hr_workspace_state receipt \<noteq> cc_workspace_state candidate
        then Inl ''successful read-only Agent Host receipt does not match its exact candidate''
        else Inr ())"

definition child_receipt_is_exact ::
  "agent_task \<Rightarrow> completion_candidate \<Rightarrow> completion_decision \<Rightarrow> string \<Rightarrow> verifier_evidence_policy \<Rightarrow>
     verifier_spec \<Rightarrow> string \<Rightarrow> evidence_receipt \<Rightarrow> bool" where
  "child_receipt_is_exact task candidate decision accept_id policy verifier receipt_id receipt \<longleftrightarrow>
     (let verification_id = ''host-verification:'' @ cc_id candidate @ '':'' @ accept_id
      in er_id receipt = ''receipt:'' @ verification_id \<and>
         er_id receipt = receipt_id \<and>
         er_generation_id receipt = tc_generation_id (at_task_contract task) \<and>
         er_acceptance_id receipt = accept_id \<and>
         er_verification_id receipt = verification_id \<and>
         er_verifier receipt = verifier \<and>
         lineage_satisfies (er_lineage receipt) policy \<and>
         er_workspace_state receipt = cd_workspace_state decision)"

definition child_acceptance_satisfied ::
  "agent_task \<Rightarrow> agent_outcome \<Rightarrow> completion_candidate \<Rightarrow> completion_decision \<Rightarrow> task_acceptance \<Rightarrow>
     string + unit" where
  "child_acceptance_satisfied task outcome candidate decision acc =
     rbind (ok_or (find (\<lambda>item. satisfaction_acceptance_id item = acceptance_id acc)
                     (cd_satisfied decision))
              ''successful Agent omitted a frozen acceptance satisfaction'')
     (\<lambda>satisfaction.
        (case (acc, satisfaction) of
           (HostAcceptance _ _, HostSatisfaction _ receipt_id) \<Rightarrow>
             child_host_satisfied task outcome candidate receipt_id
         | (VerifierAcceptance i _ policy verifier, EvidenceSatisfaction _ receipt_id) \<Rightarrow>
             if \<not> list_ex (child_receipt_is_exact task candidate decision i policy verifier receipt_id)
                   (ad_evidence (ao_details outcome))
             then Inl ''successful read-only Agent evidence does not match its exact canonical verifier acceptance''
             else Inr ()
         | _ \<Rightarrow> Inl ''successful Agent satisfaction kind does not match its frozen contract''))"

definition candidate_workspace_is_current ::
  "task_contract \<Rightarrow> completion_candidate \<Rightarrow> completion_decision \<Rightarrow> bool" where
  "candidate_workspace_is_current contract candidate decision =
     (if list_ex is_verifier_acceptance (td_acceptance (tc_definition contract))
      then checked_add (ws_generation (cc_workspace_state candidate)) 1
             = Some (ws_generation (cd_workspace_state decision))
           \<and> ws_revision (cc_workspace_state candidate) = ws_revision (cd_workspace_state decision)
      else cc_workspace_state candidate = cd_workspace_state decision)"

definition completed_child_facts ::
  "agent_task \<Rightarrow> agent_outcome \<Rightarrow> string \<Rightarrow> completion_decision \<Rightarrow> string + unit" where
  "completed_child_facts task outcome message decision =
     (let contract = at_task_contract task;
          acceptances = td_acceptance (tc_definition contract)
      in rbind (ok_or (ad_completion_candidate (ao_details outcome))
                  ''successful read-only Agent omitted its completion candidate'')
         (\<lambda>candidate.
            if cc_id candidate \<noteq> cd_candidate_id decision
               \<or> cc_generation_id candidate \<noteq> tc_generation_id contract
               \<or> cc_message candidate \<noteq> message
               \<or> cd_generation_id decision \<noteq> tc_generation_id contract
               \<or> ad_summary (ao_details outcome) \<noteq> message
               \<or> length (cd_satisfied decision) \<noteq> length acceptances
            then Inl ''successful Agent completion does not match its candidate or frozen contract''
            else if \<not> candidate_workspace_is_current contract candidate decision
            then Inl ''successful Agent candidate is stale for its exact completion decision''
            else
              and_then (for_each (child_acceptance_satisfied task outcome candidate decision) acceptances)
              (if length (ad_host_acceptance_receipts (ao_details outcome))
                    \<noteq> (if list_ex is_host_acceptance acceptances then 1 else 0)
                  \<or> length (ad_evidence (ao_details outcome))
                    \<noteq> (if list_ex is_verifier_acceptance acceptances then 1 else 0)
               then Inl ''successful Agent carries receipts outside its frozen acceptance contract''
               else Inr ())))"

definition validate_child_completion_facts ::
  "agent_task \<Rightarrow> agent_outcome \<Rightarrow> string + unit" where
  "validate_child_completion_facts task outcome =
     (case ao_terminal outcome of
        Completed message decision \<Rightarrow> completed_child_facts task outcome message decision
      | _ \<Rightarrow> Inr ())"

definition validate_readonly_child_completion ::
  "string \<Rightarrow> agent_task_lifecycle \<Rightarrow> agent_outcome \<Rightarrow> run_store_error + unit" where
  "validate_readonly_child_completion run_id lc outcome =
     (case ao_terminal outcome of
        Completed _ decision \<Rightarrow>
          and_then (map_err (corrupt run_id) (validate_child_completion_facts (lc_task lc) outcome))
          (if ad_workspace_state (ao_details outcome) \<noteq> Some (cd_workspace_state decision)
           then Inl (corrupt run_id
                  ''successful read-only Agent completion does not match its candidate, contract, or workspace'')
           else Inr ())
      | _ \<Rightarrow> Inr ())"

fun verifier_acceptance_parts ::
  "task_acceptance \<Rightarrow> (string \<times> verifier_evidence_policy \<times> verifier_spec) option" where
  "verifier_acceptance_parts (VerifierAcceptance i _ policy verifier) = Some (i, policy, verifier)"
| "verifier_acceptance_parts (HostAcceptance _ _) = None"

definition writer_receipt_mismatch ::
  "agent_seal_lifecycle \<Rightarrow> string \<Rightarrow> verifier_evidence_policy \<Rightarrow> verifier_spec \<Rightarrow> evidence_receipt \<Rightarrow> bool" where
  "writer_receipt_mismatch seal accept_id policy verifier receipt \<longleftrightarrow>
     er_acceptance_id receipt \<noteq> accept_id
     \<or> \<not> lineage_satisfies (er_lineage receipt) policy
     \<or> policy = FailedWritePassPolicy \<and> \<not> is_failed_write_pass (er_lineage receipt)
     \<or> er_verifier receipt \<noteq> verifier
     \<or> er_workspace_state receipt \<noteq> sl_writer_workspace_state_before seal"

definition validate_successful_writer ::
  "string \<Rightarrow> agent_task_lifecycle \<Rightarrow> agent_seal_lifecycle \<Rightarrow> agent_outcome \<Rightarrow> completion_decision \<Rightarrow>
     run_store_error + unit" where
  "validate_successful_writer run_id lc seal outcome decision =
     and_then (map_err (corrupt run_id) (validate_child_completion_facts (lc_task lc) outcome))
     (rbind (ok_or (find_map verifier_acceptance_parts
                      (td_acceptance (tc_definition (at_task_contract (lc_task lc)))))
               (corrupt run_id ''successful writer task has no exact verifier acceptance''))
     (\<lambda>(accept_id, policy, verifier).
        let evidence = ad_evidence (ao_details outcome)
        in if length evidence \<noteq> 1
              \<or> list_ex (writer_receipt_mismatch seal accept_id policy verifier) evidence
           then Inl (corrupt run_id
                  ''successful writer receipt does not verify the exact pre-seal child workspace'')
           else
             let receipt = hd evidence
             in if cd_generation_id decision \<noteq> tc_generation_id (at_task_contract (lc_task lc))
                   \<or> cd_workspace_state decision \<noteq> sl_writer_workspace_state_before seal
                   \<or> cd_satisfied decision \<noteq>
                       [EvidenceSatisfaction (er_acceptance_id receipt) (er_id receipt)]
                then Inl (corrupt run_id
                       ''successful writer completion decision is not backed by its exact pre-seal receipt'')
                else Inr ()))"

fun is_rejected_or_conflict :: "writer_integration_status \<Rightarrow> bool" where
  "is_rejected_or_conflict (IntegrationRejected _) = True"
| "is_rejected_or_conflict (IntegrationConflict _) = True"
| "is_rejected_or_conflict _ = False"

definition matches_sealed_facts ::
  "agent_task_lifecycle \<Rightarrow> agent_seal_committed_fact \<Rightarrow> agent_result_details \<Rightarrow> bool" where
  "matches_sealed_facts lc committed details \<longleftrightarrow>
     ad_workspace details = Some (at_workspace (lc_task lc)) \<and>
     ad_workspace_state details = Some (scf_writer_workspace_state_after committed) \<and>
     ad_base_commit details = Some (aw_base_commit (at_workspace (lc_task lc))) \<and>
     ad_final_commit details = Some (scf_final_commit committed) \<and>
     ad_diff_sha256 details = Some (scf_diff_sha256 committed) \<and>
     ad_changed_files details = scf_changed_files committed"

definition validate_sealed_result ::
  "string \<Rightarrow> agent_task_lifecycle \<Rightarrow> agent_seal_lifecycle \<Rightarrow> agent_seal_committed_fact \<Rightarrow>
     agent_outcome \<Rightarrow> run_store_error + unit" where
  "validate_sealed_result run_id lc seal committed outcome =
     (if \<not> matches_sealed_facts lc committed (ao_details outcome)
      then Inl (corrupt run_id ''writer result does not exactly match its sealed Host facts'')
      else
        and_then
          (case ao_terminal outcome of
             Completed _ decision \<Rightarrow> validate_successful_writer run_id lc seal outcome decision
           | _ \<Rightarrow> Inr ())
          (if \<not> (if is_completed (ao_terminal outcome)
                  then ad_integration (ao_details outcome) = IntegrationAwaitingHost
                  else is_rejected_or_conflict (ad_integration (ao_details outcome)))
           then Inl (corrupt run_id ''writer result has an invalid pre-integration disposition'')
           else Inr ()))"

definition claims_seal_facts :: "agent_result_details \<Rightarrow> bool" where
  "claims_seal_facts details \<longleftrightarrow>
     ad_workspace details \<noteq> None \<or> ad_workspace_state details \<noteq> None
     \<or> ad_base_commit details \<noteq> None \<or> ad_final_commit details \<noteq> None
     \<or> ad_diff_sha256 details \<noteq> None \<or> ad_changed_files details \<noteq> []
     \<or> ad_integration details \<noteq> IntegrationNotApplicable"

definition seal_and_commit ::
  "agent_task_lifecycle \<Rightarrow> (agent_seal_lifecycle \<times> agent_seal_committed_fact) option" where
  "seal_and_commit lc =
     Option.bind (lc_seal lc) (\<lambda>seal. map_option (\<lambda>committed. (seal, committed)) (sl_committed seal))"

definition validate_collected_agent_result ::
  "string \<Rightarrow> agent_task_lifecycle \<Rightarrow> agent_outcome \<Rightarrow> run_store_error + unit" where
  "validate_collected_agent_result run_id lc outcome =
     (let generation = tc_generation_id (at_task_contract (lc_task lc));
          details = ao_details outcome
      in if ao_run_id outcome \<noteq> at_child_run_id (lc_task lc)
            \<or> ao_parent_run_id outcome \<noteq> Some (at_parent_run_id (lc_task lc))
         then Inl (corrupt run_id ''collected Agent result does not match its child and parent identity'')
         else if list_ex (\<lambda>receipt. er_generation_id receipt \<noteq> generation) (ad_evidence details)
         then Inl (corrupt run_id ''collected Agent evidence belongs to another task generation'')
         else if list_ex (\<lambda>receipt. hr_generation_id receipt \<noteq> generation)
                   (ad_host_acceptance_receipts details)
         then Inl (corrupt run_id ''collected Agent Host acceptance belongs to another task generation'')
         else
           (case aw_access (at_workspace (lc_task lc)) of
              AgentReadOnly \<Rightarrow>
                if lc_workspace_created lc \<noteq> None \<or> lc_seal lc \<noteq> None \<or> lc_integration lc \<noteq> None
                   \<or> lc_cleanup lc \<noteq> None
                   \<or> ad_workspace details \<noteq> Some (at_workspace (lc_task lc))
                   \<or> ad_integration details \<noteq> IntegrationNotApplicable
                then Inl (corrupt run_id
                       ''read-only Agent result carries writer lifecycle facts or a different workspace'')
                else validate_readonly_child_completion run_id lc outcome
            | IsolatedWrite \<Rightarrow>
                if is_completed (ao_terminal outcome) \<and> seal_and_commit lc = None
                then Inl (corrupt run_id
                       ''successful writer result was collected before its seal committed'')
                else
                  (case seal_and_commit lc of
                     Some (seal, committed) \<Rightarrow>
                       validate_sealed_result run_id lc seal committed outcome
                   | None \<Rightarrow>
                       if claims_seal_facts details
                       then Inl (corrupt run_id
                              ''unsealed failed writer result claims Host seal facts'')
                       else Inr ())))"

definition apply_agent_result_collected ::
  "run_snapshot \<Rightarrow> string \<Rightarrow> string \<Rightarrow> agent_outcome \<Rightarrow> run_store_error + run_snapshot" where
  "apply_agent_result_collected s run_id task_id outcome =
     agent_task_mut s run_id task_id
     (\<lambda>lc.
        if lc_result lc \<noteq> None \<or> lc_child_started lc = None \<and> is_completed (ao_terminal outcome)
        then Inl (corrupt run_id
               ''Agent result was collected more than once or claimed success before child start'')
        else
          and_then (validate_collected_agent_result run_id lc outcome)
            (Inr (lc\<lparr>lc_result := Some outcome\<rparr>)))"

section \<open>Integration into the root workspace\<close>

definition apply_agent_integration_prepared ::
  "run_snapshot \<Rightarrow> string \<Rightarrow> string \<Rightarrow> string \<Rightarrow> string \<Rightarrow> string \<Rightarrow> string \<Rightarrow> workspace_state \<Rightarrow>
     run_store_error + run_snapshot" where
  "apply_agent_integration_prepared s run_id task_id integration_id base_commit writer_commit
       diff_sha256 expected =
     (if expected \<noteq> sn_workspace_state s
      then Inl (corrupt run_id ''writer integration expected state is not the current root workspace'')
      else
        agent_task_mut s run_id task_id
        (\<lambda>lc.
           rbind (ok_or (Option.bind (lc_seal lc) sl_committed)
                    (corrupt run_id ''writer integration prepared before sealing''))
           (\<lambda>seal.
              rbind (ok_or (lc_result lc)
                       (corrupt run_id ''writer integration prepared before result''))
              (\<lambda>result.
                 if lc_integration lc \<noteq> None \<or> \<not> is_completed (ao_terminal result)
                    \<or> ad_integration (ao_details result) \<noteq> IntegrationAwaitingHost
                    \<or> base_commit \<noteq> aw_base_commit (at_workspace (lc_task lc))
                    \<or> writer_commit \<noteq> scf_final_commit seal
                    \<or> diff_sha256 \<noteq> scf_diff_sha256 seal
                 then Inl (corrupt run_id
                        ''writer integration preparation does not match the sealed successful result'')
                 else Inr (lc\<lparr>lc_integration := Some
                        \<lparr>il_integration_id = integration_id, il_base_commit = base_commit,
                         il_writer_commit = writer_commit, il_diff_sha256 = diff_sha256,
                         il_expected_root_workspace_state = expected, il_started = False,
                         il_committed = None, il_failure = None\<rparr>\<rparr>)))))"

definition integration_is_current ::
  "run_snapshot \<Rightarrow> string \<Rightarrow> agent_integration_lifecycle \<Rightarrow> bool" where
  "integration_is_current s integration_id integration \<longleftrightarrow>
     il_integration_id integration = integration_id \<and>
     il_committed integration = None \<and> il_failure integration = None \<and>
     il_expected_root_workspace_state integration = sn_workspace_state s"

definition apply_agent_integration_started ::
  "run_snapshot \<Rightarrow> string \<Rightarrow> string \<Rightarrow> string \<Rightarrow> run_store_error + run_snapshot" where
  "apply_agent_integration_started s run_id task_id integration_id =
     agent_task_mut s run_id task_id
     (\<lambda>lc.
        rbind (ok_or (lc_integration lc)
                 (corrupt run_id ''writer integration started before preparation''))
        (\<lambda>integration.
           if il_started integration \<or> \<not> integration_is_current s integration_id integration
           then Inl (corrupt run_id ''writer integration start does not match its prepared root state'')
           else Inr (lc\<lparr>lc_integration := Some (integration\<lparr>il_started := True\<rparr>)\<rparr>)))"

definition apply_agent_integration_failed ::
  "run_snapshot \<Rightarrow> string \<Rightarrow> string \<Rightarrow> string \<Rightarrow> writer_integration_status \<Rightarrow> workspace_state \<Rightarrow>
     run_store_error + run_snapshot" where
  "apply_agent_integration_failed s run_id task_id integration_id status root_workspace_state =
     agent_task_mut s run_id task_id
     (\<lambda>lc.
        rbind (ok_or (lc_integration lc)
                 (corrupt run_id ''writer integration failed before preparation''))
        (\<lambda>integration.
           if \<not> il_started integration \<or> \<not> integration_is_current s integration_id integration
              \<or> il_expected_root_workspace_state integration \<noteq> root_workspace_state
           then Inl (corrupt run_id
                  ''writer integration failure does not match the in-flight expected root state'')
           else Inr (lc\<lparr>lc_integration := Some (integration\<lparr>il_failure := Some
                  \<lparr>iff_status = status, iff_root_workspace_state = root_workspace_state\<rparr>\<rparr>)\<rparr>)))"

definition apply_agent_integration_committed ::
  "run_snapshot \<Rightarrow> string \<Rightarrow> string \<Rightarrow> string \<Rightarrow> string \<Rightarrow> workspace_state \<Rightarrow>
     run_store_error + run_snapshot" where
  "apply_agent_integration_committed s run_id task_id integration_id root_head_commit after =
     agent_task_mut s run_id task_id
     (\<lambda>lc.
        rbind (ok_or (lc_integration lc)
                 (corrupt run_id ''writer integration committed before preparation''))
        (\<lambda>integration.
           if \<not> il_started integration \<or> \<not> integration_is_current s integration_id integration
              \<or> root_head_commit \<noteq> il_writer_commit integration
           then Inl (corrupt run_id ''writer integration commit does not match the in-flight action'')
           else if ws_generation after \<noteq>
                     sat_add (ws_generation (il_expected_root_workspace_state integration)) 1
           then Inl (corrupt run_id ''writer integration must advance exactly one generation'')
           else Inr (lc\<lparr>lc_integration := Some (integration\<lparr>il_committed := Some
                  \<lparr>icf_root_head_commit = root_head_commit,
                   icf_root_workspace_state_after = after\<rparr>\<rparr>)\<rparr>)))"

section \<open>Cleanup of the writer's resources\<close>

definition integration_failure :: "agent_task_lifecycle \<Rightarrow> agent_integration_failure_fact option" where
  "integration_failure lc = Option.bind (lc_integration lc) il_failure"

definition expected_cleanup_phase ::
  "string \<Rightarrow> agent_task_lifecycle \<Rightarrow> agent_outcome \<Rightarrow> run_store_error + writer_cleanup_phase" where
  "expected_cleanup_phase run_id lc result =
     (if is_completed (ao_terminal result)
      then if integration_committed lc \<noteq> None then Inr CleanupPostIntegration
           else if integration_failure lc \<noteq> None then Inr CleanupIntegration
           else Inl (corrupt run_id ''successful writer cleanup requires a settled integration'')
      else if lc_child_started lc = None then Inr CleanupBinding
      else if lc_seal lc \<noteq> None then Inr CleanupSeal
      else Inr CleanupChild)"

fun integration_reason :: "writer_integration_status \<Rightarrow> string" where
  "integration_reason (IntegrationRejected _) = ''writer_integration_rejected''"
| "integration_reason (IntegrationConflict _) = ''writer_integration_conflict''"
| "integration_reason (IntegrationRecoveryRequired _) = ''writer_integration_recovery_required''"
| "integration_reason IntegrationNotApplicable = ''writer_integration_invalid''"
| "integration_reason IntegrationAwaitingHost = ''writer_integration_invalid''"
| "integration_reason (Integrated _ _ _) = ''writer_integration_invalid''"

fun child_reason :: "terminal_state \<Rightarrow> string" where
  "child_reason (Blocked _) = ''writer_child_blocked''"
| "child_reason TerminalCancelled = ''writer_child_cancelled''"
| "child_reason TerminalInterrupted = ''writer_child_interrupted''"
| "child_reason (RecoveryRequired _) = ''writer_child_recovery_required''"
| "child_reason (AwaitingHostAcceptance _) = ''writer_child_failed''"
| "child_reason (TerminalFailed _) = ''writer_child_failed''"
| "child_reason (Completed _ _) = ''writer_child_failed''"

definition expected_cleanup_reason ::
  "agent_task_lifecycle \<Rightarrow> agent_outcome \<Rightarrow> writer_cleanup_phase \<Rightarrow> string option" where
  "expected_cleanup_reason lc result phase =
     (case phase of
        CleanupPostIntegration \<Rightarrow> Some ''writer_integrated''
      | CleanupIntegration \<Rightarrow>
          map_option (\<lambda>failure. integration_reason (iff_status failure)) (integration_failure lc)
      | CleanupBinding \<Rightarrow> Some ''writer_binding_failed''
      | CleanupSeal \<Rightarrow> Some ''writer_seal_failed''
      | CleanupChild \<Rightarrow> Some (child_reason (ao_terminal result)))"

fun artifact_state_matches ::
  "writer_artifact_state \<Rightarrow> writer_cleanup_mode \<Rightarrow> agent_seal_committed_fact option \<Rightarrow> bool" where
  "artifact_state_matches (KnownHostSealed final_commit diff_sha256) _ (Some seal) =
     (final_commit = scf_final_commit seal \<and> diff_sha256 = scf_diff_sha256 seal)"
| "artifact_state_matches (KnownHostSealed _ _) _ None = False"
| "artifact_state_matches KnownUnsealed _ committed = (committed = None)"
| "artifact_state_matches ArtifactStateUnknown (RetainForRecovery _) _ = True"
| "artifact_state_matches ArtifactStateUnknown (RemoveExact _) _ = False"

definition validate_cleanup_mode ::
  "string \<Rightarrow> agent_task_lifecycle \<Rightarrow> writer_cleanup_plan \<Rightarrow> run_store_error + unit" where
  "validate_cleanup_mode run_id lc plan =
     (let expected_branch_commit =
            (case Option.bind (lc_seal lc) sl_committed of
               Some seal \<Rightarrow> scf_final_commit seal
             | None \<Rightarrow> aw_base_commit (at_workspace (lc_task lc)))
      in case wcp_mode plan of
           RemoveExact actual \<Rightarrow>
             if actual = expected_branch_commit then Inr ()
             else Inl (corrupt run_id ''writer cleanup expected branch commit is not Host-frozen'')
         | RetainForRecovery uncertainty_code \<Rightarrow>
             (case wcp_scope plan of
                ScopeUnknown scope_code \<Rightarrow>
                  if scope_code \<noteq> uncertainty_code
                  then Inl (corrupt run_id ''writer cleanup retention codes disagree'') else Inr ()
              | ScopeKnown _ _ _ _ _ \<Rightarrow> Inr ()))"

definition validate_writer_cleanup_plan ::
  "string \<Rightarrow> agent_task_lifecycle \<Rightarrow> writer_cleanup_plan \<Rightarrow> run_store_error + unit" where
  "validate_writer_cleanup_plan run_id lc plan =
     and_then (map_err (\<lambda>message. corrupt run_id (''invalid writer cleanup plan: '' @ message))
                 (cleanup_plan_validate plan))
     (rbind (ok_or (lc_result lc) (corrupt run_id ''writer cleanup plan has no collected result''))
     (\<lambda>result.
        rbind (expected_cleanup_phase run_id lc result)
        (\<lambda>expected_phase.
           if wcp_phase plan \<noteq> expected_phase
           then Inl (corrupt run_id ''writer cleanup phase does not match the durable lifecycle'')
           else if expected_cleanup_reason lc result (wcp_phase plan) \<noteq> Some (wcp_reason_code plan)
           then Inl (corrupt run_id
                  ''writer cleanup reason code does not match the durable failure disposition'')
           else if \<not> artifact_state_matches (wcp_artifact_state plan) (wcp_mode plan)
                     (Option.bind (lc_seal lc) sl_committed)
           then Inl (corrupt run_id ''writer cleanup artifact state does not match the durable seal'')
           else validate_cleanup_mode run_id lc plan)))"

definition cleanup_order_is_valid :: "run_snapshot \<Rightarrow> agent_task_lifecycle \<Rightarrow> bool \<Rightarrow> bool" where
  "cleanup_order_is_valid s lc successful =
     (if successful \<and> integration_committed lc \<noteq> None
      then lc_finished lc \<noteq> None \<and> sn_pending_tool s = None
      else lc_finished lc = None)"

definition apply_agent_cleanup_prepared ::
  "run_snapshot \<Rightarrow> string \<Rightarrow> string \<Rightarrow> writer_cleanup_plan \<Rightarrow> run_store_error + run_snapshot" where
  "apply_agent_cleanup_prepared s run_id task_id plan =
     agent_task_mut s run_id task_id
     (\<lambda>lc.
        rbind (ok_or (lc_result lc) (corrupt run_id ''writer cleanup prepared before result''))
        (\<lambda>result.
           let successful = is_completed (ao_terminal result);
               integration_settled =
                 ((integration_committed lc \<noteq> None) \<noteq> (integration_failure lc \<noteq> None))
           in if \<not> is_writer lc
                 \<or> lc_workspace_created lc = None \<and> wcp_phase plan \<noteq> CleanupBinding
                 \<or> lc_cleanup lc \<noteq> None
                 \<or> successful \<and> \<not> integration_settled
                 \<or> \<not> successful \<and> lc_integration lc \<noteq> None
                 \<or> \<not> cleanup_order_is_valid s lc successful
              then Inl (corrupt run_id
                     ''writer cleanup preparation does not match its owned completed path'')
              else
                and_then (validate_writer_cleanup_plan run_id lc plan)
                  (Inr (lc\<lparr>lc_cleanup := Some \<lparr>cl_plan = plan, cl_committed = None\<rparr>\<rparr>))))"

fun retention_honoured :: "writer_cleanup_mode \<Rightarrow> writer_cleanup_result \<Rightarrow> bool" where
  "retention_honoured (RetainForRecovery code) (CleanupRetained _ _ _ result_code) = (result_code = code)"
| "retention_honoured (RetainForRecovery _) _ = False"
| "retention_honoured (RemoveExact _) _ = True"

definition apply_agent_cleanup_committed ::
  "run_snapshot \<Rightarrow> string \<Rightarrow> string \<Rightarrow> writer_cleanup_result \<Rightarrow> run_store_error + run_snapshot" where
  "apply_agent_cleanup_committed s run_id task_id result =
     agent_task_mut s run_id task_id
     (\<lambda>lc.
        rbind (ok_or (lc_cleanup lc) (corrupt run_id ''writer cleanup committed before preparation''))
        (\<lambda>cleanup.
           if cl_committed cleanup \<noteq> None
           then Inl (corrupt run_id
                  ''writer cleanup commit does not match the prepared owned resources'')
           else if \<not> retention_honoured (wcp_mode (cl_plan cleanup)) result
           then Inl (corrupt run_id
                  ''writer cleanup retention plan requires its exact uncertain result'')
           else Inr (lc\<lparr>lc_cleanup := Some (cleanup\<lparr>cl_committed := Some result\<rparr>)\<rparr>)))"

section \<open>The finished child\<close>

fun store_cleanup_uncertainty_code :: "writer_cleanup_result \<Rightarrow> string option" where
  "store_cleanup_uncertainty_code (CleanupRetained _ _ _ uncertainty_code) = Some uncertainty_code"
| "store_cleanup_uncertainty_code (CleanupRemoved _ _) = None"
| "store_cleanup_uncertainty_code CleanupAlreadyAbsent = None"

definition cleanup_ambiguity :: "agent_task_lifecycle \<Rightarrow> writer_cleanup_result \<Rightarrow> recovery_ambiguity" where
  "cleanup_ambiguity lc cleanup =
     \<lparr>ra_phase = AmbiguousChildRun,
      ra_action_id = ''agent-cleanup:'' @ at_task_id (lc_task lc),
      ra_message = (case store_cleanup_uncertainty_code cleanup of
                      Some code \<Rightarrow> code | None \<Rightarrow> ''writer_cleanup_uncertain'')\<rparr>"

fun failed_integration_terminal ::
  "string \<Rightarrow> agent_integration_lifecycle \<Rightarrow> writer_integration_status \<Rightarrow>
     run_store_error + terminal_state" where
  "failed_integration_terminal run_id integration (IntegrationRejected reason) = Inr (Blocked reason)"
| "failed_integration_terminal run_id integration (IntegrationConflict reason) = Inr (Blocked reason)"
| "failed_integration_terminal run_id integration (IntegrationRecoveryRequired reason) =
     Inr (RecoveryRequired
       \<lparr>ra_phase = AmbiguousChildRun,
        ra_action_id = ''agent-integration:'' @ il_integration_id integration,
        ra_message = reason\<rparr>)"
| "failed_integration_terminal run_id integration _ =
     Inl (corrupt run_id ''writer integration failure has a non-failure status'')"

definition with_integration_status ::
  "writer_integration_status \<Rightarrow> agent_outcome \<Rightarrow> agent_outcome" where
  "with_integration_status status outcome =
     outcome\<lparr>ao_details := (ao_details outcome)\<lparr>ad_integration := status\<rparr>\<rparr>"

definition settle_integration ::
  "string \<Rightarrow> agent_integration_lifecycle \<Rightarrow> agent_outcome \<Rightarrow> run_store_error + agent_outcome" where
  "settle_integration run_id integration expected =
     (case (il_committed integration, il_failure integration) of
        (Some committed, None) \<Rightarrow>
          Inr (with_integration_status
                 (Integrated (il_integration_id integration) (il_writer_commit integration)
                    (icf_root_workspace_state_after committed)) expected)
      | (None, Some failure) \<Rightarrow>
          rbind (failed_integration_terminal run_id integration (iff_status failure))
            (\<lambda>terminal. Inr ((with_integration_status (iff_status failure) expected)
                               \<lparr>ao_terminal := terminal\<rparr>))
      | (Some _, Some _) \<Rightarrow>
          Inl (corrupt run_id ''writer integration cannot both commit and fail'')
      | (None, None) \<Rightarrow>
          Inl (corrupt run_id ''successful writer integration did not reach a durable outcome''))"

definition settle_cleanup :: "agent_task_lifecycle \<Rightarrow> agent_outcome \<Rightarrow> agent_outcome" where
  "settle_cleanup lc expected =
     (case cleanup_committed lc of
        None \<Rightarrow> expected
      | Some cleanup \<Rightarrow>
          if retained_for_recovery cleanup
          then expected\<lparr>ao_terminal := RecoveryRequired (cleanup_ambiguity lc cleanup)\<rparr>
          else expected)"

definition finished_writer_outcome ::
  "string \<Rightarrow> agent_task_lifecycle \<Rightarrow> agent_outcome \<Rightarrow> run_store_error + agent_outcome" where
  "finished_writer_outcome run_id lc expected =
     (if (\<not> is_completed (ao_terminal expected) \<or> integration_committed lc = None)
         \<and> cleanup_committed lc = None
      then Inl (corrupt run_id ''writer child finished before owned workspace cleanup settled'')
      else
        rbind
          (if is_completed (ao_terminal expected)
           then rbind (ok_or (lc_integration lc)
                         (corrupt run_id ''successful writer was not integrated''))
                  (\<lambda>integration. settle_integration run_id integration expected)
           else if lc_integration lc \<noteq> None
           then Inl (corrupt run_id ''unsuccessful writer cannot carry an integration action'')
           else Inr expected)
          (\<lambda>settled. Inr (settle_cleanup lc settled)))"

definition expected_finished_outcome ::
  "string \<Rightarrow> agent_task_lifecycle \<Rightarrow> run_store_error + agent_outcome" where
  "expected_finished_outcome run_id lc =
     rbind (ok_or (lc_result lc) (corrupt run_id ''child finished before its result was collected''))
     (\<lambda>expected.
        (case aw_access (at_workspace (lc_task lc)) of
           AgentReadOnly \<Rightarrow>
             if lc_workspace_created lc \<noteq> None \<or> lc_seal lc \<noteq> None \<or> lc_integration lc \<noteq> None
                \<or> lc_cleanup lc \<noteq> None
             then Inl (corrupt run_id ''read-only child acquired a writer lifecycle'')
             else Inr expected
         | IsolatedWrite \<Rightarrow> finished_writer_outcome run_id lc expected))"

definition finished_child ::
  "string \<Rightarrow> string \<Rightarrow> agent_outcome \<Rightarrow> model_accounting \<Rightarrow> string \<Rightarrow> agent_task_lifecycle \<Rightarrow>
     run_store_error + agent_task_lifecycle" where
  "finished_child run_id call_id outcome accounting handoff_content lc =
     rbind (expected_finished_outcome run_id lc)
     (\<lambda>expected_outcome.
        if at_call_id (lc_task lc) \<noteq> call_id \<or> expected_outcome \<noteq> outcome \<or> lc_finished lc \<noteq> None
        then Inl (corrupt run_id ''child finish does not match its collected and integrated result'')
        else Inr (lc\<lparr>lc_finished := Some
               \<lparr>cff_call_id = call_id, cff_outcome = outcome, cff_accounting = accounting,
                cff_handoff_content = handoff_content\<rparr>\<rparr>))"

definition apply_child_finished ::
  "run_snapshot \<Rightarrow> string \<Rightarrow> string \<Rightarrow> agent_outcome \<Rightarrow> model_accounting \<Rightarrow> string \<Rightarrow>
     run_store_error + run_snapshot" where
  "apply_child_finished s run_id call_id outcome accounting handoff_content =
     rbind (ok_or (position (\<lambda>lc. at_child_run_id (lc_task lc) = ao_run_id outcome) (sn_agent_tasks s))
              (corrupt run_id ''child finished without a prepared Agent task''))
     (\<lambda>i.
        rbind (finished_child run_id call_id outcome accounting handoff_content (sn_agent_tasks s ! i))
        (\<lambda>lc. Inr (s\<lparr>sn_agent_tasks := (sn_agent_tasks s)[i := lc],
             sn_runtime_model_requests :=
               sat_add (sn_runtime_model_requests s) (ao_runtime_model_requests outcome),
             sn_runtime_retries := sat_add (sn_runtime_retries s) (ao_runtime_retries outcome),
             sn_tool_calls := sat_add (sn_tool_calls s) (ao_tool_calls outcome),
             sn_accounting := accounting,
             sn_transcript := sn_transcript s @
               [ChildOutcomeEntry call_id (ao_run_id outcome) outcome handoff_content]\<rparr>)))"

section \<open>Writer cleanup at the terminal\<close>

definition validate_writer_cleanup_at_terminal ::
  "string \<Rightarrow> terminal_state \<Rightarrow> agent_task_lifecycle \<Rightarrow> run_store_error + unit" where
  "validate_writer_cleanup_at_terminal run_id terminal lc =
     (case cleanup_committed lc of
        None \<Rightarrow>
          Inl (corrupt run_id
            (if integration_committed lc \<noteq> None
             then ''root terminal requires every integrated writer cleanup to commit''
             else ''root terminal requires every isolated writer cleanup to commit''))
      | Some cleanup \<Rightarrow>
          if retained_for_recovery cleanup
             \<and> terminal \<noteq> RecoveryRequired (cleanup_ambiguity lc cleanup)
          then Inl (corrupt run_id
                 ''retained writer cleanup requires its exact recovery-required root terminal'')
          else Inr ())"

definition validate_terminal_agent_cleanup ::
  "run_snapshot \<Rightarrow> string \<Rightarrow> terminal_state \<Rightarrow> run_store_error + unit" where
  "validate_terminal_agent_cleanup s run_id terminal =
     for_each (validate_writer_cleanup_at_terminal run_id terminal)
       (filter is_writer (sn_agent_tasks s))"

end
