(* ===== verification/Reducer.thy ===== *)
theory Reducer
  imports Reducer_Model Reducer_Tool Reducer_Completion Reducer_Agent
begin

text \<open>
  The event reducer of crates/runtime/src/store.rs: the terminal arm, \<^verbatim>\<open>apply_event\<close> with its
  guards and its dispatch to the arms, and \<^verbatim>\<open>reduce_events\<close>, which replays a whole log.
\<close>

section \<open>The terminal event\<close>

definition unsettled_tasks :: "run_snapshot \<Rightarrow> agent_task_lifecycle list" where
  "unsettled_tasks s = filter (\<lambda>lc. lc_finished lc = None) (sn_agent_tasks s)"

definition exact_read_only_recovery :: "run_snapshot \<Rightarrow> terminal_state \<Rightarrow> bool" where
  "exact_read_only_recovery s terminal =
     (let unsettled = unsettled_tasks s;
          all_read_only = unsettled \<noteq> []
            \<and> list_all (\<lambda>lc. aw_access (at_workspace (lc_task lc)) = AgentReadOnly) unsettled
      in case terminal of
           RecoveryRequired ambiguity \<Rightarrow>
             all_read_only \<and>
             (case ra_phase ambiguity of
                AmbiguousChildRun \<Rightarrow>
                  list_ex (\<lambda>lc. at_child_run_id (lc_task lc) = ra_action_id ambiguity) unsettled
              | AmbiguousToolExecution \<Rightarrow>
                  (case sn_pending_tool s of
                     None \<Rightarrow> False
                   | Some pending \<Rightarrow>
                       pt_state pending = ActionInFlight \<and>
                       ti_name (pt_invocation pending) = AGENT_TOOL_NAME \<and>
                       pt_operation_id pending = ra_action_id ambiguity \<and>
                       list_ex (\<lambda>lc. at_call_id (lc_task lc) = ti_call_id (pt_invocation pending)
                                  \<and> lc_child_started lc \<noteq> None) unsettled)
              | AmbiguousModelRequest \<Rightarrow> False
              | AmbiguousHostVerification \<Rightarrow> False)
         | _ \<Rightarrow> False)"

fun matches_control :: "durable_control_action \<Rightarrow> terminal_state \<Rightarrow> bool" where
  "matches_control ControlInterrupt TerminalInterrupted = True"
| "matches_control ControlCancel TerminalCancelled = True"
| "matches_control _ (RecoveryRequired _) = True"
| "matches_control _ _ = False"

fun is_awaiting_host :: "terminal_state \<Rightarrow> bool" where
  "is_awaiting_host (AwaitingHostAcceptance _) = True"
| "is_awaiting_host _ = False"

definition validate_terminal_completion ::
  "run_snapshot \<Rightarrow> string \<Rightarrow> terminal_state \<Rightarrow> run_store_error + unit" where
  "validate_terminal_completion s run_id terminal =
     (case terminal of
        Completed message decision \<Rightarrow>
          rbind (ok_or (sn_pending_completion s)
                   (corrupt run_id ''completed Agent has no completion candidate''))
          (\<lambda>candidate.
             if message \<noteq> cc_message candidate
             then Inl (corrupt run_id
                    ''completed Agent message does not match the accepted completion candidate'')
             else validate_completion_decision s run_id decision)
      | _ \<Rightarrow> Inr ())"

definition apply_terminal ::
  "run_snapshot \<Rightarrow> string \<Rightarrow> agent_outcome \<Rightarrow> run_store_error + run_snapshot" where
  "apply_terminal s run_id outcome =
     (if ao_run_id outcome \<noteq> run_id
      then Inl (corrupt run_id ''terminal outcome belongs to another run'')
      else if ao_parent_run_id outcome \<noteq> rq_parent_run_id (sn_request s)
      then Inl (corrupt run_id ''terminal outcome parent does not match the run'')
      else if unsettled_tasks s \<noteq> [] \<and> \<not> exact_read_only_recovery s (ao_terminal outcome)
      then Inl (corrupt run_id ''run reached terminal with an unsettled AgentTask lifecycle'')
      else if (case sn_pending_control s of None \<Rightarrow> False
               | Some control \<Rightarrow> \<not> matches_control (pc_action control) (ao_terminal outcome))
      then Inl (corrupt run_id ''terminal state does not match the durable control request'')
      else if is_awaiting_host (ao_terminal outcome)
      then Inl (corrupt run_id ''awaiting Host acceptance cannot be persisted as a terminal event'')
      else
        and_then (validate_terminal_agent_cleanup s run_id (ao_terminal outcome))
        (and_then (validate_terminal_completion s run_id (ao_terminal outcome))
          (Inr (s\<lparr>sn_accounting := ao_accounting outcome, sn_terminal := Some outcome\<rparr>))))"

section \<open>Applying one event\<close>

definition settles_after_control :: "runtime_event_kind \<Rightarrow> bool" where
  "settles_after_control e =
     (case e of
        ToolOutcomeCommitted _ _ _ _ _ \<Rightarrow> True
      | AgentWorkspaceCreated _ _ _ \<Rightarrow> True
      | AgentSealCommitted _ _ _ _ _ \<Rightarrow> True
      | AgentResultCollected _ _ \<Rightarrow> True
      | AgentIntegrationFailed _ _ _ _ \<Rightarrow> True
      | AgentIntegrationCommitted _ _ _ _ \<Rightarrow> True
      | AgentCleanupPrepared _ _ \<Rightarrow> True
      | AgentCleanupCommitted _ _ \<Rightarrow> True
      | ChildFinished _ _ _ _ \<Rightarrow> True
      | Terminal _ \<Rightarrow> True
      | _ \<Rightarrow> False)"

definition apply_kind ::
  "'x store_codec_scheme \<Rightarrow> run_snapshot \<Rightarrow> string \<Rightarrow> u64 \<Rightarrow> runtime_event_kind \<Rightarrow>
     run_store_error + run_snapshot" where
  "apply_kind cx s run_id sequence e =
     (case e of
        RunCreated _ \<Rightarrow> Inl (corrupt run_id ''duplicate run_created event'')
      | ContextCompactionCommitted projection tools accounting before_tokens after_tokens \<Rightarrow>
          apply_context_compaction cx s run_id sequence projection tools accounting before_tokens
            after_tokens
      | ModelRequestPrepared attempt_id request \<Rightarrow>
          apply_model_request_prepared cx s run_id sequence attempt_id request
      | ModelRequestInFlight attempt_id \<Rightarrow> apply_model_request_in_flight s run_id attempt_id
      | ModelRequestFailed attempt_id failure accounting retry \<Rightarrow>
          apply_model_request_failed s run_id sequence attempt_id failure accounting retry
      | ModelResponseCommitted attempt_id output accounting \<Rightarrow>
          apply_model_response_committed s run_id sequence attempt_id output accounting
      | ContentDelta attempt_id _ _ \<Rightarrow> apply_model_delta s run_id attempt_id
      | ReasoningDelta attempt_id _ _ \<Rightarrow> apply_model_delta s run_id attempt_id
      | ToolPrepared operation_id invocation access \<Rightarrow>
          apply_tool_prepared s run_id operation_id invocation access
      | ToolAuthorizationCommitted operation_id decision \<Rightarrow>
          apply_tool_authorization cx s run_id operation_id decision
      | ToolExecutionStarted operation_id \<Rightarrow> apply_tool_execution_started s run_id operation_id
      | InteractionRequested request \<Rightarrow> apply_interaction_requested cx s run_id request
      | InteractionResolved command_id interaction_id response \<Rightarrow>
          apply_interaction_resolved s run_id sequence command_id interaction_id response
      | ToolOutcomeCommitted operation_id call_id name outcome state \<Rightarrow>
          apply_tool_outcome cx s run_id operation_id call_id name outcome state
      | WorkspaceObserved state \<Rightarrow> apply_workspace_observed s run_id state
      | CompletionProposed candidate \<Rightarrow> apply_completion_proposed s run_id candidate
      | HostCompletionAccepted command_id receipt \<Rightarrow>
          apply_host_completion_accepted s run_id sequence command_id receipt
      | HostVerificationPrepared verification_id candidate accept_id verifier before \<Rightarrow>
          apply_host_verification_prepared s run_id verification_id candidate accept_id verifier before
      | HostVerificationStarted verification_id \<Rightarrow>
          apply_host_verification_started s run_id verification_id
      | HostVerificationCommitted verification_id outcome receipt after \<Rightarrow>
          apply_host_verification_committed cx s run_id verification_id outcome receipt after
      | CompletionRejected rejection \<Rightarrow> apply_completion_rejected s run_id rejection
      | AgentTaskPrepared task \<Rightarrow> apply_agent_task_prepared s run_id task
      | AgentWorkspaceCreated task_id assignment state \<Rightarrow>
          apply_agent_workspace_created s run_id task_id assignment state
      | AgentSealPrepared task_id base_commit before \<Rightarrow>
          apply_agent_seal_prepared s run_id task_id base_commit before
      | AgentSealCommitted task_id final_commit diff files after \<Rightarrow>
          apply_agent_seal_committed s run_id task_id final_commit diff files after
      | ChildStarted task_id call_id child_run_id depth \<Rightarrow>
          apply_child_started s run_id task_id call_id child_run_id depth
      | AgentResultCollected task_id outcome \<Rightarrow>
          apply_agent_result_collected s run_id task_id outcome
      | AgentIntegrationPrepared task_id integration_id base_commit writer_commit diff expected \<Rightarrow>
          apply_agent_integration_prepared s run_id task_id integration_id base_commit
            writer_commit diff expected
      | AgentIntegrationStarted task_id integration_id \<Rightarrow>
          apply_agent_integration_started s run_id task_id integration_id
      | AgentIntegrationFailed task_id integration_id status state \<Rightarrow>
          apply_agent_integration_failed s run_id task_id integration_id status state
      | AgentIntegrationCommitted task_id integration_id head after \<Rightarrow>
          apply_agent_integration_committed s run_id task_id integration_id head after
      | AgentCleanupPrepared task_id plan \<Rightarrow> apply_agent_cleanup_prepared s run_id task_id plan
      | AgentCleanupCommitted task_id result \<Rightarrow>
          apply_agent_cleanup_committed s run_id task_id result
      | ChildFinished call_id outcome accounting handoff \<Rightarrow>
          apply_child_finished s run_id call_id outcome accounting handoff
      | SteerQueued command_id content \<Rightarrow>
          apply_steer_queued s run_id sequence command_id content
      | SteerApplied command_id content \<Rightarrow>
          apply_steer_applied s run_id sequence command_id content
      | ControlRequested command_id action \<Rightarrow>
          apply_control_requested s run_id sequence command_id action
      | Terminal outcome \<Rightarrow> apply_terminal s run_id outcome)"

definition apply_event ::
  "'x store_codec_scheme \<Rightarrow> run_snapshot \<Rightarrow> stored_runtime_event \<Rightarrow> run_store_error + run_snapshot" where
  "apply_event cx s stored =
     rbind (ok_or (rq_run_id (sn_request s)) (Backend ''run snapshot has no run id''))
     (\<lambda>run_id.
        and_then (validate_event_header stored (sat_add (sn_last_sequence s) 1) run_id)
        (if sn_terminal s \<noteq> None
         then Inl (corrupt run_id ''event appears after terminal'')
         else
           and_then (map_err (corrupt run_id) (validate_agent_lifecycle_payload cx (se_event stored)))
           (if sn_pending_control s \<noteq> None \<and> \<not> settles_after_control (se_event stored)
            then Inl (corrupt run_id
                   ''only settlement events may follow a durable terminal control request'')
            else if sn_last_model_failure s \<noteq> None \<and> \<not> is_terminal (se_event stored)
            then Inl (corrupt run_id
                   ''event appears after the persisted model retry decision stopped the run'')
            else
              rbind (apply_kind cx s run_id (se_sequence stored) (se_event stored))
                (\<lambda>s'. Inr (s'\<lparr>sn_last_sequence := se_sequence stored\<rparr>)))))"

section \<open>Replaying a log\<close>

definition initial_workspace :: "run_request \<Rightarrow> workspace_state" where
  "initial_workspace request =
     (case rq_inherited_facts request of
        Some facts \<Rightarrow> if_workspace_state facts
      | None \<Rightarrow> \<lparr>ws_generation = 0, ws_revision = RevUnknown ''workspace has not been observed''\<rparr>)"

definition initial_snapshot :: "run_request \<Rightarrow> run_snapshot" where
  "initial_snapshot request =
     \<lparr>sn_request = request,
      sn_transcript = initial_transcript request,
      sn_context_projection = rq_context_projection request,
      sn_usage = usage_default,
      sn_accounting = rq_accounting_baseline request,
      sn_terminal = None,
      sn_workspace_state = initial_workspace request,
      sn_evidence_receipts = [],
      sn_host_acceptance_receipts = [],
      sn_pending_completion = None,
      sn_pending_host_verification = None,
      sn_last_completion_rejection =
        Option.bind (rq_inherited_facts request) if_last_completion_rejection,
      sn_last_host_verification_failure =
        Option.bind (rq_inherited_facts request) if_last_host_verification_failure,
      sn_temporal_evidence_progress = None,
      sn_runtime_model_requests = 0,
      sn_runtime_retries = 0,
      sn_tool_calls = 0,
      sn_local_turns = 0,
      sn_last_sequence = 1,
      sn_last_model_output = None,
      sn_last_model_advertised_tool_names = [],
      sn_last_model_response_sequence = None,
      sn_last_model_activity_sequence = None,
      sn_last_model_failure = None,
      sn_last_context_compaction = None,
      sn_pending_model = None,
      sn_pending_tool = None,
      sn_agent_tasks = [],
      sn_pending_steers = [],
      sn_pending_control = None,
      sn_command_receipts = []\<rparr>"

definition validate_created_request ::
  "'x codec_scheme \<Rightarrow> string \<Rightarrow> string option \<Rightarrow> run_request \<Rightarrow> run_store_error + unit" where
  "validate_created_request cx run_id parent_run_id request =
     (if rq_run_id request \<noteq> Some run_id
      then Inl (corrupt run_id ''run_created request id does not match event run id'')
      else if rq_parent_run_id request \<noteq> parent_run_id
      then Inl (corrupt run_id ''run_created parent id does not match event parent id'')
      else if rq_parent_run_id request \<noteq> None \<and> rq_continued_from_run_id request \<noteq> None
      then Inl (corrupt run_id ''run cannot be both a child Agent and a root continuation'')
      else
        and_then (map_err (corrupt run_id) (validate_agent_task_binding request))
        (and_then (map_err (corrupt run_id)
                     (validate_complete_tool_history cx (rq_transcript request)))
        (if rq_continued_from_run_id request = None \<and> rq_inherited_facts request \<noteq> None
         then Inl (corrupt run_id ''only a root continuation may inherit prior run facts'')
         else
           rbind (ok_or (rq_task_contract request)
                    (corrupt run_id ''Agent run has no frozen task contract''))
           (\<lambda>contract.
              and_then (map_err (corrupt run_id) (task_contract_validate contract))
              (if tc_generation_id contract \<noteq> run_id
               then Inl (corrupt run_id ''task generation id does not match the run id'')
               else Inr ())))))"

definition create_snapshot ::
  "'x codec_scheme \<Rightarrow> stored_runtime_event \<Rightarrow> run_store_error + run_snapshot" where
  "create_snapshot cx first =
     (let run_id = se_run_id first
      in and_then (validate_event_header first 1 run_id)
         (case se_event first of
            RunCreated request \<Rightarrow>
              and_then (validate_created_request cx run_id (se_parent_run_id first) request)
                (Inr (initial_snapshot request))
          | _ \<Rightarrow> Inl (corrupt run_id ''first event is not run_created'')))"

fun apply_events ::
  "'x store_codec_scheme \<Rightarrow> run_snapshot \<Rightarrow> stored_runtime_event list \<Rightarrow>
     run_store_error + run_snapshot" where
  "apply_events cx s [] = Inr s"
| "apply_events cx s (e # es) = rbind (apply_event cx s e) (\<lambda>s'. apply_events cx s' es)"

definition reduce_events ::
  "'x store_codec_scheme \<Rightarrow> stored_runtime_event list \<Rightarrow> run_store_error + run_snapshot" where
  "reduce_events cx events =
     (case events of
        [] \<Rightarrow> Inl (Backend ''cannot reduce an empty run event log'')
      | first # rest \<Rightarrow> rbind (create_snapshot cx first) (\<lambda>s. apply_events cx s rest))"

end
