(* ===== verification/Reducer_Frames.thy ===== *)
theory Reducer_Frames
  imports Reducer
begin

text \<open>
  What each arm of the reducer may change. One lemma per arm names the fields of the snapshot
  it writes; every other field is kept. The lemmas are collected under \<open>frames\<close>, and the
  invariants are case distinctions over them.
\<close>

named_theorems frames \<open>the fields an arm of the reducer writes\<close>

text \<open>A receipt the Host verification seals for the pending acceptance.\<close>

definition sealed_by :: "'x codec_scheme \<Rightarrow> run_snapshot \<Rightarrow> evidence_receipt \<Rightarrow> bool" where
  "sealed_by cx s receipt \<longleftrightarrow>
     (\<exists>pend contract policy verification_id outcome after.
        sn_pending_host_verification s = Some pend \<and>
        rq_task_contract (sn_request s) = Some contract \<and>
        find_map (verifier_policy_for (phv_acceptance_id pend) (phv_verifier pend))
          (td_acceptance (tc_definition contract)) = Some policy \<and>
        seal_evidence_receipt cx s verification_id (phv_acceptance_id pend) policy
          (phv_verifier pend) outcome after = Inr receipt)"

lemma record_command_Inr [result_simps]:
  "record_command s run_id c q d = Inr s' \<longleftrightarrow>
     c \<notin> crc_command_id ` set (sn_command_receipts s) \<and>
     s' = s\<lparr>sn_command_receipts := sn_command_receipts s @
              [\<lparr>crc_command_id = c, crc_sequence = q, crc_command = d\<rparr>]\<rparr>"
  by (auto simp: record_command_def list_ex_iff)

lemma pending_model_for_Inr [result_simps]:
  "pending_model_for s run_id a = Inr p \<longleftrightarrow> sn_pending_model s = Some p \<and> pm_attempt_id p = a"
  by (auto simp: pending_model_for_def result_simps)

lemma pending_tool_for_Inr [result_simps]:
  "pending_tool_for s run_id a = Inr p \<longleftrightarrow> sn_pending_tool s = Some p \<and> pt_operation_id p = a"
  by (auto simp: pending_tool_for_def result_simps)

lemma expect_contract_Inr [result_simps]:
  "expect_contract s = Inr c \<longleftrightarrow> rq_task_contract (sn_request s) = Some c"
  by (simp add: expect_contract_def result_simps)

section \<open>Model and context\<close>

lemma apply_context_compaction_frame [frames]:
  "apply_context_compaction cx s r q p t a b c = Inr s' \<Longrightarrow>
     \<exists>x. s' = s\<lparr>sn_context_projection := Some p, sn_last_context_compaction := Some x\<rparr>"
  by (auto simp: apply_context_compaction_def result_simps Let_def)

lemma apply_model_request_prepared_frame [frames]:
  "apply_model_request_prepared cx s r q a m = Inr s' \<Longrightarrow>
     \<exists>p. s' = s\<lparr>sn_local_turns := max (sn_local_turns s) (mq_request_number m),
             sn_runtime_model_requests := sat_add (sn_runtime_model_requests s) 1,
             sn_last_model_activity_sequence := Some q, sn_last_model_failure := None,
             sn_pending_model := Some p\<rparr>"
  by (auto simp: apply_model_request_prepared_def result_simps Let_def)

lemma apply_model_request_in_flight_frame [frames]:
  "apply_model_request_in_flight s r a = Inr s' \<Longrightarrow> \<exists>p. s' = s\<lparr>sn_pending_model := Some p\<rparr>"
  by (auto simp: apply_model_request_in_flight_def result_simps Let_def)

lemma commit_retry_decision_frame:
  "\<exists>n k l p. commit_retry_decision s f d = s\<lparr>sn_runtime_model_requests := n, sn_runtime_retries := k,
             sn_last_model_failure := l, sn_pending_model := p\<rparr>"
proof (cases d)
  case (RetryStop reason)
  then show ?thesis
    by (intro exI [of _ "sn_runtime_model_requests s"] exI [of _ "sn_runtime_retries s"]
          exI [of _ "Some \<lparr>sf_failure = f, sf_reason = reason\<rparr>"] exI [of _ "sn_pending_model s"])
       (simp add: commit_retry_decision_def)
next
  case (RetryPrepared prepared)
  then show ?thesis by (simp add: commit_retry_decision_def) blast
qed

lemma apply_model_request_failed_frame [frames]:
  assumes "apply_model_request_failed s r q a f b d = Inr s'"
  shows "\<exists>n k l p. s' = s\<lparr>sn_accounting := b, sn_last_model_activity_sequence := Some q,
             sn_runtime_model_requests := n, sn_runtime_retries := k, sn_last_model_failure := l,
             sn_pending_model := p\<rparr>"
proof -
  from assms obtain g where "s' = commit_retry_decision
      (s\<lparr>sn_pending_model := None, sn_accounting := b,
         sn_last_model_activity_sequence := Some q\<rparr>) g d"
    by (auto simp: apply_model_request_failed_def result_simps Let_def)
  then show ?thesis using commit_retry_decision_frame
      [of "s\<lparr>sn_pending_model := None, sn_accounting := b,
         sn_last_model_activity_sequence := Some q\<rparr>" g d] by auto
qed

lemma apply_model_response_committed_frame [frames]:
  "apply_model_response_committed s r q a m b = Inr s' \<Longrightarrow>
     \<exists>u n e. s' = s\<lparr>sn_pending_model := None, sn_usage := u, sn_accounting := b,
             sn_last_model_output := Some m, sn_last_model_advertised_tool_names := n,
             sn_last_model_response_sequence := Some q, sn_last_model_activity_sequence := Some q,
             sn_last_model_failure := None, sn_transcript := sn_transcript s @ [e]\<rparr>"
  by (auto simp: apply_model_response_committed_def result_simps Let_def)

lemma apply_model_delta_frame [frames]: "apply_model_delta s r a = Inr s' \<Longrightarrow> s' = s"
  by (auto simp: apply_model_delta_def result_simps)

section \<open>Tools\<close>

lemma apply_tool_prepared_frame [frames]:
  "apply_tool_prepared s r i v w = Inr s' \<Longrightarrow>
     \<exists>p. s' = s\<lparr>sn_tool_calls := sat_add (sn_tool_calls s) 1, sn_pending_tool := Some p\<rparr>"
  by (auto simp: apply_tool_prepared_def result_simps)

lemma apply_tool_authorization_frame [frames]:
  "apply_tool_authorization cx s r i d = Inr s' \<Longrightarrow> \<exists>p. s' = s\<lparr>sn_pending_tool := Some p\<rparr>"
  by (auto simp: apply_tool_authorization_def result_simps Let_def)

lemma apply_interaction_requested_frame [frames]:
  "apply_interaction_requested cx s r u = Inr s' \<Longrightarrow> \<exists>p. s' = s\<lparr>sn_pending_tool := Some p\<rparr>"
  by (auto simp: apply_interaction_requested_def result_simps)

lemma apply_interaction_resolved_frame [frames]:
  "apply_interaction_resolved s r q c i u = Inr s' \<Longrightarrow>
     c \<notin> crc_command_id ` set (sn_command_receipts s) \<and>
     (\<exists>p. s' = s\<lparr>sn_command_receipts := sn_command_receipts s @
                   [\<lparr>crc_command_id = c, crc_sequence = q,
                     crc_command = CommandResolveInteraction i u\<rparr>],
                 sn_pending_tool := Some p\<rparr>)"
  by (auto simp: apply_interaction_resolved_def result_simps)

lemma apply_tool_execution_started_frame [frames]:
  "apply_tool_execution_started s r i = Inr s' \<Longrightarrow> \<exists>p. s' = s\<lparr>sn_pending_tool := Some p\<rparr>"
  by (auto simp: apply_tool_execution_started_def result_simps)

lemma settle_workspace_frame:
  "settle_workspace s r p v w = Inr s' \<Longrightarrow>
     s' = s \<or> (\<exists>state. w = Some state \<and> s' = s\<lparr>sn_workspace_state := state\<rparr> \<and>
       workspace_state_validate state = Inr () \<and>
       ws_generation state = sat_add (ws_generation (sn_workspace_state s)) 1)"
  by (auto simp: settle_workspace_def result_simps split: workspace_access.splits option.splits)

lemma advance_temporal_progress_frame:
  "advance_temporal_progress s r i b c e = Inr s' \<Longrightarrow>
     \<exists>p. s' = s\<lparr>sn_temporal_evidence_progress := p\<rparr>"
  by (auto simp: advance_temporal_progress_def result_simps Let_def
        split: if_splits bool.splits option.splits intro: exI [of _ "sn_temporal_evidence_progress s"])

lemma record_tool_verifier_failure_frame:
  "\<exists>p. record_tool_verifier_failure cx s pend i n v = s\<lparr>sn_temporal_evidence_progress := p\<rparr>"
  by (auto simp: record_tool_verifier_failure_def split: option.splits
        intro: exI [of _ "sn_temporal_evidence_progress s"])

lemma apply_tool_outcome_frame [frames]:
  assumes "apply_tool_outcome cx s r i c n v w = Inr s'"
  shows "\<exists>state p. s' = s\<lparr>sn_workspace_state := state, sn_temporal_evidence_progress := p,
             sn_pending_tool := None, sn_transcript := sn_transcript s @ [ToolEntry c n v]\<rparr> \<and>
           (state = sn_workspace_state s \<or>
            workspace_state_validate state = Inr () \<and>
            ws_generation state = sat_add (ws_generation (sn_workspace_state s)) 1)"
proof -
  from assms obtain pend s1 s2 b e where
    s1: "settle_workspace s r pend v w = Inr s1" and
    s2: "advance_temporal_progress s1 r i (sn_workspace_state s) b e = Inr s2" and
    s': "s' = (record_tool_verifier_failure cx s2 pend i n v)\<lparr>sn_pending_tool := None,
        sn_transcript := sn_transcript (record_tool_verifier_failure cx s2 pend i n v)
          @ [ToolEntry c n v]\<rparr>"
    unfolding apply_tool_outcome_def result_simps Let_def by blast
  obtain p2 where "s2 = s1\<lparr>sn_temporal_evidence_progress := p2\<rparr>"
    using advance_temporal_progress_frame [OF s2] by blast
  moreover obtain p3 where
    "record_tool_verifier_failure cx s2 pend i n v = s2\<lparr>sn_temporal_evidence_progress := p3\<rparr>"
    using record_tool_verifier_failure_frame by blast
  ultimately show ?thesis using settle_workspace_frame [OF s1] s'
    by (auto intro!: exI [of _ "sn_workspace_state s1"] exI [of _ p3])
qed

lemma apply_workspace_observed_frame [frames]:
  "apply_workspace_observed s r w = Inr s' \<Longrightarrow>
     (\<exists>p. s' = s\<lparr>sn_temporal_evidence_progress := p, sn_workspace_state := w\<rparr>) \<and>
     workspace_state_validate w = Inr () \<and>
     ws_generation w \<in> {ws_generation (sn_workspace_state s),
                        sat_add (ws_generation (sn_workspace_state s)) 1}"
  by (auto simp: apply_workspace_observed_def result_simps Let_def
        split: workspace_revision.splits if_splits
        intro: exI [of _ "sn_temporal_evidence_progress s"])

section \<open>Completion, steers and control\<close>

lemma apply_completion_proposed_frame [frames]:
  "apply_completion_proposed s r c = Inr s' \<Longrightarrow> s' = s\<lparr>sn_pending_completion := Some c\<rparr>"
  by (auto simp: apply_completion_proposed_def result_simps)

lemma apply_host_completion_accepted_frame [frames]:
  "apply_host_completion_accepted s r q c h = Inr s' \<Longrightarrow>
     c \<notin> crc_command_id ` set (sn_command_receipts s) \<and>
     hr_id h \<notin> hr_id ` set (sn_host_acceptance_receipts s) \<and>
     s' = s\<lparr>sn_command_receipts := sn_command_receipts s @
              [\<lparr>crc_command_id = c, crc_sequence = q, crc_command = CommandAcceptCompletion
                 \<lparr>ha_candidate_id = hr_candidate_id h, ha_generation_id = hr_generation_id h,
                  ha_workspace_state = hr_workspace_state h\<rparr>\<rparr>],
            sn_host_acceptance_receipts := sn_host_acceptance_receipts s @ [h]\<rparr>"
  by (auto simp: apply_host_completion_accepted_def result_simps list_ex_iff)

lemma apply_host_verification_prepared_frame [frames]:
  "apply_host_verification_prepared s r i c a v b = Inr s' \<Longrightarrow>
     \<exists>p. s' = s\<lparr>sn_pending_host_verification := Some p\<rparr>"
  by (auto simp: apply_host_verification_prepared_def result_simps)

lemma apply_host_verification_started_frame [frames]:
  "apply_host_verification_started s r i = Inr s' \<Longrightarrow>
     \<exists>p. s' = s\<lparr>sn_pending_host_verification := Some p\<rparr>"
  by (auto simp: apply_host_verification_started_def result_simps)

lemma commit_verification_failure_frame:
  "\<exists>f p. commit_verification_failure cx s pend g i v w c =
     s\<lparr>sn_last_host_verification_failure := f, sn_temporal_evidence_progress := p\<rparr>"
  by (intro exI [of _ "sn_last_host_verification_failure (commit_verification_failure cx s pend g i v w c)"]
        exI [of _ "sn_temporal_evidence_progress (commit_verification_failure cx s pend g i v w c)"],
      rule run_snapshot.equality)
     (simp_all add: commit_verification_failure_def Let_def split: option.split)

lemma commit_evidence_receipt_Inr [result_simps]:
  "commit_evidence_receipt s r expected receipt = Inr s' \<longleftrightarrow>
     expected = receipt \<and> er_id receipt \<notin> er_id ` set (sn_evidence_receipts s) \<and>
     s' = s\<lparr>sn_evidence_receipts := sn_evidence_receipts s @ [receipt],
            sn_last_completion_rejection := None, sn_last_host_verification_failure := None,
            sn_temporal_evidence_progress := None\<rparr>"
  by (auto simp: commit_evidence_receipt_def result_simps list_ex_iff) (metis image_eqI)

lemma apply_host_verification_committed_cases:
  assumes "apply_host_verification_committed cx s r i v rc w = Inr s'"
  obtains pend contract policy where
    "sn_pending_host_verification s = Some pend" "rq_task_contract (sn_request s) = Some contract"
    "phv_verification_id pend = i" "phv_state pend = ActionInFlight"
    "phv_workspace_state_before pend = sn_workspace_state s"
    "find_map (verifier_policy_for (phv_acceptance_id pend) (phv_verifier pend))
       (td_acceptance (tc_definition contract)) = Some policy"
    "workspace_state_validate w = Inr ()"
    "ws_generation w = sat_add (ws_generation (sn_workspace_state s)) 1"
    "(\<exists>receipt.
        seal_evidence_receipt cx s i (phv_acceptance_id pend) policy (phv_verifier pend) v w
          = Inr receipt \<and>
        rc = Some receipt \<and> er_id receipt \<notin> er_id ` set (sn_evidence_receipts s) \<and>
        s' = s\<lparr>sn_evidence_receipts := sn_evidence_receipts s @ [receipt],
               sn_last_completion_rejection := None, sn_last_host_verification_failure := None,
               sn_temporal_evidence_progress := None, sn_workspace_state := w,
               sn_pending_host_verification := None\<rparr>)
     \<or> (\<exists>cause.
        seal_evidence_receipt cx s i (phv_acceptance_id pend) policy (phv_verifier pend) v w
          = Inl cause \<and> rc = None \<and>
        s' = (commit_verification_failure cx s pend (tc_generation_id contract) i v w cause)
               \<lparr>sn_workspace_state := w, sn_pending_host_verification := None\<rparr>)"
proof -
  from assms obtain pend contract policy s1 where *:
    "sn_pending_host_verification s = Some pend" "rq_task_contract (sn_request s) = Some contract"
    "phv_verification_id pend = i" "phv_state pend = ActionInFlight"
    "phv_workspace_state_before pend = sn_workspace_state s"
    "find_map (verifier_policy_for (phv_acceptance_id pend) (phv_verifier pend))
       (td_acceptance (tc_definition contract)) = Some policy"
    "workspace_state_validate w = Inr ()"
    "ws_generation w = sat_add (ws_generation (sn_workspace_state s)) 1"
    "s' = s1\<lparr>sn_workspace_state := w, sn_pending_host_verification := None\<rparr>" and
    s1: "(case (seal_evidence_receipt cx s i (phv_acceptance_id pend) policy (phv_verifier pend)
            v w, rc) of
           (Inr expected, Some receipt) \<Rightarrow> commit_evidence_receipt s r expected receipt
         | (Inr _, None) \<Rightarrow> Inl (corrupt r
             ''Host verification omitted a receipt that canonical sealing accepted'')
         | (Inl _, Some _) \<Rightarrow> Inl (corrupt r
             ''Host verification carried a receipt that canonical sealing rejected'')
         | (Inl cause, None) \<Rightarrow> Inr (commit_verification_failure cx s pend
             (tc_generation_id contract) i v w cause)) = Inr s1"
    unfolding apply_host_verification_committed_def result_simps not_not de_Morgan_disj by force
  show thesis
    by (rule that [OF *(1-8)], use s1 *(9) in
        \<open>cases "seal_evidence_receipt cx s i (phv_acceptance_id pend) policy (phv_verifier pend) v w";
         cases rc\<close>) (auto simp: result_simps)
qed

lemma apply_host_verification_committed_frame [frames]:
  assumes "apply_host_verification_committed cx s r i v rc w = Inr s'"
  shows "\<exists>es c f p. s' = s\<lparr>sn_evidence_receipts := es, sn_last_completion_rejection := c,
             sn_last_host_verification_failure := f, sn_temporal_evidence_progress := p,
             sn_workspace_state := w, sn_pending_host_verification := None\<rparr> \<and>
           (es = sn_evidence_receipts s \<or>
            (\<exists>receipt. es = sn_evidence_receipts s @ [receipt] \<and> sealed_by cx s receipt \<and>
               er_id receipt \<notin> er_id ` set (sn_evidence_receipts s))) \<and>
           workspace_state_validate w = Inr () \<and>
           ws_generation w = sat_add (ws_generation (sn_workspace_state s)) 1"
  using assms
proof (cases rule: apply_host_verification_committed_cases)
  case (1 pend contract policy)
  from 1(9) show ?thesis
  proof (elim disjE exE conjE, goal_cases)
    case (1 receipt)
    moreover from 1 \<open>sn_pending_host_verification s = Some pend\<close>
      \<open>rq_task_contract (sn_request s) = Some contract\<close> \<open>find_map _ _ = Some policy\<close>
    have "sealed_by cx s receipt" unfolding sealed_by_def by blast
    ultimately show ?case using \<open>workspace_state_validate w = Inr ()\<close>
      \<open>ws_generation w = _\<close> by auto
  next
    case (2 cause)
    obtain f p where "commit_verification_failure cx s pend (tc_generation_id contract) i v w cause =
        s\<lparr>sn_last_host_verification_failure := f, sn_temporal_evidence_progress := p\<rparr>"
      using commit_verification_failure_frame by blast
    with 2 \<open>workspace_state_validate w = Inr ()\<close> \<open>ws_generation w = _\<close> show ?case
      by (intro exI [of _ "sn_evidence_receipts s"] exI [of _ "sn_last_completion_rejection s"]
            exI [of _ f] exI [of _ p]) simp
  qed
qed

lemma apply_completion_rejected_frame [frames]:
  "apply_completion_rejected s r c = Inr s' \<Longrightarrow>
     s' = s\<lparr>sn_last_completion_rejection := Some c, sn_pending_completion := None\<rparr>"
  by (auto simp: apply_completion_rejected_def result_simps)

lemma apply_steer_queued_frame [frames]:
  "apply_steer_queued s r q c t = Inr s' \<Longrightarrow>
     c \<notin> crc_command_id ` set (sn_command_receipts s) \<and>
     s' = s\<lparr>sn_command_receipts := sn_command_receipts s @
              [\<lparr>crc_command_id = c, crc_sequence = q, crc_command = CommandSteer t\<rparr>],
            sn_pending_steers := sn_pending_steers s @ [\<lparr>ps_command_id = c, ps_content = t\<rparr>]\<rparr>"
  by (auto simp: apply_steer_queued_def result_simps)

lemma apply_steer_applied_frame [frames]:
  "apply_steer_applied s r q c t = Inr s' \<Longrightarrow>
     \<exists>rest. sn_pending_steers s = \<lparr>ps_command_id = c, ps_content = t\<rparr> # rest \<and>
       s' = s\<lparr>sn_pending_steers := rest, sn_transcript := sn_transcript s @ [UserEntry t],
              sn_last_model_activity_sequence := Some q\<rparr>"
  by (auto simp: apply_steer_applied_def result_simps split: list.splits)

lemma apply_control_requested_frame [frames]:
  "apply_control_requested s r q c a = Inr s' \<Longrightarrow>
     c \<notin> crc_command_id ` set (sn_command_receipts s) \<and> sn_pending_control s = None \<and>
     s' = s\<lparr>sn_command_receipts := sn_command_receipts s @
              [\<lparr>crc_command_id = c, crc_sequence = q, crc_command = CommandStop a\<rparr>],
            sn_pending_control := Some \<lparr>pc_command_id = c, pc_action = a\<rparr>\<rparr>"
  by (auto simp: apply_control_requested_def result_simps)

lemma apply_terminal_frame [frames]:
  "apply_terminal s r v = Inr s' \<Longrightarrow>
     s' = s\<lparr>sn_accounting := ao_accounting v, sn_terminal := Some v\<rparr>"
  by (auto simp: apply_terminal_def result_simps)

section \<open>Child Agents\<close>

lemma agent_task_mut_Inr:
  "agent_task_mut s r t f = Inr s' \<longleftrightarrow>
     (\<exists>i lc. position (has_task_id t) (sn_agent_tasks s) = Some i \<and>
       f (sn_agent_tasks s ! i) = Inr lc \<and>
       s' = s\<lparr>sn_agent_tasks := (sn_agent_tasks s)[i := lc]\<rparr>)"
  by (auto simp: agent_task_mut_def result_simps)

lemma agent_task_mut_frame:
  "agent_task_mut s r t f = Inr s' \<Longrightarrow> \<exists>ts. s' = s\<lparr>sn_agent_tasks := ts\<rparr>"
  by (auto simp: agent_task_mut_Inr)

lemma apply_agent_task_prepared_frame [frames]:
  "apply_agent_task_prepared s r t = Inr s' \<Longrightarrow>
     s' = s\<lparr>sn_agent_tasks := sn_agent_tasks s @ [new_lifecycle t]\<rparr>"
  by (auto simp: apply_agent_task_prepared_def result_simps)

lemma apply_agent_workspace_created_frame [frames]:
  "apply_agent_workspace_created s r t a w = Inr s' \<Longrightarrow> \<exists>ts. s' = s\<lparr>sn_agent_tasks := ts\<rparr>"
  unfolding apply_agent_workspace_created_def by (rule agent_task_mut_frame)

lemma apply_child_started_frame [frames]:
  "apply_child_started s r t c k d = Inr s' \<Longrightarrow> \<exists>ts. s' = s\<lparr>sn_agent_tasks := ts\<rparr>"
  by (auto simp: apply_child_started_def result_simps dest: agent_task_mut_frame)

lemma apply_agent_seal_prepared_frame [frames]:
  "apply_agent_seal_prepared s r t b w = Inr s' \<Longrightarrow> \<exists>ts. s' = s\<lparr>sn_agent_tasks := ts\<rparr>"
  unfolding apply_agent_seal_prepared_def by (rule agent_task_mut_frame)

lemma apply_agent_seal_committed_frame [frames]:
  "apply_agent_seal_committed s r t c d f w = Inr s' \<Longrightarrow> \<exists>ts. s' = s\<lparr>sn_agent_tasks := ts\<rparr>"
  unfolding apply_agent_seal_committed_def by (rule agent_task_mut_frame)

lemma apply_agent_result_collected_frame [frames]:
  "apply_agent_result_collected s r t v = Inr s' \<Longrightarrow> \<exists>ts. s' = s\<lparr>sn_agent_tasks := ts\<rparr>"
  unfolding apply_agent_result_collected_def by (rule agent_task_mut_frame)

lemma apply_agent_integration_prepared_frame [frames]:
  "apply_agent_integration_prepared s r t i b c d w = Inr s' \<Longrightarrow> \<exists>ts. s' = s\<lparr>sn_agent_tasks := ts\<rparr>"
  by (auto simp: apply_agent_integration_prepared_def result_simps dest: agent_task_mut_frame)

lemma apply_agent_integration_started_frame [frames]:
  "apply_agent_integration_started s r t i = Inr s' \<Longrightarrow> \<exists>ts. s' = s\<lparr>sn_agent_tasks := ts\<rparr>"
  unfolding apply_agent_integration_started_def by (rule agent_task_mut_frame)

lemma apply_agent_integration_failed_frame [frames]:
  "apply_agent_integration_failed s r t i b w = Inr s' \<Longrightarrow> \<exists>ts. s' = s\<lparr>sn_agent_tasks := ts\<rparr>"
  unfolding apply_agent_integration_failed_def by (rule agent_task_mut_frame)

lemma apply_agent_integration_committed_frame [frames]:
  "apply_agent_integration_committed s r t i h w = Inr s' \<Longrightarrow> \<exists>ts. s' = s\<lparr>sn_agent_tasks := ts\<rparr>"
  unfolding apply_agent_integration_committed_def by (rule agent_task_mut_frame)

lemma apply_agent_cleanup_prepared_frame [frames]:
  "apply_agent_cleanup_prepared s r t p = Inr s' \<Longrightarrow> \<exists>ts. s' = s\<lparr>sn_agent_tasks := ts\<rparr>"
  unfolding apply_agent_cleanup_prepared_def by (rule agent_task_mut_frame)

lemma apply_agent_cleanup_committed_frame [frames]:
  "apply_agent_cleanup_committed s r t v = Inr s' \<Longrightarrow> \<exists>ts. s' = s\<lparr>sn_agent_tasks := ts\<rparr>"
  unfolding apply_agent_cleanup_committed_def by (rule agent_task_mut_frame)

lemma apply_child_finished_frame [frames]:
  "apply_child_finished s r c v a h = Inr s' \<Longrightarrow>
     \<exists>ts n k m. s' = s\<lparr>sn_agent_tasks := ts, sn_runtime_model_requests := n,
       sn_runtime_retries := k, sn_tool_calls := m, sn_accounting := a,
       sn_transcript := sn_transcript s @ [ChildOutcomeEntry c (ao_run_id v) v h]\<rparr>"
  by (auto simp: apply_child_finished_def result_simps)

end
