(* ===== verification/Event_Log.thy ===== *)
theory Event_Log
  imports Prelude
begin

text \<open>
  The contract of an event-sourced component, as the run store of crates/runtime/src/store.rs
  uses it: a log is created by its first event, every further event is one step, and replaying
  the log is doing these in order. A sequenced log also numbers its events and closes.
\<close>

locale event_log =
  fixes create_from :: "'e \<Rightarrow> 'err + 's"
    and step :: "'s \<Rightarrow> 'e \<Rightarrow> 'err + 's"
    and replay_log :: "'e list \<Rightarrow> 'err + 's"
  assumes replay_Nil: "\<not> is_ok (replay_log [])"
    and replay_single: "replay_log [e] = create_from e"
    and replay_snoc: "es \<noteq> [] \<Longrightarrow> replay_log (es @ [e]) = rbind (replay_log es) (\<lambda>s. step s e)"
begin

lemma replay_snoc_Inr:
  "es \<noteq> [] \<Longrightarrow> replay_log (es @ [e]) = Inr s' \<longleftrightarrow> (\<exists>s. replay_log es = Inr s \<and> step s e = Inr s')"
  by (simp add: replay_snoc rbind_eq_Inr)

lemma replay_nonempty: "replay_log es = Inr s \<Longrightarrow> es \<noteq> []"
  using replay_Nil by (auto simp: is_ok_iff)

text \<open>What one step at a time establishes holds after every replay.\<close>

lemma replay_induct [consumes 1, case_names create step]:
  assumes "replay_log es = Inr s"
    and create: "\<And>e s. create_from e = Inr s \<Longrightarrow> P [e] s"
    and step: "\<And>es e s s'. replay_log es = Inr s \<Longrightarrow> P es s \<Longrightarrow> step s e = Inr s' \<Longrightarrow> P (es @ [e]) s'"
  shows "P es s"
  using assms(1)
proof (induction es arbitrary: s rule: rev_induct)
  case Nil
  then show ?case using replay_Nil by (simp add: is_ok_iff)
next
  case (snoc e es)
  show ?case
  proof (cases "es = []")
    case True
    with snoc.prems create show ?thesis by (simp add: replay_single)
  next
    case False
    with snoc.prems obtain t where "replay_log es = Inr t" "step t e = Inr s"
      by (auto simp: replay_snoc_Inr)
    with snoc.IH step show ?thesis by blast
  qed
qed

lemma replay_append:
  assumes "es \<noteq> []" and "replay_log (es @ fs) = Inr s'"
  shows "\<exists>s. replay_log es = Inr s"
  using assms(2)
proof (induction fs arbitrary: s' rule: rev_induct)
  case Nil
  then show ?case by simp
next
  case (snoc f fs)
  from snoc.prems have "replay_log ((es @ fs) @ [f]) = Inr s'" by simp
  with assms(1) obtain t where "replay_log (es @ fs) = Inr t"
    using replay_snoc_Inr [of "es @ fs" f s'] by auto
  with snoc.IH show ?case by blast
qed

text \<open>A quantity that every step only moves up a preorder moves up it along a log.\<close>

lemma replay_monotone:
  assumes "es \<noteq> []" and "replay_log es = Inr s" and "replay_log (es @ fs) = Inr s'"
    and refl: "\<And>s. R s s"
    and trans: "\<And>a b c. R a b \<Longrightarrow> R b c \<Longrightarrow> R a c"
    and step: "\<And>es e a b. replay_log es = Inr a \<Longrightarrow> step a e = Inr b \<Longrightarrow> R a b"
  shows "R s s'"
  using assms(3)
proof (induction fs arbitrary: s' rule: rev_induct)
  case Nil
  with assms(2) refl show ?case by simp
next
  case (snoc f fs)
  from snoc.prems have "replay_log ((es @ fs) @ [f]) = Inr s'" by simp
  with assms(1) obtain t where t: "replay_log (es @ fs) = Inr t" "step t f = Inr s'"
    using replay_snoc_Inr [of "es @ fs" f s'] by auto
  with snoc.IH step trans show ?case by blast
qed

end

locale sequenced_log = event_log create_from step replay_log
  for create_from :: "'e \<Rightarrow> 'err + 's"
    and step :: "'s \<Rightarrow> 'e \<Rightarrow> 'err + 's"
    and replay_log :: "'e list \<Rightarrow> 'err + 's" +
  fixes sequence_of :: "'e \<Rightarrow> u64"
    and last_sequence :: "'s \<Rightarrow> u64"
    and closed :: "'s \<Rightarrow> bool"
    and closes :: "'e \<Rightarrow> bool"
  assumes create_sequence:
      "create_from e = Inr s \<Longrightarrow> sequence_of e = 1 \<and> last_sequence s = 1 \<and> \<not> closed s \<and> \<not> closes e"
    and step_sequence:
      "step s e = Inr s' \<Longrightarrow>
         sequence_of e = sat_add (last_sequence s) 1 \<and> last_sequence s' = sequence_of e"
    and step_open: "step s e = Inr s' \<Longrightarrow> \<not> closed s \<and> (closed s' \<longleftrightarrow> closes e)"
begin

lemma replay_last_sequence:
  "replay_log es = Inr s \<Longrightarrow> unat (last_sequence s) = min (length es) (2 ^ 64 - 1)"
proof (induction rule: replay_induct)
  case (create e s)
  then show ?case using create_sequence by force
next
  case (step es e s s')
  then show ?case using step_sequence [of s e s'] by (simp add: sat_simps)
qed

lemma replay_numbered:
  "replay_log es = Inr s \<Longrightarrow> i < length es \<Longrightarrow>
     unat (sequence_of (es ! i)) = min (Suc i) (2 ^ 64 - 1)"
proof (induction rule: replay_induct)
  case (create e s)
  then show ?case using create_sequence by force
next
  case (step es e s s')
  then show ?case
    using step_sequence [of s e s'] replay_last_sequence [of es s]
    by (auto simp: nth_append less_Suc_eq sat_simps)
qed

lemma replay_closed:
  "replay_log es = Inr s \<Longrightarrow> (closed s \<longleftrightarrow> closes (last es)) \<and> list_all (\<lambda>e. \<not> closes e) (butlast es)"
proof (induction rule: replay_induct)
  case (create e s)
  then show ?case using create_sequence by force
next
  case (step es e s s')
  from step have "es \<noteq> []" by (auto dest: replay_nonempty)
  then have "list_all (\<lambda>e. \<not> closes e) es \<longleftrightarrow>
      list_all (\<lambda>e. \<not> closes e) (butlast es) \<and> \<not> closes (last es)"
    by (cases es rule: rev_cases) simp_all
  with step show ?case using step_open [of s e s'] by simp
qed

end

end
