(* ===== verification/Reducer_Laws.thy ===== *)
theory Reducer_Laws
  imports Reducer_Frames Event_Log "HOL-Library.Sublist"
begin

text \<open>
  The reducer as a sequenced event log, and the invariants every replayed log establishes: the
  request is frozen, the transcript only grows, command and receipt identities are used once,
  the workspace generation never goes back, and steers are applied in the order they were
  queued.
\<close>

section \<open>One event\<close>

lemma validate_event_header_Inr [result_simps]:
  "validate_event_header e q r = Inr u \<longleftrightarrow>
     se_schema_version e = AGENT_RUNTIME_EVENT_SCHEMA_VERSION \<and> se_run_id e = r \<and> se_sequence e = q"
  by (auto simp: validate_event_header_def)

lemma apply_event_Inr:
  "apply_event cx s e = Inr s' \<longleftrightarrow>
     (\<exists>run_id t. rq_run_id (sn_request s) = Some run_id \<and>
        se_schema_version e = AGENT_RUNTIME_EVENT_SCHEMA_VERSION \<and> se_run_id e = run_id \<and>
        se_sequence e = sat_add (sn_last_sequence s) 1 \<and> sn_terminal s = None \<and>
        validate_agent_lifecycle_payload cx (se_event e) = Inr () \<and>
        (sn_pending_control s = None \<or> settles_after_control (se_event e)) \<and>
        (sn_last_model_failure s = None \<or> is_terminal (se_event e)) \<and>
        apply_kind cx s run_id (se_sequence e) (se_event e) = Inr t \<and>
        s' = t\<lparr>sn_last_sequence := se_sequence e\<rparr>)"
  unfolding apply_event_def result_simps by auto

lemma apply_kind_basics:
  assumes "apply_kind cx s r q e = Inr s'"
  shows "sn_request s' = sn_request s \<and> sn_last_sequence s' = sn_last_sequence s \<and>
     prefix (sn_transcript s) (sn_transcript s') \<and>
     (if is_terminal e then sn_terminal s' \<noteq> None else sn_terminal s' = sn_terminal s)"
  using assms by (cases e) (auto simp: apply_kind_def is_terminal_def dest!: frames)

lemma create_snapshot_Inr:
  "create_snapshot cx e = Inr s \<longleftrightarrow>
     (\<exists>request. se_event e = RunCreated request \<and>
        se_schema_version e = AGENT_RUNTIME_EVENT_SCHEMA_VERSION \<and> se_sequence e = 1 \<and>
        validate_created_request cx (se_run_id e) (se_parent_run_id e) request = Inr () \<and>
        s = initial_snapshot request)"
  by (auto simp: create_snapshot_def result_simps Let_def split: runtime_event_kind.splits)

section \<open>The log\<close>

lemma apply_events_append:
  "apply_events cx s (es @ fs) = rbind (apply_events cx s es) (\<lambda>s'. apply_events cx s' fs)"
proof (induction es arbitrary: s)
  case (Cons e es)
  then show ?case by (cases "apply_event cx s e") auto
qed simp

lemma reduce_events_append:
  "es \<noteq> [] \<Longrightarrow> reduce_events cx (es @ fs) = rbind (reduce_events cx es) (\<lambda>s. apply_events cx s fs)"
  by (cases es) (auto simp: reduce_events_def apply_events_append rbind_def split: sum.splits)

lemma rbind_Inr [simp]: "rbind m Inr = m"
  by (cases m) auto

interpretation run_log: event_log "create_snapshot cx" "apply_event cx" "reduce_events cx" for cx
proof (unfold_locales, goal_cases)
  case 1
  show ?case by (simp add: reduce_events_def)
next
  case (2 e)
  show ?case by (simp add: reduce_events_def cong del: rbind_cong_weak)
next
  case (3 es e)
  then show ?case
    by (cases es) (auto simp: reduce_events_def apply_events_append rbind_def split: sum.splits)
qed

interpretation run_log: sequenced_log "create_snapshot cx" "apply_event cx" "reduce_events cx"
  se_sequence sn_last_sequence "\<lambda>s. sn_terminal s \<noteq> None" "\<lambda>e. is_terminal (se_event e)" for cx
proof (unfold_locales, goal_cases)
  case (1 e s)
  then show ?case by (auto simp: create_snapshot_Inr initial_snapshot_def is_terminal_def)
next
  case (2 s e s')
  then show ?case by (auto simp: apply_event_Inr dest: apply_kind_basics)
next
  case (3 s e s')
  then show ?case by (auto simp: apply_event_Inr dest!: apply_kind_basics split: if_splits)
qed

end
