(* ===== verification/Run_Examples.thy ===== *)
theory Run_Examples
  imports Reducer
begin

text \<open>
  Concrete run logs the witnesses evaluate: a root run that is steered, answers, is accepted by
  its Host, verified and completed. The codec is a fixed one; only the decoded verification
  payload matters to the reducer.
\<close>

definition ex_payload :: verification_artifact_payload where
  "ex_payload =
     \<lparr>vap_summary = ''ok'', vap_verifier = ex_verifier_spec, vap_verdict = VerdictPassed,
      vap_workspace_revision = RevKnown ''r1''\<rparr>"

definition ex_store_codec :: store_codec where
  "ex_store_codec =
     \<lparr>cx_sha256_hex = (\<lambda>_. ''00''), cx_json_text = (\<lambda>_. ''{}''), cx_encode_payload = (\<lambda>_. JNull),
      cx_decode_payload = (\<lambda>_. Inr ex_payload), cx_receipt_text = (\<lambda>_. ''{}''),
      cx_rejection_text = (\<lambda>_. ''{}''), cx_outcome_text = (\<lambda>_. ''{}''),
      cx_workspace_text = (\<lambda>_. ''{}''), cx_projection_text = (\<lambda>_. ''[]''),
      cx_spec_text = (\<lambda>_. ''{}''), cx_decode_user_input = (\<lambda>_. Inl ''none'')\<rparr>"

definition ex_contract :: "string \<Rightarrow> task_contract" where
  "ex_contract run_id =
     \<lparr>tc_generation_id = run_id,
      tc_definition =
        \<lparr>td_objective = ''fix'', td_constraints = [], td_non_goals = [],
         td_acceptance =
           [HostAcceptance ''h'' ''host agrees'',
            VerifierAcceptance ''v'' ''tests pass'' LatestPassPolicy ex_verifier_spec]\<rparr>\<rparr>"

definition ex_request :: "string \<Rightarrow> run_request" where
  "ex_request run_id =
     (run_request_new (ex_contract run_id) [])
       \<lparr>rq_context_policy := \<lparr>cp_hard_input_tokens = 4000\<rparr>\<rparr>"

definition ex_event :: "string \<Rightarrow> u64 \<Rightarrow> runtime_event_kind \<Rightarrow> stored_runtime_event" where
  "ex_event run_id sequence e =
     \<lparr>se_schema_version = AGENT_RUNTIME_EVENT_SCHEMA_VERSION, se_run_id = run_id,
      se_parent_run_id = None, se_event_id = decimal (unat sequence), se_sequence = sequence,
      se_occurred_at_unix_ms = 0, se_event = e\<rparr>"

definition ex_created :: stored_runtime_event where
  "ex_created = ex_event ''r'' 1 (RunCreated (ex_request ''r''))"

definition ex_messages :: "model_message list" where
  "ex_messages =
     (case effective_context ex_store_codec
             (context_input ((initial_snapshot (ex_request ''r''))
                \<lparr>sn_workspace_state := ex_workspace 1 ''r1'',
                 sn_transcript := initial_transcript (ex_request ''r'') @ [UserEntry ''go'']\<rparr>) []) of
        Inr c \<Rightarrow> ec_messages c
      | Inl _ \<Rightarrow> [])"

definition ex_model_request :: model_request where
  "ex_model_request =
     \<lparr>mq_run_id = ''r'', mq_parent_run_id = None, mq_actor = agent_actor_default,
      mq_model = ''deepseek-v4-flash'', mq_system_prompt = [], mq_messages = ex_messages,
      mq_tools = [], mq_reasoning_effort = EffortHigh, mq_max_output_tokens = None,
      mq_streaming = True, mq_request_number = 1, mq_attempt = 0\<rparr>"

definition ex_output :: model_output where
  "ex_output =
     \<lparr>mo_content = ''done'', mo_reasoning_content = None, mo_tool_calls = [],
      mo_finish_reason = FinishStop, mo_usage = usage_default\<rparr>"

definition ex_candidate :: completion_candidate where
  "ex_candidate =
     \<lparr>cc_id = ''completion-7'', cc_generation_id = ''r'', cc_message = ''done'',
      cc_workspace_state = ex_workspace 1 ''r1''\<rparr>"

definition ex_host_receipt :: host_acceptance_receipt where
  "ex_host_receipt =
     \<lparr>hr_id = ''host-acceptance:c2'', hr_candidate_id = ''completion-7'', hr_generation_id = ''r'',
      hr_workspace_state = ex_workspace 1 ''r1''\<rparr>"

definition ex_artifact :: tool_artifact where
  "ex_artifact = the (inline_verification ex_store_codec ex_payload)"

definition ex_verified_outcome :: tool_outcome where
  "ex_verified_outcome =
     (tool_outcome_success ''passed'')
       \<lparr>to_evidence := \<lparr>te_status = EvidenceProduced, te_references = [art_id ex_artifact]\<rparr>,
        to_artifacts := [ex_artifact], to_workspace_revision := Some ''r1'',
        to_verifier_observation := Some
          \<lparr>vo_spec = ex_verifier_spec, vo_verdict = VerdictPassed,
           vo_workspace_revision = RevKnown ''r1'', vo_artifact_ids = [art_id ex_artifact]\<rparr>\<rparr>"

definition ex_receipt :: evidence_receipt where
  "ex_receipt =
     \<lparr>er_id = ''receipt:hv'', er_generation_id = ''r'', er_acceptance_id = ''v'',
      er_verification_id = ''hv'', er_verifier = ex_verifier_spec,
      er_workspace_state = ex_workspace 2 ''r1'', er_artifact_ids = [art_id ex_artifact],
      er_lineage = LatestPass\<rparr>"

definition ex_decision :: completion_decision where
  "ex_decision =
     \<lparr>cd_candidate_id = ''completion-7'', cd_generation_id = ''r'',
      cd_workspace_state = ex_workspace 2 ''r1'',
      cd_satisfied =
        [HostSatisfaction ''h'' ''host-acceptance:c2'', EvidenceSatisfaction ''v'' ''receipt:hv'']\<rparr>"

definition ex_outcome :: agent_outcome where
  "ex_outcome =
     \<lparr>ao_run_id = ''r'', ao_parent_run_id = None, ao_terminal = Completed ''done'' ex_decision,
      ao_accounting = accounting_default, ao_runtime_model_requests = 1, ao_runtime_retries = 0,
      ao_tool_calls = 0, ao_details = result_details_default\<rparr>"

definition ex_prefix :: "stored_runtime_event list" where
  "ex_prefix =
     [ex_created,
      ex_event ''r'' 2 (WorkspaceObserved (ex_workspace 1 ''r1'')),
      ex_event ''r'' 3 (SteerQueued ''c1'' ''go''),
      ex_event ''r'' 4 (SteerApplied ''c1'' ''go''),
      ex_event ''r'' 5 (ModelRequestPrepared ''a'' ex_model_request),
      ex_event ''r'' 6 (ModelRequestInFlight ''a''),
      ex_event ''r'' 7 (ModelResponseCommitted ''a'' ex_output accounting_default)]"

definition ex_log :: "stored_runtime_event list" where
  "ex_log = ex_prefix @
     [ex_event ''r'' 8 (CompletionProposed ex_candidate),
      ex_event ''r'' 9 (HostCompletionAccepted ''c2'' ex_host_receipt),
      ex_event ''r'' 10 (HostVerificationPrepared ''hv'' ex_candidate ''v'' ex_verifier_spec
                         (ex_workspace 1 ''r1'')),
      ex_event ''r'' 11 (HostVerificationStarted ''hv''),
      ex_event ''r'' 12 (HostVerificationCommitted ''hv'' ex_verified_outcome (Some ex_receipt)
                         (ex_workspace 2 ''r1'')),
      ex_event ''r'' 13 (Terminal ex_outcome)]"

text \<open>The snapshot of the whole log; the evaluation below shows that there is one.\<close>

definition ex_final :: run_snapshot where
  "ex_final = (case reduce_events ex_store_codec ex_log of
     Inr s \<Rightarrow> s | Inl _ \<Rightarrow> initial_snapshot (ex_request ''r''))"

lemma ex_log_accepted: "is_ok (reduce_events ex_store_codec ex_log)"
  by code_simp

lemma ex_log_reduces: "reduce_events ex_store_codec ex_log = Inr ex_final"
  using ex_log_accepted by (auto simp: ex_final_def is_ok_def split: sum.splits)

end
