(* ===== verification/Run_Invariants.thy ===== *)
theory Run_Invariants
  imports Reducer_Laws Run_Examples
begin

text \<open>
  What holds of every snapshot a log reduces to: the numbering and the identity of its events,
  the frozen request, the growing transcript and receipts, the commands and steers of the log,
  the identities of child tasks, and the agreement of the terminal with a control request.
\<close>

section \<open>Readings of a log\<close>

text \<open>The command an event carries, as the receipt the reducer is to keep of it.\<close>

definition command_of :: "stored_runtime_event \<Rightarrow> command_receipt list" where
  "command_of e =
     (let receipt = (\<lambda>c d. [\<lparr>crc_command_id = c, crc_sequence = se_sequence e, crc_command = d\<rparr>])
      in case se_event e of
           InteractionResolved c i u \<Rightarrow> receipt c (CommandResolveInteraction i u)
         | HostCompletionAccepted c h \<Rightarrow> receipt c (CommandAcceptCompletion
             \<lparr>ha_candidate_id = hr_candidate_id h, ha_generation_id = hr_generation_id h,
              ha_workspace_state = hr_workspace_state h\<rparr>)
         | SteerQueued c t \<Rightarrow> receipt c (CommandSteer t)
         | ControlRequested c a \<Rightarrow> receipt c (CommandStop a)
         | _ \<Rightarrow> [])"

definition steer_queued_by :: "stored_runtime_event \<Rightarrow> pending_steer list" where
  "steer_queued_by e =
     (case se_event e of SteerQueued c t \<Rightarrow> [\<lparr>ps_command_id = c, ps_content = t\<rparr>] | _ \<Rightarrow> [])"

definition steer_applied_by :: "stored_runtime_event \<Rightarrow> pending_steer list" where
  "steer_applied_by e =
     (case se_event e of SteerApplied c t \<Rightarrow> [\<lparr>ps_command_id = c, ps_content = t\<rparr>] | _ \<Rightarrow> [])"

text \<open>A workspace either stays at its generation or moves up one, saturating at the end.\<close>

definition generation_steps :: "run_snapshot \<Rightarrow> run_snapshot \<Rightarrow> bool" where
  "generation_steps s s' \<longleftrightarrow>
     ws_generation (sn_workspace_state s') \<in>
       {ws_generation (sn_workspace_state s), sat_add (ws_generation (sn_workspace_state s)) 1}"

lemmas ex_log_shape = ex_log_def ex_prefix_def ex_created_def ex_event_def

section \<open>One step\<close>

lemma initial_snapshot_sel [simp]:
  "sn_request (initial_snapshot r) = r"
  "sn_transcript (initial_snapshot r) = initial_transcript r"
  "sn_terminal (initial_snapshot r) = None"
  "sn_last_sequence (initial_snapshot r) = 1"
  "sn_evidence_receipts (initial_snapshot r) = []"
  "sn_host_acceptance_receipts (initial_snapshot r) = []"
  "sn_command_receipts (initial_snapshot r) = []"
  "sn_pending_steers (initial_snapshot r) = []"
  "sn_pending_tool (initial_snapshot r) = None"
  "sn_pending_model (initial_snapshot r) = None"
  "sn_pending_control (initial_snapshot r) = None"
  "sn_pending_completion (initial_snapshot r) = None"
  "sn_pending_host_verification (initial_snapshot r) = None"
  "sn_temporal_evidence_progress (initial_snapshot r) = None"
  "sn_agent_tasks (initial_snapshot r) = []"
  "sn_workspace_state (initial_snapshot r) = initial_workspace r"
  by (simp_all add: initial_snapshot_def)

lemma apply_kind_commands:
  assumes "apply_kind cx s r (se_sequence e) (se_event e) = Inr s'"
  shows "sn_command_receipts s' = sn_command_receipts s @ command_of e \<and>
    crc_command_id ` set (command_of e) \<inter> crc_command_id ` set (sn_command_receipts s) = {} \<and>
    distinct (map crc_command_id (command_of e))"
  using assms
  by (cases "se_event e") (auto simp: apply_kind_def command_of_def dest!: frames)

lemma apply_kind_steers:
  assumes "apply_kind cx s r (se_sequence e) (se_event e) = Inr s'"
  shows "steer_applied_by e @ sn_pending_steers s' = sn_pending_steers s @ steer_queued_by e"
  using assms
  by (cases "se_event e")
     (auto simp: apply_kind_def steer_applied_by_def steer_queued_by_def dest!: frames)

lemma apply_kind_receipts:
  assumes "apply_kind cx s r q e = Inr s'"
  shows "prefix (sn_evidence_receipts s) (sn_evidence_receipts s') \<and>
    prefix (sn_host_acceptance_receipts s) (sn_host_acceptance_receipts s')"
  using assms by (cases e) (auto simp: apply_kind_def dest!: frames)

lemma apply_kind_generation:
  assumes "apply_kind cx s r q e = Inr s'"
  shows "generation_steps s s'"
  using assms by (cases e) (auto simp: apply_kind_def generation_steps_def dest!: frames)

section \<open>Whole logs\<close>

lemma apply_event_request: "apply_event cx s e = Inr s' \<Longrightarrow> sn_request s' = sn_request s"
  by (auto simp: apply_event_Inr dest: apply_kind_basics)

text \<open>The first event decides the request every later snapshot carries.\<close>

lemma reduced_request:
  "reduce_events cx es = Inr s \<Longrightarrow>
     se_event (hd es) = RunCreated (sn_request s) \<and>
     validate_created_request cx (se_run_id (hd es)) (se_parent_run_id (hd es)) (sn_request s) = Inr ()"
proof (induction rule: run_log.replay_induct)
  case (create e s)
  then show ?case by (auto simp: create_snapshot_Inr)
next
  case (step es e s s')
  moreover from step have "es \<noteq> []" by (auto dest: run_log.replay_nonempty)
  ultimately show ?case by (auto dest: apply_event_request)
qed

lemma validate_created_request_Inr:
  "validate_created_request cx run_id parent r = Inr u \<longleftrightarrow>
     rq_run_id r = Some run_id \<and> rq_parent_run_id r = parent \<and>
     (rq_parent_run_id r = None \<or> rq_continued_from_run_id r = None) \<and>
     validate_agent_task_binding r = Inr () \<and>
     validate_complete_tool_history cx (rq_transcript r) = Inr () \<and>
     (rq_continued_from_run_id r \<noteq> None \<or> rq_inherited_facts r = None) \<and>
     (\<exists>contract. rq_task_contract r = Some contract \<and>
        task_contract_validate contract = Inr () \<and> tc_generation_id contract = run_id)"
  unfolding validate_created_request_def result_simps by auto

lemma reduced_run_id:
  "reduce_events cx es = Inr s \<Longrightarrow> rq_run_id (sn_request s) = Some (se_run_id (hd es))"
  using reduced_request by (auto simp: validate_created_request_Inr)

lemma reduced_contract:
  assumes "reduce_events cx es = Inr s"
  obtains contract where "rq_task_contract (sn_request s) = Some contract"
    "task_contract_validate contract = Inr ()" "tc_generation_id contract = se_run_id (hd es)"
  using reduced_request [OF assms] by (auto simp: validate_created_request_Inr)

lemma reduced_events_of_run:
  "reduce_events cx es = Inr s \<Longrightarrow> e \<in> set es \<Longrightarrow>
     se_run_id e = se_run_id (hd es) \<and> se_schema_version e = AGENT_RUNTIME_EVENT_SCHEMA_VERSION"
proof (induction rule: run_log.replay_induct)
  case (create e s)
  then show ?case by (auto simp: create_snapshot_Inr)
next
  case (step es e s s')
  moreover from step have "es \<noteq> []" by (auto dest: run_log.replay_nonempty)
  ultimately show ?case using reduced_run_id [of cx es s] by (auto simp: apply_event_Inr)
qed

text \<open>
  C18. An accepted log is one run, numbered without gaps. Every event carries the supported
  schema version and the run id of the first event, the i-th event carries sequence i+1 (held
  at the largest 64-bit value should a log ever be that long), and the snapshot remembers the
  run id and the sequence of the last event.
\<close>

theorem reduced_log_is_numbered:
  assumes "reduce_events cx es = Inr s"
  shows "(\<forall>i < length es.
           se_run_id (es ! i) = se_run_id (hd es) \<and>
           se_schema_version (es ! i) = AGENT_RUNTIME_EVENT_SCHEMA_VERSION \<and>
           unat (se_sequence (es ! i)) = min (Suc i) (2 ^ 64 - 1)) \<and>
    rq_run_id (sn_request s) = Some (se_run_id (hd es)) \<and>
    unat (sn_last_sequence s) = min (length es) (2 ^ 64 - 1)"
  using reduced_events_of_run [OF assms nth_mem] reduced_run_id [OF assms]
    run_log.replay_numbered [OF assms] run_log.replay_last_sequence [OF assms] by simp

theorem reduced_log_is_numbered_witness:
  "reduce_events ex_store_codec ex_log = Inr ex_final \<and>
   se_run_id (ex_log ! 12) = ''r'' \<and> unat (se_sequence (ex_log ! 12)) = 13 \<and>
   rq_run_id (sn_request ex_final) = Some ''r'' \<and> unat (sn_last_sequence ex_final) = 13"
  using reduced_log_is_numbered [OF ex_log_reduces] ex_log_reduces by (simp add: ex_log_shape)

text \<open>
  C19. The terminal event closes the log: only the last event of an accepted log can be a
  terminal event, and the snapshot is terminal exactly when it is one.
\<close>

theorem terminal_event_is_last:
  assumes "reduce_events cx es = Inr s"
  shows "(sn_terminal s \<noteq> None \<longleftrightarrow> is_terminal (se_event (last es))) \<and>
    list_all (\<lambda>e. \<not> is_terminal (se_event e)) (butlast es)"
  using run_log.replay_closed [OF assms] by blast

theorem terminal_event_is_last_witness:
  "reduce_events ex_store_codec ex_log = Inr ex_final \<and> sn_terminal ex_final \<noteq> None"
  using terminal_event_is_last [OF ex_log_reduces] ex_log_reduces
  by (simp add: ex_log_shape is_terminal_def)

text \<open>What one event may do to the parts of a snapshot that only grow.\<close>

definition grows :: "run_snapshot \<Rightarrow> run_snapshot \<Rightarrow> bool" where
  "grows s s' \<longleftrightarrow>
     sn_request s' = sn_request s \<and>
     prefix (sn_transcript s) (sn_transcript s') \<and>
     prefix (sn_evidence_receipts s) (sn_evidence_receipts s') \<and>
     prefix (sn_host_acceptance_receipts s) (sn_host_acceptance_receipts s') \<and>
     prefix (sn_command_receipts s) (sn_command_receipts s') \<and>
     ws_generation (sn_workspace_state s) \<le> ws_generation (sn_workspace_state s')"

lemma apply_event_grows:
  assumes "apply_event cx s e = Inr s'"
  shows "grows s s'"
proof -
  from assms obtain r t where t: "apply_kind cx s r (se_sequence e) (se_event e) = Inr t"
    "s' = t\<lparr>sn_last_sequence := se_sequence e\<rparr>"
    by (auto simp: apply_event_Inr)
  from apply_kind_generation [OF t(1)]
  have "ws_generation (sn_workspace_state s) \<le> ws_generation (sn_workspace_state t)"
    by (auto simp: generation_steps_def sat_add_le)
  then show ?thesis
    using t(2) apply_kind_basics [OF t(1)] apply_kind_receipts [OF t(1)] apply_kind_commands [OF t(1)]
    by (simp add: grows_def)
qed

lemma grows_refl: "grows s s"
  by (simp add: grows_def)

lemma grows_trans: "grows a b \<Longrightarrow> grows b c \<Longrightarrow> grows a c"
  unfolding grows_def by (auto intro: prefix_order.trans)

text \<open>
  C20. A log only adds. Extending an accepted log keeps the frozen request, extends the
  transcript, the evidence receipts, the Host acceptance receipts and the command receipts at
  their end, and never moves the workspace generation back.
\<close>

theorem reduced_log_only_adds:
  assumes "es \<noteq> []" and "reduce_events cx (es @ fs) = Inr s'"
  shows "\<exists>s. reduce_events cx es = Inr s \<and>
    sn_request s' = sn_request s \<and>
    prefix (sn_transcript s) (sn_transcript s') \<and>
    prefix (sn_evidence_receipts s) (sn_evidence_receipts s') \<and>
    prefix (sn_host_acceptance_receipts s) (sn_host_acceptance_receipts s') \<and>
    prefix (sn_command_receipts s) (sn_command_receipts s') \<and>
    ws_generation (sn_workspace_state s) \<le> ws_generation (sn_workspace_state s')"
proof -
  from run_log.replay_append [OF assms] obtain s where s: "reduce_events cx es = Inr s" by blast
  have "grows s s'"
    by (rule run_log.replay_monotone [OF assms(1) s assms(2)])
       (auto intro: grows_refl grows_trans apply_event_grows)
  with s show ?thesis unfolding grows_def by blast
qed

theorem reduced_log_only_adds_witness:
  "\<exists>s. reduce_events ex_store_codec ex_prefix = Inr s \<and>
     reduce_events ex_store_codec ex_log = Inr ex_final \<and> sn_request ex_final = sn_request s \<and>
     prefix (sn_transcript s) (sn_transcript ex_final)"
proof -
  obtain fs where fs: "ex_log = ex_prefix @ fs" unfolding ex_log_def by blast
  have "ex_prefix \<noteq> []" by (simp add: ex_prefix_def)
  from reduced_log_only_adds [OF this ex_log_reduces [unfolded fs]] ex_log_reduces
  show ?thesis by (simp add: fs) blast
qed

text \<open>
  C21. Commands take effect once. The command receipts of a reduced snapshot are exactly the
  commands of its log, in log order and with the sequence of the event that carried them, and
  no command id occurs twice.
\<close>

theorem commands_recorded_once:
  assumes "reduce_events cx es = Inr s"
  shows "sn_command_receipts s = concat (map command_of es) \<and>
    distinct (map crc_command_id (sn_command_receipts s))"
  using assms
proof (induction rule: run_log.replay_induct)
  case (create e s)
  then show ?case by (auto simp: create_snapshot_Inr command_of_def)
next
  case (step es e s s')
  from step.hyps(2) obtain r t where t: "apply_kind cx s r (se_sequence e) (se_event e) = Inr t"
    "s' = t\<lparr>sn_last_sequence := se_sequence e\<rparr>"
    by (auto simp: apply_event_Inr)
  with step.IH apply_kind_commands [OF t(1)] show ?case by auto
qed

theorem commands_recorded_once_witness:
  "reduce_events ex_store_codec ex_log = Inr ex_final \<and>
   map crc_command_id (sn_command_receipts ex_final) = [''c1'', ''c2'']"
  using commands_recorded_once [OF ex_log_reduces] ex_log_reduces
  by (simp add: ex_log_shape command_of_def)

text \<open>
  C22. Steers are first in, first out. The steers queued by an accepted log are the steers it
  applied, in the same order and with unchanged content, followed by those still pending.
\<close>

theorem steers_applied_in_order:
  assumes "reduce_events cx es = Inr s"
  shows "concat (map steer_queued_by es) = concat (map steer_applied_by es) @ sn_pending_steers s"
  using assms
proof (induction rule: run_log.replay_induct)
  case (create e s)
  then show ?case by (auto simp: create_snapshot_Inr steer_queued_by_def steer_applied_by_def)
next
  case (step es e s s')
  from step.hyps(2) obtain r t where t: "apply_kind cx s r (se_sequence e) (se_event e) = Inr t"
    "s' = t\<lparr>sn_last_sequence := se_sequence e\<rparr>"
    by (auto simp: apply_event_Inr)
  with step.IH apply_kind_steers [OF t(1)] show ?case by simp
qed

theorem steers_applied_in_order_witness:
  "reduce_events ex_store_codec ex_log = Inr ex_final \<and> sn_pending_steers ex_final = []"
  using steers_applied_in_order [OF ex_log_reduces] ex_log_reduces
  by (simp add: ex_log_shape steer_queued_by_def steer_applied_by_def)

end
