(* ===== verification/Run_Evidence.thy ===== *)
theory Run_Evidence
  imports Run_Invariants
begin

text \<open>
  What a run may claim. Evidence receipts are sealed only by a passed Host verification of an
  acceptance of the frozen contract, Host acceptance receipts only by the Host's command, and a
  completed terminal only by receipts for every acceptance at the current workspace.
\<close>

section \<open>Receipts of a log\<close>

text \<open>The receipts an event carries.\<close>

definition evidence_of :: "stored_runtime_event \<Rightarrow> evidence_receipt list" where
  "evidence_of e =
     (case se_event e of HostVerificationCommitted _ _ (Some receipt) _ \<Rightarrow> [receipt] | _ \<Rightarrow> [])"

definition host_acceptance_of :: "stored_runtime_event \<Rightarrow> host_acceptance_receipt list" where
  "host_acceptance_of e =
     (case se_event e of HostCompletionAccepted _ receipt \<Rightarrow> [receipt] | _ \<Rightarrow> [])"

text \<open>
  A verifier run that succeeded with a passed verdict, for the receipt's verifier, on the
  revision the receipt names, without changing the workspace.
\<close>

definition passed_for :: "tool_outcome \<Rightarrow> evidence_receipt \<Rightarrow> bool" where
  "passed_for outcome receipt \<longleftrightarrow>
     is_success outcome \<and> to_side_effect outcome \<noteq> EffectApplied \<and>
     (case to_verifier_observation outcome of
        None \<Rightarrow> False
      | Some observation \<Rightarrow>
          vo_verdict observation = VerdictPassed \<and> vo_spec observation = er_verifier receipt \<and>
          vo_artifact_ids observation = er_artifact_ids receipt \<and>
          vo_workspace_revision observation = ws_revision (er_workspace_state receipt))"

definition verified_by :: "evidence_receipt \<Rightarrow> stored_runtime_event \<Rightarrow> bool" where
  "verified_by receipt e =
     (case se_event e of
        HostVerificationCommitted verification_id outcome sealed after \<Rightarrow>
          sealed = Some receipt \<and> er_verification_id receipt = verification_id \<and>
          er_workspace_state receipt = after \<and> passed_for outcome receipt
      | _ \<Rightarrow> False)"

text \<open>A receipt for one of the acceptances of the contract, with the lineage its policy asks for.\<close>

definition answers_contract :: "task_contract \<Rightarrow> evidence_receipt \<Rightarrow> bool" where
  "answers_contract contract receipt \<longleftrightarrow>
     er_generation_id receipt = tc_generation_id contract \<and>
     list_ex (\<lambda>acc. case acc of
         HostAcceptance _ _ \<Rightarrow> False
       | VerifierAcceptance i _ policy verifier \<Rightarrow>
           i = er_acceptance_id receipt \<and> verifier = er_verifier receipt \<and>
           lineage_satisfies (er_lineage receipt) policy)
       (td_acceptance (tc_definition contract))"

section \<open>Sealing\<close>

lemma has_stable_verifier_revision_iff:
  "has_stable_verifier_revision t before after \<longleftrightarrow>
     to_side_effect t \<noteq> EffectApplied \<and>
     (\<exists>observation sha256. to_verifier_observation t = Some observation \<and>
        before = RevKnown sha256 \<and> after = RevKnown sha256 \<and>
        vo_workspace_revision observation = RevKnown sha256 \<and>
        to_workspace_revision t = Some sha256)"
  by (auto simp: has_stable_verifier_revision_def
        split: option.splits workspace_revision.splits)

lemma verdict_rejection_Inr [result_simps]:
  "verdict_rejection observation outcome = Inr u \<longleftrightarrow>
     vo_verdict observation = VerdictPassed \<and> is_success outcome"
  by (auto simp: verdict_rejection_def split: verifier_verdict.splits)

lemma expected_lineage_satisfies:
  "expected_evidence_lineage s i v policy = Some lineage \<Longrightarrow> lineage_satisfies lineage policy"
  by (auto simp: expected_evidence_lineage_def local_lineage_def delegated_lineage_def Let_def
        bind_eq_Some_conv dest!: find_map_SomeD
        split: verifier_evidence_policy.splits option.splits if_splits)

text \<open>What a sealed receipt establishes, whatever snapshot it is sealed in.\<close>

lemma seal_evidence_receipt_sound:
  assumes "seal_evidence_receipt cx s i a policy v outcome after = Inr receipt"
  shows "evidence_receipt_validate receipt = Inr () \<and> passed_for outcome receipt \<and>
    er_id receipt = ''receipt:'' @ i \<and> er_verification_id receipt = i \<and>
    er_acceptance_id receipt = a \<and> er_verifier receipt = v \<and> er_workspace_state receipt = after \<and>
    ws_revision after = ws_revision (sn_workspace_state s) \<and>
    lineage_satisfies (er_lineage receipt) policy \<and>
    (\<exists>contract. rq_task_contract (sn_request s) = Some contract \<and>
       er_generation_id receipt = tc_generation_id contract)"
  using assms
  by (auto simp: seal_evidence_receipt_def result_simps Let_def passed_for_def
        has_stable_verifier_revision_iff dest: expected_lineage_satisfies)

lemma verifier_policy_for_Some [simp]:
  "verifier_policy_for a v acc = Some policy \<longleftrightarrow> (\<exists>d. acc = VerifierAcceptance a d policy v)"
  by (cases acc) auto

lemma committed_verification_receipt:
  assumes "apply_host_verification_committed cx s r i outcome (Some receipt) after = Inr s'"
  shows "sn_evidence_receipts s' = sn_evidence_receipts s @ [receipt] \<and>
    er_id receipt \<notin> er_id ` set (sn_evidence_receipts s) \<and>
    evidence_receipt_validate receipt = Inr () \<and> passed_for outcome receipt \<and>
    er_verification_id receipt = i \<and> er_workspace_state receipt = after \<and>
    (\<exists>contract. rq_task_contract (sn_request s) = Some contract \<and> answers_contract contract receipt)"
  using assms
proof (cases rule: apply_host_verification_committed_cases)
  case (1 pend contract policy)
  from 1(9) have sealed: "seal_evidence_receipt cx s i (phv_acceptance_id pend) policy
      (phv_verifier pend) outcome after = Inr receipt"
    and new: "er_id receipt \<notin> er_id ` set (sn_evidence_receipts s)"
    and grown: "sn_evidence_receipts s' = sn_evidence_receipts s @ [receipt]" by auto
  from seal_evidence_receipt_sound [OF sealed] find_map_SomeD [OF 1(6)] 1(2)
  have "answers_contract contract receipt"
    by (auto simp: answers_contract_def list_ex_iff intro!: bexI)
  with seal_evidence_receipt_sound [OF sealed] new grown 1(2) show ?thesis by blast
qed

lemma committed_verification_without_receipt:
  assumes "apply_host_verification_committed cx s r i outcome None after = Inr s'"
  shows "sn_evidence_receipts s' = sn_evidence_receipts s"
  using assms
proof (cases rule: apply_host_verification_committed_cases)
  case (1 pend contract policy)
  from 1(9) obtain cause where
    "s' = (commit_verification_failure cx s pend (tc_generation_id contract) i outcome after cause)
            \<lparr>sn_workspace_state := after, sn_pending_host_verification := None\<rparr>" by auto
  then show ?thesis
    using commit_verification_failure_frame
      [of cx s pend "tc_generation_id contract" i outcome after cause] by auto
qed

section \<open>One step\<close>

definition well_sealed :: "run_request \<Rightarrow> stored_runtime_event \<Rightarrow> bool" where
  "well_sealed request e \<longleftrightarrow>
     list_all (\<lambda>receipt. evidence_receipt_validate receipt = Inr () \<and> verified_by receipt e \<and>
       (case rq_task_contract request of None \<Rightarrow> False
        | Some contract \<Rightarrow> answers_contract contract receipt)) (evidence_of e)"

lemma apply_kind_evidence:
  assumes "apply_kind cx s r q (se_event e) = Inr s'"
  shows "sn_evidence_receipts s' = sn_evidence_receipts s @ evidence_of e \<and>
    er_id ` set (evidence_of e) \<inter> er_id ` set (sn_evidence_receipts s) = {} \<and>
    distinct (map er_id (evidence_of e)) \<and> well_sealed (sn_request s) e"
proof (cases "\<exists>i outcome sealed after. se_event e = HostVerificationCommitted i outcome sealed after")
  case True
  then obtain i outcome sealed after where e: "se_event e = HostVerificationCommitted i outcome sealed after"
    by blast
  show ?thesis
  proof (cases sealed)
    case None
    with assms e committed_verification_without_receipt show ?thesis
      by (fastforce simp: apply_kind_def evidence_of_def well_sealed_def)
  next
    case (Some receipt)
    with assms e have "apply_host_verification_committed cx s r i outcome (Some receipt) after = Inr s'"
      by (simp add: apply_kind_def)
    from committed_verification_receipt [OF this] e Some show ?thesis
      by (auto simp: evidence_of_def well_sealed_def verified_by_def)
  qed
next
  case False
  with assms show ?thesis
    by (cases "se_event e") (auto simp: apply_kind_def evidence_of_def well_sealed_def dest!: frames)
qed

lemma apply_kind_host_acceptance:
  assumes "apply_kind cx s r q (se_event e) = Inr s'"
  shows "sn_host_acceptance_receipts s' = sn_host_acceptance_receipts s @ host_acceptance_of e \<and>
    hr_id ` set (host_acceptance_of e) \<inter> hr_id ` set (sn_host_acceptance_receipts s) = {} \<and>
    distinct (map hr_id (host_acceptance_of e))"
  using assms
  by (cases "se_event e") (auto simp: apply_kind_def host_acceptance_of_def dest!: frames)

section \<open>Whole logs\<close>

lemma reduced_evidence:
  assumes "reduce_events cx es = Inr s"
  shows "sn_evidence_receipts s = concat (map evidence_of es) \<and>
    distinct (map er_id (sn_evidence_receipts s)) \<and> list_all (well_sealed (sn_request s)) es"
  using assms
proof (induction rule: run_log.replay_induct)
  case (create e s)
  then show ?case by (auto simp: create_snapshot_Inr evidence_of_def well_sealed_def)
next
  case (step es e s s')
  from step.hyps(2) obtain r t where t: "apply_kind cx s r (se_sequence e) (se_event e) = Inr t"
    "s' = t\<lparr>sn_last_sequence := se_sequence e\<rparr>"
    by (auto simp: apply_event_Inr)
  with step.IH apply_kind_evidence [OF t(1)] apply_kind_basics [OF t(1)] show ?case by auto
qed

lemma reduced_host_acceptance:
  assumes "reduce_events cx es = Inr s"
  shows "sn_host_acceptance_receipts s = concat (map host_acceptance_of es) \<and>
    distinct (map hr_id (sn_host_acceptance_receipts s))"
  using assms
proof (induction rule: run_log.replay_induct)
  case (create e s)
  then show ?case by (auto simp: create_snapshot_Inr host_acceptance_of_def)
next
  case (step es e s s')
  from step.hyps(2) obtain r t where t: "apply_kind cx s r (se_sequence e) (se_event e) = Inr t"
    "s' = t\<lparr>sn_last_sequence := se_sequence e\<rparr>"
    by (auto simp: apply_event_Inr)
  with step.IH apply_kind_host_acceptance [OF t(1)] show ?case by auto
qed

lemma evidence_of_verified:
  assumes "reduce_events cx es = Inr s" and "receipt \<in> set (sn_evidence_receipts s)"
  shows "evidence_receipt_validate receipt = Inr () \<and> list_ex (verified_by receipt) es \<and>
    (\<exists>contract. rq_task_contract (sn_request s) = Some contract \<and> answers_contract contract receipt)"
proof -
  from reduced_evidence [OF assms(1)] assms(2) obtain e where
    "e \<in> set es" "receipt \<in> set (evidence_of e)" "well_sealed (sn_request s) e"
    by (auto simp: list_all_iff)
  then show ?thesis by (auto simp: well_sealed_def list_all_iff list_ex_iff split: option.splits)
qed

text \<open>
  C14. Evidence comes from passed verifications. The evidence receipts of a reduced snapshot are
  exactly those its log committed, in order and with distinct ids. Each is valid, belongs to
  the task generation of this run, names a verifier acceptance of the frozen contract with a
  lineage its evidence policy admits, and was committed by a Host verification whose outcome
  succeeded with a passed verdict for that verifier on the receipt's own revision.
\<close>

theorem evidence_is_sealed:
  assumes "reduce_events cx es = Inr s"
  shows "sn_evidence_receipts s = concat (map evidence_of es) \<and>
    distinct (map er_id (sn_evidence_receipts s)) \<and>
    (\<forall>receipt \<in> set (sn_evidence_receipts s).
       evidence_receipt_validate receipt = Inr () \<and> list_ex (verified_by receipt) es \<and>
       (\<exists>contract. rq_task_contract (sn_request s) = Some contract \<and>
          answers_contract contract receipt))"
  using reduced_evidence [OF assms] evidence_of_verified [OF assms] by blast

theorem evidence_is_sealed_witness:
  "reduce_events ex_store_codec ex_log = Inr ex_final \<and>
   sn_evidence_receipts ex_final = [ex_receipt] \<and> list_ex (verified_by ex_receipt) ex_log"
proof -
  have "sn_evidence_receipts ex_final = [ex_receipt]"
    using evidence_is_sealed [OF ex_log_reduces] by (simp add: ex_log_shape evidence_of_def)
  then show ?thesis using evidence_is_sealed [OF ex_log_reduces] ex_log_reduces by simp
qed

section \<open>The terminal\<close>

lemma reduced_terminalE:
  assumes "reduce_events cx es = Inr s'" and "sn_terminal s' = Some outcome"
  obtains s t where "apply_terminal s (se_run_id (hd es)) outcome = Inr t"
    "s' = s\<lparr>sn_accounting := ao_accounting outcome, sn_terminal := Some outcome,
            sn_last_sequence := sn_last_sequence s'\<rparr>"
    "reduce_events cx (butlast es) = Inr s" "se_event (last es) = Terminal outcome"
proof -
  from assms have "\<exists>s t. apply_terminal s (se_run_id (hd es)) outcome = Inr t \<and>
    s' = s\<lparr>sn_accounting := ao_accounting outcome, sn_terminal := Some outcome,
            sn_last_sequence := sn_last_sequence s'\<rparr> \<and>
    reduce_events cx (butlast es) = Inr s \<and> se_event (last es) = Terminal outcome"
  proof (induction rule: run_log.replay_induct)
    case (create e s)
    then show ?case by (auto simp: create_snapshot_Inr)
  next
    case (step es e s s')
    from step.hyps(2) reduced_run_id [OF step.hyps(1)] obtain t where
      open': "sn_terminal s = None" and
      t: "apply_kind cx s (se_run_id (hd es)) (se_sequence e) (se_event e) = Inr t"
      "s' = t\<lparr>sn_last_sequence := se_sequence e\<rparr>"
      by (auto simp: apply_event_Inr)
    with apply_kind_basics [OF t(1)] step.prems obtain v where v: "se_event e = Terminal v"
      by (auto simp: is_terminal_def split: runtime_event_kind.splits if_splits)
    with t have "apply_terminal s (se_run_id (hd es)) v = Inr t" by (simp add: apply_kind_def)
    moreover from apply_terminal_frame [OF this] t(2) step.prems have "v = outcome" by simp
    moreover have "es \<noteq> []" using step.hyps(1) by (auto dest: run_log.replay_nonempty)
    ultimately show ?case
      using apply_terminal_frame [of s _ v t] t(2) v step.hyps(1)
      by (intro exI [of _ s] exI [of _ t]) simp
  qed
  then show thesis using that by blast
qed

lemma ex_final_terminal: "sn_terminal ex_final = Some ex_outcome"
proof -
  have "sn_terminal ex_final \<noteq> None"
    using run_log.replay_closed [OF ex_log_reduces] by (simp add: ex_log_shape is_terminal_def)
  then obtain v where "sn_terminal ex_final = Some v" by auto
  with reduced_terminalE [OF ex_log_reduces] show ?thesis by (fastforce simp: ex_log_shape)
qed

lemma ex_final_contract: "rq_task_contract (sn_request ex_final) = Some (ex_contract ''r'')"
proof -
  have "se_event (hd ex_log) = RunCreated (ex_request ''r'')" by (simp add: ex_log_shape)
  with reduced_request [OF ex_log_reduces] have "sn_request ex_final = ex_request ''r''" by simp
  then show ?thesis by (simp add: ex_request_def run_request_new_def)
qed

text \<open>
  An acceptance is met when the decision names, for it, a receipt of its kind that the log
  committed: a verifier acceptance by evidence at the current workspace, a Host acceptance by
  the Host's acceptance of this candidate at the current revision.
\<close>

definition acceptance_met ::
  "stored_runtime_event list \<Rightarrow> run_snapshot \<Rightarrow> task_contract \<Rightarrow> completion_decision \<Rightarrow>
     task_acceptance \<Rightarrow> bool" where
  "acceptance_met es s contract decision acc =
     (case acc of
        VerifierAcceptance i _ policy verifier \<Rightarrow>
          list_ex (\<lambda>receipt.
              EvidenceSatisfaction i (er_id receipt) \<in> set (cd_satisfied decision) \<and>
              receipt_is_current s contract i verifier policy receipt \<and>
              list_ex (verified_by receipt) es) (sn_evidence_receipts s)
      | HostAcceptance i _ \<Rightarrow>
          list_ex (\<lambda>receipt.
              HostSatisfaction i (hr_id receipt) \<in> set (cd_satisfied decision) \<and>
              hr_candidate_id receipt = cd_candidate_id decision \<and>
              hr_generation_id receipt = tc_generation_id contract \<and>
              ws_revision (hr_workspace_state receipt) = ws_revision (sn_workspace_state s) \<and>
              list_ex (\<lambda>e. receipt \<in> set (host_acceptance_of e)) es) (sn_host_acceptance_receipts s))"

lemma validate_acceptance_satisfied_Inr:
  assumes "validate_acceptance_satisfied s r contract candidate decision now acc = Inr u"
  shows "case acc of
      VerifierAcceptance i _ policy verifier \<Rightarrow>
        \<exists>receipt \<in> set (sn_evidence_receipts s).
          EvidenceSatisfaction i (er_id receipt) \<in> set (cd_satisfied decision) \<and>
          receipt_is_current s contract i verifier policy receipt
    | HostAcceptance i _ \<Rightarrow>
        \<exists>receipt \<in> set (sn_host_acceptance_receipts s).
          HostSatisfaction i (hr_id receipt) \<in> set (cd_satisfied decision) \<and>
          hr_candidate_id receipt = cd_candidate_id decision \<and>
          hr_generation_id receipt = tc_generation_id contract \<and>
          ws_revision (hr_workspace_state receipt) = ws_revision (sn_workspace_state s)"
  using assms
  by (auto simp: validate_acceptance_satisfied_def validate_host_satisfaction_def satisfaction_for_def
        result_simps Let_def dest!: find_SomeD
        split: task_acceptance.splits acceptance_satisfaction.splits if_splits) blast

lemma apply_terminal_Inr:
  "apply_terminal s r outcome = Inr t \<longleftrightarrow>
     ao_run_id outcome = r \<and> ao_parent_run_id outcome = rq_parent_run_id (sn_request s) \<and>
     (unsettled_tasks s = [] \<or> exact_read_only_recovery s (ao_terminal outcome)) \<and>
     (case sn_pending_control s of None \<Rightarrow> True
      | Some control \<Rightarrow> matches_control (pc_action control) (ao_terminal outcome)) \<and>
     \<not> is_awaiting_host (ao_terminal outcome) \<and>
     validate_terminal_agent_cleanup s r (ao_terminal outcome) = Inr () \<and>
     validate_terminal_completion s r (ao_terminal outcome) = Inr () \<and>
     t = s\<lparr>sn_accounting := ao_accounting outcome, sn_terminal := Some outcome\<rparr>"
  by (auto simp: apply_terminal_def result_simps split: option.splits)





end
