(* ===== verification/Writer_Example.thy ===== *)
theory Writer_Example
  imports Run_Examples Reducer_Laws
begin

text \<open>
  A second concrete run: the model calls a tool the user is asked to approve, then delegates to
  an isolated writer, whose sealed commit is integrated into the root workspace and whose
  resources are removed.
\<close>

definition wx_request :: run_request where
  "wx_request =
     (ex_request ''w'')\<lparr>rq_environment := run_environment_default
       \<lparr>env_workspace := ''/repo'', env_write_execution_mode := WriteIsolatedWriter\<rparr>\<rparr>"

definition wx_messages :: "model_message list" where
  "wx_messages =
     (case effective_context ex_store_codec
             (context_input ((initial_snapshot wx_request)
                \<lparr>sn_workspace_state := ex_workspace 1 ''r1''\<rparr>) []) of
        Inr c \<Rightarrow> ec_messages c
      | Inl _ \<Rightarrow> [])"

definition wx_model_request :: model_request where
  "wx_model_request = ex_model_request\<lparr>mq_run_id := ''w'', mq_messages := wx_messages\<rparr>"

definition wx_arguments :: tool_arguments where
  "wx_arguments = \<lparr>ta_raw = ''{}'', ta_parsed = Some (JObject [])\<rparr>"

definition wx_output :: model_output where
  "wx_output =
     \<lparr>mo_content = ''plan'', mo_reasoning_content = None,
      mo_tool_calls =
        [\<lparr>tcall_id = ''k1'', tcall_name = ''exec'', tcall_arguments = wx_arguments\<rparr>,
         \<lparr>tcall_id = ''k2'', tcall_name = ''agent'', tcall_arguments = wx_arguments\<rparr>],
      mo_finish_reason = FinishToolCalls, mo_usage = usage_default\<rparr>"

definition wx_invocation :: "string \<Rightarrow> string \<Rightarrow> tool_invocation" where
  "wx_invocation call_id name =
     \<lparr>ti_run_id = ''w'', ti_call_id = call_id, ti_name = name, ti_arguments = wx_arguments\<rparr>"

definition wx_prompt :: tool_approval_prompt where
  "wx_prompt = \<lparr>tap_title = ''exec'', tap_description = ''run'', tap_risk = RiskElevated\<rparr>"

definition wx_decision :: tool_authorization_decision where
  "wx_decision =
     \<lparr>tad_mode = PermissionAsk, tad_execution_grant = GrantOrdinary, tad_tool_name = ''exec'',
      tad_arguments_sha256 = arguments_sha256 ex_store_codec (wx_invocation ''k1'' ''exec''),
      tad_workspace_state = ex_workspace 1 ''r1'', tad_disposition = DispositionAsk,
      tad_risk = RiskElevated, tad_matched_rule = None, tad_reason = ''mode'',
      tad_prompt = Some wx_prompt\<rparr>"

definition wx_interaction :: user_interaction_request where
  "wx_interaction =
     \<lparr>ui_interaction_id = ''i1'', ui_operation_id = ''o1'', ui_call_id = ''k1'',
      ui_tool_name = ''exec'', ui_prompt = ApprovalPrompt wx_prompt (JObject [])\<rparr>"

text \<open>The log up to the start of the approved tool.\<close>

definition wx_tool_log :: "stored_runtime_event list" where
  "wx_tool_log =
     [ex_event ''w'' 1 (RunCreated wx_request),
      ex_event ''w'' 2 (WorkspaceObserved (ex_workspace 1 ''r1'')),
      ex_event ''w'' 3 (ModelRequestPrepared ''a'' wx_model_request),
      ex_event ''w'' 4 (ModelRequestInFlight ''a''),
      ex_event ''w'' 5 (ModelResponseCommitted ''a'' wx_output accounting_default),
      ex_event ''w'' 6 (ToolPrepared ''o1'' (wx_invocation ''k1'' ''exec'') ReadOnly),
      ex_event ''w'' 7 (ToolAuthorizationCommitted ''o1'' wx_decision),
      ex_event ''w'' 8 (InteractionRequested wx_interaction),
      ex_event ''w'' 9 (InteractionResolved ''c1'' ''i1'' Approved),
      ex_event ''w'' 10 (ToolExecutionStarted ''o1'')]"

section \<open>The delegated writer\<close>

definition wx_base :: string where "wx_base = replicate 40 (CHR ''a'')"
definition wx_final :: string where "wx_final = replicate 40 (CHR ''b'')"
definition wx_digest :: string where "wx_digest = replicate 64 (CHR ''c'')"

definition wx_assignment :: agent_workspace_assignment where
  "wx_assignment =
     \<lparr>aw_access = IsolatedWrite, aw_root_workspace = ''/repo'', aw_base_commit = wx_base,
      aw_worktree_path = Some ''/tree'', aw_root_branch = Some ''main'', aw_branch = Some ''wr'',
      aw_allowed_paths = [''src''], aw_owner_token = Some ''tok''\<rparr>"

definition wx_child_contract :: task_contract where
  "wx_child_contract =
     \<lparr>tc_generation_id = ''child'',
      tc_definition =
        \<lparr>td_objective = ''edit'', td_constraints = [], td_non_goals = [],
         td_acceptance =
           [VerifierAcceptance ''v'' ''tests pass'' LatestPassPolicy ex_verifier_spec]\<rparr>\<rparr>"

definition wx_task :: agent_task where
  "wx_task =
     \<lparr>at_task_id = ''t'', at_root_run_id = ''w'', at_parent_run_id = ''w'',
      at_child_run_id = ''child'', at_call_id = ''k2'', at_role = ''writer'',
      at_task_contract = wx_child_contract, at_workspace = wx_assignment,
      at_model = ''deepseek-v4-flash'', at_reasoning_effort = EffortHigh,
      at_max_output_tokens = None, at_context_policy = \<lparr>cp_hard_input_tokens = 4000\<rparr>,
      at_route = rq_route wx_request, at_tool_policy = tool_policy_default,
      at_limits = run_limits_default, at_deadline_unix_ms = None,
      at_expected_artifact = ''patch''\<rparr>"

definition wx_receipt :: evidence_receipt where
  "wx_receipt =
     \<lparr>er_id = ''receipt:host-verification:cand:v'', er_generation_id = ''child'',
      er_acceptance_id = ''v'', er_verification_id = ''host-verification:cand:v'',
      er_verifier = ex_verifier_spec, er_workspace_state = ex_workspace 4 ''w2'',
      er_artifact_ids = [''art''], er_lineage = LatestPass\<rparr>"

definition wx_child_outcome :: agent_outcome where
  "wx_child_outcome =
     \<lparr>ao_run_id = ''child'', ao_parent_run_id = Some ''w'',
      ao_terminal = Completed ''done''
        \<lparr>cd_candidate_id = ''cand'', cd_generation_id = ''child'',
         cd_workspace_state = ex_workspace 4 ''w2'',
         cd_satisfied = [EvidenceSatisfaction ''v'' (er_id wx_receipt)]\<rparr>,
      ao_accounting = accounting_default, ao_runtime_model_requests = 1, ao_runtime_retries = 0,
      ao_tool_calls = 1,
      ao_details = result_details_default
        \<lparr>ad_summary := ''done'',
         ad_completion_candidate := Some
           \<lparr>cc_id = ''cand'', cc_generation_id = ''child'', cc_message = ''done'',
            cc_workspace_state = ex_workspace 3 ''w2''\<rparr>,
         ad_evidence := [wx_receipt], ad_changed_files := [''src/a.rs''],
         ad_workspace := Some wx_assignment, ad_workspace_state := Some (ex_workspace 5 ''w3''),
         ad_base_commit := Some wx_base, ad_final_commit := Some wx_final,
         ad_diff_sha256 := Some wx_digest, ad_integration := IntegrationAwaitingHost\<rparr>\<rparr>"

definition wx_integrated :: agent_outcome where
  "wx_integrated =
     with_integration_status (Integrated ''int'' wx_final (ex_workspace 2 ''r2'')) wx_child_outcome"

definition wx_plan :: writer_cleanup_plan where
  "wx_plan =
     \<lparr>wcp_phase = CleanupPostIntegration, wcp_reason_code = ''writer_integrated'',
      wcp_ownership = OwnershipKnown wx_digest,
      wcp_artifact_state = KnownHostSealed wx_final wx_digest,
      wcp_scope = ScopeKnown (RevKnown wx_digest) 1 1 0 wx_digest,
      wcp_mode = RemoveExact wx_final\<rparr>"

definition wx_writer_log :: "stored_runtime_event list" where
  "wx_writer_log =
     [ex_event ''w'' 11 (ToolOutcomeCommitted ''o1'' ''k1'' ''exec'' (tool_outcome_success ''ok'') None),
      ex_event ''w'' 12 (ToolPrepared ''o2'' (wx_invocation ''k2'' ''agent'') MayWrite),
      ex_event ''w'' 13 (ToolExecutionStarted ''o2''),
      ex_event ''w'' 14 (AgentTaskPrepared wx_task),
      ex_event ''w'' 15 (AgentWorkspaceCreated ''t'' wx_assignment (ex_workspace 1 ''w1'')),
      ex_event ''w'' 16 (ChildStarted ''t'' ''k2'' ''child'' 1),
      ex_event ''w'' 17 (AgentSealPrepared ''t'' wx_base (ex_workspace 4 ''w2'')),
      ex_event ''w'' 18 (AgentSealCommitted ''t'' wx_final wx_digest [''src/a.rs'']
                         (ex_workspace 5 ''w3'')),
      ex_event ''w'' 19 (AgentResultCollected ''t'' wx_child_outcome),
      ex_event ''w'' 20 (AgentIntegrationPrepared ''t'' ''int'' wx_base wx_final wx_digest
                         (ex_workspace 1 ''r1'')),
      ex_event ''w'' 21 (AgentIntegrationStarted ''t'' ''int''),
      ex_event ''w'' 22 (AgentIntegrationCommitted ''t'' ''int'' wx_final (ex_workspace 2 ''r2'')),
      ex_event ''w'' 23 (ChildFinished ''k2'' wx_integrated accounting_default ''handoff''),
      ex_event ''w'' 24 (ToolOutcomeCommitted ''o2'' ''k2'' ''agent''
                         ((tool_outcome_success ''done'')\<lparr>to_side_effect := EffectApplied\<rparr>)
                         (Some (ex_workspace 2 ''r2''))),
      ex_event ''w'' 25 (AgentCleanupPrepared ''t'' wx_plan),
      ex_event ''w'' 26 (AgentCleanupCommitted ''t'' (CleanupRemoved RemovalRemoved RemovalRemoved))]"

definition wx_log :: "stored_runtime_event list" where
  "wx_log = wx_tool_log @ wx_writer_log"

section \<open>Its evaluation\<close>

text \<open>The snapshots of the two parts of the log; the evaluation below shows that there are.\<close>

definition wx_tool_snapshot :: run_snapshot where
  "wx_tool_snapshot = (case reduce_events ex_store_codec wx_tool_log of
     Inr s \<Rightarrow> s | Inl _ \<Rightarrow> initial_snapshot wx_request)"

definition wx_snapshot :: run_snapshot where
  "wx_snapshot = (case apply_events ex_store_codec wx_tool_snapshot wx_writer_log of
     Inr s \<Rightarrow> s | Inl _ \<Rightarrow> initial_snapshot wx_request)"

definition executes :: "string \<Rightarrow> run_snapshot \<Rightarrow> bool" where
  "executes name s =
     (case sn_pending_tool s of None \<Rightarrow> False
      | Some p \<Rightarrow> pt_state p = ActionInFlight \<and> ti_name (pt_invocation p) = name)"

definition has_finished_writer :: "run_snapshot \<Rightarrow> bool" where
  "has_finished_writer s =
     (case sn_agent_tasks s of
        [lc] \<Rightarrow> is_writer lc \<and>
          (case lc_finished lc of None \<Rightarrow> False
           | Some f \<Rightarrow> is_completed (ao_terminal (cff_outcome f)))
      | _ \<Rightarrow> False)"

lemma wx_log_evaluates:
  "case reduce_events ex_store_codec wx_tool_log of Inl _ \<Rightarrow> False
   | Inr s \<Rightarrow> executes ''exec'' s \<and>
       (case apply_events ex_store_codec s wx_writer_log of Inl _ \<Rightarrow> False
        | Inr s' \<Rightarrow> has_finished_writer s')"
  by code_simp

lemma wx_tool_log_reduces: "reduce_events ex_store_codec wx_tool_log = Inr wx_tool_snapshot"
  using wx_log_evaluates by (auto simp: wx_tool_snapshot_def split: sum.splits)

lemma wx_tool_in_flight: "executes ''exec'' wx_tool_snapshot"
  using wx_log_evaluates by (simp add: wx_tool_log_reduces)

lemma wx_log_reduces: "reduce_events ex_store_codec wx_log = Inr wx_snapshot"
proof -
  have "apply_events ex_store_codec wx_tool_snapshot wx_writer_log = Inr wx_snapshot"
    using wx_log_evaluates by (auto simp: wx_tool_log_reduces wx_snapshot_def split: sum.splits)
  moreover have "wx_tool_log \<noteq> []" by (simp add: wx_tool_log_def)
  ultimately show ?thesis by (simp add: wx_log_def reduce_events_append wx_tool_log_reduces)
qed

lemma wx_writer_finished: "has_finished_writer wx_snapshot"
  using wx_log_evaluates
  by (auto simp: wx_tool_log_reduces wx_snapshot_def split: sum.splits)

end
