(* ===== verification/Run_Tools.thy ===== *)
theory Run_Tools
  imports Run_Invariants Writer_Example
begin

text \<open>
  Authority over tools: a tool call in flight was prepared from the model's own call, authorized
  by a committed decision that binds exactly its invocation and the frozen permission mode, and,
  when the decision asked, approved by a committed user response.
\<close>

section \<open>The authority of a pending tool\<close>

text \<open>The decision is the one the log committed for this operation and binds its invocation.\<close>

definition decision_binds ::
  "'x store_codec_scheme \<Rightarrow> stored_runtime_event list \<Rightarrow> run_request \<Rightarrow> pending_tool_action \<Rightarrow>
     tool_authorization_decision \<Rightarrow> bool" where
  "decision_binds cx es request p d \<longleftrightarrow>
     tad_mode d = env_permission_mode (rq_environment request) \<and>
     list_ex (\<lambda>e. se_event e = ToolAuthorizationCommitted (pt_operation_id p) d) es \<and>
     (case resolve_tool_execution cx (rq_task_contract request) (pt_invocation p) of
        (Inl _, _) \<Rightarrow> False
      | (Inr execution, grant) \<Rightarrow>
          tad_tool_name d = ti_name execution \<and>
          tad_arguments_sha256 d = arguments_sha256 cx execution \<and> tad_execution_grant d = grant)"

text \<open>The interaction asks what the decision asked, and its answer is the one in the log.\<close>

definition prompt_binds :: "pending_tool_action \<Rightarrow> pending_user_interaction \<Rightarrow> bool" where
  "prompt_binds p i =
     (ui_operation_id (pui_request i) = pt_operation_id p \<and>
      (case ui_prompt (pui_request i) of
         ApprovalPrompt prompt arguments \<Rightarrow>
           ta_parsed (ti_arguments (pt_invocation p)) = Some arguments \<and>
           (case pt_authorization p of None \<Rightarrow> False
            | Some d \<Rightarrow> tad_disposition d = DispositionAsk \<and> tad_prompt d = Some prompt)
       | UserInputPrompt _ \<Rightarrow> ti_name (pt_invocation p) = REQUEST_USER_INPUT_TOOL_NAME))"

definition resolves :: "string \<Rightarrow> user_interaction_response \<Rightarrow> stored_runtime_event \<Rightarrow> bool" where
  "resolves interaction_id response e =
     (case se_event e of
        InteractionResolved _ i r \<Rightarrow> i = interaction_id \<and> r = response
      | _ \<Rightarrow> False)"

definition answer_in_log :: "stored_runtime_event list \<Rightarrow> pending_user_interaction \<Rightarrow> bool" where
  "answer_in_log es i =
     (case pui_response i of None \<Rightarrow> True
      | Some response \<Rightarrow> list_ex (resolves (ui_interaction_id (pui_request i)) response) es)"

definition started_with_authority :: "pending_tool_action \<Rightarrow> bool" where
  "started_with_authority p \<longleftrightarrow>
     pt_state p = ActionInFlight \<longrightarrow>
       is_ok (authorize_execution [] p) \<and>
       (case pt_interaction p of None \<Rightarrow> True | Some i \<Rightarrow> interaction_approved i)"

definition tool_authority ::
  "'x store_codec_scheme \<Rightarrow> stored_runtime_event list \<Rightarrow> run_snapshot \<Rightarrow> bool" where
  "tool_authority cx es s =
     (case sn_pending_tool s of None \<Rightarrow> True
      | Some p \<Rightarrow>
          pred_option (decision_binds cx es (sn_request s) p) (pt_authorization p) \<and>
          pred_option (prompt_binds p) (pt_interaction p) \<and>
          pred_option (answer_in_log es) (pt_interaction p) \<and>
          started_with_authority p)"

section \<open>One step\<close>

lemma decision_binds_append:
  "decision_binds cx es request p d \<Longrightarrow> decision_binds cx (es @ fs) request p d"
  by (auto simp: decision_binds_def)

lemma answer_in_log_append: "answer_in_log es i \<Longrightarrow> answer_in_log (es @ fs) i"
  by (auto simp: answer_in_log_def split: option.splits)

lemma pred_option_iff: "pred_option P x \<longleftrightarrow> (\<forall>y. x = Some y \<longrightarrow> P y)"
  by (cases x) auto

lemma tool_authority_iff:
  "tool_authority cx es s \<longleftrightarrow>
     (\<forall>p. sn_pending_tool s = Some p \<longrightarrow>
        (\<forall>d. pt_authorization p = Some d \<longrightarrow> decision_binds cx es (sn_request s) p d) \<and>
        (\<forall>i. pt_interaction p = Some i \<longrightarrow> prompt_binds p i \<and> answer_in_log es i) \<and>
        started_with_authority p)"
  by (auto simp: tool_authority_def pred_option_iff split: option.splits)

lemma tool_authority_append:
  "tool_authority cx es s \<Longrightarrow> sn_pending_tool s' = sn_pending_tool s \<Longrightarrow>
   sn_request s' = sn_request s \<Longrightarrow> tool_authority cx (es @ fs) s'"
  by (simp add: tool_authority_iff decision_binds_append answer_in_log_append)

lemma started_with_authority_prepared [simp]:
  "pt_state p = ActionPrepared \<Longrightarrow> started_with_authority p"
  by (simp add: started_with_authority_def)

text \<open>What the bindings of a pending tool do not depend on.\<close>

lemma decision_binds_update [simp]:
  "decision_binds cx es request (p\<lparr>pt_authorization := a\<rparr>) d = decision_binds cx es request p d"
  "decision_binds cx es request (p\<lparr>pt_interaction := i\<rparr>) d = decision_binds cx es request p d"
  "decision_binds cx es request (p\<lparr>pt_state := t\<rparr>) d = decision_binds cx es request p d"
  by (simp_all add: decision_binds_def)

lemma prompt_binds_update [simp]:
  "prompt_binds (p\<lparr>pt_interaction := j\<rparr>) i = prompt_binds p i"
  "prompt_binds (p\<lparr>pt_state := t\<rparr>) i = prompt_binds p i"
  "prompt_binds p (i\<lparr>pui_response := r\<rparr>) = prompt_binds p i"
  by (simp_all add: prompt_binds_def cong: option.case_cong user_interaction_prompt.case_cong)

lemma prompt_binds_authorize:
  "prompt_binds p i \<Longrightarrow> pt_authorization p = None \<Longrightarrow> prompt_binds (p\<lparr>pt_authorization := a\<rparr>) i"
  by (auto simp: prompt_binds_def split: user_interaction_prompt.splits)

lemma authorization_validate_for_binds:
  "authorization_validate_for cx d grant execution w = Inr () \<Longrightarrow>
     tad_tool_name d = ti_name execution \<and>
     tad_arguments_sha256 d = arguments_sha256 cx execution \<and> tad_execution_grant d = grant"
  unfolding authorization_validate_for_def result_simps by blast

lemma apply_tool_authorization_Inr:
  assumes "apply_tool_authorization cx s r i d = Inr s'"
  shows "\<exists>p. sn_pending_tool s = Some p \<and> pt_operation_id p = i \<and> pt_state p = ActionPrepared \<and>
    pt_authorization p = None \<and>
    (\<exists>execution. fst (resolve_tool_execution cx (rq_task_contract (sn_request s)) (pt_invocation p))
       = Inr execution \<and>
     authorization_validate_for cx d
       (snd (resolve_tool_execution cx (rq_task_contract (sn_request s)) (pt_invocation p)))
       execution (sn_workspace_state s) = Inr ()) \<and>
    tad_mode d = env_permission_mode (rq_environment (sn_request s)) \<and>
    s' = s\<lparr>sn_pending_tool := Some (p\<lparr>pt_authorization := Some d\<rparr>)\<rparr>"
  using assms by (auto simp: apply_tool_authorization_def result_simps Let_def)

lemma authorization_commits_binding:
  assumes "apply_tool_authorization cx s r i d = Inr s'" and "tool_authority cx es s"
    and "se_event e = ToolAuthorizationCommitted i d"
  shows "tool_authority cx (es @ [e]) s'"
proof -
  from apply_tool_authorization_Inr [OF assms(1)] obtain p execution where
    p: "sn_pending_tool s = Some p" "pt_operation_id p = i" "pt_state p = ActionPrepared"
    "pt_authorization p = None" and
    execution: "fst (resolve_tool_execution cx (rq_task_contract (sn_request s)) (pt_invocation p))
       = Inr execution" and
    valid: "authorization_validate_for cx d
       (snd (resolve_tool_execution cx (rq_task_contract (sn_request s)) (pt_invocation p)))
       execution (sn_workspace_state s) = Inr ()" and
    mode: "tad_mode d = env_permission_mode (rq_environment (sn_request s))" and
    s': "s' = s\<lparr>sn_pending_tool := Some (p\<lparr>pt_authorization := Some d\<rparr>)\<rparr>"
    by blast
  have "decision_binds cx (es @ [e]) (sn_request s) p d"
    using authorization_validate_for_binds [OF valid] p(2) mode execution assms(3)
    unfolding decision_binds_def
    by (cases "resolve_tool_execution cx (rq_task_contract (sn_request s)) (pt_invocation p)") simp
  moreover have "prompt_binds (p\<lparr>pt_authorization := Some d\<rparr>) j \<and> answer_in_log (es @ [e]) j"
    if "pt_interaction p = Some j" for j
    using assms(2) [unfolded tool_authority_iff, rule_format, OF p(1)] p(4) that
    by (blast intro: prompt_binds_authorize answer_in_log_append)
  ultimately show ?thesis unfolding s' tool_authority_iff using p(3) by simp
qed

lemma apply_tool_prepared_Inr:
  "apply_tool_prepared s r i v w = Inr s' \<Longrightarrow>
     s' = s\<lparr>sn_tool_calls := sat_add (sn_tool_calls s) 1,
            sn_pending_tool := Some
              \<lparr>pt_operation_id = i, pt_invocation = v, pt_workspace_access = w,
               pt_authorization = None, pt_state = ActionPrepared, pt_interaction = None\<rparr>\<rparr>"
  by (auto simp: apply_tool_prepared_def result_simps)

lemma preparation_has_no_authority:
  "apply_tool_prepared s r i v w = Inr s' \<Longrightarrow> tool_authority cx es s'"
  by (drule apply_tool_prepared_Inr) (simp add: tool_authority_iff)

lemma apply_interaction_requested_Inr:
  assumes "apply_interaction_requested cx s r u = Inr s'"
  shows "\<exists>p. sn_pending_tool s = Some p \<and> pt_operation_id p = ui_operation_id u \<and>
    ti_name (pt_invocation p) = ui_tool_name u \<and> pt_state p = ActionPrepared \<and>
    validate_interaction_prompt cx s r p u = Inr () \<and>
    s' = s\<lparr>sn_pending_tool :=
             Some (p\<lparr>pt_interaction := Some \<lparr>pui_request = u, pui_response = None\<rparr>\<rparr>)\<rparr>"
  using assms by (auto simp: apply_interaction_requested_def result_simps)

lemma validated_prompt_binds:
  assumes "validate_interaction_prompt cx s r p u = Inr ()"
    and "ui_operation_id u = pt_operation_id p" and "ti_name (pt_invocation p) = ui_tool_name u"
  shows "prompt_binds p \<lparr>pui_request = u, pui_response = None\<rparr>"
proof (cases "ui_prompt u")
  case (ApprovalPrompt prompt arguments)
  with assms show ?thesis
    by (auto simp: validate_interaction_prompt_def prompt_binds_def result_simps)
next
  case (UserInputPrompt request)
  with assms show ?thesis
    by (auto simp: validate_interaction_prompt_def prompt_binds_def result_simps)
qed

lemma request_keeps_authority:
  assumes "apply_interaction_requested cx s r u = Inr s'" and "tool_authority cx es s"
  shows "tool_authority cx (es @ [e]) s'"
proof -
  from apply_interaction_requested_Inr [OF assms(1)] obtain p where
    p: "sn_pending_tool s = Some p" "pt_state p = ActionPrepared" and
    binds: "prompt_binds p \<lparr>pui_request = u, pui_response = None\<rparr>" and
    s': "s' = s\<lparr>sn_pending_tool :=
             Some (p\<lparr>pt_interaction := Some \<lparr>pui_request = u, pui_response = None\<rparr>\<rparr>)\<rparr>"
    using validated_prompt_binds by force
  show ?thesis
    using assms(2) [unfolded tool_authority_iff, rule_format, OF p(1)] p(2) binds
    unfolding s' tool_authority_iff
    by (simp add: decision_binds_append answer_in_log_def)
qed

lemma apply_interaction_resolved_Inr:
  assumes "apply_interaction_resolved s r q c i u = Inr s'"
  shows "\<exists>p j. sn_pending_tool s = Some p \<and> pt_interaction p = Some j \<and>
    ui_interaction_id (pui_request j) = i \<and> pui_response j = None \<and>
    sn_pending_tool s' = Some (p\<lparr>pt_interaction := Some (j\<lparr>pui_response := Some u\<rparr>)\<rparr>) \<and>
    sn_request s' = sn_request s"
  using assms by (auto simp: apply_interaction_resolved_def result_simps)

lemma resolution_keeps_authority:
  assumes "apply_interaction_resolved s r q c i u = Inr s'" and "tool_authority cx es s"
    and "se_event e = InteractionResolved c i u"
  shows "tool_authority cx (es @ [e]) s'"
proof -
  from apply_interaction_resolved_Inr [OF assms(1)] obtain p j where
    p: "sn_pending_tool s = Some p" and j: "pt_interaction p = Some j"
      "ui_interaction_id (pui_request j) = i" "pui_response j = None" and
    s': "sn_pending_tool s' = Some (p\<lparr>pt_interaction := Some (j\<lparr>pui_response := Some u\<rparr>)\<rparr>)"
      "sn_request s' = sn_request s"
    by blast
  note old = assms(2) [unfolded tool_authority_iff, rule_format, OF p]
  from old j have "pt_state p = ActionPrepared"
    by (cases "pt_state p") (auto simp: started_with_authority_def interaction_approved_def
          split: user_interaction_prompt.splits)
  moreover have "answer_in_log (es @ [e]) (j\<lparr>pui_response := Some u\<rparr>)"
    using assms(3) j(2) by (simp add: answer_in_log_def resolves_def)
  ultimately show ?thesis
    using old j(1) unfolding tool_authority_iff s' by (simp add: decision_binds_append)
qed

lemma apply_tool_execution_started_Inr:
  assumes "apply_tool_execution_started s r i = Inr s'"
  shows "\<exists>p. sn_pending_tool s = Some p \<and> pt_operation_id p = i \<and> pt_state p = ActionPrepared \<and>
    authorize_execution r p = Inr () \<and>
    (case pt_interaction p of None \<Rightarrow> True | Some j \<Rightarrow> interaction_approved j) \<and>
    s' = s\<lparr>sn_pending_tool := Some (p\<lparr>pt_state := ActionInFlight\<rparr>)\<rparr>"
  using assms by (auto simp: apply_tool_execution_started_def result_simps split: option.splits)

lemma authorize_execution_Inr:
  "authorize_execution r p = Inr () \<longleftrightarrow>
     (ti_name (pt_invocation p) \<in> {AGENT_TOOL_NAME, REQUEST_USER_INPUT_TOOL_NAME} \<or>
      (\<exists>d. pt_authorization p = Some d \<and>
         (tad_disposition d = DispositionAllow \<and> pt_interaction p = None \<or>
          tad_disposition d = DispositionAsk \<and>
            (\<exists>j. pt_interaction p = Some j \<and> pui_response j = Some Approved))))"
  by (cases "pt_authorization p")
     (auto simp: authorize_execution_def split: tool_authorization_disposition.splits option.splits)

lemma start_needs_authority:
  assumes "apply_tool_execution_started s r i = Inr s'" and "tool_authority cx es s"
  shows "tool_authority cx (es @ [e]) s'"
proof -
  from apply_tool_execution_started_Inr [OF assms(1)] obtain p where
    p: "sn_pending_tool s = Some p" and
    ok: "authorize_execution r p = Inr ()"
      "case pt_interaction p of None \<Rightarrow> True | Some j \<Rightarrow> interaction_approved j" and
    s': "s' = s\<lparr>sn_pending_tool := Some (p\<lparr>pt_state := ActionInFlight\<rparr>)\<rparr>"
    by blast
  from ok have "started_with_authority (p\<lparr>pt_state := ActionInFlight\<rparr>)"
    unfolding started_with_authority_def is_ok_iff
    by (simp add: authorize_execution_Inr)
  then show ?thesis
    using assms(2) [unfolded tool_authority_iff, rule_format, OF p] unfolding s' tool_authority_iff
    by (simp add: decision_binds_append answer_in_log_append)
qed

definition authority_step :: "runtime_event_kind \<Rightarrow> bool" where
  "authority_step e =
     (case e of
        ToolPrepared _ _ _ \<Rightarrow> True | ToolAuthorizationCommitted _ _ \<Rightarrow> True
      | InteractionRequested _ \<Rightarrow> True | InteractionResolved _ _ _ \<Rightarrow> True
      | ToolExecutionStarted _ \<Rightarrow> True | _ \<Rightarrow> False)"

lemma apply_kind_keeps_pending_tool:
  assumes "apply_kind cx s r q e = Inr s'" and "\<not> authority_step e"
  shows "sn_pending_tool s' = sn_pending_tool s \<or> sn_pending_tool s' = None"
  using assms by (cases e) (auto simp: apply_kind_def authority_step_def dest!: frames)

lemma other_steps_keep_authority:
  assumes "apply_kind cx s r q e = Inr s'" and "\<not> authority_step e" and "tool_authority cx es s"
  shows "tool_authority cx (es @ fs) s'"
proof (cases "sn_pending_tool s' = None")
  case True
  then show ?thesis by (simp add: tool_authority_def)
next
  case False
  with apply_kind_keeps_pending_tool [OF assms(1,2)] have "sn_pending_tool s' = sn_pending_tool s"
    by blast
  with apply_kind_basics [OF assms(1)] tool_authority_append [OF assms(3)] show ?thesis by blast
qed

lemma apply_kind_authority:
  assumes "apply_kind cx s r q (se_event e) = Inr s'" and "tool_authority cx es s"
  shows "tool_authority cx (es @ [e]) s'"
proof (cases "se_event e")
  case (ToolPrepared i v w)
  with assms(1) show ?thesis by (simp add: apply_kind_def preparation_has_no_authority)
next
  case (ToolAuthorizationCommitted i d)
  with assms show ?thesis by (simp add: apply_kind_def authorization_commits_binding)
next
  case (InteractionRequested u)
  with assms show ?thesis by (simp add: apply_kind_def request_keeps_authority)
next
  case (InteractionResolved c i u)
  with assms show ?thesis by (simp add: apply_kind_def resolution_keeps_authority)
next
  case (ToolExecutionStarted i)
  with assms show ?thesis by (simp add: apply_kind_def start_needs_authority)
qed (rule other_steps_keep_authority [OF assms(1) _ assms(2)], simp add: authority_step_def)+

section \<open>Whole logs\<close>

lemma reduced_tool_authority:
  assumes "reduce_events cx es = Inr s"
  shows "tool_authority cx es s"
  using assms
proof (induction rule: run_log.replay_induct)
  case (create e s)
  then show ?case by (auto simp: create_snapshot_Inr tool_authority_def)
next
  case (step es e s s')
  from step.hyps(2) obtain r t where t: "apply_kind cx s r (se_sequence e) (se_event e) = Inr t"
    "s' = t\<lparr>sn_last_sequence := se_sequence e\<rparr>"
    by (auto simp: apply_event_Inr)
  from apply_kind_authority [OF t(1) step.IH] t(2) show ?case by (simp add: tool_authority_iff)
qed

lemma interaction_approved_iff:
  "interaction_approved i \<longleftrightarrow>
     (\<exists>prompt arguments. ui_prompt (pui_request i) = ApprovalPrompt prompt arguments) \<and>
     pui_response i = Some Approved"
  by (auto simp: interaction_approved_def
        split: user_interaction_prompt.splits option.splits user_interaction_response.splits)



end
