(* ===== verification/Run_Agents.thy ===== *)
theory Run_Agents
  imports Run_Tools
begin

text \<open>
  The lifecycle of child Agents in a reduced snapshot: identities are used once, there is at
  most one isolated writer, and the facts of a lifecycle are recorded in order, each bound to
  the ones before it.
\<close>

section \<open>The facts of one lifecycle\<close>

definition created_ok :: "agent_task_lifecycle \<Rightarrow> bool" where
  "created_ok lc = pred_option
     (\<lambda>w. is_writer lc \<and> wcf_assignment w = at_workspace (lc_task lc)) (lc_workspace_created lc)"

definition started_ok :: "agent_task_lifecycle \<Rightarrow> bool" where
  "started_ok lc = pred_option
     (\<lambda>c. csf_call_id c = at_call_id (lc_task lc) \<and>
          csf_child_run_id c = at_child_run_id (lc_task lc) \<and> workspace_ready lc)
     (lc_child_started lc)"

text \<open>A committed seal changed only paths the task allows, on a new commit.\<close>

definition seal_commit_ok :: "agent_task \<Rightarrow> agent_seal_lifecycle \<Rightarrow> agent_seal_committed_fact \<Rightarrow> bool" where
  "seal_commit_ok task seal c \<longleftrightarrow>
     scf_final_commit c \<noteq> aw_base_commit (at_workspace task) \<and>
     paths_stay_within (scf_changed_files c) (aw_allowed_paths (at_workspace task)) \<and>
     ws_generation (scf_writer_workspace_state_after c) =
       sat_add (ws_generation (sl_writer_workspace_state_before seal)) 1"

definition seal_ok :: "agent_task_lifecycle \<Rightarrow> bool" where
  "seal_ok lc = pred_option
     (\<lambda>seal. is_writer lc \<and> lc_child_started lc \<noteq> None \<and>
        sl_base_commit seal = aw_base_commit (at_workspace (lc_task lc)) \<and>
        pred_option (seal_commit_ok (lc_task lc) seal) (sl_committed seal))
     (lc_seal lc)"

definition sealed_fact :: "agent_task_lifecycle \<Rightarrow> agent_seal_committed_fact option" where
  "sealed_fact lc = Option.bind (lc_seal lc) sl_committed"

text \<open>A success was started, and a writer's success reports exactly the sealed facts.\<close>

definition result_ok :: "agent_task_lifecycle \<Rightarrow> bool" where
  "result_ok lc = pred_option
     (\<lambda>v. ao_run_id v = at_child_run_id (lc_task lc) \<and>
        ao_parent_run_id v = Some (at_parent_run_id (lc_task lc)) \<and>
        (is_completed (ao_terminal v) \<longrightarrow> lc_child_started lc \<noteq> None \<and>
           (is_writer lc \<longrightarrow> (\<exists>c. sealed_fact lc = Some c \<and> matches_sealed_facts lc c (ao_details v)))))
     (lc_result lc)"

text \<open>Only a sealed success is integrated, at its own commit, and it either commits or fails.\<close>

definition integration_ok :: "agent_task_lifecycle \<Rightarrow> bool" where
  "integration_ok lc = pred_option
     (\<lambda>il. (\<exists>v. lc_result lc = Some v \<and> is_completed (ao_terminal v)) \<and>
        (\<exists>c. sealed_fact lc = Some c \<and> il_writer_commit il = scf_final_commit c \<and>
           il_diff_sha256 il = scf_diff_sha256 c) \<and>
        il_base_commit il = aw_base_commit (at_workspace (lc_task lc)) \<and>
        (il_failure il \<noteq> None \<longrightarrow> il_started il) \<and>
        pred_option (\<lambda>k. il_started il \<and> il_failure il = None \<and>
            icf_root_head_commit k = il_writer_commit il \<and>
            ws_generation (icf_root_workspace_state_after k) =
              sat_add (ws_generation (il_expected_root_workspace_state il)) 1) (il_committed il))
     (lc_integration lc)"

definition cleanup_ok :: "agent_task_lifecycle \<Rightarrow> bool" where
  "cleanup_ok lc = pred_option
     (\<lambda>cl. is_writer lc \<and> lc_result lc \<noteq> None \<and>
        pred_option (retention_honoured (wcp_mode (cl_plan cl))) (cl_committed cl))
     (lc_cleanup lc)"

text \<open>A child finishes with its collected result; a writer succeeds only integrated.\<close>

definition integrated_as :: "agent_task_lifecycle \<Rightarrow> agent_outcome \<Rightarrow> bool" where
  "integrated_as lc v \<longleftrightarrow>
     (\<exists>il k. lc_integration lc = Some il \<and> il_committed il = Some k \<and>
        ad_integration (ao_details v) =
          Integrated (il_integration_id il) (il_writer_commit il) (icf_root_workspace_state_after k))"

definition finished_ok :: "agent_task_lifecycle \<Rightarrow> bool" where
  "finished_ok lc = pred_option
     (\<lambda>f. cff_call_id f = at_call_id (lc_task lc) \<and> lc_result lc \<noteq> None \<and>
        (\<not> is_writer lc \<longrightarrow> lc_result lc = Some (cff_outcome f)) \<and>
        (is_writer lc \<and> is_completed (ao_terminal (cff_outcome f)) \<longrightarrow>
           integrated_as lc (cff_outcome f)))
     (lc_finished lc)"

definition lifecycle_ok :: "agent_task_lifecycle \<Rightarrow> bool" where
  "lifecycle_ok lc \<longleftrightarrow>
     created_ok lc \<and> started_ok lc \<and> seal_ok lc \<and> result_ok lc \<and> integration_ok lc \<and>
     cleanup_ok lc \<and> finished_ok lc"

lemma is_writer_update [simp]:
  "is_writer (lc\<lparr>lc_workspace_created := a\<rparr>) = is_writer lc"
  "is_writer (lc\<lparr>lc_child_started := b\<rparr>) = is_writer lc"
  "is_writer (lc\<lparr>lc_seal := c\<rparr>) = is_writer lc"
  "is_writer (lc\<lparr>lc_result := d\<rparr>) = is_writer lc"
  "is_writer (lc\<lparr>lc_integration := e\<rparr>) = is_writer lc"
  "is_writer (lc\<lparr>lc_cleanup := f\<rparr>) = is_writer lc"
  "is_writer (lc\<lparr>lc_finished := g\<rparr>) = is_writer lc"
  by (simp_all add: is_writer_def)

lemma workspace_ready_update [simp]:
  "workspace_ready (lc\<lparr>lc_child_started := b\<rparr>) = workspace_ready lc"
  "workspace_ready (lc\<lparr>lc_seal := c\<rparr>) = workspace_ready lc"
  "workspace_ready (lc\<lparr>lc_result := d\<rparr>) = workspace_ready lc"
  "workspace_ready (lc\<lparr>lc_integration := e\<rparr>) = workspace_ready lc"
  "workspace_ready (lc\<lparr>lc_cleanup := f\<rparr>) = workspace_ready lc"
  "workspace_ready (lc\<lparr>lc_finished := g\<rparr>) = workspace_ready lc"
  by (simp_all add: workspace_ready_def cong: agent_workspace_access.case_cong)

lemma sealed_fact_update [simp]:
  "sealed_fact (lc\<lparr>lc_workspace_created := a\<rparr>) = sealed_fact lc"
  "sealed_fact (lc\<lparr>lc_child_started := b\<rparr>) = sealed_fact lc"
  "sealed_fact (lc\<lparr>lc_result := d\<rparr>) = sealed_fact lc"
  "sealed_fact (lc\<lparr>lc_integration := e\<rparr>) = sealed_fact lc"
  "sealed_fact (lc\<lparr>lc_cleanup := f\<rparr>) = sealed_fact lc"
  "sealed_fact (lc\<lparr>lc_finished := g\<rparr>) = sealed_fact lc"
  by (simp_all add: sealed_fact_def)

lemma matches_sealed_facts_update [simp]:
  "matches_sealed_facts (lc\<lparr>lc_workspace_created := a\<rparr>) c d = matches_sealed_facts lc c d"
  "matches_sealed_facts (lc\<lparr>lc_child_started := b\<rparr>) c d = matches_sealed_facts lc c d"
  "matches_sealed_facts (lc\<lparr>lc_result := e\<rparr>) c d = matches_sealed_facts lc c d"
  "matches_sealed_facts (lc\<lparr>lc_integration := f\<rparr>) c d = matches_sealed_facts lc c d"
  "matches_sealed_facts (lc\<lparr>lc_cleanup := g\<rparr>) c d = matches_sealed_facts lc c d"
  "matches_sealed_facts (lc\<lparr>lc_finished := h\<rparr>) c d = matches_sealed_facts lc c d"
  by (simp_all add: matches_sealed_facts_def)

text \<open>Each group of facts depends only on the fields it names.\<close>

lemma integrated_as_update [simp]:
  "integrated_as (lc\<lparr>lc_workspace_created := a\<rparr>) v = integrated_as lc v"
  "integrated_as (lc\<lparr>lc_child_started := b\<rparr>) v = integrated_as lc v"
  "integrated_as (lc\<lparr>lc_seal := c\<rparr>) v = integrated_as lc v"
  "integrated_as (lc\<lparr>lc_result := d\<rparr>) v = integrated_as lc v"
  "integrated_as (lc\<lparr>lc_cleanup := f\<rparr>) v = integrated_as lc v"
  "integrated_as (lc\<lparr>lc_finished := g\<rparr>) v = integrated_as lc v"
  by (simp_all add: integrated_as_def)

lemma created_ok_update [simp]:
  "created_ok (lc\<lparr>lc_child_started := b\<rparr>) = created_ok lc"
  "created_ok (lc\<lparr>lc_seal := c\<rparr>) = created_ok lc"
  "created_ok (lc\<lparr>lc_result := d\<rparr>) = created_ok lc"
  "created_ok (lc\<lparr>lc_integration := e\<rparr>) = created_ok lc"
  "created_ok (lc\<lparr>lc_cleanup := f\<rparr>) = created_ok lc"
  "created_ok (lc\<lparr>lc_finished := g\<rparr>) = created_ok lc"
  by (simp_all add: created_ok_def)

lemma started_ok_update [simp]:
  "started_ok (lc\<lparr>lc_seal := c\<rparr>) = started_ok lc"
  "started_ok (lc\<lparr>lc_result := d\<rparr>) = started_ok lc"
  "started_ok (lc\<lparr>lc_integration := e\<rparr>) = started_ok lc"
  "started_ok (lc\<lparr>lc_cleanup := f\<rparr>) = started_ok lc"
  "started_ok (lc\<lparr>lc_finished := g\<rparr>) = started_ok lc"
  by (simp_all add: started_ok_def)

lemma seal_ok_update [simp]:
  "seal_ok (lc\<lparr>lc_workspace_created := a\<rparr>) = seal_ok lc"
  "seal_ok (lc\<lparr>lc_result := d\<rparr>) = seal_ok lc"
  "seal_ok (lc\<lparr>lc_integration := e\<rparr>) = seal_ok lc"
  "seal_ok (lc\<lparr>lc_cleanup := f\<rparr>) = seal_ok lc"
  "seal_ok (lc\<lparr>lc_finished := g\<rparr>) = seal_ok lc"
  by (simp_all add: seal_ok_def)

lemma result_ok_update [simp]:
  "result_ok (lc\<lparr>lc_workspace_created := a\<rparr>) = result_ok lc"
  "result_ok (lc\<lparr>lc_integration := e\<rparr>) = result_ok lc"
  "result_ok (lc\<lparr>lc_cleanup := f\<rparr>) = result_ok lc"
  "result_ok (lc\<lparr>lc_finished := g\<rparr>) = result_ok lc"
  by (simp_all add: result_ok_def)

lemma integration_ok_update [simp]:
  "integration_ok (lc\<lparr>lc_workspace_created := a\<rparr>) = integration_ok lc"
  "integration_ok (lc\<lparr>lc_child_started := b\<rparr>) = integration_ok lc"
  "integration_ok (lc\<lparr>lc_cleanup := f\<rparr>) = integration_ok lc"
  "integration_ok (lc\<lparr>lc_finished := g\<rparr>) = integration_ok lc"
  by (simp_all add: integration_ok_def)

lemma cleanup_ok_update [simp]:
  "cleanup_ok (lc\<lparr>lc_workspace_created := a\<rparr>) = cleanup_ok lc"
  "cleanup_ok (lc\<lparr>lc_child_started := b\<rparr>) = cleanup_ok lc"
  "cleanup_ok (lc\<lparr>lc_seal := c\<rparr>) = cleanup_ok lc"
  "cleanup_ok (lc\<lparr>lc_integration := e\<rparr>) = cleanup_ok lc"
  "cleanup_ok (lc\<lparr>lc_finished := g\<rparr>) = cleanup_ok lc"
  by (simp_all add: cleanup_ok_def)

lemma finished_ok_update [simp]:
  "finished_ok (lc\<lparr>lc_workspace_created := a\<rparr>) = finished_ok lc"
  "finished_ok (lc\<lparr>lc_child_started := b\<rparr>) = finished_ok lc"
  "finished_ok (lc\<lparr>lc_seal := c\<rparr>) = finished_ok lc"
  "finished_ok (lc\<lparr>lc_cleanup := f\<rparr>) = finished_ok lc"
  by (simp_all add: finished_ok_def)

section \<open>One step\<close>

text \<open>A step that only rewrites one lifecycle, keeping its task and its order.\<close>

definition lifecycle_step :: "run_snapshot \<Rightarrow> run_snapshot \<Rightarrow> bool" where
  "lifecycle_step s s' \<longleftrightarrow>
     (\<exists>i lc'. i < length (sn_agent_tasks s) \<and>
        sn_agent_tasks s' = (sn_agent_tasks s)[i := lc'] \<and>
        lc_task lc' = lc_task (sn_agent_tasks s ! i) \<and>
        (lifecycle_ok (sn_agent_tasks s ! i) \<longrightarrow> lifecycle_ok lc'))"

lemma agent_task_mut_step:
  assumes "agent_task_mut s r t f = Inr s'"
    and "\<And>lc lc'. f lc = Inr lc' \<Longrightarrow> lc_task lc' = lc_task lc \<and> (lifecycle_ok lc \<longrightarrow> lifecycle_ok lc')"
  shows "lifecycle_step s s'"
proof -
  from assms(1) obtain i lc where i: "position (has_task_id t) (sn_agent_tasks s) = Some i"
    "f (sn_agent_tasks s ! i) = Inr lc" "s' = s\<lparr>sn_agent_tasks := (sn_agent_tasks s)[i := lc]\<rparr>"
    by (auto simp: agent_task_mut_Inr)
  with assms(2) [OF i(2)] position_SomeD [OF i(1)] show ?thesis
    unfolding lifecycle_step_def by (intro exI [of _ i] exI [of _ lc]) simp
qed

lemma created_step:
  "apply_agent_workspace_created s r t a w = Inr s' \<Longrightarrow> lifecycle_step s s'"
  unfolding apply_agent_workspace_created_def
  by (erule agent_task_mut_step)
     (auto simp: result_simps lifecycle_ok_def created_ok_def started_ok_def)

lemma started_step:
  "apply_child_started s r t c k d = Inr s' \<Longrightarrow> lifecycle_step s s'"
  unfolding apply_child_started_def if_Inl_eq_Inr
  by (elim conjE, erule agent_task_mut_step)
     (auto simp: result_simps lifecycle_ok_def started_ok_def seal_ok_def result_ok_def pred_option_iff)

lemma seal_prepared_step:
  "apply_agent_seal_prepared s r t b w = Inr s' \<Longrightarrow> lifecycle_step s s'"
  unfolding apply_agent_seal_prepared_def
  by (erule agent_task_mut_step)
     (auto simp: result_simps lifecycle_ok_def seal_ok_def result_ok_def integration_ok_def
        pred_option_iff)

lemma seal_committed_step:
  "apply_agent_seal_committed s r t c d fs w = Inr s' \<Longrightarrow> lifecycle_step s s'"
  unfolding apply_agent_seal_committed_def
  by (erule agent_task_mut_step)
     (auto simp: result_simps lifecycle_ok_def seal_ok_def seal_commit_ok_def result_ok_def
        integration_ok_def pred_option_iff)

lemma collected_result_ok:
  assumes "validate_collected_agent_result r lc v = Inr ()"
  shows "ao_run_id v = at_child_run_id (lc_task lc) \<and>
    ao_parent_run_id v = Some (at_parent_run_id (lc_task lc)) \<and>
    (is_completed (ao_terminal v) \<longrightarrow> is_writer lc \<longrightarrow>
       (\<exists>c. sealed_fact lc = Some c \<and> matches_sealed_facts lc c (ao_details v)))"
  using assms
  by (auto simp: validate_collected_agent_result_def result_simps Let_def is_writer_def
        seal_and_commit_def sealed_fact_def validate_sealed_result_def bind_eq_Some_conv
        split: agent_workspace_access.splits option.splits if_splits)

lemma collected_step:
  "apply_agent_result_collected s r t v = Inr s' \<Longrightarrow> lifecycle_step s s'"
  unfolding apply_agent_result_collected_def
  by (erule agent_task_mut_step)
     (auto simp: result_simps lifecycle_ok_def result_ok_def integration_ok_def cleanup_ok_def
        finished_ok_def pred_option_iff dest!: collected_result_ok)

lemma integration_prepared_step:
  "apply_agent_integration_prepared s r t i b c d w = Inr s' \<Longrightarrow> lifecycle_step s s'"
  unfolding apply_agent_integration_prepared_def if_Inl_eq_Inr
  by (elim conjE, erule agent_task_mut_step)
     (auto simp: result_simps lifecycle_ok_def integration_ok_def finished_ok_def integrated_as_def
        sealed_fact_def pred_option_iff)

lemma integration_started_step:
  "apply_agent_integration_started s r t i = Inr s' \<Longrightarrow> lifecycle_step s s'"
  unfolding apply_agent_integration_started_def
  by (erule agent_task_mut_step)
     (auto simp: result_simps lifecycle_ok_def integration_ok_def finished_ok_def integrated_as_def
        integration_is_current_def pred_option_iff)

lemma integration_failed_step:
  "apply_agent_integration_failed s r t i b w = Inr s' \<Longrightarrow> lifecycle_step s s'"
  unfolding apply_agent_integration_failed_def
  by (erule agent_task_mut_step)
     (auto simp: result_simps lifecycle_ok_def integration_ok_def finished_ok_def integrated_as_def
        integration_is_current_def pred_option_iff)

lemma integration_committed_step:
  "apply_agent_integration_committed s r t i h w = Inr s' \<Longrightarrow> lifecycle_step s s'"
  unfolding apply_agent_integration_committed_def
  by (erule agent_task_mut_step)
     (auto simp: result_simps lifecycle_ok_def integration_ok_def finished_ok_def integrated_as_def
        integration_is_current_def pred_option_iff)

lemma cleanup_prepared_step:
  "apply_agent_cleanup_prepared s r t p = Inr s' \<Longrightarrow> lifecycle_step s s'"
  unfolding apply_agent_cleanup_prepared_def
  by (erule agent_task_mut_step)
     (auto simp: result_simps Let_def lifecycle_ok_def cleanup_ok_def)

lemma cleanup_committed_step:
  "apply_agent_cleanup_committed s r t v = Inr s' \<Longrightarrow> lifecycle_step s s'"
  unfolding apply_agent_cleanup_committed_def
  by (erule agent_task_mut_step)
     (auto simp: result_simps lifecycle_ok_def cleanup_ok_def)

section \<open>Finishing\<close>

lemma settle_cleanup_cases:
  "settle_cleanup lc v = v \<or> \<not> is_completed (ao_terminal (settle_cleanup lc v))"
  by (auto simp: settle_cleanup_def split: option.splits)

lemma settle_integration_completed:
  assumes "settle_integration r il v = Inr v'" and "is_completed (ao_terminal v')"
  shows "\<exists>k. il_committed il = Some k \<and> ad_integration (ao_details v') =
    Integrated (il_integration_id il) (il_writer_commit il) (icf_root_workspace_state_after k)"
proof (cases "il_failure il")
  case None
  with assms(1) show ?thesis
    by (cases "il_committed il")
       (auto simp: settle_integration_def with_integration_status_def)
next
  case (Some failure)
  with assms show ?thesis
    by (cases "il_committed il"; cases "iff_status failure")
       (auto simp: settle_integration_def result_simps)
qed

lemma finished_writer_completed:
  assumes "finished_writer_outcome r lc v = Inr v'" and "is_completed (ao_terminal v')"
  shows "integrated_as lc v'"
proof (cases "is_completed (ao_terminal v)")
  case True
  with assms(1) obtain il u where "lc_integration lc = Some il" and
    u: "settle_integration r il v = Inr u" "v' = settle_cleanup lc u"
    by (auto simp: finished_writer_outcome_def result_simps)
  moreover from u(2) assms(2) settle_cleanup_cases [of lc u] have "v' = u" by auto
  ultimately show ?thesis
    using settle_integration_completed [OF u(1)] assms(2) by (auto simp: integrated_as_def)
next
  case False
  with assms settle_cleanup_cases [of lc v] show ?thesis
    by (auto simp: finished_writer_outcome_def result_simps)
qed

lemma finished_child_ok:
  assumes "finished_child r c v a h lc = Inr lc'"
  shows "lc_task lc' = lc_task lc \<and> (lifecycle_ok lc \<longrightarrow> lifecycle_ok lc')"
proof -
  from assms obtain result where lc': "lc' = lc\<lparr>lc_finished := Some
      \<lparr>cff_call_id = c, cff_outcome = v, cff_accounting = a, cff_handoff_content = h\<rparr>\<rparr>"
    and c: "at_call_id (lc_task lc) = c" and result: "lc_result lc = Some result" and
    v: "case aw_access (at_workspace (lc_task lc)) of
          AgentReadOnly \<Rightarrow> result = v
        | IsolatedWrite \<Rightarrow> finished_writer_outcome r lc result = Inr v"
    by (cases "aw_access (at_workspace (lc_task lc))")
       (auto simp: finished_child_def expected_finished_outcome_def result_simps)
  from v have "\<not> is_writer lc \<longrightarrow> result = v"
    "is_writer lc \<and> is_completed (ao_terminal v) \<longrightarrow> integrated_as lc v"
    by (auto simp: is_writer_def finished_writer_completed split: agent_workspace_access.splits)
  then have "finished_ok lc'" using lc' c result by (simp add: finished_ok_def)
  then show ?thesis using lc' by (simp add: lifecycle_ok_def)
qed

lemma finished_step:
  assumes "apply_child_finished s r c v a h = Inr s'"
  shows "lifecycle_step s s'"
proof -
  from assms obtain i lc where
    i: "position (\<lambda>lc. at_child_run_id (lc_task lc) = ao_run_id v) (sn_agent_tasks s) = Some i"
    and lc: "finished_child r c v a h (sn_agent_tasks s ! i) = Inr lc"
    and s': "sn_agent_tasks s' = (sn_agent_tasks s)[i := lc]"
    by (auto simp: apply_child_finished_def result_simps)
  with finished_child_ok [OF lc] position_SomeD [OF i] show ?thesis
    unfolding lifecycle_step_def by (intro exI [of _ i] exI [of _ lc]) simp
qed

lemmas lifecycle_steps = created_step started_step seal_prepared_step seal_committed_step
  collected_step integration_prepared_step integration_started_step integration_failed_step
  integration_committed_step cleanup_prepared_step cleanup_committed_step finished_step

section \<open>Whole logs\<close>

text \<open>The identities of the tasks, and the writers among them.\<close>

definition tasks_of :: "run_snapshot \<Rightarrow> agent_task list" where
  "tasks_of s = map lc_task (sn_agent_tasks s)"

definition task_is_writer :: "agent_task \<Rightarrow> bool" where
  "task_is_writer t \<longleftrightarrow> aw_access (at_workspace t) = IsolatedWrite"

definition identities_ok :: "agent_task list \<Rightarrow> bool" where
  "identities_ok ts \<longleftrightarrow>
     distinct (map at_task_id ts) \<and> distinct (map at_child_run_id ts) \<and>
     distinct (map at_call_id ts) \<and> length (filter task_is_writer ts) \<le> 1"

definition children_ok :: "run_snapshot \<Rightarrow> bool" where
  "children_ok s \<longleftrightarrow> identities_ok (tasks_of s) \<and> list_all lifecycle_ok (sn_agent_tasks s)"

lemma lifecycle_step_children:
  assumes "lifecycle_step s s'" and "children_ok s"
  shows "children_ok s'"
proof -
  from assms(1) obtain i lc where i: "i < length (sn_agent_tasks s)"
    "sn_agent_tasks s' = (sn_agent_tasks s)[i := lc]" "lc_task lc = lc_task (sn_agent_tasks s ! i)"
    "lifecycle_ok (sn_agent_tasks s ! i) \<longrightarrow> lifecycle_ok lc"
    unfolding lifecycle_step_def by blast
  then have "tasks_of s' = tasks_of s"
    by (simp add: tasks_of_def map_update) (metis list_update_id nth_map)
  moreover have "list_all lifecycle_ok (sn_agent_tasks s')"
    using assms(2) i by (auto simp: children_ok_def list_all_iff dest!: subsetD [OF set_update_subset_insert])
  ultimately show ?thesis using assms(2) by (simp add: children_ok_def)
qed

lemma new_lifecycle_ok: "lifecycle_ok (new_lifecycle t)"
  by (simp add: lifecycle_ok_def new_lifecycle_def created_ok_def started_ok_def seal_ok_def
        result_ok_def integration_ok_def cleanup_ok_def finished_ok_def)

lemma prepared_children:
  assumes "apply_agent_task_prepared s r t = Inr s'" and "children_ok s"
  shows "children_ok s'"
proof -
  from assms(1) have new: "\<not> list_ex (reuses_identity t) (sn_agent_tasks s)"
    "task_is_writer t \<longrightarrow> \<not> list_ex is_writer (sn_agent_tasks s)"
    by (auto simp: apply_agent_task_prepared_def result_simps task_is_writer_def)
  have s': "sn_agent_tasks s' = sn_agent_tasks s @ [new_lifecycle t]"
    using apply_agent_task_prepared_frame [OF assms(1)] by simp
  have "task_is_writer t \<longrightarrow> filter task_is_writer (tasks_of s) = []"
    using new(2)
    by (auto simp: filter_empty_conv tasks_of_def list_ex_iff is_writer_def task_is_writer_def)
  moreover have "tasks_of s' = tasks_of s @ [t]" by (simp add: tasks_of_def s' new_lifecycle_def)
  moreover have "at_task_id t \<notin> at_task_id ` set (tasks_of s)"
    "at_child_run_id t \<notin> at_child_run_id ` set (tasks_of s)"
    "at_call_id t \<notin> at_call_id ` set (tasks_of s)"
    using new(1) by (auto simp: tasks_of_def list_ex_iff reuses_identity_def)
  ultimately have "identities_ok (tasks_of s')"
    using assms(2) by (auto simp: children_ok_def identities_ok_def)
  then show ?thesis using assms(2) s' by (simp add: children_ok_def new_lifecycle_ok)
qed

definition child_step :: "runtime_event_kind \<Rightarrow> bool" where
  "child_step e =
     (case e of
        AgentTaskPrepared _ \<Rightarrow> True | AgentWorkspaceCreated _ _ _ \<Rightarrow> True
      | AgentSealPrepared _ _ _ \<Rightarrow> True | AgentSealCommitted _ _ _ _ _ \<Rightarrow> True
      | ChildStarted _ _ _ _ \<Rightarrow> True | AgentResultCollected _ _ \<Rightarrow> True
      | AgentIntegrationPrepared _ _ _ _ _ _ \<Rightarrow> True | AgentIntegrationStarted _ _ \<Rightarrow> True
      | AgentIntegrationFailed _ _ _ _ \<Rightarrow> True | AgentIntegrationCommitted _ _ _ _ \<Rightarrow> True
      | AgentCleanupPrepared _ _ \<Rightarrow> True | AgentCleanupCommitted _ _ \<Rightarrow> True
      | ChildFinished _ _ _ _ \<Rightarrow> True | _ \<Rightarrow> False)"

lemma other_steps_keep_children:
  "apply_kind cx s r q e = Inr s' \<Longrightarrow> \<not> child_step e \<Longrightarrow> sn_agent_tasks s' = sn_agent_tasks s"
  by (cases e) (auto simp: apply_kind_def child_step_def dest!: frames)

lemma child_steps_keep_order:
  "apply_kind cx s r q e = Inr s' \<Longrightarrow> child_step e \<Longrightarrow> children_ok s \<Longrightarrow> children_ok s'"
  by (cases e)
     (auto simp: apply_kind_def child_step_def dest: prepared_children
        intro: lifecycle_step_children dest!: lifecycle_steps)

lemma apply_kind_children:
  assumes "apply_kind cx s r q e = Inr s'" and "children_ok s"
  shows "children_ok s'"
  using other_steps_keep_children [OF assms(1)] child_steps_keep_order [OF assms(1) _ assms(2)] assms(2)
  by (cases "child_step e") (auto simp: children_ok_def tasks_of_def)

lemma reduced_children:
  assumes "reduce_events cx es = Inr s"
  shows "children_ok s"
  using assms
proof (induction rule: run_log.replay_induct)
  case (create e s)
  then show ?case by (auto simp: create_snapshot_Inr children_ok_def identities_ok_def tasks_of_def)
next
  case (step es e s s')
  from step.hyps(2) obtain r t where t: "apply_kind cx s r (se_sequence e) (se_event e) = Inr t"
    "s' = t\<lparr>sn_last_sequence := se_sequence e\<rparr>"
    by (auto simp: apply_event_Inr)
  from apply_kind_children [OF t(1) step.IH] t(2) show ?case
    by (simp add: children_ok_def tasks_of_def)
qed

text \<open>
  C17. Child identities are used once and there is one writer. In a reduced snapshot no two child
  lifecycles share a task id, a child run id or a tool call id, and at most one of them belongs
  to an isolated writer.
\<close>

theorem child_identities_are_unique:
  assumes "reduce_events cx es = Inr s"
  shows "distinct (map (\<lambda>lc. at_task_id (lc_task lc)) (sn_agent_tasks s)) \<and>
    distinct (map (\<lambda>lc. at_child_run_id (lc_task lc)) (sn_agent_tasks s)) \<and>
    distinct (map (\<lambda>lc. at_call_id (lc_task lc)) (sn_agent_tasks s)) \<and>
    length (filter is_writer (sn_agent_tasks s)) \<le> 1"
proof -
  have "filter task_is_writer (map lc_task ls) = map lc_task (filter is_writer ls)" for ls
    by (induction ls) (auto simp: task_is_writer_def is_writer_def)
  then show ?thesis using reduced_children [OF assms]
    by (simp add: children_ok_def identities_ok_def tasks_of_def comp_def)
qed

theorem child_identities_are_unique_witness:
  "reduce_events ex_store_codec wx_log = Inr wx_snapshot \<and>
   length (filter is_writer (sn_agent_tasks wx_snapshot)) \<le> 1"
  using child_identities_are_unique [OF wx_log_reduces] wx_log_reduces by blast

text \<open>
  C16. The facts of a child are recorded in order. In a reduced snapshot every child lifecycle is
  ordered: only a writer has a workspace, and it is the assigned one; a child started with the
  identities of its task and, for a writer, after its workspace; a seal follows the start on the
  assigned base commit; a success was started and, for a writer, reports exactly the sealed
  facts; only a sealed success is integrated, at its own commit and one generation on, and
  never both commits and fails; cleanup follows the result and honours a retention plan; and a
  child finishes with its collected result.
\<close>

theorem child_lifecycle_is_ordered:
  assumes "reduce_events cx es = Inr s"
  shows "list_all (\<lambda>lc. created_ok lc \<and> started_ok lc \<and> seal_ok lc \<and> result_ok lc \<and>
    integration_ok lc \<and> cleanup_ok lc \<and> finished_ok lc) (sn_agent_tasks s)"
  using reduced_children [OF assms]
  by (simp add: children_ok_def lifecycle_ok_def list_all_iff)

theorem child_lifecycle_is_ordered_witness:
  "\<exists>lc. sn_agent_tasks wx_snapshot = [lc] \<and> is_writer lc \<and> lc_finished lc \<noteq> None \<and>
     seal_ok lc \<and> integration_ok lc \<and> finished_ok lc"
proof -
  from wx_writer_finished obtain lc where "sn_agent_tasks wx_snapshot = [lc]" "is_writer lc"
    "lc_finished lc \<noteq> None"
    by (auto simp: has_finished_writer_def split: list.splits option.splits)
  with child_lifecycle_is_ordered [OF wx_log_reduces] show ?thesis by simp
qed

lemma path_within_iff: "path_within f a \<longleftrightarrow> f = a \<or> (\<exists>rest. f = a @ ''/'' @ rest)"
proof (cases "strip_prefix a f")
  case None
  then show ?thesis by (auto simp: path_within_def strip_prefix_def split: if_splits)
next
  case (Some suffix)
  moreover from Some have "f = a @ suffix" by (simp add: strip_prefix_eq_Some)
  moreover have "starts_with ''/'' suffix \<longleftrightarrow> (\<exists>rest. suffix = ''/'' @ rest)"
    by (cases suffix) (auto simp: starts_with_def)
  ultimately show ?thesis by (auto simp: path_within_def)
qed

text \<open>
  C3. A writer succeeds only integrated and in scope. When a reduced snapshot has a finished
  writer whose outcome is a success, its sealed commit differs from the assigned base commit and
  changed only files that are an allowed path or lie below one; the integration committed that
  very commit as the head of the root workspace, exactly one generation on from the state it was
  prepared for; and the outcome names this integration.
\<close>

theorem finished_writer_is_integrated:
  assumes "reduce_events cx es = Inr s" and "lc \<in> set (sn_agent_tasks s)" and "is_writer lc"
    and "lc_finished lc = Some f" and "is_completed (ao_terminal (cff_outcome f))"
  shows "\<exists>seal c il k. lc_seal lc = Some seal \<and> sl_committed seal = Some c \<and>
    scf_final_commit c \<noteq> aw_base_commit (at_workspace (lc_task lc)) \<and>
    (\<forall>file \<in> set (scf_changed_files c). \<exists>allowed \<in> set (aw_allowed_paths (at_workspace (lc_task lc))).
       file = allowed \<or> (\<exists>rest. file = allowed @ ''/'' @ rest)) \<and>
    lc_integration lc = Some il \<and> il_committed il = Some k \<and> il_started il \<and>
    icf_root_head_commit k = scf_final_commit c \<and> il_diff_sha256 il = scf_diff_sha256 c \<and>
    ws_generation (icf_root_workspace_state_after k) =
      sat_add (ws_generation (il_expected_root_workspace_state il)) 1 \<and>
    ad_integration (ao_details (cff_outcome f)) =
      Integrated (il_integration_id il) (scf_final_commit c) (icf_root_workspace_state_after k)"
proof -
  have ok: "lifecycle_ok lc"
    using reduced_children [OF assms(1)] assms(2) by (simp add: children_ok_def list_all_iff)
  then have "integrated_as lc (cff_outcome f)"
    using assms(3-5) by (simp add: lifecycle_ok_def finished_ok_def)
  then obtain il k where il: "lc_integration lc = Some il" "il_committed il = Some k"
    "ad_integration (ao_details (cff_outcome f)) =
       Integrated (il_integration_id il) (il_writer_commit il) (icf_root_workspace_state_after k)"
    by (auto simp: integrated_as_def)
  with ok obtain c where c: "sealed_fact lc = Some c" "il_writer_commit il = scf_final_commit c"
    "il_diff_sha256 il = scf_diff_sha256 c" "il_started il" "icf_root_head_commit k = il_writer_commit il"
    "ws_generation (icf_root_workspace_state_after k) =
       sat_add (ws_generation (il_expected_root_workspace_state il)) 1"
    by (auto simp: lifecycle_ok_def integration_ok_def)
  then obtain seal where seal: "lc_seal lc = Some seal" "sl_committed seal = Some c"
    by (auto simp: sealed_fact_def bind_eq_Some_conv)
  with ok have "seal_commit_ok (lc_task lc) seal c" by (auto simp: lifecycle_ok_def seal_ok_def)
  with il c seal show ?thesis
    by (simp add: seal_commit_ok_def paths_stay_within_def path_within_iff list_all_iff list_ex_iff)
qed

theorem finished_writer_is_integrated_witness:
  "\<exists>lc f seal c. sn_agent_tasks wx_snapshot = [lc] \<and> lc_finished lc = Some f \<and>
     is_completed (ao_terminal (cff_outcome f)) \<and> lc_seal lc = Some seal \<and> sl_committed seal = Some c \<and>
     ad_integration (ao_details (cff_outcome f)) \<noteq> IntegrationAwaitingHost"
proof -
  from wx_writer_finished obtain lc f where lc: "sn_agent_tasks wx_snapshot = [lc]" "is_writer lc"
    "lc_finished lc = Some f" "is_completed (ao_terminal (cff_outcome f))"
    by (auto simp: has_finished_writer_def split: list.splits option.splits)
  from finished_writer_is_integrated [OF wx_log_reduces _ lc(2-4)] lc show ?thesis by fastforce
qed

end
