(* ===== verification/Run_Errors.thy ===== *)
theory Run_Errors
  imports Run_Agents
begin

text \<open>
  How the reducer fails: on the snapshot of an accepted log it refuses an event only as corrupt
  for its own run or as written by another schema version. In particular the accesses the code
  writes with \<^verbatim>\<open>expect\<close> never panic.
\<close>

named_theorems fault_intros \<open>which errors a fallible computation may return\<close>

definition fails_with :: "('e \<Rightarrow> bool) \<Rightarrow> 'e + 'a \<Rightarrow> bool" where
  "fails_with P m = (case m of Inl e \<Rightarrow> P e | Inr _ \<Rightarrow> True)"

fun is_corrupt :: "string \<Rightarrow> run_store_error \<Rightarrow> bool" where
  "is_corrupt r (Corrupt r' _) = (r' = r)"
| "is_corrupt r _ = False"

lemma fails_with_simps [simp]: "fails_with P (Inl e) = P e" "fails_with P (Inr a)"
  by (simp_all add: fails_with_def)

lemma is_corrupt_corrupt [simp]: "is_corrupt r (corrupt r m)"
  by (simp add: corrupt_def)

lemma fails_with_bind [fault_intros]:
  "fails_with P m \<Longrightarrow> (\<And>a. m = Inr a \<Longrightarrow> fails_with P (f a)) \<Longrightarrow> fails_with P (rbind m f)"
  "fails_with P n \<Longrightarrow> (n = Inr () \<Longrightarrow> fails_with P k) \<Longrightarrow> fails_with P (and_then n k)"
  by (cases m; simp) (cases n; simp)

lemma fails_with_leaf [fault_intros]:
  "P e \<Longrightarrow> fails_with P (ok_or x e)"
  "(\<And>e. P (g e)) \<Longrightarrow> fails_with P (map_err g m)"
  by (cases x; simp) (cases m; simp)

lemma fails_with_for_each [fault_intros]:
  "(\<And>x. x \<in> set xs \<Longrightarrow> fails_with P (f x)) \<Longrightarrow> fails_with P (for_each f xs)"
  by (induction xs) (auto intro!: fault_intros)

text \<open>What the creation of the run guarantees about the frozen request.\<close>

definition request_bound :: "run_snapshot \<Rightarrow> bool" where
  "request_bound s \<longleftrightarrow> rq_task_contract (sn_request s) \<noteq> None \<and>
     (actor_kind (rq_actor (sn_request s)) = ActorChild \<longrightarrow> rq_agent_task (sn_request s) \<noteq> None)"

lemma expect_contract_fault [fault_intros]: "request_bound s \<Longrightarrow> fails_with P (expect_contract s)"
  by (auto simp: request_bound_def expect_contract_def)

lemmas fault_splits = option.split list.split sum.split prod.split workspace_access.split
  workspace_revision.split durable_action_state.split user_interaction_prompt.split
  user_interaction_response.split tool_authorization_disposition.split bool.split
  task_acceptance.split acceptance_satisfaction.split terminal_state.split
  agent_workspace_access.split agent_actor_kind.split model_retry_decision.split
  writer_cleanup_mode.split writer_cleanup_scope.split

section \<open>The arms\<close>

lemma helper_faults [fault_intros]:
  "fails_with (is_corrupt r) (record_command s r x1 x2 x3)"
  "fails_with (is_corrupt r) (validate_tool_preparation_binding s r x4)"
  "fails_with (is_corrupt r) (pending_model_for s r x5)"
  "fails_with (is_corrupt r) (pending_tool_for s r x6)"
  "fails_with (is_corrupt r) (validate_model_failure_evidence r x7)"
  "fails_with (is_corrupt r) (validate_retry_stop r x8 x9 x10 x11 x12)"
  "fails_with (is_corrupt r) (validate_prepared_retry r x13 x14 x15 x16 x17)"
  "fails_with (is_corrupt r) (validate_compaction_safe_boundary s r)"
  "fails_with (is_corrupt r) (validate_model_request_safe_boundary s r)"
  "fails_with (is_corrupt r) (context_result r x18)"
  by (auto simp: Let_def
        record_command_def validate_tool_preparation_binding_def pending_model_for_def
        pending_tool_for_def validate_model_failure_evidence_def validate_retry_stop_def
        validate_prepared_retry_def validate_compaction_safe_boundary_def
        validate_model_request_safe_boundary_def context_result_def
        intro!: fault_intros split: fault_splits)

lemma model_faults [fault_intros]:
  "fails_with (is_corrupt r) (apply_context_compaction cx s r x1 x2 x3 x4 x5 x6)"
  "fails_with (is_corrupt r) (apply_model_request_prepared cx s r x7 x8 x9)"
  "fails_with (is_corrupt r) (apply_model_request_in_flight s r x10)"
  "fails_with (is_corrupt r) (apply_model_request_failed s r x11 x12 x13 x14 x15)"
  "fails_with (is_corrupt r) (apply_model_response_committed s r x16 x17 x18 x19)"
  "fails_with (is_corrupt r) (apply_model_delta s r x20)"
  by (auto simp: Let_def
        validate_retry_decision_def apply_context_compaction_def apply_model_request_prepared_def
        apply_model_request_in_flight_def apply_model_request_failed_def
        apply_model_response_committed_def apply_model_delta_def
        intro!: fault_intros split: fault_splits)

lemma tool_check_faults [fault_intros]:
  "fails_with (is_corrupt r) (validate_interaction_prompt cx s r x1 x2)"
  "fails_with (is_corrupt r) (authorize_execution r x3)"
  "fails_with (is_corrupt r) (validate_outcome_interaction r x4 x5)"
  "fails_with (is_corrupt r) (validate_agent_settlement s r x6 x7)"
  "fails_with (is_corrupt r) (settle_workspace s r x8 x9 x10)"
  "fails_with (is_corrupt r) (advance_temporal_progress s r x11 x12 x13 x14)"
  by (auto simp: Let_def
        validate_interaction_prompt_def authorize_execution_def validate_outcome_interaction_def
        validate_agent_settlement_def settle_workspace_def advance_temporal_progress_def
        intro!: fault_intros split: fault_splits)

lemma tool_faults [fault_intros]:
  "fails_with (is_corrupt r) (apply_tool_prepared s r x1 x2 x3)"
  "fails_with (is_corrupt r) (apply_tool_authorization cx s r x4 x5)"
  "fails_with (is_corrupt r) (apply_interaction_requested cx s r x6)"
  "fails_with (is_corrupt r) (apply_interaction_resolved s r x7 x8 x9 x10)"
  "fails_with (is_corrupt r) (apply_tool_execution_started s r x11)"
  "fails_with (is_corrupt r) (apply_tool_outcome cx s r x12 x13 x14 x15 x16)"
  "fails_with (is_corrupt r) (apply_workspace_observed s r x17)"
  by (auto simp: Let_def
        validate_outcome_lifecycle_def apply_tool_prepared_def apply_tool_authorization_def
        apply_interaction_requested_def apply_interaction_resolved_def
        apply_tool_execution_started_def apply_tool_outcome_def apply_workspace_observed_def
        intro!: fault_intros split: fault_splits)

lemma completion_check_faults [fault_intros]:
  "fails_with (is_corrupt r) (commit_evidence_receipt s r x1 x2)"
  "fails_with (is_corrupt r) (validate_host_satisfaction s r x3 x4 x5 x6 x7)"
  by (auto simp: Let_def
        commit_evidence_receipt_def validate_host_satisfaction_def
        intro!: fault_intros split: fault_splits)

lemma decision_faults [fault_intros]:
  "fails_with (is_corrupt r) (validate_acceptance_satisfied s r x1 x2 x3 x4 x5)"
  "fails_with (is_corrupt r) (validate_completion_decision s r x6)"
  by (auto simp: Let_def
        validate_acceptance_satisfied_def validate_completion_decision_def
        intro!: fault_intros split: fault_splits)

lemma completion_faults [fault_intros]:
  "request_bound s \<Longrightarrow>
     fails_with (is_corrupt r) (apply_completion_proposed s r x1)"
  "request_bound s \<Longrightarrow>
     fails_with (is_corrupt r) (apply_host_completion_accepted s r x2 x3 x4)"
  "request_bound s \<Longrightarrow>
     fails_with (is_corrupt r) (apply_host_verification_prepared s r x5 x6 x7 x8 x9)"
  "fails_with (is_corrupt r) (apply_host_verification_started s r x10)"
  "request_bound s \<Longrightarrow>
     fails_with (is_corrupt r) (apply_host_verification_committed cx s r x11 x12 x13 x14)"
  "request_bound s \<Longrightarrow>
     fails_with (is_corrupt r) (apply_completion_rejected s r x15)"
  "fails_with (is_corrupt r) (apply_steer_queued s r x16 x17 x18)"
  "fails_with (is_corrupt r) (apply_steer_applied s r x19 x20 x21)"
  "fails_with (is_corrupt r) (apply_control_requested s r x22 x23 x24)"
  by (auto simp: Let_def
        apply_completion_proposed_def apply_host_completion_accepted_def
        apply_host_verification_prepared_def apply_host_verification_started_def
        apply_host_verification_committed_def apply_completion_rejected_def
        apply_steer_queued_def apply_steer_applied_def apply_control_requested_def
        intro!: fault_intros split: fault_splits)

lemma child_check_faults [fault_intros]:
  "(\<And>lc. fails_with (is_corrupt r) (step lc)) \<Longrightarrow>
     fails_with (is_corrupt r) (agent_task_mut s r task_id step)"
  "fails_with (is_corrupt r) (validate_readonly_child_completion r x1 x2)"
  "fails_with (is_corrupt r) (validate_successful_writer r x3 x4 x5 x6)"
  "fails_with (is_corrupt r) (expected_cleanup_phase r x7 x8)"
  "fails_with (is_corrupt r) (validate_cleanup_mode r x9 x10)"
  by (auto simp: Let_def
        agent_task_mut_def validate_readonly_child_completion_def validate_successful_writer_def
        expected_cleanup_phase_def validate_cleanup_mode_def
        intro!: fault_intros split: fault_splits)

lemma expected_root_fault [fault_intros]:
  "request_bound s \<Longrightarrow> fails_with P (expected_root s r)"
  by (auto simp: request_bound_def expected_root_def split: agent_actor_kind.split)

lemma failed_integration_fault [fault_intros]:
  "fails_with (is_corrupt r) (failed_integration_terminal r x status)"
  by (cases status) auto

lemma child_result_faults [fault_intros]:
  "fails_with (is_corrupt r) (validate_collected_agent_result r x1 x2)"
  "fails_with (is_corrupt r) (validate_writer_cleanup_plan r x3 x4)"
  "fails_with (is_corrupt r) (settle_integration r x5 x6)"
  "fails_with (is_corrupt r) (finished_writer_outcome r x7 x8)"
  by (auto simp: Let_def
        validate_sealed_result_def validate_collected_agent_result_def
        validate_writer_cleanup_plan_def settle_integration_def finished_writer_outcome_def
        intro!: fault_intros split: fault_splits)

lemma child_faults [fault_intros]:
  "request_bound s \<Longrightarrow>
     fails_with (is_corrupt r) (apply_agent_task_prepared s r x1)"
  "fails_with (is_corrupt r) (apply_agent_workspace_created s r x2 x3 x4)"
  "fails_with (is_corrupt r) (apply_child_started s r x5 x6 x7 x8)"
  "fails_with (is_corrupt r) (apply_agent_seal_prepared s r x9 x10 x11)"
  "fails_with (is_corrupt r) (apply_agent_seal_committed s r x12 x13 x14 x15 x16)"
  "fails_with (is_corrupt r) (apply_agent_result_collected s r x17 x18)"
  "fails_with (is_corrupt r) (apply_agent_integration_prepared s r x19 x20 x21 x22 x23 x24)"
  "fails_with (is_corrupt r) (apply_agent_integration_started s r x25 x26)"
  "fails_with (is_corrupt r) (apply_agent_integration_failed s r x27 x28 x29 x30)"
  "fails_with (is_corrupt r) (apply_agent_integration_committed s r x31 x32 x33 x34)"
  "fails_with (is_corrupt r) (apply_agent_cleanup_prepared s r x35 x36)"
  "fails_with (is_corrupt r) (apply_agent_cleanup_committed s r x37 x38)"
  "fails_with (is_corrupt r) (apply_child_finished s r x39 x40 x41 x42)"
  by (auto simp: Let_def
        expected_finished_outcome_def finished_child_def apply_agent_task_prepared_def
        apply_agent_workspace_created_def apply_child_started_def apply_agent_seal_prepared_def
        apply_agent_seal_committed_def apply_agent_result_collected_def
        apply_agent_integration_prepared_def apply_agent_integration_started_def
        apply_agent_integration_failed_def apply_agent_integration_committed_def
        apply_agent_cleanup_prepared_def apply_agent_cleanup_committed_def
        apply_child_finished_def
        intro!: fault_intros split: fault_splits)

lemma terminal_faults [fault_intros]:
  "fails_with (is_corrupt r) (validate_terminal_agent_cleanup s r x1)"
  "fails_with (is_corrupt r) (validate_terminal_completion s r x2)"
  "fails_with (is_corrupt r) (apply_terminal s r x3)"
  by (auto simp: Let_def
        validate_writer_cleanup_at_terminal_def validate_terminal_agent_cleanup_def
        validate_terminal_completion_def apply_terminal_def
        intro!: fault_intros split: fault_splits)

lemma apply_kind_faults:
  "request_bound s \<Longrightarrow> fails_with (is_corrupt r) (apply_kind cx s r q e)"
  by (cases e) (auto simp: apply_kind_def intro!: fault_intros)

section \<open>Events and logs\<close>

lemma validate_agent_task_binding_child:
  "validate_agent_task_binding r = Inr u \<Longrightarrow> actor_kind (rq_actor r) = ActorChild \<Longrightarrow>
     rq_agent_task r \<noteq> None"
  by (auto simp: validate_agent_task_binding_def result_simps)

lemma reduced_request_bound:
  assumes "reduce_events cx es = Inr s"
  shows "request_bound s"
  using reduced_request [OF assms]
  by (auto simp: request_bound_def validate_created_request_Inr
        dest: validate_agent_task_binding_child)

text \<open>An error of the reducer on a log of the run: corrupt, or of another schema.\<close>

definition log_error :: "string \<Rightarrow> u32 \<Rightarrow> run_store_error \<Rightarrow> bool" where
  "log_error r version err \<longleftrightarrow>
     is_corrupt r err \<or>
     version \<noteq> AGENT_RUNTIME_EVENT_SCHEMA_VERSION \<and>
     err = UnsupportedSchema version AGENT_RUNTIME_EVENT_SCHEMA_VERSION
             AGENT_RUNTIME_EVENT_SCHEMA_VERSION"

lemma header_faults [fault_intros]:
  "fails_with (log_error r (se_schema_version e)) (validate_event_header e q r)"
  by (auto simp: validate_event_header_def log_error_def)

lemma fails_with_mono: "fails_with P m \<Longrightarrow> (\<And>e. P e \<Longrightarrow> Q e) \<Longrightarrow> fails_with Q m"
  by (cases m) auto

lemma log_error_of_corrupt: "fails_with (is_corrupt r) m \<Longrightarrow> fails_with (log_error r v) m"
  by (erule fails_with_mono) (simp add: log_error_def)

lemma log_error_corrupt [simp]: "log_error r v (corrupt r m)"
  by (simp add: log_error_def)

lemma apply_event_faults:
  assumes "request_bound s" and "rq_run_id (sn_request s) = Some r"
  shows "fails_with (log_error r (se_schema_version e)) (apply_event cx s e)"
  using assms(2) unfolding apply_event_def
  by (auto intro!: fault_intros log_error_of_corrupt [OF apply_kind_faults [OF assms(1)]])

lemma create_snapshot_faults:
  "fails_with (log_error (se_run_id e) (se_schema_version e)) (create_snapshot cx e)"
  unfolding create_snapshot_def validate_created_request_def
  by (auto simp: Let_def intro!: fault_intros split: runtime_event_kind.split)


end
