(* ===== verification/Memory_Store.thy ===== *)
theory Memory_Store
  imports Reducer_Laws "HOL-Library.AList" "HOL-Library.Product_Lexorder"
begin

text \<open>
  The in-memory run store of crates/runtime/src/store.rs: \<^verbatim>\<open>InMemoryRunStore\<close> with the
  operations of the \<^verbatim>\<open>RunStore\<close> trait, the check of a continuation request and of its
  lineage, and the replay behind every read.

  A hash map is an association list with distinct keys; its order stands for the iteration
  order of the map, which the code does not rely on. What an operation takes from its
  surroundings is the record \<open>store_env\<close>: the clock, a fresh run id for
  \<^verbatim>\<open>unwrap_or_default\<close>, and the identity of the lease owner. An operation that fails leaves the
  store as it was; one that succeeds returns its result and the new store.
\<close>

section \<open>Leases, replays and reservations\<close>

record run_lease =
  rle_run_id :: string
  rle_epoch :: u64
  rle_owner_id :: string
  rle_owner_pid :: u32

record run_replay =
  rp_snapshot :: run_snapshot
  rp_events :: "stored_runtime_event list"

record created_run =
  crn_lease :: run_lease
  crn_created :: stored_runtime_event
  crn_replay :: run_replay

record acquired_run =
  aqr_lease :: "run_lease option"
  aqr_replay :: run_replay

record root_run_record =
  rrr_run_id :: string
  rrr_continued_from_run_id :: "string option"
  rrr_workspace :: string
  rrr_last_sequence :: u64
  rrr_terminal :: bool
  rrr_created_at_unix_ms :: u64
  rrr_updated_at_unix_ms :: u64

datatype pending_creation_kind = CreationStart | CreationContinue

text \<open>The command of an intent is only stored and handed back; its type is a parameter.\<close>

record 'command creation_intent =
  cit_kind :: pending_creation_kind
  cit_workspace :: string
  cit_source_run_id :: "string option"
  cit_command :: 'command

record 'command creation_reservation =
  crs_command_id :: string
  crs_command_sha256 :: string
  crs_run_id :: string
  crs_created_at_unix_ms :: u64
  crs_intent :: "'command creation_intent option"

record 'command reserved_creation =
  rcr_reservation :: "'command creation_reservation"
  rcr_newly_reserved :: bool

record in_memory_run =
  imr_events :: "stored_runtime_event list"
  imr_snapshot :: run_snapshot
  imr_lease :: "run_lease option"
  imr_next_epoch :: u64

record 'command memory_store =
  mst_runs :: "(string \<times> in_memory_run) list"
  mst_creations :: "(string \<times> 'command creation_reservation) list"

definition empty_store :: "'command memory_store" where
  "empty_store = \<lparr>mst_runs = [], mst_creations = []\<rparr>"

record store_env =
  sev_now :: u64
  sev_fresh_run_id :: string
  sev_owner_id :: string
  sev_owner_pid :: u32

definition new_lease :: "store_env \<Rightarrow> string \<Rightarrow> u64 \<Rightarrow> run_lease" where
  "new_lease env run_id epoch =
     \<lparr>rle_run_id = run_id, rle_epoch = epoch, rle_owner_id = sev_owner_id env,
      rle_owner_pid = sev_owner_pid env\<rparr>"

definition run_id_or_fresh :: "store_env \<Rightarrow> run_request \<Rightarrow> string" where
  "run_id_or_fresh env request =
     (case rq_run_id request of Some run_id \<Rightarrow> run_id | None \<Rightarrow> sev_fresh_run_id env)"

section \<open>Replay\<close>

definition replay :: "'x store_codec_scheme \<Rightarrow> stored_runtime_event list \<Rightarrow> run_store_error + run_replay" where
  "replay cx events =
     rbind (reduce_events cx events) (\<lambda>s. Inr \<lparr>rp_snapshot = s, rp_events = events\<rparr>)"

definition replay_in_memory_run ::
  "'x store_codec_scheme \<Rightarrow> store_env \<Rightarrow> in_memory_run \<Rightarrow> run_store_error + run_replay" where
  "replay_in_memory_run cx env run =
     rbind (replay cx (imr_events run))
     (\<lambda>r.
        if rp_snapshot r \<noteq> imr_snapshot run
        then Inl (corrupt (run_id_or_fresh env (sn_request (imr_snapshot run)))
               ''cached in-memory snapshot diverges from full event replay'')
        else Inr r)"

section \<open>Continuations\<close>

definition is_root_request :: "run_request \<Rightarrow> bool" where
  "is_root_request request \<longleftrightarrow>
     rq_parent_run_id request = None \<and> actor_kind (rq_actor request) = ActorRoot \<and>
     actor_depth (rq_actor request) = 0"

definition with_system_prompt :: "system_prompt \<Rightarrow> canonical_transcript \<Rightarrow> canonical_transcript" where
  "with_system_prompt prompt transcript =
     (case transcript of
        SystemEntry _ # rest \<Rightarrow> SystemEntry prompt # rest
      | _ \<Rightarrow> SystemEntry prompt # transcript)"

definition inherited_facts_of :: "run_snapshot \<Rightarrow> inherited_run_facts" where
  "inherited_facts_of source =
     \<lparr>if_workspace_state = sn_workspace_state source,
      if_last_completion_rejection = sn_last_completion_rejection source,
      if_last_host_verification_failure = sn_last_host_verification_failure source\<rparr>"

definition validate_continuation_request ::
  "store_env \<Rightarrow> run_snapshot \<Rightarrow> run_request \<Rightarrow> run_store_error + unit" where
  "validate_continuation_request env source request =
     (let source_run_id = run_id_or_fresh env (sn_request source);
          invalid = (\<lambda>reason. Inl (InvalidContinuation source_run_id reason))
      in if \<not> is_root_request (sn_request source) then invalid SourceIsChild
         else
           (case sn_terminal source of
              None \<Rightarrow> invalid SourceNotTerminal
            | Some outcome \<Rightarrow>
                if is_recovery_required (ao_terminal outcome)
                then invalid ContinuationRecoveryRequired
                else if \<not> is_root_request request
                        \<or> rq_continued_from_run_id request \<noteq> Some source_run_id
                then invalid NewRunIsNotRoot
                else if env_workspace (rq_environment request)
                          \<noteq> env_workspace (rq_environment (sn_request source))
                then invalid WorkspaceMismatch
                else if rq_transcript request
                          \<noteq> with_system_prompt (rq_system_prompt request) (sn_transcript source)
                then invalid TranscriptMismatch
                else if rq_context_projection request \<noteq> sn_context_projection source
                then invalid ContextProjectionMismatch
                else if rq_inherited_facts request \<noteq> Some (inherited_facts_of source)
                then invalid InheritedFactsMismatch
                else Inr ()))"

text \<open>The loop of \<^verbatim>\<open>validate_in_memory_continuation_lineage\<close> over the cursor.\<close>

function lineage_loop ::
  "'x store_codec_scheme \<Rightarrow> store_env \<Rightarrow> (string \<times> in_memory_run) list \<Rightarrow> string \<Rightarrow> string \<Rightarrow>
     string list \<Rightarrow> string option \<Rightarrow> run_store_error + unit" where
  "lineage_loop cx env runs source_run_id workspace visited None = Inr ()"
| "lineage_loop cx env runs source_run_id workspace visited (Some run_id) =
     (if run_id \<in> set visited then Inl (InvalidContinuation source_run_id LineageCorrupt)
      else
        (case map_of runs run_id of
           None \<Rightarrow> Inl (InvalidContinuation source_run_id LineageCorrupt)
         | Some run \<Rightarrow>
             (case replay_in_memory_run cx env run of
                Inl e \<Rightarrow> Inl e
              | Inr r \<Rightarrow>
                  if \<not> is_root_request (sn_request (rp_snapshot r))
                     \<or> env_workspace (rq_environment (sn_request (rp_snapshot r))) \<noteq> workspace
                     \<or> sn_terminal (rp_snapshot r) = None
                  then Inl (InvalidContinuation source_run_id LineageCorrupt)
                  else lineage_loop cx env runs source_run_id workspace (run_id # visited)
                         (rq_continued_from_run_id (sn_request (rp_snapshot r))))))"
  by pat_completeness auto

termination
proof (relation "measure (\<lambda>(cx, env, runs, source, workspace, visited, cursor).
    card (fst ` set runs - set visited))", goal_cases)
  case (2 cx env runs source_run_id workspace visited run_id run r)
  then have "run_id \<in> fst ` set runs - set visited" by (force dest: map_of_SomeD)
  then have "card (fst ` set runs - set visited - {run_id}) < card (fst ` set runs - set visited)"
    by (intro card_Diff1_less) auto
  moreover have "fst ` set runs - set (run_id # visited) = fst ` set runs - set visited - {run_id}"
    by auto
  ultimately show ?case by simp
qed simp

definition validate_in_memory_continuation_lineage ::
  "'x store_codec_scheme \<Rightarrow> store_env \<Rightarrow> (string \<times> in_memory_run) list \<Rightarrow> run_snapshot \<Rightarrow> string \<Rightarrow>
     run_store_error + unit" where
  "validate_in_memory_continuation_lineage cx env runs source workspace =
     (let source_run_id = run_id_or_fresh env (sn_request source)
      in lineage_loop cx env runs source_run_id workspace [source_run_id]
           (rq_continued_from_run_id (sn_request source)))"

section \<open>Reservations\<close>

definition reserve_creation ::
  "store_env \<Rightarrow> 'c memory_store \<Rightarrow> string \<Rightarrow> string \<Rightarrow> string \<Rightarrow> 'c creation_intent \<Rightarrow>
     run_store_error + ('c reserved_creation \<times> 'c memory_store)" where
  "reserve_creation env st command_id command_sha256 proposed_run_id intent =
     (case map_of (mst_creations st) command_id of
        Some existing \<Rightarrow>
          if crs_command_sha256 existing \<noteq> command_sha256 then Inl (CreationConflict command_id)
          else Inr (\<lparr>rcr_reservation = existing, rcr_newly_reserved = False\<rparr>, st)
      | None \<Rightarrow>
          if list_ex (\<lambda>(_, reservation). crs_run_id reservation = proposed_run_id) (mst_creations st)
          then Inl (Backend (''creation reservation proposed duplicate run id '' @ proposed_run_id))
          else
            let reservation =
                  \<lparr>crs_command_id = command_id, crs_command_sha256 = command_sha256,
                   crs_run_id = proposed_run_id, crs_created_at_unix_ms = sev_now env,
                   crs_intent = Some intent\<rparr>
            in Inr (\<lparr>rcr_reservation = reservation, rcr_newly_reserved = True\<rparr>,
                    st\<lparr>mst_creations := AList.update command_id reservation (mst_creations st)\<rparr>))"

definition creation :: "'c memory_store \<Rightarrow> string \<Rightarrow> 'c creation_reservation option" where
  "creation st command_id = map_of (mst_creations st) command_id"

text \<open>\<open>sort_by\<close> with the arguments of the comparison swapped: stable, and descending in the key.\<close>

definition sort_descending :: "('a \<Rightarrow> 'k::linorder) \<Rightarrow> 'a list \<Rightarrow> 'a list" where
  "sort_descending key xs = rev (sort_key key (rev xs))"

definition list_pending_creations ::
  "'c memory_store \<Rightarrow> string \<Rightarrow> u32 \<Rightarrow> 'c creation_reservation list" where
  "list_pending_creations st workspace limit =
     take (unat limit)
       (sort_descending (\<lambda>r. (crs_created_at_unix_ms r, crs_command_id r))
          (filter (\<lambda>r. case crs_intent r of None \<Rightarrow> False | Some intent \<Rightarrow> cit_workspace intent = workspace)
             (map snd (mst_creations st))))"

section \<open>Runs\<close>

definition created_event :: "store_env \<Rightarrow> string \<Rightarrow> run_request \<Rightarrow> stored_runtime_event" where
  "created_event env run_id request =
     \<lparr>se_schema_version = AGENT_RUNTIME_EVENT_SCHEMA_VERSION, se_run_id = run_id,
      se_parent_run_id = rq_parent_run_id request, se_event_id = ''run_created'', se_sequence = 1,
      se_occurred_at_unix_ms = sev_now env, se_event = RunCreated request\<rparr>"

text \<open>The first reservation of the run loses its intent.\<close>

fun clear_intent ::
  "string \<Rightarrow> (string \<times> 'c creation_reservation) list \<Rightarrow> (string \<times> 'c creation_reservation) list" where
  "clear_intent run_id [] = []"
| "clear_intent run_id ((k, r) # rest) =
     (if crs_run_id r = run_id then (k, r\<lparr>crs_intent := None\<rparr>) # rest
      else (k, r) # clear_intent run_id rest)"

definition validate_source ::
  "'x store_codec_scheme \<Rightarrow> store_env \<Rightarrow> (string \<times> in_memory_run) list \<Rightarrow> run_request \<Rightarrow>
     run_store_error + unit" where
  "validate_source cx env runs request =
     (case rq_continued_from_run_id request of
        None \<Rightarrow> Inr ()
      | Some source_run_id \<Rightarrow>
          rbind (ok_or (map_of runs source_run_id) (NotFound source_run_id))
          (\<lambda>source.
             rbind (replay_in_memory_run cx env source)
             (\<lambda>r.
                and_then (validate_continuation_request env (rp_snapshot r) request)
                  (validate_in_memory_continuation_lineage cx env runs (rp_snapshot r)
                     (env_workspace (rq_environment request))))))"

definition create_run ::
  "'x store_codec_scheme \<Rightarrow> store_env \<Rightarrow> 'c memory_store \<Rightarrow> run_request \<Rightarrow>
     run_store_error + (created_run \<times> 'c memory_store)" where
  "create_run cx env st request0 =
     (let run_id = run_id_or_fresh env request0;
          request = request0\<lparr>rq_run_id := Some run_id\<rparr>
      in if map_of (mst_runs st) run_id \<noteq> None then Inl (AlreadyExists run_id)
         else
           and_then (validate_source cx env (mst_runs st) request)
           (let lease = new_lease env run_id 1;
                created = created_event env run_id request
            in rbind (replay cx [created])
               (\<lambda>r.
                  Inr (\<lparr>crn_lease = lease, crn_created = created, crn_replay = r\<rparr>,
                       st\<lparr>mst_runs := AList.update run_id
                              \<lparr>imr_events = [created], imr_snapshot = rp_snapshot r,
                               imr_lease = Some lease, imr_next_epoch = 2\<rparr> (mst_runs st),
                          mst_creations := clear_intent run_id (mst_creations st)\<rparr>))))"

definition acquire_run ::
  "'x store_codec_scheme \<Rightarrow> store_env \<Rightarrow> 'c memory_store \<Rightarrow> string \<Rightarrow>
     run_store_error + (acquired_run \<times> 'c memory_store)" where
  "acquire_run cx env st run_id =
     rbind (ok_or (map_of (mst_runs st) run_id) (NotFound run_id))
     (\<lambda>run.
        rbind (replay_in_memory_run cx env run)
        (\<lambda>r.
           if sn_terminal (rp_snapshot r) \<noteq> None
           then Inr (\<lparr>aqr_lease = None, aqr_replay = r\<rparr>, st)
           else if imr_lease run \<noteq> None then Inl (AlreadyRunning run_id)
           else
             let lease = new_lease env run_id (imr_next_epoch run)
             in Inr (\<lparr>aqr_lease = Some lease, aqr_replay = r\<rparr>,
                     st\<lparr>mst_runs := AList.update run_id
                            (run\<lparr>imr_next_epoch := sat_add (imr_next_epoch run) 1,
                                 imr_lease := Some lease\<rparr>) (mst_runs st)\<rparr>)))"

definition next_sequence :: "stored_runtime_event list \<Rightarrow> u64" where
  "next_sequence events = sat_add (u64_of_usize (length events)) 1"

definition appended_event ::
  "store_env \<Rightarrow> run_lease \<Rightarrow> stored_runtime_event list \<Rightarrow> pending_runtime_event \<Rightarrow>
     stored_runtime_event" where
  "appended_event env lease events pending =
     \<lparr>se_schema_version = AGENT_RUNTIME_EVENT_SCHEMA_VERSION, se_run_id = rle_run_id lease,
      se_parent_run_id = se_parent_run_id (hd events), se_event_id = pe_event_id pending,
      se_sequence = next_sequence events, se_occurred_at_unix_ms = sev_now env,
      se_event = pe_event pending\<rparr>"

definition append_event ::
  "'x store_codec_scheme \<Rightarrow> store_env \<Rightarrow> 'c memory_store \<Rightarrow> run_lease \<Rightarrow> pending_runtime_event \<Rightarrow>
     run_store_error + (stored_runtime_event \<times> 'c memory_store)" where
  "append_event cx env st lease pending =
     rbind (ok_or (map_of (mst_runs st) (rle_run_id lease)) (NotFound (rle_run_id lease)))
     (\<lambda>run.
        (case find (\<lambda>e. se_event_id e = pe_event_id pending) (imr_events run) of
           Some existing \<Rightarrow>
             if se_event existing = pe_event pending then Inr (existing, st)
             else Inl (EventConflict (rle_run_id lease) (pe_event_id pending))
         | None \<Rightarrow>
             if imr_events run \<noteq> [] \<and> is_terminal (se_event (last (imr_events run)))
             then Inl (AlreadyTerminal (rle_run_id lease))
             else if imr_lease run \<noteq> Some lease
             then Inl (StaleLease (rle_run_id lease) (rle_epoch lease))
             else if imr_events run = [] then Inl (Panicked ''created runs have one event'')
             else
               let stored = appended_event env lease (imr_events run) pending
               in rbind (apply_event cx (imr_snapshot run) stored)
                  (\<lambda>candidate_snapshot.
                     Inr (stored,
                          st\<lparr>mst_runs := AList.update (rle_run_id lease)
                                 (run\<lparr>imr_lease := (if is_terminal (se_event stored) then None
                                                      else imr_lease run),
                                      imr_events := imr_events run @ [stored],
                                      imr_snapshot := candidate_snapshot\<rparr>) (mst_runs st)\<rparr>))))"

definition load_run ::
  "'x store_codec_scheme \<Rightarrow> store_env \<Rightarrow> 'c memory_store \<Rightarrow> string \<Rightarrow>
     run_store_error + run_replay option" where
  "load_run cx env st run_id =
     (case map_of (mst_runs st) run_id of
        None \<Rightarrow> Inr None
      | Some run \<Rightarrow> rbind (replay_in_memory_run cx env run) (\<lambda>r. Inr (Some r)))"

definition events_after :: "'c memory_store \<Rightarrow> string \<Rightarrow> u64 \<Rightarrow> stored_runtime_event list" where
  "events_after st run_id sequence =
     (case map_of (mst_runs st) run_id of
        None \<Rightarrow> []
      | Some run \<Rightarrow> filter (\<lambda>e. se_sequence e > sequence) (imr_events run))"

definition release_run ::
  "'c memory_store \<Rightarrow> run_lease \<Rightarrow> run_store_error + 'c memory_store" where
  "release_run st lease =
     rbind (ok_or (map_of (mst_runs st) (rle_run_id lease)) (NotFound (rle_run_id lease)))
     (\<lambda>run.
        if imr_lease run \<noteq> Some lease then Inl (StaleLease (rle_run_id lease) (rle_epoch lease))
        else Inr (st\<lparr>mst_runs := AList.update (rle_run_id lease)
                        (run\<lparr>imr_lease := None\<rparr>) (mst_runs st)\<rparr>))"

definition root_record :: "string \<Rightarrow> in_memory_run \<Rightarrow> run_snapshot \<Rightarrow> run_store_error + root_run_record" where
  "root_record run_id run s =
     (case imr_events run of
        [] \<Rightarrow> Inl (corrupt run_id ''run has no creation event'')
      | first # _ \<Rightarrow>
          Inr \<lparr>rrr_run_id = run_id,
               rrr_continued_from_run_id = rq_continued_from_run_id (sn_request s),
               rrr_workspace = env_workspace (rq_environment (sn_request s)),
               rrr_last_sequence = sn_last_sequence s, rrr_terminal = (sn_terminal s \<noteq> None),
               rrr_created_at_unix_ms = se_occurred_at_unix_ms first,
               rrr_updated_at_unix_ms = se_occurred_at_unix_ms (last (imr_events run))\<rparr>)"

fun root_records ::
  "'x store_codec_scheme \<Rightarrow> store_env \<Rightarrow> string \<Rightarrow> (string \<times> in_memory_run) list \<Rightarrow>
     run_store_error + root_run_record list" where
  "root_records cx env workspace [] = Inr []"
| "root_records cx env workspace ((run_id, run) # rest) =
     rbind (replay_in_memory_run cx env run)
     (\<lambda>r.
        let s = rp_snapshot r
        in if rq_parent_run_id (sn_request s) \<noteq> None
              \<or> env_workspace (rq_environment (sn_request s)) \<noteq> workspace
           then root_records cx env workspace rest
           else rbind (root_record run_id run s)
                  (\<lambda>record. rbind (root_records cx env workspace rest)
                    (\<lambda>records. Inr (record # records))))"

definition list_root_runs ::
  "'x store_codec_scheme \<Rightarrow> store_env \<Rightarrow> 'c memory_store \<Rightarrow> string \<Rightarrow> u32 \<Rightarrow>
     run_store_error + root_run_record list" where
  "list_root_runs cx env st workspace limit =
     rbind (root_records cx env workspace (mst_runs st))
     (\<lambda>candidates.
        Inr (take (unat limit)
               (sort_descending (\<lambda>r. (rrr_updated_at_unix_ms r, rrr_run_id r)) candidates)))"

end
