(* ===== verification/Memory_Store_Laws.thy ===== *)
theory Memory_Store_Laws
  imports Memory_Store Run_Invariants "HOL-Library.Multiset"
begin

text \<open>
  What the in-memory store keeps. The stores reachable by its operations satisfy \<open>store_ok\<close>:
  the cached snapshot of a run is the replay of its log, identities are used once, a lease is
  the last one granted and ends with the run, and every continuation names an earlier terminal
  root run of its workspace. On such stores an append is an append to an abstract log.
\<close>

section \<open>The invariant\<close>

definition run_ok :: "'x store_codec_scheme \<Rightarrow> string \<Rightarrow> in_memory_run \<Rightarrow> bool" where
  "run_ok cx run_id run \<longleftrightarrow>
     reduce_events cx (imr_events run) = Inr (imr_snapshot run) \<and>
     se_run_id (hd (imr_events run)) = run_id \<and>
     distinct (map se_event_id (imr_events run)) \<and>
     (case imr_lease run of None \<Rightarrow> True
      | Some lease \<Rightarrow> rle_run_id lease = run_id \<and> sn_terminal (imr_snapshot run) = None \<and>
          imr_next_epoch run = sat_add (rle_epoch lease) 1)"

definition ancestor_ok :: "(string \<times> in_memory_run) list \<Rightarrow> string \<Rightarrow> string \<Rightarrow> bool" where
  "ancestor_ok runs workspace run_id =
     (case map_of runs run_id of None \<Rightarrow> False
      | Some run \<Rightarrow> is_root_request (sn_request (imr_snapshot run)) \<and>
          env_workspace (rq_environment (sn_request (imr_snapshot run))) = workspace \<and>
          sn_terminal (imr_snapshot run) \<noteq> None)"

text \<open>A continuation names an earlier run: the lineage of every run is well founded.\<close>

definition lineage_ok :: "(string \<times> in_memory_run) list \<Rightarrow> bool" where
  "lineage_ok runs \<longleftrightarrow>
     (\<forall>i < length runs.
        let request = sn_request (imr_snapshot (snd (runs ! i)))
        in case rq_continued_from_run_id request of None \<Rightarrow> True
           | Some source \<Rightarrow> ancestor_ok (take i runs) (env_workspace (rq_environment request)) source)"

definition runs_ok :: "'x store_codec_scheme \<Rightarrow> (string \<times> in_memory_run) list \<Rightarrow> bool" where
  "runs_ok cx runs \<longleftrightarrow>
     distinct (map fst runs) \<and> (\<forall>(run_id, run) \<in> set runs. run_ok cx run_id run) \<and> lineage_ok runs"

definition creations_ok :: "(string \<times> 'c creation_reservation) list \<Rightarrow> bool" where
  "creations_ok creations \<longleftrightarrow>
     distinct (map fst creations) \<and> distinct (map (\<lambda>(_, r). crs_run_id r) creations) \<and>
     (\<forall>(command_id, r) \<in> set creations. crs_command_id r = command_id)"

definition store_ok :: "'x store_codec_scheme \<Rightarrow> 'c memory_store \<Rightarrow> bool" where
  "store_ok cx st \<longleftrightarrow> runs_ok cx (mst_runs st) \<and> creations_ok (mst_creations st)"

section \<open>Replay\<close>

lemma replay_Inr [result_simps]:
  "replay cx es = Inr r \<longleftrightarrow> (\<exists>s. reduce_events cx es = Inr s \<and> r = \<lparr>rp_snapshot = s, rp_events = es\<rparr>)"
  by (auto simp: replay_def result_simps)

lemma replay_in_memory_run_ok:
  "run_ok cx k run \<Longrightarrow>
     replay_in_memory_run cx env run
       = Inr \<lparr>rp_snapshot = imr_snapshot run, rp_events = imr_events run\<rparr>"
  by (simp add: run_ok_def replay_in_memory_run_def replay_def)

lemma runs_ok_lookup: "runs_ok cx runs \<Longrightarrow> map_of runs k = Some run \<Longrightarrow> run_ok cx k run"
  by (auto simp: runs_ok_def dest: map_of_SomeD)

lemma run_ok_events: "run_ok cx k run \<Longrightarrow> imr_events run \<noteq> []"
  by (auto simp: run_ok_def dest: run_log.replay_nonempty)

lemma run_ok_run_id: "run_ok cx k run \<Longrightarrow> rq_run_id (sn_request (imr_snapshot run)) = Some k"
  using reduced_run_id [of cx "imr_events run" "imr_snapshot run"] by (simp add: run_ok_def)

section \<open>Updating one run\<close>

lemma update_nth:
  "distinct (map fst al) \<Longrightarrow> i < length al \<Longrightarrow> AList.update (fst (al ! i)) v al = al[i := (fst (al ! i), v)]"
proof (induction al arbitrary: i)
  case (Cons a al)
  show ?case
  proof (cases i)
    case 0
    then show ?thesis by (cases a) simp
  next
    case (Suc n)
    with Cons.prems have "fst (al ! n) \<in> fst ` set al" by simp
    moreover from Cons.prems have "fst a \<notin> fst ` set al" by simp
    ultimately have "fst a \<noteq> fst (al ! n)" by metis
    with Suc Cons show ?thesis by (cases a) simp
  qed
qed simp

lemma update_new: "k \<notin> fst ` set al \<Longrightarrow> AList.update k v al = al @ [(k, v)]"
  by (induction al) auto

lemma map_of_index:
  assumes "distinct (map fst al)" and "map_of al k = Some v"
  obtains i where "i < length al" "al ! i = (k, v)"
  using assms by (metis in_set_conv_nth map_of_SomeD)

text \<open>A run that keeps its request and, once terminal, its snapshot, keeps every lineage.\<close>

definition advances :: "in_memory_run \<Rightarrow> in_memory_run \<Rightarrow> bool" where
  "advances run run' \<longleftrightarrow>
     sn_request (imr_snapshot run') = sn_request (imr_snapshot run) \<and>
     (sn_terminal (imr_snapshot run) \<noteq> None \<longrightarrow> sn_terminal (imr_snapshot run') \<noteq> None)"

lemma ancestor_ok_update:
  assumes "ancestor_ok runs w k" and "map_of runs k0 = Some run" and "advances run run'"
  shows "ancestor_ok (AList.update k0 run' runs) w k"
  using assms by (auto simp: ancestor_ok_def update_conv' advances_def split: option.splits)

lemma ancestor_ok_take_update:
  assumes "distinct (map fst runs)" and "i < length runs" and "advances (snd (runs ! i)) run'"
    and "ancestor_ok (take j runs) w k"
  shows "ancestor_ok (take j (runs[i := (fst (runs ! i), run')])) w k"
proof (cases "i < j")
  case True
  have d: "distinct (map fst (take j runs))"
    using assms(1) by (simp add: take_map [symmetric])
  have "take j runs ! i = runs ! i" "i < length (take j runs)" using True assms(2) by simp_all
  with d have "map_of (take j runs) (fst (runs ! i)) = Some (snd (runs ! i))"
    by (metis map_of_eq_Some_iff nth_mem prod.collapse)
  from ancestor_ok_update [OF assms(4) this assms(3)] show ?thesis
    using update_nth [OF d \<open>i < length (take j runs)\<close>, of run'] \<open>take j runs ! i = runs ! i\<close>
    by (simp add: take_update_swap)
next
  case False
  then show ?thesis using assms(4) by simp
qed

lemma runs_ok_update:
  assumes "runs_ok cx runs" and "map_of runs k = Some run" and "run_ok cx k run'"
    and "advances run run'"
  shows "runs_ok cx (AList.update k run' runs)"
proof -
  have d: "distinct (map fst runs)" using assms(1) by (simp add: runs_ok_def)
  from map_of_index [OF d assms(2)] obtain i where i: "i < length runs" "runs ! i = (k, run)" .
  have upd: "AList.update k run' runs = runs[i := (k, run')]"
    using update_nth [OF d i(1), of run'] i(2) by simp
  have "lineage_ok (runs[i := (k, run')])"
    unfolding lineage_ok_def Let_def
  proof (intro allI impI)
    fix j assume "j < length (runs[i := (k, run')])"
    then have j: "j < length runs" by simp
    have same: "sn_request (imr_snapshot (snd (runs[i := (k, run')] ! j)))
        = sn_request (imr_snapshot (snd (runs ! j)))"
      using i assms(4) j by (cases "i = j") (auto simp: advances_def)
    from assms(1) j have "case rq_continued_from_run_id (sn_request (imr_snapshot (snd (runs ! j)))) of
        None \<Rightarrow> True | Some source \<Rightarrow> ancestor_ok (take j runs)
          (env_workspace (rq_environment (sn_request (imr_snapshot (snd (runs ! j)))))) source"
      by (simp add: runs_ok_def lineage_ok_def Let_def)
    then show "case rq_continued_from_run_id
        (sn_request (imr_snapshot (snd (runs[i := (k, run')] ! j)))) of None \<Rightarrow> True
      | Some source \<Rightarrow> ancestor_ok (take j (runs[i := (k, run')]))
          (env_workspace (rq_environment
             (sn_request (imr_snapshot (snd (runs[i := (k, run')] ! j)))))) source"
      using ancestor_ok_take_update [OF d i(1), of run' j] i(2) assms(4)
      by (simp add: same split: option.splits)
  qed
  moreover have "\<forall>(run_id, r) \<in> set (runs[i := (k, run')]). run_ok cx run_id r"
    using assms(1,3) by (auto simp: runs_ok_def dest!: subsetD [OF set_update_subset_insert])
  moreover have "distinct (map fst (runs[i := (k, run')]))"
    using d i by (simp add: map_update) (metis fst_conv list_update_id nth_map)
  ultimately show ?thesis by (simp add: runs_ok_def upd)
qed

section \<open>Creating a run\<close>

lemma validate_continuation_request_Inr:
  "validate_continuation_request env source request = Inr u \<longleftrightarrow>
     is_root_request (sn_request source) \<and>
     (\<exists>outcome. sn_terminal source = Some outcome \<and>
        \<not> is_recovery_required (ao_terminal outcome)) \<and>
     is_root_request request \<and>
     rq_continued_from_run_id request = Some (run_id_or_fresh env (sn_request source)) \<and>
     env_workspace (rq_environment request) = env_workspace (rq_environment (sn_request source)) \<and>
     rq_transcript request = with_system_prompt (rq_system_prompt request) (sn_transcript source) \<and>
     rq_context_projection request = sn_context_projection source \<and>
     rq_inherited_facts request = Some (inherited_facts_of source)"
  by (cases "sn_terminal source") (auto simp: validate_continuation_request_def result_simps Let_def)

lemma validate_source_ancestor:
  assumes "runs_ok cx runs" and "validate_source cx env runs request = Inr u"
    and "rq_continued_from_run_id request = Some source"
  shows "ancestor_ok runs (env_workspace (rq_environment request)) source"
proof -
  from assms(2,3) obtain run r where run: "map_of runs source = Some run"
    "replay_in_memory_run cx env run = Inr r"
    "validate_continuation_request env (rp_snapshot r) request = Inr ()"
    by (auto simp: validate_source_def result_simps)
  with replay_in_memory_run_ok [OF runs_ok_lookup [OF assms(1) run(1)], of env] show ?thesis
    by (auto simp: ancestor_ok_def validate_continuation_request_Inr)
qed

lemma lineage_ok_snoc:
  "lineage_ok (runs @ [(k, run)]) \<longleftrightarrow> lineage_ok runs \<and>
     (case rq_continued_from_run_id (sn_request (imr_snapshot run)) of None \<Rightarrow> True
      | Some source \<Rightarrow> ancestor_ok runs
          (env_workspace (rq_environment (sn_request (imr_snapshot run)))) source)"
  by (simp add: lineage_ok_def less_Suc_eq all_conj_distrib Let_def nth_append conj_commute
        cong: option.case_cong)

lemma create_run_Inr:
  assumes "create_run cx env st request0 = Inr (c, st')"
  defines "run_id \<equiv> run_id_or_fresh env request0"
  defines "request \<equiv> request0\<lparr>rq_run_id := Some run_id\<rparr>"
  shows "map_of (mst_runs st) run_id = None \<and>
    validate_source cx env (mst_runs st) request = Inr () \<and>
    validate_created_request cx run_id (rq_parent_run_id request) request = Inr () \<and>
    crn_lease c = new_lease env run_id 1 \<and> crn_created c = created_event env run_id request \<and>
    crn_replay c = \<lparr>rp_snapshot = initial_snapshot request, rp_events = [crn_created c]\<rparr> \<and>
    st' = st\<lparr>mst_runs := mst_runs st @ [(run_id,
              \<lparr>imr_events = [crn_created c], imr_snapshot = initial_snapshot request,
               imr_lease = Some (crn_lease c), imr_next_epoch = 2\<rparr>)],
             mst_creations := clear_intent run_id (mst_creations st)\<rparr>"
proof -
  from assms(1) obtain r where *: "map_of (mst_runs st) run_id = None"
    "validate_source cx env (mst_runs st) request = Inr ()"
    "replay cx [created_event env run_id request] = Inr r"
    "c = \<lparr>crn_lease = new_lease env run_id 1, crn_created = created_event env run_id request,
          crn_replay = r\<rparr>"
    "st' = st\<lparr>mst_runs := AList.update run_id
              \<lparr>imr_events = [created_event env run_id request], imr_snapshot = rp_snapshot r,
               imr_lease = Some (new_lease env run_id 1), imr_next_epoch = 2\<rparr> (mst_runs st),
             mst_creations := clear_intent run_id (mst_creations st)\<rparr>"
    unfolding create_run_def Let_def result_simps run_id_def [symmetric] request_def [symmetric]
    by auto
  from *(3) have "validate_created_request cx run_id (rq_parent_run_id request) request = Inr ()"
    "r = \<lparr>rp_snapshot = initial_snapshot request, rp_events = [created_event env run_id request]\<rparr>"
    by (auto simp: replay_Inr run_log.replay_single create_snapshot_Inr created_event_def)
  moreover have "run_id \<notin> fst ` set (mst_runs st)"
    using *(1) by (simp add: map_of_eq_None_iff)
  ultimately show ?thesis using * by (simp add: update_new)
qed

lemma create_run_keeps:
  assumes "store_ok cx st" and "create_run cx env st request0 = Inr (c, st')"
  shows "runs_ok cx (mst_runs st')"
proof -
  define run_id where "run_id = run_id_or_fresh env request0"
  define request where "request = request0\<lparr>rq_run_id := Some run_id\<rparr>"
  note c = create_run_Inr [OF assms(2), folded run_id_def, folded request_def]
  have ok: "runs_ok cx (mst_runs st)" using assms(1) by (simp add: store_ok_def)
  have "run_ok cx run_id \<lparr>imr_events = [crn_created c], imr_snapshot = initial_snapshot request,
      imr_lease = Some (crn_lease c), imr_next_epoch = 2\<rparr>"
    using c by (simp add: run_ok_def run_log.replay_single create_snapshot_Inr created_event_def
          new_lease_def sat_add_def)
  moreover have "lineage_ok (mst_runs st')"
    using c ok validate_source_ancestor [OF ok, of env request "()"]
    by (simp add: lineage_ok_snoc runs_ok_def split: option.splits)
  moreover have "run_id \<notin> fst ` set (mst_runs st)"
    using c by (simp add: map_of_eq_None_iff)
  ultimately show ?thesis using c ok by (auto simp: runs_ok_def)
qed

section \<open>The other operations\<close>

lemma clear_intent_keys [simp]:
  "map fst (clear_intent run_id cs) = map fst cs"
  "map (\<lambda>(_, r). crs_run_id r) (clear_intent run_id cs) = map (\<lambda>(_, r). crs_run_id r) cs"
  "map (\<lambda>(_, r). crs_command_id r) (clear_intent run_id cs) = map (\<lambda>(_, r). crs_command_id r) cs"
  by (induction run_id cs rule: clear_intent.induct) auto

lemma creations_ok_iff:
  "creations_ok cs \<longleftrightarrow>
     distinct (map fst cs) \<and> distinct (map (\<lambda>(_, r). crs_run_id r) cs) \<and>
     map (\<lambda>(_, r). crs_command_id r) cs = map fst cs"
  by (auto simp: creations_ok_def map_eq_conv)

lemma clear_intent_keeps: "creations_ok cs \<Longrightarrow> creations_ok (clear_intent run_id cs)"
  by (simp add: creations_ok_iff)

lemma reserve_creation_new:
  assumes "map_of (mst_creations st) command_id = None"
    and "reserve_creation env st command_id sha run_id intent = Inr (r, st')"
  shows "rcr_newly_reserved r \<and> crs_command_id (rcr_reservation r) = command_id \<and>
    crs_command_sha256 (rcr_reservation r) = sha \<and> crs_run_id (rcr_reservation r) = run_id \<and>
    crs_intent (rcr_reservation r) = Some intent \<and>
    run_id \<notin> (\<lambda>(_, r). crs_run_id r) ` set (mst_creations st) \<and>
    st' = st\<lparr>mst_creations := mst_creations st @ [(command_id, rcr_reservation r)]\<rparr>"
proof -
  have "command_id \<notin> fst ` set (mst_creations st)"
    using assms(1) by (simp add: map_of_eq_None_iff)
  then show ?thesis using assms
    by (auto simp: reserve_creation_def Let_def update_new list_ex_iff split: if_splits)
qed

lemma reserve_creation_keeps:
  assumes "store_ok cx st" and "reserve_creation env st command_id sha run_id intent = Inr (r, st')"
  shows "store_ok cx st'"
proof (cases "map_of (mst_creations st) command_id")
  case None
  with reserve_creation_new [OF None assms(2)] assms(1) show ?thesis
    by (auto simp: store_ok_def creations_ok_iff map_of_eq_None_iff)
next
  case (Some existing)
  with assms show ?thesis by (auto simp: reserve_creation_def split: if_splits)
qed

lemma acquire_run_Inr:
  assumes "acquire_run cx env st run_id = Inr (a, st')"
  shows "\<exists>run. map_of (mst_runs st) run_id = Some run \<and>
    replay_in_memory_run cx env run = Inr (aqr_replay a) \<and>
    (sn_terminal (rp_snapshot (aqr_replay a)) \<noteq> None \<and> aqr_lease a = None \<and> st' = st \<or>
     sn_terminal (rp_snapshot (aqr_replay a)) = None \<and> imr_lease run = None \<and>
     aqr_lease a = Some (new_lease env run_id (imr_next_epoch run)) \<and>
     st' = st\<lparr>mst_runs := AList.update run_id
       (run\<lparr>imr_next_epoch := sat_add (imr_next_epoch run) 1, imr_lease := aqr_lease a\<rparr>)
       (mst_runs st)\<rparr>)"
  using assms by (auto simp: acquire_run_def result_simps Let_def split: if_splits)

lemma acquire_run_keeps:
  assumes "store_ok cx st" and "acquire_run cx env st run_id = Inr (a, st')"
  shows "store_ok cx st'"
proof -
  have ok: "runs_ok cx (mst_runs st)" using assms(1) by (simp add: store_ok_def)
  from acquire_run_Inr [OF assms(2)] obtain run where run: "map_of (mst_runs st) run_id = Some run"
    and r: "replay_in_memory_run cx env run = Inr (aqr_replay a)" and
    cases: "st' = st \<or> sn_terminal (rp_snapshot (aqr_replay a)) = None \<and>
      aqr_lease a = Some (new_lease env run_id (imr_next_epoch run)) \<and>
      st' = st\<lparr>mst_runs := AList.update run_id
        (run\<lparr>imr_next_epoch := sat_add (imr_next_epoch run) 1, imr_lease := aqr_lease a\<rparr>)
        (mst_runs st)\<rparr>"
    by auto
  note run_ok = runs_ok_lookup [OF ok run]
  from replay_in_memory_run_ok [OF run_ok, of env] r
  have snapshot: "rp_snapshot (aqr_replay a) = imr_snapshot run" by auto
  from cases show ?thesis
  proof (elim disjE conjE)
    assume new: "sn_terminal (rp_snapshot (aqr_replay a)) = None"
      "aqr_lease a = Some (new_lease env run_id (imr_next_epoch run))" and
      st': "st' = st\<lparr>mst_runs := AList.update run_id
        (run\<lparr>imr_next_epoch := sat_add (imr_next_epoch run) 1, imr_lease := aqr_lease a\<rparr>)
        (mst_runs st)\<rparr>"
    have "run_ok cx run_id
        (run\<lparr>imr_next_epoch := sat_add (imr_next_epoch run) 1, imr_lease := aqr_lease a\<rparr>)"
      using run_ok new snapshot by (simp add: run_ok_def new_lease_def)
    from runs_ok_update [OF ok run this] show ?thesis
      using assms(1) st' by (simp add: store_ok_def advances_def)
  qed (use assms(1) in simp)
qed

lemma release_run_keeps:
  assumes "store_ok cx st" and "release_run st lease = Inr st'"
  shows "store_ok cx st'"
proof -
  have ok: "runs_ok cx (mst_runs st)" using assms(1) by (simp add: store_ok_def)
  from assms(2) obtain run where run: "map_of (mst_runs st) (rle_run_id lease) = Some run" and
    st': "st' = st\<lparr>mst_runs := AList.update (rle_run_id lease) (run\<lparr>imr_lease := None\<rparr>) (mst_runs st)\<rparr>"
    by (auto simp: release_run_def result_simps)
  have "run_ok cx (rle_run_id lease) (run\<lparr>imr_lease := None\<rparr>)"
    using runs_ok_lookup [OF ok run] by (simp add: run_ok_def)
  from runs_ok_update [OF ok run this] st' assms(1) show ?thesis
    by (simp add: store_ok_def advances_def)
qed

section \<open>Appending\<close>

lemma find_eq_None: "find P xs = None \<longleftrightarrow> (\<forall>x \<in> set xs. \<not> P x)"
  by (auto simp: find_None_iff)

lemma find_event_id:
  assumes "distinct (map se_event_id es)" and "e \<in> set es"
  shows "find (\<lambda>x. se_event_id x = se_event_id e) es = Some e"
  using assms
proof (induction es)
  case (Cons x es)
  then show ?case by (auto simp: image_iff)
qed simp

lemma next_sequence_run_ok:
  assumes "run_ok cx k run"
  shows "next_sequence (imr_events run) = sat_add (sn_last_sequence (imr_snapshot run)) 1"
proof -
  have "unat (sn_last_sequence (imr_snapshot run)) = min (length (imr_events run)) (2 ^ 64 - 1)"
    using assms run_log.replay_last_sequence by (auto simp: run_ok_def)
  then have "u64_of_usize (length (imr_events run)) = sn_last_sequence (imr_snapshot run)"
    unfolding u64_of_usize_def
    by (intro word_unat_eq_iff [THEN iffD2]) (auto simp: unat_of_nat unat_minus_one_word' min_def)
  then show ?thesis by (simp add: next_sequence_def)
qed

lemma leased_is_open:
  assumes "run_ok cx k run" and "imr_lease run = Some lease"
  shows "sn_terminal (imr_snapshot run) = None \<and> rle_run_id lease = k \<and>
    \<not> is_terminal (se_event (last (imr_events run)))"
  using assms run_log.replay_closed [of cx "imr_events run" "imr_snapshot run"]
  by (auto simp: run_ok_def)

lemma apply_event_of_run:
  assumes "run_ok cx k run"
  shows "apply_event cx (imr_snapshot run) e = reduce_events cx (imr_events run @ [e])"
  using assms run_ok_events [OF assms] by (simp add: run_ok_def run_log.replay_snoc)

text \<open>An append of a new event succeeds exactly when the lease is current and the longer log replays.\<close>

lemma append_event_new_iff:
  fixes env :: store_env
  assumes "store_ok cx st" and "map_of (mst_runs st) (rle_run_id lease) = Some run"
    and "pe_event_id p \<notin> se_event_id ` set (imr_events run)"
  defines "stored \<equiv> appended_event env lease (imr_events run) p"
  shows "append_event cx env st lease p = Inr (e, st') \<longleftrightarrow>
    imr_lease run = Some lease \<and> e = stored \<and>
    (\<exists>s'. reduce_events cx (imr_events run @ [stored]) = Inr s' \<and>
       st' = st\<lparr>mst_runs := AList.update (rle_run_id lease)
         (run\<lparr>imr_lease := (if is_terminal (pe_event p) then None else imr_lease run),
              imr_events := imr_events run @ [stored], imr_snapshot := s'\<rparr>) (mst_runs st)\<rparr>)"
proof -
  have ok: "run_ok cx (rle_run_id lease) run"
    using assms(1,2) by (auto simp: store_ok_def intro: runs_ok_lookup)
  have "find (\<lambda>e. se_event_id e = pe_event_id p) (imr_events run) = None"
    unfolding find_eq_None using assms(3) by (metis image_eqI)
  moreover have "se_event stored = pe_event p" by (simp add: stored_def appended_event_def)
  ultimately show ?thesis
    using assms(2) leased_is_open [OF ok, of lease] run_ok_events [OF ok] apply_event_of_run [OF ok]
    by (auto simp: append_event_def result_simps Let_def stored_def [symmetric])
qed

lemma append_event_known:
  assumes "store_ok cx st" and "map_of (mst_runs st) (rle_run_id lease) = Some run"
    and "e \<in> set (imr_events run)" and "se_event_id e = pe_event_id p"
  shows "append_event cx env st lease p =
    (if se_event e = pe_event p then Inr (e, st)
     else Inl (EventConflict (rle_run_id lease) (pe_event_id p)))"
proof -
  have "distinct (map se_event_id (imr_events run))"
    using assms(1,2) by (auto simp: store_ok_def run_ok_def dest: runs_ok_lookup)
  from find_event_id [OF this assms(3)] assms(2,4) show ?thesis by (simp add: append_event_def)
qed

lemma append_event_keeps:
  assumes "store_ok cx st" and "append_event cx env st lease p = Inr (e, st')"
  shows "store_ok cx st'"
proof -
  from assms(2) obtain run where run: "map_of (mst_runs st) (rle_run_id lease) = Some run"
    by (auto simp: append_event_def result_simps)
  have ok: "runs_ok cx (mst_runs st)" using assms(1) by (simp add: store_ok_def)
  note run_ok = runs_ok_lookup [OF ok run]
  show ?thesis
  proof (cases "pe_event_id p \<in> se_event_id ` set (imr_events run)")
    case True
    then obtain e' where "e' \<in> set (imr_events run)" "se_event_id e' = pe_event_id p" by auto
    from append_event_known [OF assms(1) run this, of env] assms show ?thesis
      by (auto split: if_splits)
  next
    case False
    define stored where "stored = appended_event env lease (imr_events run) p"
    from append_event_new_iff [OF assms(1) run False, of env e st'] assms(2) obtain s' where
      lease: "imr_lease run = Some lease" and s': "reduce_events cx (imr_events run @ [stored]) = Inr s'"
      and st': "st' = st\<lparr>mst_runs := AList.update (rle_run_id lease)
         (run\<lparr>imr_lease := (if is_terminal (pe_event p) then None else imr_lease run),
              imr_events := imr_events run @ [stored], imr_snapshot := s'\<rparr>) (mst_runs st)\<rparr>"
      unfolding stored_def by blast
    have fields: "se_event_id stored = pe_event_id p" "se_event stored = pe_event p"
      by (simp_all add: stored_def appended_event_def)
    have req: "sn_request s' = sn_request (imr_snapshot run)"
      using s' apply_event_of_run [OF run_ok, of stored] apply_event_request by metis
    have "sn_terminal s' = None \<or> is_terminal (pe_event p)"
      using run_log.replay_closed [OF s'] fields(2) by auto
    then have "run_ok cx (rle_run_id lease)
        (run\<lparr>imr_lease := (if is_terminal (pe_event p) then None else imr_lease run),
             imr_events := imr_events run @ [stored], imr_snapshot := s'\<rparr>)"
      using run_ok lease s' False fields run_ok_events [OF run_ok] leased_is_open [OF run_ok lease]
      by (auto simp: run_ok_def)
    moreover have "advances run
        (run\<lparr>imr_lease := (if is_terminal (pe_event p) then None else imr_lease run),
             imr_events := imr_events run @ [stored], imr_snapshot := s'\<rparr>)"
      using req leased_is_open [OF run_ok lease] by (simp add: advances_def)
    ultimately show ?thesis
      using runs_ok_update [OF ok run] assms(1) st' by (simp add: store_ok_def)
  qed
qed

end
