(* ===== verification/Store_Contract.thy ===== *)
theory Store_Contract
  imports Runtime_Event Snapshot Event_Log "HOL-Library.Sublist"
begin

text \<open>
  What the runtime relies on when it appends through the \<^verbatim>\<open>RunStore\<close> trait
  (crates/runtime/src/lib.rs): a log per run that an append extends by exactly the pending
  event, and an event id that decides an append once. A retried append is then harmless, and
  what was read of a log stays true.
\<close>

locale durable_log =
  fixes holds :: "'st \<Rightarrow> bool"
    and logs :: "'st \<Rightarrow> string \<Rightarrow> stored_runtime_event list option"
    and run_of :: "'lease \<Rightarrow> string"
    and append_to :: "'env \<Rightarrow> 'st \<Rightarrow> 'lease \<Rightarrow> pending_runtime_event \<Rightarrow>
      run_store_error + (stored_runtime_event \<times> 'st)"
  assumes append_holds: "holds st \<Longrightarrow> append_to env st lease p = Inr (e, st') \<Longrightarrow> holds st'"
    and append_missing:
      "logs st (run_of lease) = None \<Longrightarrow> append_to env st lease p = Inl (NotFound (run_of lease))"
    and append_known:
      "holds st \<Longrightarrow> logs st (run_of lease) = Some es \<Longrightarrow> e \<in> set es \<Longrightarrow>
       se_event_id e = pe_event_id p \<Longrightarrow>
       append_to env st lease p =
         (if se_event e = pe_event p then Inr (e, st)
          else Inl (EventConflict (run_of lease) (pe_event_id p)))"
    and append_new:
      "holds st \<Longrightarrow> logs st (run_of lease) = Some es \<Longrightarrow> pe_event_id p \<notin> se_event_id ` set es \<Longrightarrow>
       append_to env st lease p = Inr (e, st') \<Longrightarrow>
       se_event_id e = pe_event_id p \<and> se_event e = pe_event p \<and>
       logs st' = (logs st)(run_of lease \<mapsto> es @ [e])"
begin

text \<open>Whatever an append returned is in the log under the id and with the payload it was given.\<close>

lemma append_recorded:
  assumes "holds st" and "append_to env st lease p = Inr (e, st')"
  obtains es where "logs st' (run_of lease) = Some es" "e \<in> set es"
    "se_event_id e = pe_event_id p" "se_event e = pe_event p"
proof (cases "logs st (run_of lease)")
  case None
  with assms(2) append_missing show ?thesis by simp
next
  case (Some es)
  show ?thesis
  proof (cases "pe_event_id p \<in> se_event_id ` set es")
    case True
    then obtain d where d: "d \<in> set es" "se_event_id d = pe_event_id p" by auto
    from append_known [OF assms(1) Some d, of env] assms(2) have "e = d" "st' = st" "se_event d = pe_event p"
      by (auto split: if_splits)
    with that Some d show ?thesis by blast
  next
    case False
    from append_new [OF assms(1) Some False assms(2)] that [of "es @ [e]"] show ?thesis by simp
  qed
qed

lemma append_again:
  assumes "holds st" and "append_to env st lease p = Inr (e, st')" and "run_of lease' = run_of lease"
    and "pe_event_id p' = pe_event_id p"
  shows "append_to env' st' lease' p' =
    (if pe_event p' = pe_event p then Inr (e, st')
     else Inl (EventConflict (run_of lease) (pe_event_id p)))"
proof -
  from append_recorded [OF assms(1,2)] obtain es where
    "logs st' (run_of lease) = Some es" "e \<in> set es" "se_event_id e = pe_event_id p"
    "se_event e = pe_event p" .
  with append_known [OF append_holds [OF assms(1,2)], of lease' es e p' env'] assms(3,4)
  show ?thesis by auto
qed

lemma append_extends:
  assumes "holds st" and "append_to env st lease p = Inr (e, st')" and "logs st r = Some es"
  shows "\<exists>es'. logs st' r = Some es' \<and> prefix es es'"
proof (cases "logs st (run_of lease)")
  case None
  with assms(2) append_missing show ?thesis by simp
next
  case (Some es0)
  show ?thesis
  proof (cases "pe_event_id p \<in> se_event_id ` set es0")
    case True
    then obtain d where d: "d \<in> set es0" "se_event_id d = pe_event_id p" by auto
    from append_known [OF assms(1) Some d, of env] assms(2) have "st' = st"
      by (auto split: if_splits)
    with assms(3) show ?thesis by simp
  next
    case False
    from append_new [OF assms(1) Some False assms(2)] assms(3) Some show ?thesis by auto
  qed
qed

end

end
