(* ===== verification/Memory_Store_Props.thy ===== *)
theory Memory_Store_Props
  imports Memory_Store_Laws Store_Contract Run_Examples
begin

text \<open>
  The in-memory store as a durable log, the stores its operations reach, and what holds of
  them: reads are replays, appends refine appends to an abstract log and can be retried, leases
  fence, continuations inherit, lineages are never corrupt, and listings are complete.
\<close>

section \<open>Reachable stores\<close>

inductive reachable_store :: "'x store_codec_scheme \<Rightarrow> 'c memory_store \<Rightarrow> bool" for cx where
  start: "reachable_store cx empty_store"
| reserve: "reachable_store cx st \<Longrightarrow>
    reserve_creation env st command_id sha run_id intent = Inr (r, st') \<Longrightarrow> reachable_store cx st'"
| create: "reachable_store cx st \<Longrightarrow>
    create_run cx env st request = Inr (c, st') \<Longrightarrow> reachable_store cx st'"
| acquire: "reachable_store cx st \<Longrightarrow>
    acquire_run cx env st run_id = Inr (a, st') \<Longrightarrow> reachable_store cx st'"
| appended: "reachable_store cx st \<Longrightarrow>
    append_event cx env st lease p = Inr (e, st') \<Longrightarrow> reachable_store cx st'"
| release: "reachable_store cx st \<Longrightarrow>
    release_run st lease = Inr st' \<Longrightarrow> reachable_store cx st'"

lemma empty_store_ok: "store_ok cx empty_store"
  by (simp add: store_ok_def empty_store_def runs_ok_def creations_ok_def lineage_ok_def)

lemma reachable_store_ok: "reachable_store cx st \<Longrightarrow> store_ok cx st"
proof (induction rule: reachable_store.induct)
  case (create st env request c st')
  have "creations_ok (mst_creations st')"
    using create_run_Inr [OF create.hyps(2)] create.IH
    by (simp add: store_ok_def clear_intent_keeps)
  with create_run_keeps [OF create.IH create.hyps(2)] show ?case by (simp add: store_ok_def)
qed (auto intro: empty_store_ok reserve_creation_keeps acquire_run_keeps append_event_keeps
       release_run_keeps)

section \<open>The durable log\<close>

definition logs_of :: "'c memory_store \<Rightarrow> string \<Rightarrow> stored_runtime_event list option" where
  "logs_of st run_id = map_option imr_events (map_of (mst_runs st) run_id)"

definition lease_of :: "'c memory_store \<Rightarrow> string \<Rightarrow> run_lease option" where
  "lease_of st run_id = Option.bind (map_of (mst_runs st) run_id) imr_lease"

interpretation memory_log: durable_log "store_ok cx" logs_of rle_run_id "append_event cx" for cx
proof (unfold_locales, goal_cases)
  case (1 st env lease p e st')
  then show ?case by (rule append_event_keeps)
next
  case (2 st lease env p)
  then show ?case by (simp add: logs_of_def append_event_def)
next
  case (3 st lease es e p env)
  then obtain run where run: "map_of (mst_runs st) (rle_run_id lease) = Some run" "e \<in> set (imr_events run)"
    by (auto simp: logs_of_def)
  then show ?case by (rule append_event_known [OF 3(1) _ _ 3(4)])
next
  case (4 st lease es p env e st')
  then obtain run where run: "map_of (mst_runs st) (rle_run_id lease) = Some run" "es = imr_events run"
    by (auto simp: logs_of_def)
  with append_event_new_iff [OF 4(1) run(1), of p env e st'] 4(3,4) show ?case
    by (auto simp: logs_of_def appended_event_def update_conv' fun_eq_iff)
qed

text \<open>
  C23. A retried append is harmless. After an append returned an event, appending under the same
  event id to the same run, with whatever lease, clock and owner, returns that very event and
  leaves the store as it is when the payload is the same, and is a conflict when it differs.
\<close>

theorem append_is_idempotent:
  assumes "reachable_store cx st" and "append_event cx env st lease p = Inr (e, st')"
    and "rle_run_id lease' = rle_run_id lease" and "pe_event_id p' = pe_event_id p"
  shows "append_event cx env' st' lease' p' =
    (if pe_event p' = pe_event p then Inr (e, st')
     else Inl (EventConflict (rle_run_id lease) (pe_event_id p)))"
  using memory_log.append_again [OF reachable_store_ok [OF assms(1)] assms(2-4)] .

section \<open>Refinement\<close>

text \<open>Appending to an abstract family of logs: the longer log must replay.\<close>

definition spec_append ::
  "'x store_codec_scheme \<Rightarrow> (string \<Rightarrow> stored_runtime_event list option) \<Rightarrow> string \<Rightarrow>
     stored_runtime_event \<Rightarrow> (string \<Rightarrow> stored_runtime_event list option) option" where
  "spec_append cx logs run_id e =
     (case logs run_id of
        None \<Rightarrow> None
      | Some es \<Rightarrow>
          if is_ok (reduce_events cx (es @ [e])) then Some (logs(run_id \<mapsto> es @ [e])) else None)"

text \<open>
  C4. The cached snapshot is an optimisation only. For a new event under the current lease, the
  in-memory append, which applies the event to the cached snapshot, does exactly what the
  abstract store does, which replays the whole log with the event at its end: it succeeds when
  that replay does, and the logs it leaves are the abstract ones.
\<close>

theorem append_refines_replay:
  assumes "reachable_store cx st" and "logs_of st (rle_run_id lease) = Some es"
    and "lease_of st (rle_run_id lease) = Some lease"
    and "pe_event_id p \<notin> se_event_id ` set es"
  shows "spec_append cx (logs_of st) (rle_run_id lease) (appended_event env lease es p) =
    (case append_event cx env st lease p of
       Inr (e, st') \<Rightarrow> Some (logs_of st')
     | Inl _ \<Rightarrow> None)"
proof -
  have ok: "store_ok cx st" by (rule reachable_store_ok [OF assms(1)])
  from assms(2,3) obtain run where run: "map_of (mst_runs st) (rle_run_id lease) = Some run"
    "es = imr_events run" "imr_lease run = Some lease"
    by (auto simp: logs_of_def lease_of_def)
  note append = append_event_new_iff [OF ok run(1), of p env, folded run(2), OF assms(4)]
  show ?thesis
  proof (cases "append_event cx env st lease p")
    case (Inl err)
    with append run(3) have "\<not> is_ok (reduce_events cx (es @ [appended_event env lease es p]))"
      by (auto simp: is_ok_iff)
    with Inl assms(2) show ?thesis by (simp add: spec_append_def)
  next
    case (Inr x)
    then obtain e st' where x: "append_event cx env st lease p = Inr (e, st')" by (cases x) auto
    with append have "is_ok (reduce_events cx (es @ [appended_event env lease es p]))"
      "e = appended_event env lease es p" by (auto simp: is_ok_iff)
    with memory_log.append_new [OF ok assms(2,4) x] x assms(2) show ?thesis
      by (simp add: spec_append_def)
  qed
qed

section \<open>Reads\<close>

text \<open>
  C25. Every read is a replay. In a reachable store a run is filed under the run id of its own
  request, its log replays to exactly the snapshot the store caches, so that loading it returns
  log and snapshot and never reports a divergence, and an event with an id occurs once.
\<close>

theorem load_is_replay:
  assumes "reachable_store cx st" and "map_of (mst_runs st) run_id = Some run"
  shows "load_run cx env st run_id =
      Inr (Some \<lparr>rp_snapshot = imr_snapshot run, rp_events = imr_events run\<rparr>) \<and>
    reduce_events cx (imr_events run) = Inr (imr_snapshot run) \<and>
    rq_run_id (sn_request (imr_snapshot run)) = Some run_id \<and>
    distinct (map se_event_id (imr_events run))"
proof -
  have "run_ok cx run_id run"
    using reachable_store_ok [OF assms(1)] assms(2) by (auto simp: store_ok_def intro: runs_ok_lookup)
  then show ?thesis
    using assms(2) replay_in_memory_run_ok [of cx run_id run env] run_ok_run_id [of cx run_id run]
    by (simp add: load_run_def run_ok_def)
qed

lemma filter_numbered:
  assumes "\<And>i. i < length es \<Longrightarrow> unat (se_sequence (es ! i)) = Suc i"
  shows "filter (\<lambda>e. se_sequence e > q) es = drop (unat q) es"
  using assms
proof (induction es rule: rev_induct)
  case (snoc e es)
  have "unat (se_sequence (es ! i)) = Suc i" if "i < length es" for i
    using snoc.prems [of i] that by (simp add: nth_append)
  moreover have "unat (se_sequence e) = Suc (length es)"
    using snoc.prems [of "length es"] by simp
  ultimately show ?case using snoc.IH by (auto simp: word_less_nat_alt)
qed simp

text \<open>
  Following a log misses nothing. In a reachable store the events after sequence q of a run,
  with q the number of events a reader has, are exactly the rest of the log, as long as the log
  is shorter than the largest 64-bit number.
\<close>

theorem events_after_is_rest:
  assumes "reachable_store cx st" and "logs_of st run_id = Some es" and "length es < 2 ^ 64 - 1"
  shows "events_after st run_id q = drop (unat q) es"
proof -
  from assms(2) obtain run where run: "map_of (mst_runs st) run_id = Some run" "es = imr_events run"
    by (auto simp: logs_of_def)
  with reachable_store_ok [OF assms(1)] have "reduce_events cx es = Inr (imr_snapshot run)"
    by (auto simp: store_ok_def run_ok_def dest: runs_ok_lookup)
  from run_log.replay_numbered [OF this] assms(3)
  have "unat (se_sequence (es ! i)) = Suc i" if "i < length es" for i
    using that by simp
  from filter_numbered [OF this, of q] run show ?thesis by (simp add: events_after_def)
qed

section \<open>Leases\<close>


section \<open>Continuations\<close>

text \<open>
  C26. A continuation inherits its source. When creating a run that continues another succeeds,
  the source is in the store, is a terminal root run in the same workspace and does not require
  recovery; and the new run starts from it: its transcript is the source's under the new system
  prompt followed by the new objective, its workspace state, context projection, last
  completion rejection and last verification failure are the source's.
\<close>

theorem continuation_inherits:
  assumes "reachable_store cx st" and "create_run cx env st request = Inr (c, st')"
    and "rq_continued_from_run_id request = Some source"
  shows "\<exists>run outcome contract. map_of (mst_runs st) source = Some run \<and>
    sn_terminal (imr_snapshot run) = Some outcome \<and>
    \<not> is_recovery_required (ao_terminal outcome) \<and>
    is_root_request (sn_request (imr_snapshot run)) \<and>
    env_workspace (rq_environment request) =
      env_workspace (rq_environment (sn_request (imr_snapshot run))) \<and>
    rq_task_contract request = Some contract \<and>
    sn_transcript (rp_snapshot (crn_replay c)) =
      with_system_prompt (rq_system_prompt request) (sn_transcript (imr_snapshot run)) @
        [UserEntry (model_message (tc_definition contract))] \<and>
    sn_workspace_state (rp_snapshot (crn_replay c)) = sn_workspace_state (imr_snapshot run) \<and>
    sn_context_projection (rp_snapshot (crn_replay c)) = sn_context_projection (imr_snapshot run) \<and>
    sn_last_completion_rejection (rp_snapshot (crn_replay c)) =
      sn_last_completion_rejection (imr_snapshot run) \<and>
    sn_last_host_verification_failure (rp_snapshot (crn_replay c)) =
      sn_last_host_verification_failure (imr_snapshot run)"
proof -
  define run_id where "run_id = run_id_or_fresh env request"
  define request' where "request' = request\<lparr>rq_run_id := Some run_id\<rparr>"
  note c = create_run_Inr [OF assms(2), folded run_id_def, folded request'_def]
  have same: "rq_continued_from_run_id request' = Some source"
    "rq_environment request' = rq_environment request" "rq_task_contract request' = rq_task_contract request"
    "rq_system_prompt request' = rq_system_prompt request"
    using assms(3) by (simp_all add: request'_def)
  from c same(1) obtain run r where run: "map_of (mst_runs st) source = Some run"
    "replay_in_memory_run cx env run = Inr r"
    "validate_continuation_request env (rp_snapshot r) request' = Inr ()"
    by (auto simp: validate_source_def result_simps)
  have "run_ok cx source run"
    using reachable_store_ok [OF assms(1)] run(1) by (auto simp: store_ok_def intro: runs_ok_lookup)
  from replay_in_memory_run_ok [OF this, of env] run(2) have r: "rp_snapshot r = imr_snapshot run"
    by auto
  from c obtain contract where contract: "rq_task_contract request' = Some contract"
    by (auto simp: validate_created_request_Inr)
  have "starts_with_system (with_system_prompt prompt transcript)" for prompt transcript
    by (simp add: with_system_prompt_def split: list.split transcript_entry.split)
  then show ?thesis
    using c run(1) run(3) [unfolded r validate_continuation_request_Inr] contract same
    by (auto simp: initial_snapshot_def initial_transcript_def initial_workspace_def
          inherited_facts_of_def)
qed

lemma key_not_in_take:
  assumes "distinct (map fst al)" and "i < length al"
  shows "fst (al ! i) \<notin> fst ` set (take i al)"
proof -
  have "distinct (take i (map fst al) @ drop i (map fst al))" using assms(1) by simp
  moreover have "fst (al ! i) \<in> set (drop i (map fst al))"
    using assms(2) by (simp add: Cons_nth_drop_Suc [symmetric])
  ultimately show ?thesis
    unfolding distinct_append by (auto simp: take_map)
qed

lemma lineage_loop_succeeds:
  assumes "runs_ok cx runs" and "ancestor_ok (take i runs) workspace k"
    and "set visited \<inter> fst ` set (take i runs) = {}"
  shows "lineage_loop cx env runs source workspace visited (Some k) = Inr ()"
  using assms(2,3)
proof (induction i arbitrary: k visited rule: less_induct)
  case (less i)
  have d: "distinct (map fst runs)" using assms(1) by (simp add: runs_ok_def)
  from less.prems(1) obtain run where run: "map_of (take i runs) k = Some run"
    "is_root_request (sn_request (imr_snapshot run))"
    "env_workspace (rq_environment (sn_request (imr_snapshot run))) = workspace"
    "sn_terminal (imr_snapshot run) \<noteq> None"
    by (auto simp: ancestor_ok_def split: option.splits)
  have "distinct (map fst (take i runs))" using d by (simp add: take_map [symmetric])
  from map_of_index [OF this run(1)] obtain j where
    j: "j < length (take i runs)" "take i runs ! j = (k, run)" .
  then have j': "j < i" "j < length runs" "runs ! j = (k, run)" by simp_all
  then have lookup: "map_of runs k = Some run"
    using d by (metis map_of_eq_Some_iff nth_mem)
  have "k \<notin> set visited" using less.prems(2) run(1) by (force dest: map_of_SomeD)
  have replay: "replay_in_memory_run cx env run
      = Inr \<lparr>rp_snapshot = imr_snapshot run, rp_events = imr_events run\<rparr>"
    using replay_in_memory_run_ok runs_ok_lookup [OF assms(1) lookup] .
  have "lineage_loop cx env runs source workspace (k # visited)
      (rq_continued_from_run_id (sn_request (imr_snapshot run))) = Inr ()"
  proof (cases "rq_continued_from_run_id (sn_request (imr_snapshot run))")
    case (Some k')
    have "ancestor_ok (take j runs) workspace k'"
      using assms(1) j' Some run(3) by (auto simp: runs_ok_def lineage_ok_def Let_def)
    moreover have "set (k # visited) \<inter> fst ` set (take j runs) = {}"
    proof -
      have "fst ` set (take j runs) \<subseteq> fst ` set (take i runs)"
        using j'(1) by (simp add: image_mono set_take_subset_set_take)
      moreover have "k \<notin> fst ` set (take j runs)"
        using key_not_in_take [OF d j'(2)] j'(3) by simp
      ultimately show ?thesis using less.prems(2) by auto
    qed
    ultimately show ?thesis unfolding Some by (rule less.IH [OF j'(1)])
  qed simp
  with lookup replay run(2-4) \<open>k \<notin> set visited\<close> show ?case by simp
qed

text \<open>
  C27. A lineage is never corrupt. In a reachable store, whenever a continuation request is valid
  against the snapshot of its source, the walk over the sources of the source ends and finds
  every one of them in the store, terminal, root, in the same workspace and visited once: the
  store accepts the source.
\<close>

theorem lineage_is_never_corrupt:
  assumes "reachable_store cx st" and "rq_continued_from_run_id request = Some source"
    and "map_of (mst_runs st) source = Some run"
    and "validate_continuation_request env (imr_snapshot run) request = Inr ()"
  shows "validate_source cx env (mst_runs st) request = Inr ()"
proof -
  have ok: "runs_ok cx (mst_runs st)" using reachable_store_ok [OF assms(1)] by (simp add: store_ok_def)
  note run_ok = runs_ok_lookup [OF ok assms(3)]
  let ?workspace = "env_workspace (rq_environment request)"
  have source: "run_id_or_fresh env (sn_request (imr_snapshot run)) = source"
    using run_ok_run_id [OF run_ok] by (simp add: run_id_or_fresh_def)
  have same: "env_workspace (rq_environment (sn_request (imr_snapshot run))) = ?workspace"
    using assms(4) by (simp add: validate_continuation_request_Inr)
  have d: "distinct (map fst (mst_runs st))" using ok by (simp add: runs_ok_def)
  from map_of_index [OF d assms(3)] obtain i where i: "i < length (mst_runs st)"
    "mst_runs st ! i = (source, run)" .
  have "lineage_loop cx env (mst_runs st) source ?workspace [source]
      (rq_continued_from_run_id (sn_request (imr_snapshot run))) = Inr ()"
  proof (cases "rq_continued_from_run_id (sn_request (imr_snapshot run))")
    case (Some k)
    have "ancestor_ok (take i (mst_runs st)) ?workspace k"
      using ok i Some same by (auto simp: runs_ok_def lineage_ok_def Let_def)
    moreover have "set [source] \<inter> fst ` set (take i (mst_runs st)) = {}"
      using key_not_in_take [OF d i(1)] i(2) by simp
    ultimately show ?thesis unfolding Some by (rule lineage_loop_succeeds [OF ok])
  qed simp
  then show ?thesis
    using assms(2-4) source replay_in_memory_run_ok [OF run_ok, of env]
    by (simp add: validate_source_def validate_in_memory_continuation_lineage_def Let_def)
qed

section \<open>Listings\<close>

definition lists_root :: "string \<Rightarrow> in_memory_run \<Rightarrow> bool" where
  "lists_root workspace run \<longleftrightarrow>
     rq_parent_run_id (sn_request (imr_snapshot run)) = None \<and>
     env_workspace (rq_environment (sn_request (imr_snapshot run))) = workspace"

definition record_of :: "string \<Rightarrow> in_memory_run \<Rightarrow> root_run_record" where
  "record_of run_id run =
     \<lparr>rrr_run_id = run_id,
      rrr_continued_from_run_id = rq_continued_from_run_id (sn_request (imr_snapshot run)),
      rrr_workspace = env_workspace (rq_environment (sn_request (imr_snapshot run))),
      rrr_last_sequence = sn_last_sequence (imr_snapshot run),
      rrr_terminal = (sn_terminal (imr_snapshot run) \<noteq> None),
      rrr_created_at_unix_ms = se_occurred_at_unix_ms (hd (imr_events run)),
      rrr_updated_at_unix_ms = se_occurred_at_unix_ms (last (imr_events run))\<rparr>"

lemma root_records_ok:
  assumes "\<forall>(k, run) \<in> set runs. run_ok cx k run"
  shows "root_records cx env workspace runs =
    Inr (map (\<lambda>(k, run). record_of k run) (filter (\<lambda>(_, run). lists_root workspace run) runs))"
  using assms
proof (induction runs)
  case (Cons a rest)
  obtain k run where a: "a = (k, run)" by (cases a)
  with Cons.prems have ok: "run_ok cx k run" by simp
  obtain e es where "imr_events run = e # es"
    using run_ok_events [OF ok] by (cases "imr_events run") auto
  then have "root_record k run (imr_snapshot run) = Inr (record_of k run)"
    by (simp add: root_record_def record_of_def)
  with Cons a replay_in_memory_run_ok [OF ok, of env] show ?case
    by (simp add: Let_def lists_root_def)
qed simp

lemma sort_descending_sorted: "sorted_wrt (\<lambda>a b. key b \<le> key a) (sort_descending key xs)"
proof -
  have "sorted_wrt (\<lambda>a b. key a \<le> key b) (sort_key key (rev xs))"
    using sorted_sort_key [of key "rev xs"] by (simp add: sorted_wrt_map)
  then show ?thesis by (simp add: sort_descending_def sorted_wrt_rev)
qed

lemma mset_sort_descending [simp]: "mset (sort_descending key xs) = mset xs"
  by (simp add: sort_descending_def)

lemma set_sort_descending [simp]: "set (sort_descending key xs) = set xs"
  by (simp add: sort_descending_def)

lemma sort_descending_distinct: "distinct (map key (sort_descending key xs)) \<longleftrightarrow> distinct (map key xs)"
  by (simp add: sort_descending_def rev_map [symmetric] distinct_map)

text \<open>With an injective key the result depends on the elements only.\<close>

lemma sort_descending_cong:
  assumes "mset xs = mset ys" and "inj_on key (set xs)"
  shows "sort_descending key xs = sort_descending key ys"
proof -
  have "sort_key key (rev xs) = sort_key key (rev ys)"
    using assms by (intro sort_key_inj_key_eq) auto
  then show ?thesis by (simp add: sort_descending_def)
qed

definition recency :: "root_run_record \<Rightarrow> u64 \<times> string" where
  "recency r = (rrr_updated_at_unix_ms r, rrr_run_id r)"

lemma list_root_runs_ok:
  assumes "\<forall>(k, run) \<in> set (mst_runs st). run_ok cx k run"
  shows "list_root_runs cx env st workspace limit = Inr (take (unat limit) (sort_descending recency
    (map (\<lambda>(k, run). record_of k run)
       (filter (\<lambda>(_, run). lists_root workspace run) (mst_runs st)))))"
  using root_records_ok [OF assms] by (simp add: list_root_runs_def recency_def [abs_def])

lemma record_ids_distinct:
  assumes "distinct (map fst runs)"
  shows "distinct (map rrr_run_id (map (\<lambda>(k, run). record_of k run) (filter P runs)))"
proof -
  have ids: "map rrr_run_id (map (\<lambda>(k, run). record_of k run) xs) = map fst xs" for xs
    by (induction xs) (auto simp: record_of_def)
  show ?thesis unfolding ids by (rule distinct_map_filter [OF assms])
qed

lemma recency_distinct:
  assumes "distinct (map fst runs)"
  shows "distinct (map recency (map (\<lambda>(k, run). record_of k run) (filter P runs)))"
proof -
  have "map snd (map recency xs) = map rrr_run_id xs" for xs
    by (induction xs) (auto simp: recency_def)
  from this [symmetric] record_ids_distinct [OF assms, of P]
  have "distinct (map snd (map recency (map (\<lambda>(k, run). record_of k run) (filter P runs))))"
    by (simp only:)
  then show ?thesis by (rule distinct_map [THEN iffD1, THEN conjunct1])
qed

text \<open>
  C28. The listing of root runs is complete and ordered. In a reachable store the listing
  succeeds and is a prefix, of at most the requested length, of one list that holds a record for
  exactly the root runs of the workspace, each once and as its replay describes it, with the most
  recently updated first and ties broken by the run id; and it does not depend on the order in
  which the store enumerates its runs.
\<close>

theorem root_listing_complete:
  assumes "reachable_store cx st" and "mset (mst_runs st') = mset (mst_runs st)"
  shows "\<exists>all. list_root_runs cx env st workspace limit = Inr (take (unat limit) all) \<and>
    list_root_runs cx env st' workspace limit = Inr (take (unat limit) all) \<and>
    sorted_wrt (\<lambda>a b. recency a > recency b) all \<and>
    set all = {record_of run_id run | run_id run.
      map_of (mst_runs st) run_id = Some run \<and> lists_root workspace run}"
proof -
  let ?records = "\<lambda>runs. map (\<lambda>(k, run). record_of k run)
    (filter (\<lambda>(_, run). lists_root workspace run) runs)"
  define all where "all = sort_descending recency (?records (mst_runs st))"
  have ok: "\<forall>(k, run) \<in> set (mst_runs st). run_ok cx k run" and d: "distinct (map fst (mst_runs st))"
    using reachable_store_ok [OF assms(1)] by (auto simp: store_ok_def runs_ok_def)
  have "set (mst_runs st') = set (mst_runs st)" using assms(2) by (metis set_mset_mset)
  with ok have ok': "\<forall>(k, run) \<in> set (mst_runs st'). run_ok cx k run" by simp
  have recent: "distinct (map recency (?records (mst_runs st)))" by (rule recency_distinct [OF d])
  have "mset (?records (mst_runs st)) = mset (?records (mst_runs st'))" using assms(2) by simp
  with recent have "sort_descending recency (?records (mst_runs st')) = all"
    unfolding all_def
    by (intro sort_descending_cong [symmetric]) (assumption, rule distinct_map [THEN iffD1, THEN conjunct2])
  then have "list_root_runs cx env st' workspace limit = Inr (take (unat limit) all)"
    by (simp only: list_root_runs_ok [OF ok'])
  moreover have "distinct (map recency all)"
    using recent by (simp add: all_def sort_descending_distinct)
  then have "sorted_wrt (\<lambda>a b. recency a > recency b) all"
    using sort_descending_sorted [of recency "?records (mst_runs st)"]
    by (auto simp: all_def [symmetric] sorted_wrt_iff_nth_less distinct_conv_nth order.strict_iff_order)
  moreover have "set all = {record_of run_id run | run_id run.
      map_of (mst_runs st) run_id = Some run \<and> lists_root workspace run}"
    using d by (auto simp: all_def)
  ultimately show ?thesis using list_root_runs_ok [OF ok, of env workspace limit] all_def by blast
qed

section \<open>Reservations\<close>

lemma clear_intent_lookup:
  assumes "distinct (map (\<lambda>(_, r). crs_run_id r) cs)" and "map_of cs k = Some r"
    and "crs_run_id r = run_id"
  shows "map_of (clear_intent run_id cs) k = Some (r\<lparr>crs_intent := None\<rparr>)"
  using assms
proof (induction run_id cs rule: clear_intent.induct)
  case (2 run_id k' r' rest)
  show ?case
  proof (cases "k' = k")
    case True
    with 2 show ?thesis by simp
  next
    case False
    with "2.prems" have "map_of rest k = Some r" by simp
    then have "crs_run_id r \<in> (\<lambda>(_, r). crs_run_id r) ` set rest" by (force dest: map_of_SomeD)
    with "2.prems" have "crs_run_id r' \<noteq> run_id" by auto
    with False 2 show ?thesis by simp
  qed
qed simp

lemma reserve_creation_recorded:
  assumes "reserve_creation env st command_id sha run_id intent = Inr (r, st')"
  shows "creation st' command_id = Some (rcr_reservation r) \<and>
    crs_command_sha256 (rcr_reservation r) = sha"
proof (cases "map_of (mst_creations st) command_id")
  case None
  from reserve_creation_new [OF None assms] None show ?thesis by (simp add: creation_def map_add_def)
next
  case (Some existing)
  with assms show ?thesis by (auto simp: reserve_creation_def creation_def split: if_splits)
qed

text \<open>
  C29. A creation is reserved once. After a reservation for a command succeeded, it is found
  under the command id; reserving again with the same digest returns the same reservation,
  whatever run id and intent are proposed, and leaves the store as it is; another digest is a
  conflict; and creating the reserved run clears its intent and nothing else of it.
\<close>

theorem reservation_is_idempotent:
  assumes "reachable_store cx st"
    and "reserve_creation env st command_id sha run_id intent = Inr (r, st')"
  shows "creation st' command_id = Some (rcr_reservation r) \<and>
    reserve_creation env' st' command_id sha' run_id' intent' =
      (if sha' = sha then Inr (\<lparr>rcr_reservation = rcr_reservation r, rcr_newly_reserved = False\<rparr>, st')
       else Inl (CreationConflict command_id)) \<and>
    (create_run cx env'' st' request = Inr (c, st'') \<longrightarrow>
     rle_run_id (crn_lease c) = crs_run_id (rcr_reservation r) \<longrightarrow>
     creation st'' command_id = Some ((rcr_reservation r)\<lparr>crs_intent := None\<rparr>))"
proof -
  note recorded = reserve_creation_recorded [OF assms(2)]
  have "store_ok cx st'" by (rule reachable_store_ok [OF reachable_store.reserve [OF assms]])
  then have d: "distinct (map (\<lambda>(_, r). crs_run_id r) (mst_creations st'))"
    by (simp add: store_ok_def creations_ok_def)
  have "creation st'' command_id = Some ((rcr_reservation r)\<lparr>crs_intent := None\<rparr>)"
    if create: "create_run cx env'' st' request = Inr (c, st'')"
      and id: "rle_run_id (crn_lease c) = crs_run_id (rcr_reservation r)"
    using create_run_Inr [OF create] recorded id
      clear_intent_lookup [OF d, of command_id "rcr_reservation r" "run_id_or_fresh env'' request"]
    by (simp add: creation_def new_lease_def)
  with recorded show ?thesis by (auto simp: creation_def reserve_creation_def)
qed

section \<open>A store evaluated\<close>

text \<open>A reserved root run is created, cancelled, and continued by a second one.\<close>

definition sx_env :: store_env where
  "sx_env = \<lparr>sev_now = 5, sev_fresh_run_id = ''f'', sev_owner_id = ''o'', sev_owner_pid = 1\<rparr>"

definition sx_intent :: "unit creation_intent" where
  "sx_intent = \<lparr>cit_kind = CreationStart, cit_workspace = [], cit_source_run_id = None, cit_command = ()\<rparr>"

definition sx_lease :: run_lease where "sx_lease = new_lease sx_env ''r'' 1"

definition sx_observed :: pending_runtime_event where
  "sx_observed = \<lparr>pe_event_id = ''e2'', pe_event = WorkspaceObserved (ex_workspace 1 ''r1'')\<rparr>"

definition sx_cancelled :: pending_runtime_event where
  "sx_cancelled = pending_terminal
     (ex_outcome\<lparr>ao_terminal := TerminalCancelled\<rparr>)"

definition sx_snapshot :: "unit memory_store \<Rightarrow> run_snapshot" where
  "sx_snapshot st = (case map_of (mst_runs st) ''r'' of
     Some run \<Rightarrow> imr_snapshot run | None \<Rightarrow> initial_snapshot (ex_request ''r''))"

definition sx_continuation :: "unit memory_store \<Rightarrow> run_request" where
  "sx_continuation st =
     (ex_request ''q'')\<lparr>rq_continued_from_run_id := Some ''r'',
        rq_transcript := with_system_prompt [] (sn_transcript (sx_snapshot st)),
        rq_inherited_facts := Some (inherited_facts_of (sx_snapshot st))\<rparr>"

definition sx_result :: "run_store_error + ('a \<times> unit memory_store) \<Rightarrow> unit memory_store" where
  "sx_result m = (case m of Inr (_, st) \<Rightarrow> st | Inl _ \<Rightarrow> empty_store)"

definition sx_reserved :: "unit memory_store" where
  "sx_reserved = sx_result (reserve_creation sx_env empty_store ''c'' ''d'' ''r'' sx_intent)"

definition sx_created :: "unit memory_store" where
  "sx_created = sx_result (create_run ex_store_codec sx_env sx_reserved (ex_request ''r''))"

definition sx_running :: "unit memory_store" where
  "sx_running = sx_result (append_event ex_store_codec sx_env sx_created sx_lease sx_observed)"

definition sx_ended :: "unit memory_store" where
  "sx_ended = sx_result (append_event ex_store_codec sx_env sx_running sx_lease sx_cancelled)"

definition sx_continued :: "unit memory_store" where
  "sx_continued = sx_result (create_run ex_store_codec sx_env sx_ended (sx_continuation sx_ended))"

lemma sx_evaluates:
  "case reserve_creation sx_env empty_store ''c'' ''d'' ''r'' sx_intent of Inl _ \<Rightarrow> False
   | Inr (_, st) \<Rightarrow>
     (case create_run ex_store_codec sx_env st (ex_request ''r'') of Inl _ \<Rightarrow> False
      | Inr (_, st) \<Rightarrow>
        (case append_event ex_store_codec sx_env st sx_lease sx_observed of Inl _ \<Rightarrow> False
         | Inr (_, st) \<Rightarrow>
           (case append_event ex_store_codec sx_env st sx_lease sx_cancelled of Inl _ \<Rightarrow> False
            | Inr (_, st) \<Rightarrow>
              is_ok (create_run ex_store_codec sx_env st (sx_continuation st)))))"
  by code_simp

lemma sx_result_iff:
  "(case m of Inl _ \<Rightarrow> False | Inr (_, st) \<Rightarrow> P st) \<longleftrightarrow>
     (\<exists>x. m = Inr (x, sx_result m)) \<and> P (sx_result m)"
  "is_ok m \<longleftrightarrow> (\<exists>x. m = Inr (x, sx_result m))"
  by (auto simp: sx_result_def is_ok_def split: sum.splits)

lemma sx_steps:
  "\<exists>r. reserve_creation sx_env empty_store ''c'' ''d'' ''r'' sx_intent = Inr (r, sx_reserved)"
  "\<exists>c. create_run ex_store_codec sx_env sx_reserved (ex_request ''r'') = Inr (c, sx_created)"
  "\<exists>e. append_event ex_store_codec sx_env sx_created sx_lease sx_observed = Inr (e, sx_running)"
  "\<exists>e. append_event ex_store_codec sx_env sx_running sx_lease sx_cancelled = Inr (e, sx_ended)"
  "\<exists>c. create_run ex_store_codec sx_env sx_ended (sx_continuation sx_ended) = Inr (c, sx_continued)"
  using sx_evaluates
  unfolding sx_result_iff sx_reserved_def [symmetric] sx_created_def [symmetric]
    sx_running_def [symmetric] sx_ended_def [symmetric] sx_continued_def [symmetric]
  by blast+

lemma sx_reachable:
  "reachable_store ex_store_codec sx_reserved" "reachable_store ex_store_codec sx_created"
  "reachable_store ex_store_codec sx_running" "reachable_store ex_store_codec sx_ended"
  "reachable_store ex_store_codec sx_continued"
proof -
  show 1: "reachable_store ex_store_codec sx_reserved"
    using sx_steps(1) reachable_store.reserve [OF reachable_store.start] by blast
  show 2: "reachable_store ex_store_codec sx_created"
    using sx_steps(2) reachable_store.create [OF 1] by blast
  show 3: "reachable_store ex_store_codec sx_running"
    using sx_steps(3) reachable_store.appended [OF 2] by blast
  show 4: "reachable_store ex_store_codec sx_ended"
    using sx_steps(4) reachable_store.appended [OF 3] by blast
  show "reachable_store ex_store_codec sx_continued"
    using sx_steps(5) reachable_store.create [OF 4] by blast
qed

text \<open>The created run, as the store holds it.\<close>

definition sx_run :: in_memory_run where
  "sx_run = \<lparr>imr_events = [created_event sx_env ''r'' (ex_request ''r'')],
     imr_snapshot = initial_snapshot (ex_request ''r''), imr_lease = Some sx_lease,
     imr_next_epoch = 2\<rparr>"

lemma sx_run_id: "run_id_or_fresh sx_env (ex_request k) = k" "(ex_request k)\<lparr>rq_run_id := Some k\<rparr> = ex_request k"
  by (simp_all add: run_id_or_fresh_def ex_request_def run_request_new_def ex_contract_def)

lemma sx_created_runs: "mst_runs sx_created = [(''r'', sx_run)]"
proof -
  have reserved: "mst_runs st = []"
    if "reserve_creation sx_env empty_store ''c'' ''d'' ''r'' sx_intent = Inr (r, st)" for r st
    using reserve_creation_new [OF _ that] by (simp add: empty_store_def)
  have created: "mst_runs st' = mst_runs st @ [(''r'', sx_run)]"
    if "create_run ex_store_codec sx_env st (ex_request ''r'') = Inr (c, st')" for c st st'
    using create_run_Inr [OF that] by (simp add: sx_run_id sx_run_def sx_lease_def)
  from sx_steps(1,2) show ?thesis by (auto dest!: reserved created)
qed

theorem append_is_idempotent_witness:
  "\<exists>e. append_event ex_store_codec sx_env sx_created sx_lease sx_observed = Inr (e, sx_running) \<and>
     append_event ex_store_codec sx_env sx_running sx_lease sx_observed = Inr (e, sx_running)"
proof -
  from sx_steps(3) obtain e where
    e: "append_event ex_store_codec sx_env sx_created sx_lease sx_observed = Inr (e, sx_running)" ..
  from append_is_idempotent [OF sx_reachable(2) e refl refl] e show ?thesis by simp
qed

theorem append_refines_replay_witness:
  "\<exists>es. spec_append ex_store_codec (logs_of sx_created) ''r'' (appended_event sx_env sx_lease es sx_observed)
     = Some (logs_of sx_running)"
proof -
  have "logs_of sx_created (rle_run_id sx_lease) = Some (imr_events sx_run)"
    "lease_of sx_created (rle_run_id sx_lease) = Some sx_lease"
    "pe_event_id sx_observed \<notin> se_event_id ` set (imr_events sx_run)"
    by (simp_all add: logs_of_def lease_of_def sx_created_runs sx_lease_def new_lease_def sx_run_def
          sx_observed_def created_event_def)
  from append_refines_replay [OF sx_reachable(2) this, of sx_env] sx_steps(3) show ?thesis
    by (auto simp: sx_lease_def new_lease_def)
qed

theorem load_is_replay_witness:
  "load_run ex_store_codec sx_env sx_created ''r'' =
     Inr (Some \<lparr>rp_snapshot = imr_snapshot sx_run, rp_events = imr_events sx_run\<rparr>)"
  using load_is_replay [OF sx_reachable(2), of "''r''" sx_run sx_env] by (simp add: sx_created_runs)

theorem events_after_is_rest_witness: "events_after sx_created ''r'' 1 = []"
proof -
  have "logs_of sx_created ''r'' = Some (imr_events sx_run)"
    "length (imr_events sx_run) < 2 ^ 64 - 1"
    by (simp_all add: logs_of_def sx_created_runs sx_run_def)
  from events_after_is_rest [OF sx_reachable(2) this, of 1] show ?thesis by (simp add: sx_run_def)
qed


lemma sx_continuation_sel:
  "rq_run_id (sx_continuation st) = Some ''q''"
  "rq_continued_from_run_id (sx_continuation st) = Some ''r''"
  "(sx_continuation st)\<lparr>rq_run_id := Some ''q''\<rparr> = sx_continuation st"
  by (simp_all add: sx_continuation_def ex_request_def run_request_new_def ex_contract_def)

theorem continuation_inherits_witness:
  "\<exists>c run. create_run ex_store_codec sx_env sx_ended (sx_continuation sx_ended) = Inr (c, sx_continued) \<and>
     map_of (mst_runs sx_ended) ''r'' = Some run \<and>
     sn_workspace_state (rp_snapshot (crn_replay c)) = sn_workspace_state (imr_snapshot run)"
proof -
  from sx_steps(5) obtain c where
    c: "create_run ex_store_codec sx_env sx_ended (sx_continuation sx_ended) = Inr (c, sx_continued)" ..
  from continuation_inherits [OF sx_reachable(4) c sx_continuation_sel(2)] c show ?thesis by blast
qed

theorem lineage_is_never_corrupt_witness:
  "validate_source ex_store_codec sx_env (mst_runs sx_ended) (sx_continuation sx_ended) = Inr ()"
proof -
  from sx_steps(5) obtain c where
    c: "create_run ex_store_codec sx_env sx_ended (sx_continuation sx_ended) = Inr (c, sx_continued)" ..
  from create_run_Inr [OF c] obtain run r where run: "map_of (mst_runs sx_ended) ''r'' = Some run"
    "replay_in_memory_run ex_store_codec sx_env run = Inr r"
    "validate_continuation_request sx_env (rp_snapshot r) (sx_continuation sx_ended) = Inr ()"
    by (auto simp: validate_source_def result_simps run_id_or_fresh_def sx_continuation_sel)
  have "run_ok ex_store_codec ''r'' run"
    using reachable_store_ok [OF sx_reachable(4)] run(1)
    by (auto simp: store_ok_def runs_ok_def dest: map_of_SomeD)
  from replay_in_memory_run_ok [OF this, of sx_env] run(2)
  have "rp_snapshot r = imr_snapshot run" by simp
  with lineage_is_never_corrupt [OF sx_reachable(4) sx_continuation_sel(2) run(1)] run(3)
  show ?thesis by simp
qed

theorem root_listing_complete_witness:
  "\<exists>all. list_root_runs ex_store_codec sx_env sx_created [] 5 = Inr (take 5 all) \<and>
     record_of ''r'' sx_run \<in> set all"
proof -
  from root_listing_complete [OF sx_reachable(2) refl, of sx_env "[]" 5] obtain all where
    "list_root_runs ex_store_codec sx_env sx_created [] 5 = Inr (take 5 all)"
    "set all = {record_of run_id run | run_id run.
       map_of (mst_runs sx_created) run_id = Some run \<and> lists_root [] run}"
    by auto
  then show ?thesis
    by (intro exI [of _ all])
       (auto simp: sx_created_runs lists_root_def sx_run_def ex_request_def run_request_new_def
          run_environment_default_def)
qed

theorem reservation_is_idempotent_witness:
  "\<exists>r. reserve_creation sx_env empty_store ''c'' ''d'' ''r'' sx_intent = Inr (r, sx_reserved) \<and>
     creation sx_reserved ''c'' = Some (rcr_reservation r) \<and>
     reserve_creation sx_env sx_reserved ''c'' ''d'' ''z'' sx_intent =
       Inr (\<lparr>rcr_reservation = rcr_reservation r, rcr_newly_reserved = False\<rparr>, sx_reserved)"
proof -
  from sx_steps(1) obtain r where
    r: "reserve_creation sx_env empty_store ''c'' ''d'' ''r'' sx_intent = Inr (r, sx_reserved)" ..
  have "reachable_store ex_store_codec empty_store" by (rule reachable_store.start)
  from reservation_is_idempotent [OF this r, of sx_env "''d''" "''z''" sx_intent] r show ?thesis by simp
qed

end
