(* ===== verification/Exec_Policy.thy ===== *)
theory Exec_Policy
  imports Text
begin

text \<open>
  The shell policy matcher of crates/execpolicy/src/lib.rs: the rule groups of execpolicy.toml,
  the scanner that cuts a command into segments, the test for command substitution, the pattern
  matchers and \<^verbatim>\<open>evaluate\<close>.

  The scanners read bytes where the source reads characters: every character they distinguish
  is ASCII, and all others are copied. \<^verbatim>\<open>shlex::split\<close> is code of another package; it is the
  argument \<open>shlex\<close>. A \<^verbatim>\<open>BTreeMap\<close> is its association list in key order. Reading the policy
  file is not modelled.
\<close>

section \<open>Policies\<close>

record exec_policy_rule_set =
  rs_allow :: "string list"
  rs_deny :: "string list"

record exec_policy =
  pol_rules :: "(string \<times> exec_policy_rule_set) list"

datatype exec_policy_disposition = PolicyAllow | PolicyDeny

record exec_policy_match =
  pm_disposition :: exec_policy_disposition
  pm_group :: string
  pm_pattern :: string

definition rule_label :: "exec_policy_match \<Rightarrow> string" where
  "rule_label m =
     pm_group m @ '':'' @ (case pm_disposition m of PolicyAllow \<Rightarrow> ''allow'' | PolicyDeny \<Rightarrow> ''deny'')
       @ '':'' @ pm_pattern m"

section \<open>Scanning a command\<close>

definition normalize_command :: "(string \<Rightarrow> string list option) \<Rightarrow> string \<Rightarrow> string" where
  "normalize_command shlex command =
     (case shlex command of
        None \<Rightarrow> join '' '' (split_whitespace command)
      | Some tokens \<Rightarrow> join '' '' tokens)"

datatype quote_state = Unquoted | SingleQuoted | DoubleQuoted

definition push_segment ::
  "(string \<Rightarrow> string list option) \<Rightarrow> string \<Rightarrow> string list \<Rightarrow> string list" where
  "push_segment shlex current rest =
     (let normalized = normalize_command shlex current
      in if normalized = [] then rest else normalized # rest)"

text \<open>\<^verbatim>\<open>if chars.peek() == Some(&c) { chars.next(); }\<close>\<close>

definition skip_char :: "char \<Rightarrow> string \<Rightarrow> string" where
  "skip_char c s = (case s of d # r \<Rightarrow> if d = c then r else s | [] \<Rightarrow> [])"

definition peek_is :: "char \<Rightarrow> string \<Rightarrow> bool" where
  "peek_is c s = (case s of d # _ \<Rightarrow> d = c | [] \<Rightarrow> False)"

lemma length_skip_char [termination_simp]: "length (skip_char c s) \<le> length s"
  by (auto simp: skip_char_def split: list.splits)

lemma length_skip_char_less [termination_simp]: "length (skip_char c s) < Suc (length s)"
  using length_skip_char [of c s] by simp

fun segments_from ::
  "(string \<Rightarrow> string list option) \<Rightarrow> quote_state \<Rightarrow> bool \<Rightarrow> string \<Rightarrow> string \<Rightarrow> string list" where
  "segments_from shlex q escaped current [] = push_segment shlex current []"
| "segments_from shlex q escaped current (c # s) =
     (if escaped then segments_from shlex q False (current @ [c]) s
      else
        (case q of
           SingleQuoted \<Rightarrow>
             segments_from shlex (if c = CHR 0x27 then Unquoted else SingleQuoted) False (current @ [c]) s
         | DoubleQuoted \<Rightarrow>
             if c = CHR 0x5C then segments_from shlex DoubleQuoted True (current @ [c]) s
             else if c = CHR 0x22 then segments_from shlex Unquoted False (current @ [c]) s
             else segments_from shlex DoubleQuoted False (current @ [c]) s
         | Unquoted \<Rightarrow>
             if c = CHR 0x27 then segments_from shlex SingleQuoted False (current @ [c]) s
             else if c = CHR 0x22 then segments_from shlex DoubleQuoted False (current @ [c]) s
             else if c = CHR 0x5C then segments_from shlex Unquoted True (current @ [c]) s
             else if c = CHR '';'' \<or> c = CHR 0x0A
             then push_segment shlex current (segments_from shlex Unquoted False [] s)
             else if c = CHR ''|''
             then push_segment shlex current (segments_from shlex Unquoted False [] (skip_char (CHR ''|'') s))
             else if c = CHR ''&'' \<and> peek_is (CHR ''&'') s
             then push_segment shlex current (segments_from shlex Unquoted False [] (skip_char (CHR ''&'') s))
             else if c = CHR ''&'' \<and> \<not> ends_with ''>'' current \<and> \<not> ends_with ''<'' current
                  \<and> \<not> peek_is (CHR ''>'') s
             then push_segment shlex current (segments_from shlex Unquoted False [] s)
             else segments_from shlex Unquoted False (current @ [c]) s))"

definition command_segments :: "(string \<Rightarrow> string list option) \<Rightarrow> string \<Rightarrow> string list" where
  "command_segments shlex command = segments_from shlex Unquoted False [] command"

fun dynamic_from :: "quote_state \<Rightarrow> bool \<Rightarrow> string \<Rightarrow> bool" where
  "dynamic_from q escaped [] = False"
| "dynamic_from q escaped (c # s) =
     (if escaped then dynamic_from q False s
      else
        (case q of
           SingleQuoted \<Rightarrow> dynamic_from (if c = CHR 0x27 then Unquoted else SingleQuoted) False s
         | DoubleQuoted \<Rightarrow>
             if c = CHR 0x5C then dynamic_from DoubleQuoted True s
             else if c = CHR 0x22 then dynamic_from Unquoted False s
             else if c = CHR 0x60 \<or> c \<in> set ''$<>'' \<and> peek_is (CHR ''('') s then True
             else dynamic_from DoubleQuoted False s
         | Unquoted \<Rightarrow>
             if c = CHR 0x5C then dynamic_from Unquoted True s
             else if c = CHR 0x27 then dynamic_from SingleQuoted False s
             else if c = CHR 0x22 then dynamic_from DoubleQuoted False s
             else if c = CHR 0x60 then True
             else if c \<in> set ''$<>'' \<and> peek_is (CHR ''('') s then True
             else dynamic_from Unquoted False s))"

definition has_dynamic_shell_composition :: "string \<Rightarrow> bool" where
  "has_dynamic_shell_composition command = dynamic_from Unquoted False command"

section \<open>Patterns\<close>

definition get_byte :: "string \<Rightarrow> nat \<Rightarrow> char option" where
  "get_byte s i = (if i < length s then Some (s ! i) else None)"

text \<open>
  The matching loop: \<open>None\<close> is \<^verbatim>\<open>return false\<close>, otherwise the pattern index at the end of the
  value. The order of the tests is the one of the source.
\<close>

function wildcard_loop ::
  "string \<Rightarrow> string \<Rightarrow> nat \<Rightarrow> nat \<Rightarrow> nat option \<Rightarrow> nat \<Rightarrow> nat option" where
  "wildcard_loop pattern val pattern_index value_index star_index star_value_index =
     (if value_index < length val then
        if get_byte pattern pattern_index = get_byte val value_index
        then wildcard_loop pattern val (pattern_index + 1) (value_index + 1) star_index star_value_index
        else if get_byte pattern pattern_index = Some (CHR ''*'')
        then wildcard_loop pattern val (pattern_index + 1) value_index (Some pattern_index) value_index
        else
          (case star_index of
             Some star \<Rightarrow>
               wildcard_loop pattern val (star + 1) (star_value_index + 1) star_index (star_value_index + 1)
           | None \<Rightarrow> None)
      else Some pattern_index)"
  by pat_completeness auto

termination
proof (relation "inv_image (less_than <*lex*> less_than <*lex*> less_than)
    (\<lambda>(p, v, pi, vi, star, svi).
       (if svi \<le> vi then 0 else 1 :: nat, length v - svi, length p + length v - (pi + vi)))", goal_cases)
  case (2 p v pi vi star svi)
  then have "pi < length p" by (auto simp: get_byte_def split: if_splits)
  with 2 show ?case by auto
next
  case (3 p v pi vi star svi)
  then have "pi < length p" by (auto simp: get_byte_def split: if_splits)
  with 3 show ?case by auto
qed auto

declare wildcard_loop.simps [simp del]

fun skip_stars :: "string \<Rightarrow> string" where
  "skip_stars [] = []"
| "skip_stars (c # s) = (if c = CHR ''*'' then skip_stars s else c # s)"

definition wildcard_matches :: "string \<Rightarrow> string \<Rightarrow> bool" where
  "wildcard_matches pattern val =
     (case wildcard_loop pattern val 0 0 None 0 of
        None \<Rightarrow> False
      | Some pattern_index \<Rightarrow> skip_stars (drop pattern_index pattern) = [])"

definition command_pattern_matches :: "(string \<Rightarrow> string list option) \<Rightarrow> string \<Rightarrow> string \<Rightarrow> bool" where
  "command_pattern_matches shlex pattern0 command0 =
     (let pattern = normalize_command shlex pattern0; command = normalize_command shlex command0
      in if pattern = ''*'' then True
         else if CHR ''*'' \<in> set pattern then wildcard_matches pattern command
         else command = pattern
              \<or> starts_with pattern command
                \<and> (case get_byte command (length pattern) of None \<Rightarrow> False | Some b \<Rightarrow> is_ascii_whitespace b))"

definition shell_boundary :: "string \<Rightarrow> bool" where
  "shell_boundary character \<longleftrightarrow>
     is_whitespace character \<or>
     character \<in> set ['';'', ''&'', ''|'', ''('', '')'', ''$'', [CHR 0x60], [CHR 0x27], [CHR 0x22]]"

text \<open>The byte range of every boundary character.\<close>

fun boundaries :: "nat \<Rightarrow> string list \<Rightarrow> (nat \<times> nat) list" where
  "boundaries i [] = []"
| "boundaries i (cp # cps) =
     (if shell_boundary cp then [(i, i + length cp)] else []) @ boundaries (i + length cp) cps"

definition deny_pattern_occurs :: "(string \<Rightarrow> string list option) \<Rightarrow> string \<Rightarrow> string \<Rightarrow> bool" where
  "deny_pattern_occurs shlex pattern0 command =
     (let pattern = normalize_command shlex pattern0
      in if pattern = [] then False
         else if CHR ''*'' \<notin> set pattern then
           list_ex (\<lambda>start.
             let before = utf8_chars (take start command);
                 after = utf8_chars (drop (start + length pattern) command)
             in (before = [] \<or> shell_boundary (last before)) \<and> (after = [] \<or> shell_boundary (hd after)))
             (match_indices pattern command)
         else
           (let bs = boundaries 0 (utf8_chars command);
                starts = remdups_adj (sort (0 # map snd bs));
                ends = remdups_adj (sort (map fst bs @ [length command]))
            in list_ex (\<lambda>start.
                 list_ex (\<lambda>stop.
                   let candidate = trim (take (stop - start) (drop start command))
                   in candidate \<noteq> [] \<and> wildcard_matches pattern (normalize_command shlex candidate))
                   (filter (\<lambda>stop. stop > start) ends)) starts))"

section \<open>Evaluation\<close>

text \<open>The nested loop over the groups and their patterns returns the first hit.\<close>

definition first_rule ::
  "(exec_policy_rule_set \<Rightarrow> string list) \<Rightarrow> (string \<Rightarrow> bool) \<Rightarrow> exec_policy_disposition \<Rightarrow> exec_policy \<Rightarrow>
     exec_policy_match option" where
  "first_rule patterns hit disposition policy =
     find_map (\<lambda>(group, rules).
       map_option (\<lambda>pattern. \<lparr>pm_disposition = disposition, pm_group = group, pm_pattern = pattern\<rparr>)
         (find hit (patterns rules))) (pol_rules policy)"

definition denies :: "(string \<Rightarrow> string list option) \<Rightarrow> string \<Rightarrow> string \<Rightarrow> bool" where
  "denies shlex command pattern \<longleftrightarrow>
     list_ex (command_pattern_matches shlex pattern) (command_segments shlex command)
     \<or> deny_pattern_occurs shlex pattern command"

definition evaluate ::
  "(string \<Rightarrow> string list option) \<Rightarrow> exec_policy \<Rightarrow> string \<Rightarrow> exec_policy_match option" where
  "evaluate shlex policy command =
     (let segments = command_segments shlex command
      in case first_rule rs_deny (denies shlex command) PolicyDeny policy of
           Some m \<Rightarrow> Some m
         | None \<Rightarrow>
             if length segments \<noteq> 1 \<or> has_dynamic_shell_composition command then None
             else first_rule rs_allow (\<lambda>pattern. command_pattern_matches shlex pattern (hd segments))
                    PolicyAllow policy)"

end
