(* ===== verification/Exec_Policy_Laws.thy ===== *)
theory Exec_Policy_Laws
  imports Exec_Policy
begin

text \<open>
  What the policy matcher guarantees: the wildcard loop against a declarative matching relation,
  the two scanners against the quoting state of a prefix, and the decisions of \<open>evaluate\<close>.
\<close>

section \<open>Wildcards\<close>

text \<open>A pattern matches a value: a star stands for any text, every other byte for itself.\<close>

fun glob :: "string \<Rightarrow> string \<Rightarrow> bool" where
  "glob [] v \<longleftrightarrow> v = []"
| "glob (c # p) v \<longleftrightarrow>
     (if c = CHR ''*'' then glob p v \<or> (case v of [] \<Rightarrow> False | _ # w \<Rightarrow> glob (c # p) w)
      else case v of [] \<Rightarrow> False | d # w \<Rightarrow> c = d \<and> glob p w)"

lemma ex_nat_split: "(\<exists>i. P i) \<longleftrightarrow> P 0 \<or> (\<exists>i. P (Suc i))" for P :: "nat \<Rightarrow> bool"
  by (metis not0_implies_Suc)

lemma glob_star: "glob (CHR ''*'' # p) v \<longleftrightarrow> (\<exists>i. i \<le> length v \<and> glob p (drop i v))"
proof (induction v)
  case (Cons d w)
  then show ?case by (subst ex_nat_split) simp
qed simp

lemma glob_literal:
  "CHR ''*'' \<notin> set u \<Longrightarrow> glob (u @ p) v \<longleftrightarrow> (\<exists>w. v = u @ w \<and> glob p w)"
proof (induction u arbitrary: v)
  case (Cons c u)
  then show ?case by (cases v) auto
qed simp

lemma glob_Nil: "glob p [] \<longleftrightarrow> skip_stars p = []"
  by (induction p) auto

lemma get_byte_Some: "get_byte s i = Some c \<longleftrightarrow> drop i s = c # drop (Suc i) s"
  by (auto simp: get_byte_def Cons_nth_drop_Suc [symmetric])

lemma get_byte_same:
  "i < length v \<Longrightarrow> get_byte p pi = get_byte v i \<Longrightarrow>
     \<exists>c. drop pi p = c # drop (Suc pi) p \<and> drop i v = c # drop (Suc i) v"
  by (metis get_byte_Some get_byte_def)

text \<open>A match found by the loop is a match.\<close>

lemma wildcard_loop_sound:
  assumes "wildcard_loop p v pi vi star svi = Some e" and "skip_stars (drop e p) = []"
    and "vi \<le> length v" and "svi \<le> vi"
  shows "glob (drop pi p) (drop vi v) \<or>
    (\<exists>s i. star = Some s \<and> svi < i \<and> i \<le> length v \<and> glob (drop (Suc s) p) (drop i v))"
  using assms
proof (induction p v pi vi star svi rule: wildcard_loop.induct)
  case (1 p v pi vi star svi)
  note IH = "1.IH" and step = "1.prems"(1) [unfolded wildcard_loop.simps [of p v pi vi star svi]]
  consider (stop) "\<not> vi < length v"
    | (same) "vi < length v" "get_byte p pi = get_byte v vi"
    | (star) "vi < length v" "get_byte p pi \<noteq> get_byte v vi" "get_byte p pi = Some (CHR ''*'')"
    | (retry) s where "vi < length v" "get_byte p pi \<noteq> get_byte v vi"
        "get_byte p pi \<noteq> Some (CHR ''*'')" "star = Some s"
    using step by (auto split: if_splits option.splits)
  then show ?case
  proof cases
    case stop
    with 1 step show ?thesis by (simp add: glob_Nil)
  next
    case same
    with get_byte_same obtain c where
      c: "drop pi p = c # drop (Suc pi) p" "drop vi v = c # drop (Suc vi) v" by blast
    from IH(1) [OF same] same step "1.prems"
    have "glob (drop (Suc pi) p) (drop (Suc vi) v) \<or>
      (\<exists>s i. star = Some s \<and> svi < i \<and> i \<le> length v \<and> glob (drop (Suc s) p) (drop i v))" by simp
    then show ?thesis by (auto simp: c)
  next
    case star
    from IH(2) [OF star] star step "1.prems"
    have "glob (drop (Suc pi) p) (drop vi v) \<or>
      (\<exists>i. vi < i \<and> i \<le> length v \<and> glob (drop (Suc pi) p) (drop i v))" by simp
    with "1.prems"(3) obtain i where "vi \<le> i" "i \<le> length v" "glob (drop (Suc pi) p) (drop i v)"
      by (metis less_imp_le order_refl)
    then have "glob (CHR ''*'' # drop (Suc pi) p) (drop vi v)"
      unfolding glob_star by (intro exI [of _ "i - vi"]) simp
    with star(3) show ?thesis by (simp add: get_byte_Some)
  next
    case retry
    from IH(3) [OF retry(1-3) retry(4)] retry step "1.prems"
    have "glob (drop (Suc s) p) (drop (Suc svi) v) \<or>
      (\<exists>i. Suc svi < i \<and> i \<le> length v \<and> glob (drop (Suc s) p) (drop i v))" by simp
    moreover have "Suc svi \<le> length v" using retry(1) "1.prems"(4) by simp
    ultimately show ?thesis using retry(4) by (metis Suc_lessD lessI)
  qed
qed

text \<open>
  In a value without stars the loop finds every match: what the last star has passed over since
  is free of stars, so its later positions cover those of the stars before it.
\<close>

definition passed :: "string \<Rightarrow> string \<Rightarrow> nat \<Rightarrow> nat \<Rightarrow> nat \<Rightarrow> nat \<Rightarrow> string \<Rightarrow> bool" where
  "passed p v pi vi s svi u \<longleftrightarrow>
     CHR ''*'' \<notin> set u \<and> drop (Suc s) p = u @ drop pi p \<and> drop svi v = u @ drop vi v"

lemma passed_later:
  assumes "passed p v pi vi s svi u" and "svi < i" and "i \<le> length v"
    and "glob (drop (Suc s) p) (drop i v)"
  shows "i - svi \<le> length (drop vi v) \<and> glob (drop pi p) (drop (i - svi) (drop vi v))"
proof -
  let ?k = "i - svi" and ?X = "drop vi v"
  from assms(1,4) obtain w where w: "drop i v = u @ w" "glob (drop pi p) w"
    by (auto simp: passed_def glob_literal)
  have X: "drop svi v = u @ ?X" using assms(1) by (simp add: passed_def)
  have d: "drop ?k (u @ ?X) = u @ w"
    using assms(2) w(1) by (simp flip: X)
  have "length (u @ ?X) = length v - svi" by (simp flip: X)
  then have "?k \<le> length (u @ ?X)" using assms(3) by simp
  moreover have "length (u @ ?X) - ?k = length (u @ w)" by (simp only: d flip: length_drop)
  ultimately have k: "?k \<le> length ?X" by simp
  have "w = drop (length u) (drop ?k (u @ ?X))" by (simp only: d) simp
  also have "\<dots> = drop (?k + length u) (u @ ?X)" by (simp only: drop_drop add.commute)
  also have "\<dots> = drop ?k ?X" by simp
  finally show ?thesis using k w(2) by simp
qed

lemma wildcard_loop_complete:
  assumes "CHR ''*'' \<notin> set v" and "vi \<le> length v" and "svi \<le> vi"
    and "\<And>s. star = Some s \<Longrightarrow> \<exists>u. passed p v pi vi s svi u"
    and "glob (drop pi p) (drop vi v) \<or>
      (\<exists>s i. star = Some s \<and> svi < i \<and> i \<le> length v \<and> glob (drop (Suc s) p) (drop i v))"
  shows "\<exists>e. wildcard_loop p v pi vi star svi = Some e \<and> skip_stars (drop e p) = []"
  using assms
proof (induction p v pi vi star svi rule: wildcard_loop.induct)
  case (1 p v pi vi star svi)
  note IH = "1.IH" and unfold = wildcard_loop.simps [of p v pi vi star svi]
  let ?X = "drop vi v"
  have later: "\<exists>k > 0. k \<le> length ?X \<and> glob (drop pi p) (drop k ?X)"
    if "star = Some s" "svi < i" "i \<le> length v" "glob (drop (Suc s) p) (drop i v)" for s i
    using passed_later that "1.prems"(4) [OF that(1)] by (metis zero_less_diff)
  consider (stop) "\<not> vi < length v"
    | (same) "vi < length v" "get_byte p pi = get_byte v vi"
    | (star) "vi < length v" "get_byte p pi \<noteq> get_byte v vi" "get_byte p pi = Some (CHR ''*'')"
    | (other) "vi < length v" "get_byte p pi \<noteq> get_byte v vi" "get_byte p pi \<noteq> Some (CHR ''*'')"
    by blast
  then show ?case
  proof cases
    case stop
    with "1.prems"(2,5) later have "glob (drop pi p) []" by fastforce
    with stop unfold show ?thesis by (simp add: glob_Nil)
  next
    case same
    with get_byte_same obtain c where
      c: "drop pi p = c # drop (Suc pi) p" "?X = c # drop (Suc vi) v" by blast
    from c(2) have "c \<in> set v" by (metis in_set_dropD list.set_intros(1))
    with "1.prems"(1) have "c \<noteq> CHR ''*''" by blast
    with c "1.prems"(4) have "\<exists>u. passed p v (Suc pi) (Suc vi) s svi u" if "star = Some s" for s
      using that by (fastforce simp: passed_def intro: exI [of _ "_ @ [c]"])
    moreover from "1.prems"(5) \<open>c \<noteq> _\<close>
    have "glob (drop (Suc pi) p) (drop (Suc vi) v) \<or>
      (\<exists>s i. star = Some s \<and> svi < i \<and> i \<le> length v \<and> glob (drop (Suc s) p) (drop i v))"
      by (auto simp: c)
    ultimately show ?thesis using IH(1) [OF same] same "1.prems" unfold by simp
  next
    case star
    then have P: "drop pi p = CHR ''*'' # drop (Suc pi) p" by (simp add: get_byte_Some)
    have "\<exists>k \<le> length ?X. glob (drop pi p) (drop k ?X)"
      using "1.prems"(5) later by (metis drop0 le0)
    then obtain k where "k \<le> length ?X" "glob (drop pi p) (drop k ?X)" by blast
    then obtain j where "j \<le> length (drop k ?X)" "glob (drop (Suc pi) p) (drop j (drop k ?X))"
      by (auto simp only: P glob_star)
    with \<open>k \<le> length ?X\<close> have j: "k + j \<le> length ?X" "glob (drop (Suc pi) p) (drop (k + j) ?X)"
      by (simp_all add: ac_simps)
    then have "glob (drop (Suc pi) p) ?X \<or>
        (\<exists>i. vi < i \<and> i \<le> length v \<and> glob (drop (Suc pi) p) (drop i v))"
      using star(1) by (cases "k + j = 0") (auto intro!: exI [of _ "vi + (k + j)"] simp: ac_simps)
    moreover have "passed p v (Suc pi) vi pi vi []" by (simp add: passed_def)
    ultimately show ?thesis using IH(2) [OF star] star "1.prems" unfold by auto
  next
    case other
    have no: "\<not> glob (drop pi p) ?X"
    proof (cases "get_byte p pi")
      case None
      with other(1) show ?thesis by (simp add: get_byte_def split: if_splits)
    next
      case (Some c)
      moreover obtain d where "get_byte v vi = Some d" using other(1) by (simp add: get_byte_def)
      ultimately have "drop pi p = c # drop (Suc pi) p" "?X = d # drop (Suc vi) v" "c \<noteq> d"
        "c \<noteq> CHR ''*''"
        using other(2,3) by (auto simp flip: get_byte_Some)
      then show ?thesis by simp
    qed
    with "1.prems"(5) obtain s i where
      s: "star = Some s" "svi < i" "i \<le> length v" "glob (drop (Suc s) p) (drop i v)" by blast
    then have "glob (drop (Suc s) p) (drop (Suc svi) v) \<or>
        (\<exists>i. Suc svi < i \<and> i \<le> length v \<and> glob (drop (Suc s) p) (drop i v))"
      by (metis Suc_lessI)
    moreover have "passed p v (Suc s) (Suc svi) s (Suc svi) []" by (simp add: passed_def)
    ultimately show ?thesis using IH(3) [OF other s(1)] other s "1.prems"(1-3) unfold by auto
  qed
qed

lemma wildcard_matches_sound: "wildcard_matches p v \<Longrightarrow> glob p v"
  using wildcard_loop_sound [of p v 0 0 None 0]
  by (auto simp: wildcard_matches_def split: option.splits)

lemma wildcard_matches_complete: "CHR ''*'' \<notin> set v \<Longrightarrow> glob p v \<Longrightarrow> wildcard_matches p v"
  using wildcard_loop_complete [of v 0 0 None p 0]
  by (auto simp: wildcard_matches_def split: option.splits)

text \<open>
  C12. The wildcard loop implements the matching relation. Whatever the loop accepts matches the
  pattern with each star standing for any text, and on a value without a star the backtracking
  loop, which remembers only the last star, accepts every such match.
\<close>

theorem wildcard_matches_glob:
  "(wildcard_matches pattern val \<longrightarrow> glob pattern val) \<and>
   (CHR ''*'' \<notin> set val \<longrightarrow> wildcard_matches pattern val = glob pattern val)"
  using wildcard_matches_sound wildcard_matches_complete by blast

theorem wildcard_matches_glob_witness:
  "wildcard_matches ''cargo * --all *'' ''cargo test -p x --all --all -q''"
  using wildcard_matches_glob [of "''cargo * --all *''" "''cargo test -p x --all --all -q''"] by simp

lemma wildcard_loop_same_prefix:
  "n \<le> length x \<Longrightarrow>
     wildcard_loop (x @ p) (x @ v) 0 0 None 0 = wildcard_loop (x @ p) (x @ v) n n None 0"
proof (induction n)
  case (Suc n)
  then have "wildcard_loop (x @ p) (x @ v) n n None 0 = wildcard_loop (x @ p) (x @ v) (Suc n) (Suc n) None 0"
    by (subst wildcard_loop.simps) (simp add: get_byte_def nth_append)
  with Suc show ?case by simp
qed simp

lemma wildcard_matches_own_text:
  assumes "r \<noteq> []"
  shows "\<not> wildcard_matches p (p @ r)"
proof -
  have "wildcard_loop p (p @ r) (length p) (length p) None 0 = None"
    using assms by (subst wildcard_loop.simps) (simp add: get_byte_def)
  with wildcard_loop_same_prefix [of "length p" p "[]" r] show ?thesis
    by (simp add: wildcard_matches_def)
qed

text \<open>
  C40. A star of the command hides a trailing star of the pattern. A pattern that ends in a star
  does not match a value that repeats the pattern, with a star as its next character, and goes
  on, although the trailing star stands for any text: the loop compares the two stars as plain
  characters and never records the one of the pattern.
\<close>

theorem trailing_star_is_missed:
  assumes "rest \<noteq> []"
  shows "\<not> wildcard_matches (p @ ''*'') (p @ ''*'' @ rest) \<and> glob (p @ ''*'') (p @ ''*'' @ rest)"
proof -
  have "glob (p @ ''*'') (p @ w)" for w
  proof (induction p)
    case Nil
    show ?case by (simp only: append_Nil glob_star) (auto intro: exI [of _ "length w"])
  qed simp
  with wildcard_matches_own_text [OF assms, of "p @ ''*''"] show ?thesis by simp
qed

section \<open>Scanning\<close>

text \<open>The quoting state of the scanner after a prefix, and whether the next byte is escaped.\<close>

fun lex_step :: "quote_state \<times> bool \<Rightarrow> char \<Rightarrow> quote_state \<times> bool" where
  "lex_step (q, True) c = (q, False)"
| "lex_step (SingleQuoted, False) c = (if c = CHR 0x27 then Unquoted else SingleQuoted, False)"
| "lex_step (DoubleQuoted, False) c =
     (if c = CHR 0x5C then (DoubleQuoted, True)
      else if c = CHR 0x22 then (Unquoted, False) else (DoubleQuoted, False))"
| "lex_step (Unquoted, False) c =
     (if c = CHR 0x5C then (Unquoted, True) else if c = CHR 0x27 then (SingleQuoted, False)
      else if c = CHR 0x22 then (DoubleQuoted, False) else (Unquoted, False))"

definition lex_state :: "string \<Rightarrow> quote_state \<times> bool" where
  "lex_state u = foldl lex_step (Unquoted, False) u"

text \<open>A command substitution starts with the byte c before v, after the prefix u.\<close>

definition substitution_at :: "quote_state \<times> bool \<Rightarrow> char \<Rightarrow> string \<Rightarrow> bool" where
  "substitution_at st c v \<longleftrightarrow>
     fst st \<noteq> SingleQuoted \<and> \<not> snd st \<and> (c = CHR 0x60 \<or> c \<in> set ''$<>'' \<and> peek_is (CHR ''('') v)"

lemma ex_split_Cons:
  "(\<exists>u c v. x # s = u @ c # v \<and> P u c v) \<longleftrightarrow> P [] x s \<or> (\<exists>u c v. s = u @ c # v \<and> P (x # u) c v)"
  by (auto simp: Cons_eq_append_conv)

lemma dynamic_from_step:
  "dynamic_from q e (c # s) \<longleftrightarrow>
     substitution_at (q, e) c s \<or> dynamic_from (fst (lex_step (q, e) c)) (snd (lex_step (q, e) c)) s"
  by (cases e; cases q) (auto simp: substitution_at_def)

lemma dynamic_from_iff:
  "dynamic_from q e s \<longleftrightarrow> (\<exists>u c v. s = u @ c # v \<and> substitution_at (foldl lex_step (q, e) u) c v)"
proof (induction s arbitrary: q e)
  case (Cons c s)
  then show ?case by (simp only: dynamic_from_step ex_split_Cons foldl.simps prod.collapse)
qed simp

text \<open>An operator that ends a command: it is not a continuation of one that u ends with.\<close>

definition operator_between :: "string \<Rightarrow> string \<Rightarrow> string \<Rightarrow> bool" where
  "operator_between u op v \<longleftrightarrow>
     op = '';'' \<or> op = [CHR 0x0A] \<or> op = ''|'' \<and> \<not> ends_with ''|'' u \<and> \<not> starts_with ''|'' v
     \<or> op = ''||'' \<and> \<not> ends_with ''|'' u \<or> op = ''&&'' \<and> \<not> ends_with ''&'' u"

lemma ends_with_char: "ends_with [d] u \<longleftrightarrow> u \<noteq> [] \<and> last u = d"
  by (cases u rule: rev_cases) (auto simp: ends_with_def starts_with_def)

lemma operator_between_tl: "operator_between (c # u) op v \<Longrightarrow> operator_between u op v"
  by (auto simp: operator_between_def ends_with_char split: if_splits)

lemma operator_not_Nil: "operator_between u op v \<Longrightarrow> op \<noteq> []"
  by (auto simp: operator_between_def)

lemma peek_operator [simp]:
  "operator_between (CHR ''&'' # u) op v \<Longrightarrow> peek_is (CHR ''&'') (u @ op @ v) = peek_is (CHR ''&'') u"
  "operator_between u op v \<Longrightarrow> peek_is (CHR ''>'') (w @ op @ v) = peek_is (CHR ''>'') w"
  by (cases u; auto simp: operator_between_def ends_with_char peek_is_def)
    (cases w; auto simp: operator_between_def peek_is_def)

lemma skip_operator:
  "c = d \<Longrightarrow> d = CHR ''|'' \<or> d = CHR ''&'' \<Longrightarrow> operator_between (c # u) op v \<Longrightarrow>
     skip_char d (u @ op @ v) = skip_char d u @ op @ v"
  by (cases u) (auto simp: operator_between_def ends_with_char skip_char_def)

lemma operator_skip:
  "operator_between u op v \<Longrightarrow> operator_between (skip_char d u) op v"
  by (cases u) (auto simp: skip_char_def dest: operator_between_tl)

lemma lex_skip:
  "d = CHR ''|'' \<or> d = CHR ''&'' \<Longrightarrow>
     foldl lex_step (Unquoted, False) (skip_char d u) = foldl lex_step (Unquoted, False) u"
  by (cases u) (auto simp: skip_char_def)

lemma push_segment_append: "push_segment shlex current rest = push_segment shlex current [] @ rest"
  by (simp add: push_segment_def Let_def)

lemma segments_from_plain:
  "e \<or> q \<noteq> Unquoted \<or> c \<notin> set '';|&'' \<and> c \<noteq> CHR 0x0A \<Longrightarrow>
     segments_from shlex q e current (c # s) =
       segments_from shlex (fst (lex_step (q, e) c)) (snd (lex_step (q, e) c)) (current @ [c]) s"
  by (cases e; cases q) simp_all

lemma segments_from_ampersand:
  "segments_from shlex Unquoted False current (CHR ''&'' # s) =
     (if peek_is (CHR ''&'') s
      then push_segment shlex current (segments_from shlex Unquoted False [] (skip_char (CHR ''&'') s))
      else if \<not> ends_with ''>'' current \<and> \<not> ends_with ''<'' current \<and> \<not> peek_is (CHR ''>'') s
      then push_segment shlex current (segments_from shlex Unquoted False [] s)
      else segments_from shlex Unquoted False (current @ ''&'') s)"
  by simp

lemma segments_from_operator_first:
  assumes "operator_between [] op v"
  shows "segments_from shlex Unquoted False current (op @ v) =
    push_segment shlex current (segments_from shlex Unquoted False [] v)"
proof -
  have "skip_char (CHR ''|'') v = v" if "\<not> starts_with ''|'' v"
    using that by (cases v) (auto simp: skip_char_def starts_with_def)
  with assms show ?thesis by (auto simp: operator_between_def skip_char_def peek_is_def)
qed

lemma segments_from_operator:
  assumes "foldl lex_step (q, e) u = (Unquoted, False)" and "operator_between u op v"
  shows "segments_from shlex q e current (u @ op @ v) =
    segments_from shlex q e current u @ segments_from shlex Unquoted False [] v"
  using assms
proof (induction u arbitrary: q e current rule: length_induct)
  case (1 u)
  have IH: "segments_from shlex q' e' current' (u' @ op @ v) =
      segments_from shlex q' e' current' u' @ segments_from shlex Unquoted False [] v"
    if "length u' < length u" "foldl lex_step (q', e') u' = (Unquoted, False)"
      "operator_between u' op v" for q' e' current' u'
    using 1 that by blast
  show ?case
  proof (cases u)
    case Nil
    with 1 show ?thesis
      by (simp add: segments_from_operator_first push_segment_append [of shlex current "segments_from _ _ _ _ _"])
  next
    case (Cons c w)
    have w: "operator_between w op v" "foldl lex_step (lex_step (q, e) c) w = (Unquoted, False)"
      using "1.prems" operator_between_tl by (auto simp: Cons)
    consider (plain) "e \<or> q \<noteq> Unquoted \<or> c \<notin> set '';|&'' \<and> c \<noteq> CHR 0x0A"
      | (semi) "\<not> e" "q = Unquoted" "c = CHR '';'' \<or> c = CHR 0x0A"
      | (bar) "\<not> e" "q = Unquoted" "c = CHR ''|''"
      | (amp) "\<not> e" "q = Unquoted" "c = CHR ''&''"
      by auto
    then show ?thesis
    proof cases
      case plain
      with IH [of w "fst (lex_step (q, e) c)" "snd (lex_step (q, e) c)"] w show ?thesis
        by (simp only: Cons append_Cons segments_from_plain [OF plain]) simp
    next
      case semi
      with IH [of w Unquoted False] w show ?thesis
        by (auto simp: Cons push_segment_append [of shlex current "_ @ _"]
            push_segment_append [of shlex current "segments_from _ _ _ _ _"])
    next
      case bar
      have "skip_char c (w @ op @ v) = skip_char c w @ op @ v"
        using skip_operator "1.prems"(2) bar by (simp add: Cons)
      moreover have "length (skip_char c w) < length u"
        using length_skip_char [of c w] by (simp add: Cons)
      ultimately show ?thesis using bar w IH [of "skip_char c w" Unquoted False] operator_skip lex_skip [of c w]
        by (simp add: Cons push_segment_append [of shlex current "_ @ _"]
            push_segment_append [of shlex current "segments_from _ _ _ _ _"])
    next
      case amp
      have peek: "peek_is (CHR ''&'') (w @ op @ v) = peek_is (CHR ''&'') w"
        "peek_is (CHR ''>'') (w @ op @ v) = peek_is (CHR ''>'') w"
        using "1.prems"(2) w(1) amp by (simp_all add: Cons)
      have skip: "skip_char (CHR ''&'') (w @ op @ v) = skip_char (CHR ''&'') w @ op @ v"
        using skip_operator "1.prems"(2) amp by (simp add: Cons)
      have st: "foldl lex_step (Unquoted, False) w = (Unquoted, False)" using w amp by simp
      have "segments_from shlex Unquoted False [] (skip_char (CHR ''&'') w @ op @ v) =
          segments_from shlex Unquoted False [] (skip_char (CHR ''&'') w) @
            segments_from shlex Unquoted False [] v"
        using length_skip_char [of "CHR ''&''" w] lex_skip [of "CHR ''&''" w] st
        by (intro IH operator_skip w(1)) (simp_all add: Cons)
      moreover have "segments_from shlex Unquoted False current' (w @ op @ v) =
          segments_from shlex Unquoted False current' w @ segments_from shlex Unquoted False [] v"
        for current'
        using st w(1) by (intro IH) (simp_all add: Cons)
      ultimately show ?thesis using amp
        by (simp only: Cons append_Cons segments_from_ampersand peek skip not_False_eq_True simp_thms split: if_split)
          (simp add: push_segment_append [of shlex current "_ @ _"]
            push_segment_append [of shlex current "segments_from _ _ _ _ _"])
    qed
  qed
qed

lemma command_segments_operator:
  "lex_state u = (Unquoted, False) \<Longrightarrow> operator_between u op v \<Longrightarrow>
     command_segments shlex (u @ op @ v) = command_segments shlex u @ command_segments shlex v"
  by (simp add: command_segments_def lex_state_def segments_from_operator)

section \<open>Decisions\<close>

definition has_rule ::
  "(exec_policy_rule_set \<Rightarrow> string list) \<Rightarrow> (string \<Rightarrow> bool) \<Rightarrow> exec_policy \<Rightarrow> string \<Rightarrow> string \<Rightarrow> bool" where
  "has_rule patterns hit policy grp pattern \<longleftrightarrow>
     (\<exists>rules. (grp, rules) \<in> set (pol_rules policy) \<and> pattern \<in> set (patterns rules) \<and> hit pattern)"

lemma first_rule_None:
  "first_rule patterns hit d policy = None \<longleftrightarrow> (\<nexists>grp pattern. has_rule patterns hit policy grp pattern)"
  by (fastforce simp: first_rule_def has_rule_def find_map_eq_None find_None_iff)

lemma first_rule_SomeD:
  "first_rule patterns hit d policy = Some m \<Longrightarrow>
     pm_disposition m = d \<and> has_rule patterns hit policy (pm_group m) (pm_pattern m)"
  by (fastforce simp: first_rule_def has_rule_def dest!: find_map_SomeD find_SomeD)


text \<open>A policy, with commands cut at white space.\<close>

definition px_shlex :: "string \<Rightarrow> string list option" where
  "px_shlex s = Some (split_whitespace s)"

definition px_policy :: exec_policy where
  "px_policy = \<lparr>pol_rules = [(''shell'', \<lparr>rs_allow = [''git status''], rs_deny = [''npm publish'', ''rm *'']\<rparr>)]\<rparr>"

lemma px_allows:
  "evaluate px_shlex px_policy ''git status --short'' =
     Some \<lparr>pm_disposition = PolicyAllow, pm_group = ''shell'', pm_pattern = ''git status''\<rparr>"
  by code_simp

lemma px_misses: "evaluate px_shlex px_policy ''rm *.txt'' = None"
  by code_simp


theorem trailing_star_is_missed_witness:
  "\<not> wildcard_matches ''rm *'' ''rm *.txt'' \<and> glob ''rm *'' ''rm *.txt'' \<and>
   ''rm *'' \<in> set (rs_deny (snd (hd (pol_rules px_policy)))) \<and>
   evaluate px_shlex px_policy ''rm *.txt'' = None"
  using trailing_star_is_missed [of "''.txt''" "''rm ''"] px_misses by (simp add: px_policy_def)

end
