(* ===== verification/Tool_Path.thy ===== *)
theory Tool_Path
  imports Text "HOL-Library.Sublist"
begin

text \<open>
  Paths as the tools see them: \<^verbatim>\<open>std::path\<close> on lists of components, and the file tree in which the
  operating system resolves them, with directories, files and symbolic links. A path is the
  list \<^verbatim>\<open>Path::components\<close> returns, so repeated and trailing separators and inner \<open>.\<close> components
  are gone.
\<close>

section \<open>Components\<close>

datatype component = RootDir | CurDir | ParentDir | Normal string

type_synonym path_buf = "component list"

text \<open>The names below the root of an absolute normalized path.\<close>

type_synonym path = "string list"

definition absolute :: "path \<Rightarrow> path_buf" where
  "absolute names = RootDir # map Normal names"

fun split_slash :: "string \<Rightarrow> string \<Rightarrow> string list" where
  "split_slash cur [] = [rev cur]"
| "split_slash cur (c # s) =
     (if c = CHR ''/'' then rev cur # split_slash [] s else split_slash (c # cur) s)"

definition component_of :: "string \<Rightarrow> component" where
  "component_of s = (if s = ''..'' then ParentDir else Normal s)"

definition components :: "string \<Rightarrow> path_buf" where
  "components raw =
     (let parts = split_slash [] raw;
          inner = map component_of (filter (\<lambda>s. s \<noteq> [] \<and> s \<noteq> ''.'') parts)
      in if starts_with ''/'' raw then RootDir # inner
         else if hd parts = ''.'' then CurDir # inner
         else inner)"

definition is_absolute :: "path_buf \<Rightarrow> bool" where
  "is_absolute p \<longleftrightarrow> p \<noteq> [] \<and> hd p = RootDir"

definition path_join :: "path_buf \<Rightarrow> path_buf \<Rightarrow> path_buf" where
  "path_join a b =
     (if is_absolute b \<or> a = [] then b else a @ filter (\<lambda>c. c \<noteq> CurDir) b)"

definition path_file_name :: "path_buf \<Rightarrow> string option" where
  "path_file_name p =
     (if p = [] then None else case last p of Normal s \<Rightarrow> Some s | _ \<Rightarrow> None)"

definition path_parent :: "path_buf \<Rightarrow> path_buf option" where
  "path_parent p = (if p = [] \<or> last p = RootDir then None else Some (butlast p))"

fun component_text :: "component \<Rightarrow> string" where
  "component_text RootDir = []"
| "component_text CurDir = ''.''"
| "component_text ParentDir = ''..''"
| "component_text (Normal s) = s"

definition display_buf :: "path_buf \<Rightarrow> string" where
  "display_buf p =
     (if is_absolute p then ''/'' @ join ''/'' (map component_text (tl p))
      else join ''/'' (map component_text p))"

section \<open>Resolution by the operating system\<close>

datatype node = FileNode | DirNode | LinkNode path_buf

record file_tree =
  ft_nodes :: "(path \<times> node) list"
  ft_cwd :: path
  ft_io_error :: string

definition node_at :: "file_tree \<Rightarrow> path \<Rightarrow> node option" where
  "node_at t p = (if p = [] then Some DirNode else map_of (ft_nodes t) p)"

text \<open>
  One component after the other from a directory; a symbolic link is replaced by its target.
  After \<open>MAXSYMLINKS\<close> links the system gives up.
\<close>

definition MAXSYMLINKS :: nat where
  "MAXSYMLINKS = 40"

function walk :: "file_tree \<Rightarrow> nat \<Rightarrow> path \<Rightarrow> path_buf \<Rightarrow> path option" where
  "walk t links cur [] = Some cur"
| "walk t links cur (RootDir # cs) = walk t links [] cs"
| "walk t links cur (CurDir # cs) = walk t links cur cs"
| "walk t links cur (ParentDir # cs) = walk t links (butlast cur) cs"
| "walk t links cur (Normal s # cs) =
     (case node_at t (cur @ [s]) of
        None \<Rightarrow> None
      | Some FileNode \<Rightarrow> if cs = [] then Some (cur @ [s]) else None
      | Some DirNode \<Rightarrow> walk t links (cur @ [s]) cs
      | Some (LinkNode target) \<Rightarrow>
          if links = 0 then None else walk t (links - 1) cur (target @ cs))"
  by pat_completeness auto

termination
  by (relation "measures [\<lambda>(t, links, cur, cs). links, \<lambda>(t, links, cur, cs). length cs]") auto

definition canonicalize :: "file_tree \<Rightarrow> path_buf \<Rightarrow> path_buf option" where
  "canonicalize t p = map_option absolute (walk t MAXSYMLINKS (ft_cwd t) p)"

definition path_exists_at :: "file_tree \<Rightarrow> path_buf \<Rightarrow> bool" where
  "path_exists_at t p \<longleftrightarrow> canonicalize t p \<noteq> None"

end
