(* ===== verification/Tool_Input.thy ===== *)
theory Tool_Input
  imports Json Tool_Path
begin

text \<open>
  The errors of the built-in tools and the readers of their JSON arguments
  (crates/tools/src/lib.rs).
\<close>

datatype tool_error =
    SchemaValidation string
  | InvalidInput string
  | MissingField string
  | PathEscape path_buf
  | ExecutionFailed string
  | ToolTimeout u64
  | NotAvailable string
  | PermissionDenied string
  | WorkspacePrecondition string
  | StaleRead string
  | AmbiguousEdit string
  | PatchParse string

text \<open>\<^verbatim>\<open>Value::get\<close> with a key, \<^verbatim>\<open>as_array\<close>, \<^verbatim>\<open>as_u64\<close> and \<^verbatim>\<open>as_bool\<close>\<close>

definition get_field :: "json \<Rightarrow> string \<Rightarrow> json option" where
  "get_field input field = (case as_object input of None \<Rightarrow> None | Some kvs \<Rightarrow> map_of kvs field)"

fun as_array :: "json \<Rightarrow> json list option" where
  "as_array (JArray vs) = Some vs"
| "as_array _ = None"

fun as_bool :: "json \<Rightarrow> bool option" where
  "as_bool (JBool b) = Some b"
| "as_bool _ = None"

fun as_u64 :: "json \<Rightarrow> nat option" where
  "as_u64 (JNumber n) = (if list_all is_ascii_digit n then parse_usize n else None)"
| "as_u64 _ = None"

definition optional_str :: "json \<Rightarrow> string \<Rightarrow> string option" where
  "optional_str input field = Option.bind (get_field input field) as_str"

definition optional_u64 :: "json \<Rightarrow> string \<Rightarrow> nat \<Rightarrow> nat" where
  "optional_u64 input field dflt =
     (case Option.bind (get_field input field) as_u64 of None \<Rightarrow> dflt | Some n \<Rightarrow> n)"

definition optional_bool :: "json \<Rightarrow> string \<Rightarrow> bool \<Rightarrow> bool" where
  "optional_bool input field dflt =
     (case Option.bind (get_field input field) as_bool of None \<Rightarrow> dflt | Some b \<Rightarrow> b)"

definition required_str :: "json \<Rightarrow> string \<Rightarrow> tool_error + string" where
  "required_str input field =
     (case optional_str input field of
        Some s \<Rightarrow> Inr s
      | None \<Rightarrow>
          let provided = (case as_object input of None \<Rightarrow> [] | Some kvs \<Rightarrow> map fst kvs)
          in if provided = [] then Inl (MissingField field)
             else Inl (InvalidInput
               ([CHR 0xE7, CHR 0xBC, CHR 0xBA, CHR 0xE5, CHR 0xB0, CHR 0x91, CHR 0xE5, CHR 0xBF,
                 CHR 0x85, CHR 0xE5, CHR 0xA1, CHR 0xAB, CHR 0xE5, CHR 0xAD, CHR 0x97, CHR 0xE6,
                 CHR 0xAE, CHR 0xB5] @ '' '' @ [CHR 0x27] @ field @ [CHR 0x27, CHR 0xE3, CHR 0x80,
                 CHR 0x82, CHR 0xE5, CHR 0xB7, CHR 0xB2, CHR 0xE6, CHR 0x8F, CHR 0x90, CHR 0xE4,
                 CHR 0xBE, CHR 0x9B, CHR 0xE5, CHR 0xAD, CHR 0x97, CHR 0xE6, CHR 0xAE, CHR 0xB5,
                 CHR 0xEF, CHR 0xBC, CHR 0x9A] @ join '', '' provided)))"

end
