(* ===== verification/Patch_Parse.thy ===== *)
theory Patch_Parse
  imports Tool_Input
begin

text \<open>
  The reader of unified diffs and the preflight of \<^verbatim>\<open>apply_patch\<close>
  (crates/tools/src/apply_patch.rs): hunks, file sections, the shape check that runs before
  parsing, and the plan that lists what a request would touch. A \<^verbatim>\<open>usize\<close> is a natural
  number; what is read from the patch text is below two to the 64 by \<open>parse_usize\<close>.

  The peekable iterator over the lines of the patch is the list of the lines still to come.
\<close>

section \<open>Hunks and file sections\<close>

datatype hunk_line = Context string | Add string | Remove string

record hunk =
  hk_old_start :: nat
  hk_old_count :: nat
  hk_new_start :: nat
  hk_new_count :: nat
  hk_lines :: "hunk_line list"

record file_patch =
  fp_path :: string
  fp_hunks :: "hunk list"
  fp_delete_after :: bool
  fp_create_if_missing :: bool
  fp_create_from_null :: bool

definition parse_range :: "string \<Rightarrow> tool_error + (nat \<times> nat)" where
  "parse_range text =
     (let parts = split_on (\<lambda>c. c = CHR '','') text
      in rbind (ok_or (parse_usize (parts ! 0)) (InvalidInput
           (''Invalid line number '' @ [CHR 0x60] @ parts ! 0 @
            [CHR 0x60] @ '' in hunk header. Use positive integers like '' @ [CHR 0x60] @ ''12'' @
              [CHR 0x60] @ '' or '' @ [CHR 0x60] @ ''12,3'' @ [CHR 0x60] @ ''.'')))
         (\<lambda>start.
            if length parts > 1 then
              rbind (ok_or (parse_usize (parts ! 1)) (InvalidInput
                (''Invalid line count '' @ [CHR 0x60] @ parts ! 1 @
                 [CHR 0x60] @ '' in hunk header. Use positive integers like '' @ [CHR 0x60] @
                   ''3'' @ [CHR 0x60] @ ''.'')))
              (\<lambda>count. Inr (start, count))
            else Inr (start, 1)))"

text \<open>
  The loop over the body of a hunk: its lines, the old and new lines seen, and the lines left.
\<close>

fun hunk_body ::
  "nat \<Rightarrow> nat \<Rightarrow> nat \<Rightarrow> nat \<Rightarrow> string list \<Rightarrow> hunk_line list \<times> nat \<times> nat \<times> string list" where
  "hunk_body old_count new_count old_seen new_seen [] = ([], old_seen, new_seen, [])"
| "hunk_body old_count new_count old_seen new_seen (line # lines) =
     (if \<not> (old_seen < old_count \<or> new_seen < new_count)
      then ([], old_seen, new_seen, line # lines)
      else if starts_with ''@@'' line \<or> starts_with ''diff '' line
      then ([], old_seen, new_seen, line # lines)
      else
        let (item, old_step, new_step) =
              (if starts_with ''-'' line then (Some (Remove (tl line)), 1, 0)
               else if starts_with ''+'' line then (Some (Add (tl line)), 0, 1)
               else if starts_with '' '' line \<or> line = [] then (Some (Context (tl line)), 1, 1)
               else if starts_with [CHR 0x5C] line then (None, 0, 0)
               else (Some (Context line), 1, 1));
            old_seen' = old_seen + old_step;
            new_seen' = new_seen + new_step;
            items = (case item of None \<Rightarrow> [] | Some i \<Rightarrow> [i])
        in if old_seen' > old_count \<or> new_seen' > new_count then (items, old_seen', new_seen', lines)
           else
             let (rest_items, old_end, new_end, rest) =
                   hunk_body old_count new_count old_seen' new_seen' lines
             in (items @ rest_items, old_end, new_end, rest))"

definition parse_hunk_header :: "string \<Rightarrow> string list \<Rightarrow> tool_error + (hunk \<times> string list)" where
  "parse_hunk_header header lines =
     (let parts = split_whitespace header
      in if length parts < 3 then
           Inl (InvalidInput (''Invalid hunk header: '' @ header @
             ''. Expected '' @ [CHR 0x60] @ ''@@ -start,count +start,count @@'' @ [CHR 0x60] @
               ''.''))
         else
           rbind (parse_range (trim_start_matches (CHR ''-'') (parts ! 1))) (\<lambda>(old_start,
             old_count).
           rbind (parse_range (trim_start_matches (CHR ''+'') (parts ! 2))) (\<lambda>(new_start,
             new_count).
             let (items, old_seen, new_seen, rest) = hunk_body old_count new_count 0 0 lines
             in if old_seen \<noteq> old_count \<or> new_seen \<noteq> new_count then
                  Inl (InvalidInput (''Hunk body count mismatch for '' @ [CHR 0x60] @ header @
                    [CHR 0x60] @ '': declared old/new '' @ decimal old_count @ ''/'' @ decimal
                      new_count @
                    '', observed '' @ decimal old_seen @ ''/'' @ decimal new_seen))
                else
                  Inr (\<lparr>hk_old_start = old_start, hk_old_count = old_count,
                        hk_new_start = new_start, hk_new_count = new_count, hk_lines = items\<rparr>,
                       rest))))"

lemma hunk_body_length:
  "hunk_body oc nc os ns lines = (items, os', ns', rest) \<Longrightarrow> length rest \<le> length lines"
  by (induction oc nc os ns lines arbitrary: items os' ns' rest rule: hunk_body.induct)
    (auto simp: Let_def split: if_splits prod.splits, fastforce+)

lemma hunk_body_rest_length:
  "length (snd (snd (snd (hunk_body oc nc os ns lines)))) \<le> length lines"
  by (cases "hunk_body oc nc os ns lines") (simp add: hunk_body_length)

lemma parse_hunk_header_length:
  "parse_hunk_header header lines = Inr (h, rest) \<Longrightarrow> length rest \<le> length lines"
  using hunk_body_rest_length
  by (auto simp: parse_hunk_header_def Let_def result_simps case_prod_beta split: if_splits)

text \<open>\<^verbatim>\<open>parse_unified_diff\<close>: the second loop, after the lines before the first hunk.\<close>

function hunks_loop :: "string list \<Rightarrow> tool_error + hunk list" where
  "hunks_loop [] = Inr []"
| "hunks_loop (line # lines) =
     (if starts_with ''@@'' line then
        (case parse_hunk_header line lines of
           Inl e \<Rightarrow> Inl e
         | Inr (hunk, rest) \<Rightarrow> rbind (hunks_loop rest) (\<lambda>hunks. Inr (hunk # hunks)))
      else hunks_loop lines)"
  by pat_completeness auto

termination
  by (relation "measure length") (auto dest: parse_hunk_header_length)

definition parse_unified_diff :: "string \<Rightarrow> tool_error + hunk list" where
  "parse_unified_diff patch =
     hunks_loop (dropWhile (\<lambda>line. \<not> starts_with ''@@'' line) (lines_of patch))"

section \<open>File headers\<close>

definition normalize_diff_path :: "string \<Rightarrow> string option" where
  "normalize_diff_path raw0 =
     (let raw = trim (case split_once (CHR 0x09) raw0 of None \<Rightarrow> raw0 | Some (path, _) \<Rightarrow> path)
      in if raw = [] then None
         else if raw = ''/dev/null'' \<or> raw = ''dev/null'' then None
         else
           Some (case strip_prefix ''a/'' raw of
                   Some r \<Rightarrow> r
                 | None \<Rightarrow> (case strip_prefix ''b/'' raw of Some r \<Rightarrow> r | None \<Rightarrow> raw)))"

definition resolve_diff_paths ::
  "string option \<Rightarrow> string option \<Rightarrow> bool \<Rightarrow> tool_error + (string \<times> bool \<times> bool \<times> bool)" where
  "resolve_diff_paths old_path new_path create_if_missing =
     (let old_norm = Option.bind old_path normalize_diff_path;
          new_norm = Option.bind new_path normalize_diff_path
      in if (case (old_norm, new_norm) of (Some old, Some new) \<Rightarrow> old \<noteq> new | _ \<Rightarrow> False)
         then Inl (InvalidInput (''Patch rename '' @ [CHR 0x60] @ the old_norm @ [CHR 0x60] @
           '' -> '' @ [CHR 0x60] @ the new_norm @
           [CHR 0x60] @ '' is not supported by apply_patch; use an explicit '' @
             ''create/delete operation''))
         else
           let delete_after = (new_norm = None);
               create_from_null = (old_norm = None \<and> new_norm \<noteq> None);
               create_flag = (create_if_missing \<or> create_from_null)
           in rbind (ok_or (case new_norm of None \<Rightarrow> old_norm | Some p \<Rightarrow> Some p)
                (InvalidInput ''Patch is missing both old and new file paths''))
              (\<lambda>path. Inr (path, delete_after, create_flag, create_from_null)))"

definition taken :: "'a option \<Rightarrow> 'a list" where
  "taken m = (case m of None \<Rightarrow> [] | Some a \<Rightarrow> [a])"

function files_loop ::
  "bool \<Rightarrow> file_patch list \<Rightarrow> file_patch option \<Rightarrow> string option \<Rightarrow> string list \<Rightarrow>
     tool_error + file_patch list" where
  "files_loop create files current old_path [] = Inr (files @ taken current)"
| "files_loop create files current old_path (line # lines) =
     (if starts_with ''diff --git '' line
      then files_loop create (files @ taken current) None None lines
      else
        (case strip_prefix ''--- '' line of
           Some stripped \<Rightarrow> files_loop create files current (Some (trim stripped)) lines
         | None \<Rightarrow>
             (case strip_prefix ''+++ '' line of
                Some stripped \<Rightarrow>
                  (case resolve_diff_paths old_path (Some (trim stripped)) create of
                     Inl e \<Rightarrow> Inl e
                   | Inr (path, delete_after, create_flag, create_from_null) \<Rightarrow>
                       files_loop create (files @ taken current)
                         (Some \<lparr>fp_path = path, fp_hunks = [], fp_delete_after = delete_after,
                                fp_create_if_missing = create_flag,
                                fp_create_from_null = create_from_null\<rparr>) None lines)
              | None \<Rightarrow>
                  if starts_with ''@@'' line then
                    (case current of
                       None \<Rightarrow>
                         (case old_path of
                            Some path \<Rightarrow>
                              Inl (InvalidInput (''Patch hunk encountered after '' @ [CHR 0x60] @
                                ''--- '' @ path @
                                [CHR 0x60] @ '' but before a matching '' @ [CHR 0x60] @ ''+++'' @
                                  [CHR 0x60] @
                                  '' header. Each file section must include both headers.''))
                          | None \<Rightarrow>
                              Inl (InvalidInput
                                (''Patch hunk encountered before any file header. Add '' @ [CHR
                                0x60] @ ''---'' @ [CHR 0x60] @ ''/'' @ [CHR 0x60] @ ''+++'' @ [CHR
                                0x60] @ '' headers or provide '' @ [CHR 0x60] @ ''path'' @ [CHR
                                0x60] @ ''.'')))
                     | Some file \<Rightarrow>
                         (case parse_hunk_header line lines of
                            Inl e \<Rightarrow> Inl e
                          | Inr (hunk, rest) \<Rightarrow>
                              files_loop create files
                                (Some (file\<lparr>fp_hunks := fp_hunks file @ [hunk]\<rparr>)) old_path rest))
                  else files_loop create files current old_path lines)))"
  by pat_completeness auto

termination
  by (relation "measure (\<lambda>(_, _, _, _, lines). length lines)")
    (auto dest: parse_hunk_header_length)

definition parse_unified_diff_files :: "string \<Rightarrow> bool \<Rightarrow> tool_error + file_patch list" where
  "parse_unified_diff_files patch create_if_missing =
     files_loop create_if_missing [] None None (lines_of patch)"

section \<open>The shape of a patch\<close>

record patch_shape =
  sh_has_hunks :: bool
  sh_header_files :: "string list"
  sh_has_create_header :: bool
  sh_has_delete_header :: bool

definition hunk_line_counts_for_shape :: "string \<Rightarrow> (nat \<times> nat) option" where
  "hunk_line_counts_for_shape header =
     (let parts = split_whitespace header
      in if length parts < 3 then None
         else
           Option.bind (ok (parse_range (trim_start_matches (CHR ''-'') (parts ! 1))))
             (\<lambda>(_, old_count).
           Option.bind (ok (parse_range (trim_start_matches (CHR ''+'') (parts ! 2))))
             (\<lambda>(_, new_count).
             Some (old_count, new_count))))"

text \<open>\<^verbatim>\<open>saturating_sub(1)\<close> is the subtraction of natural numbers.\<close>

definition advance_hunk_shape_counts :: "string \<Rightarrow> nat \<times> nat \<Rightarrow> nat \<times> nat" where
  "advance_hunk_shape_counts line remaining =
     (let (old_remaining, new_remaining) = remaining
      in if starts_with [CHR 0x5C] line then (old_remaining, new_remaining)
         else if starts_with ''+'' line then (old_remaining, new_remaining - 1)
         else if starts_with ''-'' line then (old_remaining - 1, new_remaining)
         else (old_remaining - 1, new_remaining - 1))"

fun shape_loop ::
  "patch_shape \<Rightarrow> string option \<Rightarrow> bool \<Rightarrow> nat \<times> nat \<Rightarrow> string list \<Rightarrow> patch_shape" where
  "shape_loop shape old_path saw_old remaining [] = shape"
| "shape_loop shape old_path saw_old remaining (line # lines) =
     (if starts_with ''@@'' line then
        shape_loop (shape\<lparr>sh_has_hunks := True\<rparr>) old_path saw_old
          (case hunk_line_counts_for_shape line of None \<Rightarrow> remaining | Some counts \<Rightarrow> counts) lines
      else if fst remaining > 0 \<or> snd remaining > 0 then
        shape_loop shape old_path saw_old (advance_hunk_shape_counts line remaining) lines
      else
        (case strip_prefix ''--- '' line of
           Some stripped \<Rightarrow> shape_loop shape (normalize_diff_path stripped) True remaining lines
         | None \<Rightarrow>
             (case strip_prefix ''+++ '' line of
                Some stripped \<Rightarrow>
                  let new_path = normalize_diff_path stripped;
                      marked =
                        (if saw_old then
                           shape\<lparr>sh_has_create_header :=
                                   sh_has_create_header shape \<or> old_path = None \<and> new_path \<noteq> None,
                                 sh_has_delete_header :=
                                   sh_has_delete_header shape \<or> old_path \<noteq> None \<and> new_path = None\<rparr>
                         else shape);
                      resolved = (case new_path of None \<Rightarrow> old_path | Some p \<Rightarrow> Some p);
                      listed =
                        (case resolved of
                           None \<Rightarrow> marked
                         | Some p \<Rightarrow>
                             if p \<in> set (sh_header_files marked) then marked
                             else marked\<lparr>sh_header_files := sh_header_files marked @ [p]\<rparr>)
                  in shape_loop listed None False remaining lines
              | None \<Rightarrow> shape_loop shape old_path saw_old remaining lines)))"

definition inspect_patch_shape :: "string \<Rightarrow> patch_shape" where
  "inspect_patch_shape patch =
     shape_loop \<lparr>sh_has_hunks = False, sh_header_files = [], sh_has_create_header = False,
                 sh_has_delete_header = False\<rparr> None False (0, 0) (lines_of patch)"

definition FILE_LIST_LIMIT :: nat where "FILE_LIST_LIMIT = 6"

definition format_file_list :: "string list \<Rightarrow> string" where
  "format_file_list files =
     (if files = [] then ''<none>''
      else
        let shown = take FILE_LIST_LIMIT files;
            remaining = length files - length shown
        in join '', '' (shown @ (if remaining > 0
              then [''... (+'' @ decimal remaining @ '' more)''] else [])))"

definition validate_patch_shape :: "patch_shape \<Rightarrow> string option \<Rightarrow> tool_error + unit" where
  "validate_patch_shape shape path_override =
     (if \<not> sh_has_hunks shape then
        Inl (InvalidInput (''Patch must include at least one hunk header ('' @ [CHR 0x60] @
          ''@@ -start,count +start,count @@'' @ [CHR 0x60] @ '').''))
      else
        (case path_override of
           Some _ \<Rightarrow>
             if sh_has_create_header shape \<or> sh_has_delete_header shape then
               Inl (InvalidInput ([CHR 0x60] @ ''path'' @ [CHR 0x60] @
                 '' cannot override a patch with '' @ [CHR 0x60] @ ''/dev/null'' @ [CHR 0x60] @
                 '' create/delete headers; remove '' @ [CHR 0x60] @ ''path'' @ [CHR 0x60] @
                 '' so the header operation remains explicit''))
             else if length (sh_header_files shape) > 1 then
               Inl (InvalidInput (''Patch references multiple files ('' @ format_file_list (sh_header_files shape) @
                 '') but '' @ [CHR 0x60] @ ''path'' @ [CHR 0x60] @ '' was provided. Remove '' @
                   [CHR 0x60] @ ''path'' @ [CHR 0x60] @
                   '' to apply a multi-file patch, or provide a single-file '' @ ''patch.''))
             else Inr ()
         | None \<Rightarrow>
             if sh_header_files shape = [] then
               Inl (InvalidInput (''Patch contains hunks but no file headers ('' @ [CHR 0x60] @
                 ''---'' @ [CHR 0x60] @ ''/'' @ [CHR 0x60] @ ''+++'' @ [CHR 0x60] @
                 ''). Provide '' @ [CHR 0x60] @ ''path'' @ [CHR 0x60] @ '' or add headers.''))
             else Inr ()))"

definition diff_header_mismatch :: "string \<Rightarrow> patch_shape \<Rightarrow> string option" where
  "diff_header_mismatch path_override shape =
     (if length (sh_header_files shape) \<noteq> 1 then None
      else
        let header_path = hd (sh_header_files shape);
            override_norm = (case normalize_diff_path path_override of
               None \<Rightarrow> path_override | Some p \<Rightarrow> p)
        in if override_norm = header_path then None
           else Some ([CHR 0xE6, CHR 0xB3, CHR 0xA8, CHR 0xE6, CHR 0x84, CHR 0x8F, CHR 0xEF, CHR
             0xBC, CHR 0x9A] @ ''patch header '' @ [CHR 0xE6, CHR 0x8C, CHR 0x87, CHR 0xE5, CHR
             0x90, CHR 0x91] @ '' '' @ [CHR 0x60] @ header_path @
             [CHR 0x60, CHR 0xEF, CHR 0xBC, CHR 0x8C, CHR 0xE4, CHR 0xBD, CHR 0x86] @ '' '' @ [CHR
               0x60] @ ''path'' @ [CHR 0x60] @ '' '' @ [CHR 0xE8, CHR 0xA6, CHR 0x86, CHR 0xE7,
               CHR 0x9B, CHR 0x96, CHR 0xE4, CHR 0xB8, CHR 0xBA] @ '' '' @ [CHR 0x60] @
               override_norm @ [CHR 0x60, CHR 0xE3, CHR 0x80, CHR 0x82]))"

section \<open>Preflight\<close>

record apply_patch_preflight =
  pf_touched_files :: "string list"
  pf_files_total :: nat
  pf_hunks_total :: nat
  pf_creates :: "string list"
  pf_deletes :: "string list"
  pf_path_override :: "string option"
  pf_header_path_mismatch :: "string option"

datatype apply_patch_preflight_kind =
    Changes
  | PathOverride string "hunk list"
  | FilePatches "file_patch list"

definition push_unique :: "string list \<Rightarrow> string \<Rightarrow> string list" where
  "push_unique target v = (if v \<in> set target then target else target @ [v])"

definition change_field :: "json \<Rightarrow> string \<Rightarrow> tool_error + string" where
  "change_field change field =
     ok_or (optional_str change field) (MissingField (''changes[].'' @ field))"

fun changes_loop :: "string list \<Rightarrow> json list \<Rightarrow> tool_error + string list" where
  "changes_loop seen [] = Inr seen"
| "changes_loop seen (change # changes) =
     rbind (change_field change ''path'') (\<lambda>path.
     rbind (change_field change ''content'') (\<lambda>_.
       if path \<in> set seen
       then Inl (InvalidInput ([CHR 0x60] @ ''changes'' @ [CHR 0x60] @
         '' contains duplicate target '' @ [CHR 0x60] @ path @ [CHR 0x60]))
       else changes_loop (seen @ [path]) changes))"

definition preflight_changes :: "json \<Rightarrow> tool_error + apply_patch_preflight" where
  "preflight_changes changes_value =
     rbind (ok_or (as_array changes_value)
       (InvalidInput ([CHR 0x60] @ ''changes'' @ [CHR 0x60] @
         '' must be an array of objects like {path, content}''))) (\<lambda>changes.
       if changes = [] then Inl (InvalidInput ([CHR 0x60] @ ''changes'' @ [CHR 0x60] @
         '' cannot be empty''))
       else
         rbind (changes_loop [] changes) (\<lambda>touched_files.
           Inr \<lparr>pf_touched_files = touched_files, pf_files_total = length changes,
                pf_hunks_total = 0, pf_creates = [], pf_deletes = [], pf_path_override = None,
                pf_header_path_mismatch = None\<rparr>))"

fun sections_loop ::
  "string list \<times> string list \<times> string list \<times> nat \<Rightarrow> file_patch list \<Rightarrow>
     tool_error + (string list \<times> string list \<times> string list \<times> nat)" where
  "sections_loop acc [] = Inr acc"
| "sections_loop (touched, creates, deletes, hunks_total) (fp # fps) =
     (if fp_hunks fp = [] then
        Inl (InvalidInput (''Patch section for '' @ [CHR 0x60] @ fp_path fp @ [CHR 0x60] @
          '' has no hunks ('' @ [CHR 0x60] @ ''@@ ... @@'' @ [CHR 0x60] @ '').''))
      else if fp_path fp \<in> set touched then
        Inl (InvalidInput (''Patch contains multiple sections for the same target '' @ [CHR 0x60]
          @ fp_path fp @
          [CHR 0x60] @ ''. Combine them into one file section.''))
      else
        sections_loop
          (touched @ [fp_path fp],
           if fp_create_if_missing fp \<and> \<not> fp_delete_after fp then push_unique creates (fp_path fp) else creates,
           if fp_delete_after fp then push_unique deletes (fp_path fp) else deletes,
           hunks_total + length (fp_hunks fp)) fps)"

definition preflight_apply_patch_plan ::
  "json \<Rightarrow> tool_error + (apply_patch_preflight \<times> apply_patch_preflight_kind)" where
  "preflight_apply_patch_plan input =
     (let create_if_missing = optional_bool input ''create_if_missing'' False
      in case get_field input ''changes'' of
           Some changes_value \<Rightarrow>
             let ignored_controls =
                   sort (filter (\<lambda>field. get_field input field \<noteq> None)
                     [''path'', ''patch'', ''fuzz'', ''create_if_missing''])
             in if ignored_controls \<noteq> [] then
                  Inl (InvalidInput ([CHR 0x60] @ ''changes'' @ [CHR 0x60] @
                    '' cannot be combined with patch-only fields: '' @
                    join '', '' ignored_controls))
                else rbind (preflight_changes changes_value) (\<lambda>summary. Inr (summary, Changes))
         | None \<Rightarrow>
             rbind (required_str input ''patch'') (\<lambda>patch_text.
               let path_override = optional_str input ''path'';
                   shape = inspect_patch_shape patch_text
               in and_then (validate_patch_shape shape path_override)
                 (let mismatch = Option.bind path_override (\<lambda>path. diff_header_mismatch path shape)
                  in case path_override of
                       Some path \<Rightarrow>
                         rbind (parse_unified_diff patch_text) (\<lambda>hunks.
                           if hunks = [] then
                             Inl (InvalidInput (''Patch did not contain any hunks ('' @ [CHR 0x60]
                               @ ''@@ ... @@'' @ [CHR 0x60] @
                               ''). Provide a unified diff hunk.''))
                           else
                             Inr (\<lparr>pf_touched_files = [path], pf_files_total = 1,
                                   pf_hunks_total = length hunks,
                                   pf_creates = (if create_if_missing then [path] else []),
                                   pf_deletes = [], pf_path_override = Some path,
                                   pf_header_path_mismatch = mismatch\<rparr>,
                                  PathOverride path hunks))
                     | None \<Rightarrow>
                         rbind (parse_unified_diff_files patch_text create_if_missing) (\<lambda>file_patches.
                           if file_patches = [] then
                             Inl (InvalidInput
                               (''No valid file patches found. Ensure the patch includes '' @ [CHR
                               0x60] @ ''---'' @ [CHR 0x60] @ ''/'' @ [CHR 0x60] @ ''+++'' @ [CHR
                               0x60] @ '' headers or provide '' @ [CHR 0x60] @ ''path'' @ [CHR
                               0x60] @ ''.''))
                           else
                             rbind (sections_loop ([], [], [], 0) file_patches)
                               (\<lambda>(touched, creates, deletes, hunks_total).
                                  Inr (\<lparr>pf_touched_files = touched,
                                        pf_files_total = length file_patches,
                                        pf_hunks_total = hunks_total, pf_creates = creates,
                                        pf_deletes = deletes, pf_path_override = None,
                                        pf_header_path_mismatch = mismatch\<rparr>,
                                       FilePatches file_patches))))))"

end
