(* ===== verification/Patch_Parse_Laws.thy ===== *)
theory Patch_Parse_Laws
  imports Patch_Parse
begin

text \<open>
  The reader of unified diffs reads back what a printer of them writes: every hunk and every
  file section, whatever the texts of the lines are.
\<close>

section \<open>Lines and words\<close>

definition unlines :: "string list \<Rightarrow> string" where
  "unlines ls = concat (map (\<lambda>l. l @ [CHR 0x0A]) ls)"

definition line_ok :: "string \<Rightarrow> bool" where
  "line_ok l \<longleftrightarrow> CHR 0x0A \<notin> set l \<and> (l \<noteq> [] \<longrightarrow> last l \<noteq> CHR 0x0D)"

lemma lines_from_line:
  "CHR 0x0A \<notin> set l \<Longrightarrow>
     lines_from acc (l @ CHR 0x0A # s) = strip_cr (rev acc @ l) # lines_from [] s"
  by (induction l arbitrary: acc) auto

lemma lines_of_unlines: "list_all line_ok ls \<Longrightarrow> lines_of (unlines ls) = ls"
proof (induction ls)
  case (Cons l ls)
  then have "lines_from [] (l @ CHR 0x0A # unlines ls) = l # lines_from [] (unlines ls)"
    by (auto simp: lines_from_line line_ok_def strip_cr_def)
  with Cons show ?case by (simp add: unlines_def lines_of_def)
qed (simp add: unlines_def lines_of_def)

lemma utf8_chars_append_ascii:
  "list_all is_ascii a \<Longrightarrow> utf8_chars (a @ b) = map (\<lambda>c. [c]) a @ utf8_chars b"
  by (induction a) (auto simp: len_utf8_def is_ascii_def)

definition word_char :: "char \<Rightarrow> bool" where
  "word_char c \<longleftrightarrow> is_ascii c \<and> \<not> ws1 c"

lemma while_map_single:
  assumes "\<forall>c \<in> set xs. \<not> P [c]"
  shows "takeWhile (\<lambda>c. \<not> P c) (map (\<lambda>c. [c]) xs @ rest) = map (\<lambda>c. [c]) xs @ takeWhile (\<lambda>c. \<not> P c) rest"
    and "dropWhile (\<lambda>c. \<not> P c) (map (\<lambda>c. [c]) xs @ rest) = dropWhile (\<lambda>c. \<not> P c) rest"
  using assms by (induction xs) auto

lemma words_of_word:
  assumes "a \<noteq> []" and "list_all word_char a"
  shows "words_of (map (\<lambda>c. [c]) a @ [CHR '' ''] # cps) = a # words_of cps"
    and "words_of (map (\<lambda>c. [c]) a) = [a]"
proof -
  obtain x xs where a: "a = x # xs" using assms(1) by (cases a) auto
  have ws: "is_whitespace [CHR '' '']" by (simp add: is_whitespace_def ws1_def)
  have no: "\<not> is_whitespace [c]" if "c \<in> set a" for c
    using assms(2) that by (auto simp: is_whitespace_def word_char_def list_all_iff)
  have "\<forall>c \<in> set xs. \<not> is_whitespace [c]" using no by (simp add: a)
  note take = while_map_single [OF this]
  have skip: "words_of ([CHR '' ''] # cps) = words_of cps"
    by (subst (1 2) words_of.simps) (simp add: ws)
  have single: "concat (map (\<lambda>c. [c]) xs) = xs" by (induction xs) auto
  show "words_of (map (\<lambda>c. [c]) a @ [CHR '' ''] # cps) = a # words_of cps"
    using no [of x] skip
    by (subst words_of.simps) (simp add: a take ws single)
  have all: "takeWhile (\<lambda>c. \<not> is_whitespace c) (map (\<lambda>c. [c]) xs) = map (\<lambda>c. [c]) xs"
    "dropWhile (\<lambda>c. \<not> is_whitespace c) (map (\<lambda>c. [c]) xs) = []"
    using take [of "[]"] by simp_all
  show "words_of (map (\<lambda>c. [c]) a) = [a]"
    using no [of x]
    by (subst words_of.simps) (simp add: a single all words_of.simps [of "[]"])
qed

lemma split_whitespace_word:
  "a \<noteq> [] \<Longrightarrow> list_all word_char a \<Longrightarrow> split_whitespace (a @ '' '' @ s) = a # split_whitespace s"
  "a \<noteq> [] \<Longrightarrow> list_all word_char a \<Longrightarrow> split_whitespace a = [a]"
  using words_of_word [of a]
  by (simp_all add: split_whitespace_def utf8_chars_append_ascii [of a] utf8_chars_ascii word_char_def
      list_all_iff is_ascii_def byte_def len_utf8_def)

lemma split_on_append:
  "\<forall>c \<in> set a. \<not> P c \<Longrightarrow> split_on P a = [a]"
  "\<forall>c \<in> set a. \<not> P c \<Longrightarrow> P d \<Longrightarrow> split_on P (a @ d # b) = a # split_on P b"
  by (induction a) auto

section \<open>Printing\<close>

fun print_hunk_line :: "hunk_line \<Rightarrow> string" where
  "print_hunk_line (Context s) = CHR '' '' # s"
| "print_hunk_line (Add s) = CHR ''+'' # s"
| "print_hunk_line (Remove s) = CHR ''-'' # s"

fun hunk_line_text :: "hunk_line \<Rightarrow> string" where
  "hunk_line_text (Context s) = s"
| "hunk_line_text (Add s) = s"
| "hunk_line_text (Remove s) = s"

fun in_old :: "hunk_line \<Rightarrow> bool" where
  "in_old (Add s) = False"
| "in_old _ = True"

fun in_new :: "hunk_line \<Rightarrow> bool" where
  "in_new (Remove s) = False"
| "in_new _ = True"

definition print_range :: "nat \<Rightarrow> nat \<Rightarrow> string" where
  "print_range start n = decimal start @ '','' @ decimal n"

definition print_header :: "hunk \<Rightarrow> string" where
  "print_header h =
     ''@@'' @ '' '' @ (''-'' @ print_range (hk_old_start h) (hk_old_count h)) @ '' '' @
     (''+'' @ print_range (hk_new_start h) (hk_new_count h)) @ '' '' @ ''@@''"

definition print_hunk :: "hunk \<Rightarrow> string list" where
  "print_hunk h = print_header h # map print_hunk_line (hk_lines h)"

definition hunk_ok :: "hunk \<Rightarrow> bool" where
  "hunk_ok h \<longleftrightarrow>
     hk_old_start h < 2 ^ 64 \<and> hk_old_count h < 2 ^ 64 \<and> hk_new_start h < 2 ^ 64 \<and> hk_new_count h < 2 ^ 64 \<and>
     hk_old_count h = length (filter in_old (hk_lines h)) \<and>
     hk_new_count h = length (filter in_new (hk_lines h)) \<and>
     list_all (\<lambda>l. line_ok (hunk_line_text l)) (hk_lines h)"

lemma decimal_chars: "c \<in> set (decimal n) \<Longrightarrow> is_ascii_digit c"
  using is_ascii_digit_decimal [of n] by (auto simp: list_all_iff)

lemma digit_plain:
  "is_ascii_digit c \<Longrightarrow> word_char c \<and> c \<noteq> CHR '','' \<and> c \<noteq> CHR ''-'' \<and> c \<noteq> CHR ''+'' \<and> c \<noteq> CHR 0x0A \<and> c \<noteq> CHR 0x0D"
  by (auto simp: is_ascii_digit_def word_char_def is_ascii_def byte_def less_eq_char_def ws1_def)

lemma decimal_nonempty [simp]: "decimal n \<noteq> []"
  using is_ascii_digit_decimal [of n] by simp

lemma parse_range_print:
  "m < 2 ^ 64 \<Longrightarrow> n < 2 ^ 64 \<Longrightarrow> parse_range (print_range m n) = Inr (m, n)"
proof -
  assume m: "m < 2 ^ 64" and n: "n < 2 ^ 64"
  have no: "\<forall>c \<in> set (decimal k). \<not> c = CHR '',''" for k
    using decimal_chars digit_plain by blast
  have "split_on (\<lambda>c. c = CHR '','') (print_range m n) = [decimal m, decimal n]"
    using split_on_append(2) [OF no, of "CHR '',''" m "decimal n"] split_on_append(1) [OF no]
    by (simp add: print_range_def)
  then show ?thesis using m n by (simp add: parse_range_def parse_usize_decimal)
qed

lemma trim_start_print_range:
  "c = CHR ''-'' \<or> c = CHR ''+'' \<Longrightarrow> trim_start_matches c (c # print_range m n) = print_range m n"
proof -
  assume c: "c = CHR ''-'' \<or> c = CHR ''+''"
  obtain d r where d: "decimal m = d # r" by (cases "decimal m") auto
  then have "d \<noteq> c" using decimal_chars [of d m] digit_plain [of d] c by auto
  then show ?thesis by (simp add: trim_start_matches_def print_range_def d)
qed

lemma print_range_words: "list_all word_char (print_range m n)"
  using decimal_chars digit_plain
  by (auto simp: print_range_def list_all_iff word_char_def is_ascii_def byte_def ws1_def)

lemma split_print_header:
  "split_whitespace (print_header h) =
     [''@@'', CHR ''-'' # print_range (hk_old_start h) (hk_old_count h),
      CHR ''+'' # print_range (hk_new_start h) (hk_new_count h), ''@@'']"
proof -
  have "list_all word_char ''@@''" "word_char (CHR ''-'')" "word_char (CHR ''+'')"
    by (simp_all add: word_char_def is_ascii_def byte_def ws1_def)
  then have word: "split_whitespace (CHR ''@'' # CHR ''@'' # CHR '' '' # s) = ''@@'' # split_whitespace s"
    "split_whitespace (CHR ''-'' # print_range m n @ CHR '' '' # s) =
       (CHR ''-'' # print_range m n) # split_whitespace s"
    "split_whitespace (CHR ''+'' # print_range m n @ CHR '' '' # s) =
       (CHR ''+'' # print_range m n) # split_whitespace s"
    "split_whitespace ''@@'' = [''@@'']" for m n s
    using split_whitespace_word(1) [of "''@@''" s] split_whitespace_word(2) [of "''@@''"]
      split_whitespace_word(1) [of "CHR ''-'' # print_range m n" s]
      split_whitespace_word(1) [of "CHR ''+'' # print_range m n" s] print_range_words
    by simp_all
  show ?thesis by (simp add: print_header_def word)
qed

lemma hunk_body_print:
  "oc = os + length (filter in_old items) \<Longrightarrow> nc = ns + length (filter in_new items) \<Longrightarrow>
     hunk_body oc nc os ns (map print_hunk_line items @ rest) = (items, oc, nc, rest)"
proof (induction items arbitrary: os ns)
  case Nil
  then show ?case by (cases rest) auto
next
  case (Cons item items)
  then show ?case
    using Cons.IH [of "os + 1" "ns + 1"] Cons.IH [of "os + 1" ns] Cons.IH [of os "ns + 1"]
    by (cases item) (auto simp: starts_with_def Let_def)
qed

lemma parse_hunk_header_print:
  "hunk_ok h \<Longrightarrow>
     parse_hunk_header (print_header h) (map print_hunk_line (hk_lines h) @ rest) = Inr (h, rest)"
  using hunk_body_print [of "hk_old_count h" 0 "hk_lines h" "hk_new_count h" 0 rest]
  by (simp add: parse_hunk_header_def split_print_header trim_start_print_range parse_range_print
      hunk_ok_def)

section \<open>File sections\<close>

definition print_file :: "file_patch \<Rightarrow> string list" where
  "print_file fp =
     [''--- '' @ (if fp_create_from_null fp then ''/dev/null'' else ''a/'' @ fp_path fp),
      ''+++ '' @ (if fp_delete_after fp then ''/dev/null'' else ''b/'' @ fp_path fp)] @
     concat (map print_hunk (fp_hunks fp))"

definition print_patch :: "file_patch list \<Rightarrow> string" where
  "print_patch fps = unlines (concat (map print_file fps))"

definition path_ok :: "string \<Rightarrow> bool" where
  "path_ok p \<longleftrightarrow> p \<noteq> [] \<and> trim_end p = p \<and> CHR 0x09 \<notin> set p \<and> line_ok p"

definition file_ok :: "bool \<Rightarrow> file_patch \<Rightarrow> bool" where
  "file_ok create fp \<longleftrightarrow>
     path_ok (fp_path fp) \<and> list_all hunk_ok (fp_hunks fp) \<and>
     \<not> (fp_delete_after fp \<and> fp_create_from_null fp) \<and>
     fp_create_if_missing fp = (create \<or> fp_create_from_null fp)"

lemma trim_end_last:
  assumes "p \<noteq> []" "trim_end p = p"
  shows "\<not> is_whitespace (last (utf8_chars p))"
proof
  assume ws: "is_whitespace (last (utf8_chars p))"
  let ?cs = "utf8_chars p"
  have ne: "?cs \<noteq> []" using assms(1) by simp
  have "length (concat (rev (dropWhile is_whitespace (rev ?cs)))) < length (concat ?cs)"
  proof -
    obtain cs c where cs: "?cs = cs @ [c]" using ne by (cases ?cs rule: rev_cases) auto
    then have "c \<noteq> []" using utf8_chars_nonempty [of c p] by simp
    moreover have "length (concat (rev (dropWhile is_whitespace (rev cs)))) \<le> length (concat cs)"
    proof -
      have "cs = rev (dropWhile is_whitespace (rev cs)) @ rev (takeWhile is_whitespace (rev cs))"
        by (metis rev_append rev_rev_ident takeWhile_dropWhile_id)
      then show ?thesis by (metis concat_append le_add1 length_append)
    qed
    ultimately show ?thesis using ws by (cases c) (auto simp: cs)
  qed
  then show False using assms(2) unfolding trim_end_def by (metis concat_utf8_chars less_irrefl)
qed

lemma trim_prefixed:
  assumes "path_ok p" and "is_ascii c" and "\<not> ws1 c"
  shows "trim (c # CHR ''/'' # p) = c # CHR ''/'' # p"
proof -
  have cs: "utf8_chars (c # CHR ''/'' # p) = [c] # ''/'' # utf8_chars p"
    using assms(2) by (simp add: len_utf8_def is_ascii_def byte_def)
  have "trim_start (c # CHR ''/'' # p) = c # CHR ''/'' # p"
    using assms(3) unfolding trim_start_def cs by (simp add: is_whitespace_def)
  moreover have "\<not> is_whitespace (last (utf8_chars p))" "utf8_chars p \<noteq> []"
    using trim_end_last assms(1) by (simp_all add: path_ok_def)
  then have "dropWhile is_whitespace (rev (utf8_chars p) @ [''/'', [c]]) = rev (utf8_chars p) @ [''/'', [c]]"
    by (cases "utf8_chars p" rule: rev_cases) auto
  then have "trim_end (c # CHR ''/'' # p) = c # CHR ''/'' # p"
    unfolding trim_end_def cs by simp
  ultimately show ?thesis by (simp only: trim_def)
qed

lemma split_once_absent:
  assumes "c \<notin> set s"
  shows "split_once c s = None"
proof -
  have none: "dropWhile (\<lambda>d. d \<noteq> c) s = []" using assms by (induction s) auto
  show ?thesis unfolding split_once_def none by simp
qed

lemma header_paths:
  assumes "path_ok p"
  shows "trim (''a/'' @ p) = ''a/'' @ p" "trim (''b/'' @ p) = ''b/'' @ p"
    "normalize_diff_path (''a/'' @ p) = Some p" "normalize_diff_path (''b/'' @ p) = Some p"
    "trim ''/dev/null'' = ''/dev/null''" "normalize_diff_path ''/dev/null'' = None"
proof -
  show ab: "trim (''a/'' @ p) = ''a/'' @ p" "trim (''b/'' @ p) = ''b/'' @ p"
    using trim_prefixed [OF assms] by (simp_all add: is_ascii_def byte_def ws1_def)
  have "CHR 0x09 \<notin> set (''a/'' @ p)" "CHR 0x09 \<notin> set (''b/'' @ p)"
    using assms by (auto simp: path_ok_def)
  with ab show "normalize_diff_path (''a/'' @ p) = Some p" "normalize_diff_path (''b/'' @ p) = Some p"
    by (simp_all add: normalize_diff_path_def split_once_absent strip_prefix_def)
  show "trim ''/dev/null'' = ''/dev/null''" "normalize_diff_path ''/dev/null'' = None"
    by code_simp+
qed

lemma files_loop_hunks:
  assumes "list_all hunk_ok hs"
  shows "files_loop create files (Some fp) old_path (concat (map print_hunk hs) @ rest) =
    files_loop create files (Some (fp\<lparr>fp_hunks := fp_hunks fp @ hs\<rparr>)) old_path rest"
  using assms
proof (induction hs arbitrary: fp)
  case (Cons h hs)
  have "print_header h = CHR ''@'' # CHR ''@'' # drop 2 (print_header h)"
    by (simp add: print_header_def)
  then have "starts_with ''@@'' (print_header h)" "\<not> starts_with ''diff --git '' (print_header h)"
    "strip_prefix ''--- '' (print_header h) = None" "strip_prefix ''+++ '' (print_header h) = None"
    by (simp_all add: starts_with_def strip_prefix_def print_header_def)
  with Cons show ?case
    using parse_hunk_header_print [of h "concat (map print_hunk hs) @ rest"]
    by (simp add: print_hunk_def [of h])
qed simp

lemma files_loop_old:
  "files_loop create files current old_path ((''--- '' @ t) # lines) =
     files_loop create files current (Some (trim t)) lines"
  by (simp add: starts_with_def strip_prefix_def)

lemma files_loop_new:
  "resolve_diff_paths old_path (Some (trim t)) create = Inr (path, delete_after, create_flag, create_from_null) \<Longrightarrow>
     files_loop create files current old_path ((''+++ '' @ t) # lines) =
       files_loop create (files @ taken current)
         (Some \<lparr>fp_path = path, fp_hunks = [], fp_delete_after = delete_after,
                fp_create_if_missing = create_flag, fp_create_from_null = create_from_null\<rparr>) None lines"
  by (simp add: starts_with_def strip_prefix_def)

lemma resolve_printed:
  assumes "file_ok create fp"
  shows "resolve_diff_paths
      (Some (trim (if fp_create_from_null fp then ''/dev/null'' else ''a/'' @ fp_path fp)))
      (Some (trim (if fp_delete_after fp then ''/dev/null'' else ''b/'' @ fp_path fp))) create =
    Inr (fp_path fp, fp_delete_after fp, fp_create_if_missing fp, fp_create_from_null fp)"
proof -
  have "path_ok (fp_path fp)" using assms by (simp add: file_ok_def)
  note paths = header_paths [OF this]
  show ?thesis
    using assms unfolding resolve_diff_paths_def file_ok_def
    by (cases "fp_create_from_null fp"; cases "fp_delete_after fp")
      (simp_all only: paths if_True if_False Option.bind.simps Let_def, simp_all)
qed

lemma files_loop_file:
  assumes "file_ok create fp"
  shows "files_loop create files current None (print_file fp @ rest) =
    files_loop create (files @ taken current) (Some fp) None rest"
proof -
  have hunks: "list_all hunk_ok (fp_hunks fp)" using assms by (simp add: file_ok_def)
  have "print_file fp @ rest =
      (''--- '' @ (if fp_create_from_null fp then ''/dev/null'' else ''a/'' @ fp_path fp)) #
      (''+++ '' @ (if fp_delete_after fp then ''/dev/null'' else ''b/'' @ fp_path fp)) #
      concat (map print_hunk (fp_hunks fp)) @ rest"
    by (simp add: print_file_def)
  then have "files_loop create files current None (print_file fp @ rest) =
      files_loop create (files @ taken current)
        (Some \<lparr>fp_path = fp_path fp, fp_hunks = [] @ fp_hunks fp, fp_delete_after = fp_delete_after fp,
               fp_create_if_missing = fp_create_if_missing fp,
               fp_create_from_null = fp_create_from_null fp\<rparr>) None rest"
    by (simp only: files_loop_old files_loop_new [OF resolve_printed [OF assms]] files_loop_hunks [OF hunks])
      simp
  then show ?thesis by (cases fp) simp
qed

lemma files_loop_files:
  "list_all (file_ok create) fps \<Longrightarrow>
     files_loop create files current None (concat (map print_file fps)) = Inr (files @ taken current @ fps)"
proof (induction fps arbitrary: files current)
  case (Cons fp fps)
  then show ?case by (simp add: files_loop_file taken_def)
qed simp

lemma line_ok_Cons: "line_ok s \<Longrightarrow> c \<noteq> CHR 0x0A \<Longrightarrow> c \<noteq> CHR 0x0D \<Longrightarrow> line_ok (c # s)"
  by (auto simp: line_ok_def)

lemma line_ok_print_header: "line_ok (print_header h)"
proof -
  have "CHR 0x0A \<notin> set (decimal n)" for n using decimal_chars digit_plain by blast
  then show ?thesis by (simp add: line_ok_def print_header_def print_range_def)
qed

lemma lines_ok_print_hunk: "hunk_ok h \<Longrightarrow> list_all line_ok (print_hunk h)"
proof -
  have "line_ok (print_hunk_line l)" if "line_ok (hunk_line_text l)" for l
    using that by (cases l) (simp_all add: line_ok_Cons)
  then show "hunk_ok h \<Longrightarrow> list_all line_ok (print_hunk h)"
    by (auto simp: print_hunk_def line_ok_print_header hunk_ok_def list_all_iff)
qed

lemma lines_ok_print_file: "file_ok create fp \<Longrightarrow> list_all line_ok (print_file fp)"
proof -
  assume ok: "file_ok create fp"
  then have "line_ok (''a/'' @ fp_path fp)" "line_ok (''b/'' @ fp_path fp)" "line_ok ''/dev/null''"
    by (auto simp: file_ok_def path_ok_def line_ok_def)
  then have "line_ok (''--- '' @ t)" "line_ok (''+++ '' @ t)"
    if "t \<in> {''a/'' @ fp_path fp, ''b/'' @ fp_path fp, ''/dev/null''}" for t
    using that by (auto intro!: line_ok_Cons)
  with ok lines_ok_print_hunk show ?thesis
    by (auto simp: print_file_def file_ok_def list_all_iff)
qed

text \<open>
  C7. Reading a patch inverts printing it. For any file sections with sensible paths and hunks
  whose counts fit their lines (modified, created and deleted files alike, and whatever the
  lines say: they may look like headers or hunks), parsing the printed unified diff returns
  exactly these sections; and for one file the reader that ignores file headers returns its
  hunks.
\<close>

theorem patch_roundtrip:
  assumes "list_all (file_ok create) fps"
  shows "parse_unified_diff_files (print_patch fps) create = Inr fps \<and>
    (\<forall>fp. fps = [fp] \<longrightarrow> parse_unified_diff (print_patch fps) = Inr (fp_hunks fp))"
proof -
  have "list_all line_ok (concat (map print_file fps))"
    using assms lines_ok_print_file by (fastforce simp: list_all_iff)
  then have lines: "lines_of (print_patch fps) = concat (map print_file fps)"
    by (simp add: print_patch_def lines_of_unlines)
  have hunks: "hunks_loop (concat (map print_hunk hs)) = Inr hs" if "list_all hunk_ok hs" for hs
    using that
  proof (induction hs)
    case (Cons h hs)
    then have "parse_hunk_header (print_header h)
        (map print_hunk_line (hk_lines h) @ concat (map print_hunk hs)) =
        Inr (h, concat (map print_hunk hs))"
      by (simp add: parse_hunk_header_print)
    moreover have "starts_with ''@@'' (print_header h)" by (simp add: print_header_def starts_with_def)
    ultimately show ?case using Cons by (simp add: print_hunk_def [of h])
  qed simp
  have skip: "dropWhile (\<lambda>line. \<not> starts_with ''@@'' line) (concat (map print_hunk hs)) =
      concat (map print_hunk hs)" for hs
    by (cases hs) (simp_all add: print_hunk_def print_header_def starts_with_def)
  have "parse_unified_diff (print_patch fps) = Inr (fp_hunks fp)" if "fps = [fp]" for fp
  proof -
    have "list_all hunk_ok (fp_hunks fp)" using assms that by (simp add: file_ok_def)
    with lines hunks skip that show ?thesis
      by (simp add: parse_unified_diff_def print_file_def starts_with_def)
  qed
  moreover have "parse_unified_diff_files (print_patch fps) create = Inr fps"
    using files_loop_files [OF assms, of "[]" None] lines
    by (simp add: parse_unified_diff_files_def taken_def)
  ultimately show ?thesis by blast
qed

definition rx_hunk :: hunk where
  "rx_hunk = \<lparr>hk_old_start = 10, hk_old_count = 2, hk_new_start = 10, hk_new_count = 2,
     hk_lines = [Context ''@@ -1 +1 @@'', Remove ''-- old'', Add ''++ new'']\<rparr>"

definition rx_file :: file_patch where
  "rx_file = \<lparr>fp_path = ''src/main.rs'', fp_hunks = [rx_hunk], fp_delete_after = False,
     fp_create_if_missing = False, fp_create_from_null = False\<rparr>"

theorem patch_roundtrip_witness:
  "parse_unified_diff_files (print_patch [rx_file]) False = Inr [rx_file]"
proof -
  have "trim_end ''src/main.rs'' = ''src/main.rs''" by code_simp
  then have "list_all (file_ok False) [rx_file]"
    by (simp add: rx_file_def rx_hunk_def file_ok_def path_ok_def hunk_ok_def line_ok_def)
  from patch_roundtrip [OF this] show ?thesis by simp
qed

end
