(* ===== verification/Patch_Apply.thy ===== *)
theory Patch_Apply
  imports Patch_Parse
begin

text \<open>
  The application of hunks to the lines of one file (crates/tools/src/apply_patch.rs): the
  search for the position of a hunk, exact first and then in growing windows, the splice, the
  running offset of the hunks before, and the reassembly of the file text.

  Lengths and positions are natural numbers, the offset is an integer. The addition
  \<^verbatim>\<open>checked_add_signed\<close> keeps its bounds, since the line number comes from the patch text.
\<close>

definition MAX_FUZZ :: nat where "MAX_FUZZ = 50"
definition DEFAULT_FUZZ :: nat where "DEFAULT_FUZZ = 3"
definition HUNK_PREVIEW_LINES :: nat where "HUNK_PREVIEW_LINES = 4"
definition SNIPPET_RADIUS :: nat where "SNIPPET_RADIUS = 2"

section \<open>File text\<close>

definition crlf :: string where "crlf = [CHR 0x0D, CHR 0x0A]"
definition lf :: string where "lf = [CHR 0x0A]"

definition reassemble_preserving_newlines :: "string list \<Rightarrow> string \<Rightarrow> string" where
  "reassemble_preserving_newlines lines base_content =
     (if lines = [] then []
      else
        let terminator = (if contains_str crlf base_content then crlf else lf);
            trailing = (base_content = [] \<or> ends_with lf base_content)
        in join terminator lines @ (if trailing then terminator else []))"

section \<open>One hunk\<close>

datatype apply_hunk_error =
    NoMatch nat nat int
  | Ambiguous nat "nat list"

fun old_line :: "hunk_line \<Rightarrow> string option" where
  "old_line (Context s) = Some s"
| "old_line (Remove s) = Some s"
| "old_line (Add s) = None"

fun new_line :: "hunk_line \<Rightarrow> string option" where
  "new_line (Context s) = Some s"
| "new_line (Add s) = Some s"
| "new_line (Remove s) = None"

definition old_lines :: "hunk \<Rightarrow> string list" where
  "old_lines h = List.map_filter old_line (hk_lines h)"

definition new_lines :: "hunk \<Rightarrow> string list" where
  "new_lines h = List.map_filter new_line (hk_lines h)"

definition matches_at_position :: "string list \<Rightarrow> string list \<Rightarrow> nat \<Rightarrow> bool" where
  "matches_at_position lines old pos \<longleftrightarrow>
     pos + length old \<le> length lines \<and>
     list_all2 (\<lambda>file_line expected. trim_end file_line = trim_end expected)
       (take (length old) (drop pos lines)) old"

definition checked_add_signed :: "nat \<Rightarrow> int \<Rightarrow> nat option" where
  "checked_add_signed n d =
     (if 0 \<le> int n + d \<and> int n + d < 2 ^ 64 then Some (nat (int n + d)) else None)"

definition start_index :: "string list \<Rightarrow> hunk \<Rightarrow> int \<Rightarrow> nat" where
  "start_index lines h offset =
     (let base_idx = (if hk_old_start h > 0 then hk_old_start h - 1 else 0)
      in min (case checked_add_signed base_idx offset of None \<Rightarrow> 0 | Some i \<Rightarrow> i) (length lines))"

definition search_range :: "string list \<Rightarrow> nat \<Rightarrow> nat \<Rightarrow> nat list" where
  "search_range lines start_idx fuzz =
     (if fuzz = 0 then [start_idx]
      else [start_idx - fuzz ..< Suc (min (start_idx + fuzz) (length lines))])"

text \<open>\<^verbatim>\<open>for fuzz in 0..=max_fuzz\<close>, over the fuzz values still to try.\<close>

fun fuzz_loop ::
  "string list \<Rightarrow> string list \<Rightarrow> nat \<Rightarrow> nat list \<Rightarrow> apply_hunk_error + (nat \<times> nat) option" where
  "fuzz_loop lines old start_idx [] = Inr None"
| "fuzz_loop lines old start_idx (fuzz # fuzzes) =
     (let matches = filter (matches_at_position lines old) (search_range lines start_idx fuzz)
      in if length matches > 1 then Inl (Ambiguous fuzz matches)
         else (case matches of
                 pos # _ \<Rightarrow> Inr (Some (fuzz, pos))
               | [] \<Rightarrow> fuzz_loop lines old start_idx fuzzes))"

text \<open>The new lines, the new offset and the fuzz used.\<close>

definition apply_hunk ::
  "string list \<Rightarrow> hunk \<Rightarrow> nat \<Rightarrow> int \<Rightarrow> apply_hunk_error + (string list \<times> int \<times> nat)" where
  "apply_hunk lines h max_fuzz offset =
     (let old = old_lines h; new = new_lines h; start_idx = start_index lines h offset
      in rbind (fuzz_loop lines old start_idx [0 ..< Suc max_fuzz]) (\<lambda>found.
           case found of
             Some (fuzz, pos) \<Rightarrow>
               Inr (take pos lines @ new @ drop (pos + length old) lines,
                    offset + (int (length new) - int (length old)), fuzz)
           | None \<Rightarrow>
               if old = [] \<and> (lines = [] \<or> start_idx \<ge> length lines)
               then Inr (lines @ new, offset + int (length new), 0)
               else Inl (NoMatch (hk_old_start h) (start_idx + 1) offset)))"

section \<open>All hunks of a file\<close>

record hunk_apply_stats =
  has_hunks_applied :: nat
  has_fuzz_used :: nat
  has_hunks_with_fuzz :: nat

definition signed_decimal :: "int \<Rightarrow> string" where
  "signed_decimal i = (if i < 0 then ''-'' else ''+'') @ decimal (nat \<bar>i\<bar>)"

definition pad4 :: "string \<Rightarrow> string" where
  "pad4 s = replicate (4 - length s) (CHR '' '') @ s"

fun preview_line :: "hunk_line \<Rightarrow> string option" where
  "preview_line (Context s) = Some (''   '' @ s)"
| "preview_line (Remove s) = Some (''  -'' @ s)"
| "preview_line (Add s) = None"

definition preview_expected_lines :: "hunk \<Rightarrow> nat \<Rightarrow> string list" where
  "preview_expected_lines h limit =
     (let preview = take limit (List.map_filter preview_line (hk_lines h))
      in if preview = [] then [''  <no context lines in hunk>''] else preview)"

definition snippet_around :: "string list \<Rightarrow> nat \<Rightarrow> nat \<Rightarrow> string list" where
  "snippet_around lines line_1_based radius =
     (if lines = [] then [''  <empty file>'']
      else
        let center = min (line_1_based - 1) (length lines - 1);
            start = center - radius;
            stop = min (center + radius) (length lines - 1)
        in map (\<lambda>i. ''  '' @ pad4 (decimal (i + 1)) @ '': '' @ lines ! i) [start ..< Suc stop])"

definition format_hunk_no_match_error ::
  "string list \<Rightarrow> hunk \<Rightarrow> apply_hunk_error \<Rightarrow> nat \<Rightarrow> string" where
  "format_hunk_no_match_error lines h err max_fuzz =
     (case err of
        NoMatch expected_line adjusted_line offset \<Rightarrow>
          [CHR 0xE5, CHR 0x9C, CHR 0xA8, CHR 0xE7, CHR 0xAC, CHR 0xAC] @ '' '' @ decimal
            expected_line @ '' '' @ [CHR 0xE8, CHR 0xA1, CHR 0x8C, CHR 0xE9, CHR 0x99, CHR 0x84,
            CHR 0xE8, CHR 0xBF, CHR 0x91, CHR 0xE6, CHR 0x89, CHR 0xBE, CHR 0xE4, CHR 0xB8, CHR
            0x8D, CHR 0xE5, CHR 0x88, CHR 0xB0, CHR 0xE5, CHR 0x8C, CHR 0xB9, CHR 0xE9, CHR 0x85,
            CHR 0x8D, CHR 0xE4, CHR 0xB8, CHR 0x8A, CHR 0xE4, CHR 0xB8, CHR 0x8B, CHR 0xE6, CHR
            0x96, CHR 0x87, CHR 0xEF, CHR 0xBC, CHR 0x88, CHR 0xE5, CHR 0xAE, CHR 0x9E, CHR 0xE9,
            CHR 0x99, CHR 0x85, CHR 0xE6, CHR 0x90, CHR 0x9C, CHR 0xE7, CHR 0xB4, CHR 0xA2, CHR
            0xE7, CHR 0xAC, CHR 0xAC] @ '' '' @
          decimal adjusted_line @ '' '' @ [CHR 0xE8, CHR 0xA1, CHR 0x8C, CHR 0xE9, CHR 0x99, CHR
            0x84, CHR 0xE8, CHR 0xBF, CHR 0x91, CHR 0xEF, CHR 0xBC, CHR 0x8C, CHR 0xE5, CHR 0x81,
            CHR 0x8F, CHR 0xE7, CHR 0xA7, CHR 0xBB] @ '' '' @ signed_decimal offset @
          [CHR 0xEF, CHR 0xBC, CHR 0x8C, CHR 0xE6, CHR 0x9C, CHR 0x80, CHR 0xE5, CHR 0xA4, CHR
            0xA7] @ '' fuzz='' @ decimal max_fuzz @ [CHR 0xEF, CHR 0xBC, CHR 0x89, CHR 0xE3, CHR
            0x80, CHR 0x82, CHR 0xE6, CHR 0x9C, CHR 0x9F, CHR 0xE6, CHR 0x9C, CHR 0x9B, CHR 0xE4,
            CHR 0xB8, CHR 0x8A, CHR 0xE4, CHR 0xB8, CHR 0x8B, CHR 0xE6, CHR 0x96, CHR 0x87, CHR
            0xEF, CHR 0xBC, CHR 0x9A] @ lf @
          join lf (preview_expected_lines h HUNK_PREVIEW_LINES) @ lf @ [CHR 0xE5, CHR 0xBD, CHR 0x93, CHR 0xE5, CHR 0x89, CHR 0x8D, CHR 0xE6, CHR 0x96, CHR 0x87, CHR 0xE4, CHR 0xBB, CHR 0xB6, CHR 0xE7, CHR 0x89, CHR 0x87, CHR 0xE6, CHR 0xAE, CHR 0xB5, CHR 0xEF, CHR 0xBC, CHR 0x9A] @ lf @
          join lf (snippet_around lines adjusted_line SNIPPET_RADIUS)
      | Ambiguous fuzz positions \<Rightarrow>
          [CHR 0xE5, CHR 0x9C, CHR 0xA8] @ '' fuzz='' @ decimal fuzz @ '' '' @ [CHR 0xE6, CHR
            0x97, CHR 0xB6, CHR 0xE5, CHR 0x8C, CHR 0xB9, CHR 0xE9, CHR 0x85, CHR 0x8D, CHR 0xE5,
            CHR 0x88, CHR 0xB0, CHR 0xE5, CHR 0xA4, CHR 0x9A, CHR 0xE4, CHR 0xB8, CHR 0xAA, CHR
            0xE4, CHR 0xBD, CHR 0x8D, CHR 0xE7, CHR 0xBD, CHR 0xAE, CHR 0xEF, CHR 0xBC, CHR 0x88,
            CHR 0xE8, CHR 0xA1, CHR 0x8C, CHR 0xE5, CHR 0x8F, CHR 0xB7, CHR 0xEF, CHR 0xBC, CHR
            0x9A] @
          join '', '' (map (\<lambda>position. decimal (position + 1)) positions) @
          [CHR 0xEF, CHR 0xBC, CHR 0x89, CHR 0xEF, CHR 0xBC, CHR 0x8C, CHR 0xE6, CHR 0x8B, CHR 0x92, CHR 0xE7, CHR 0xBB, CHR 0x9D, CHR 0xE7, CHR 0x8C, CHR 0x9C, CHR 0xE6, CHR 0xB5, CHR 0x8B, CHR 0xE7, CHR 0x9B, CHR 0xAE, CHR 0xE6, CHR 0xA0, CHR 0x87])"

definition hunk_failure ::
  "string list \<Rightarrow> hunk \<Rightarrow> nat \<Rightarrow> string \<Rightarrow> nat \<Rightarrow> nat \<Rightarrow> apply_hunk_error \<Rightarrow> tool_error" where
  "hunk_failure lines h fuzz file_label number n_hunks e =
     (let detail = [CHR 0xE6, CHR 0x97, CHR 0xA0, CHR 0xE6, CHR 0xB3, CHR 0x95, CHR 0xE5, CHR
       0xAF, CHR 0xB9] @ '' '' @ [CHR 0x60] @ file_label @ [CHR 0x60] @ '' '' @ [CHR 0xE5, CHR
       0xBA, CHR 0x94, CHR 0xE7, CHR 0x94, CHR 0xA8, CHR 0xE7, CHR 0xAC, CHR 0xAC] @ '' '' @
       decimal number @ ''/'' @
            decimal n_hunks @ '' '' @ [CHR 0xE4, CHR 0xB8, CHR 0xAA] @ '' hunk'' @ [CHR 0xEF, CHR
              0xBC, CHR 0x9A] @ format_hunk_no_match_error lines h e fuzz
      in case e of
           NoMatch _ _ _ \<Rightarrow> WorkspacePrecondition detail
         | Ambiguous _ _ \<Rightarrow> AmbiguousEdit detail)"

fun hunks_apply_loop ::
  "nat \<Rightarrow> string \<Rightarrow> nat \<Rightarrow> nat \<Rightarrow> string list \<Rightarrow> int \<Rightarrow> hunk_apply_stats \<Rightarrow> hunk list \<Rightarrow>
     tool_error + (string list \<times> hunk_apply_stats)" where
  "hunks_apply_loop fuzz file_label n_hunks idx lines offset stats [] = Inr (lines, stats)"
| "hunks_apply_loop fuzz file_label n_hunks idx lines offset stats (h # hs) =
     (case apply_hunk lines h fuzz offset of
        Inr (lines', offset', fuzz_used) \<Rightarrow>
          hunks_apply_loop fuzz file_label n_hunks (idx + 1) lines' offset'
            \<lparr>has_hunks_applied = has_hunks_applied stats + 1,
             has_fuzz_used = has_fuzz_used stats + fuzz_used,
             has_hunks_with_fuzz = has_hunks_with_fuzz stats + (if fuzz_used > 0 then 1 else 0)\<rparr> hs
      | Inl e \<Rightarrow> Inl (hunk_failure lines h fuzz file_label (idx + 1) n_hunks e))"

definition apply_hunks_to_lines ::
  "string list \<Rightarrow> hunk list \<Rightarrow> nat \<Rightarrow> string \<Rightarrow> tool_error + (string list \<times> hunk_apply_stats)" where
  "apply_hunks_to_lines lines hunks fuzz file_label =
     hunks_apply_loop fuzz file_label (length hunks) 0 lines 0
       \<lparr>has_hunks_applied = 0, has_fuzz_used = 0, has_hunks_with_fuzz = 0\<rparr> hunks"

end
