(* ===== verification/Patch_Write.thy ===== *)
theory Patch_Write
  imports Patch_Apply "HOL-Library.AList"
begin

text \<open>
  The write side of \<^verbatim>\<open>apply_patch\<close>: the file system it works on, the atomic publication of one
  file (crates/tools/src/atomic_write.rs), and the application of the pending writes with
  their rollback (crates/tools/src/apply_patch.rs).

  The file system has regular files with their bytes and permissions, and directories. Every
  call that changes or reads it may fail: \<open>fs_faults\<close> lists what happens to the calls to come,
  and calls after the end of the list work. \<open>FailsAfter\<close> is the failure of an atomic write in
  the directory sync that follows its rename; any other call has no effect when it fails.
  \<^verbatim>\<open>ProductionToolContext::resolve_write_path\<close> and the text of an operating system error are
  parameters, in \<open>patch_env\<close>.
\<close>

section \<open>File system\<close>

record file_node =
  fl_bytes :: string
  fl_mode :: nat

datatype io_fault = Works | FailsBefore | FailsAfter

record fs =
  fs_files :: "(path \<times> file_node) list"
  fs_dirs :: "path list"
  fs_faults :: "io_fault list"

record patch_env =
  pe_resolve_write_path :: "string \<Rightarrow> tool_error + path"
  pe_io_error :: string
  pe_new_file_mode :: nat

definition lookup :: "fs \<Rightarrow> path \<Rightarrow> file_node option" where
  "lookup w p = map_of (fs_files w) p"

definition path_exists :: "fs \<Rightarrow> path \<Rightarrow> bool" where
  "path_exists w p \<longleftrightarrow> lookup w p \<noteq> None \<or> p \<in> set (fs_dirs w)"

definition parent :: "path \<Rightarrow> path option" where
  "parent p = (if p = [] then None else Some (butlast p))"

definition display :: "path \<Rightarrow> string" where
  "display p = ''/'' @ join ''/'' p"

definition next_fault :: "fs \<Rightarrow> io_fault \<times> fs" where
  "next_fault w =
     (case fs_faults w of [] \<Rightarrow> (Works, w) | f # fs \<Rightarrow> (f, w\<lparr>fs_faults := fs\<rparr>))"

text \<open>A call that either fails without effect or is made.\<close>

definition guarded :: "'e \<Rightarrow> (fs \<Rightarrow> ('e + 'a) \<times> fs) \<Rightarrow> fs \<Rightarrow> ('e + 'a) \<times> fs" where
  "guarded e call w =
     (let (fault, w') = next_fault w in if fault = Works then call w' else (Inl e, w'))"

text \<open>A call, then the rest when it succeeded.\<close>

definition then_do :: "('e + 'a) \<times> fs \<Rightarrow> ('a \<Rightarrow> fs \<Rightarrow> ('e + 'b) \<times> fs) \<Rightarrow> ('e + 'b) \<times> fs" where
  "then_do m f = (case m of (Inl e, w) \<Rightarrow> (Inl e, w) | (Inr a, w) \<Rightarrow> f a w)"

definition read_bytes :: "path \<Rightarrow> 'e \<Rightarrow> fs \<Rightarrow> ('e + string) \<times> fs" where
  "read_bytes p e = guarded e (\<lambda>w. (ok_or (map_option fl_bytes (lookup w p)) e, w))"

definition create_dir :: "path \<Rightarrow> 'e \<Rightarrow> fs \<Rightarrow> ('e + unit) \<times> fs" where
  "create_dir p e = guarded e (\<lambda>w.
     if path_exists w p \<or> p = [] \<or> butlast p \<notin> set (fs_dirs w) then (Inl e, w)
     else (Inr (), w\<lparr>fs_dirs := fs_dirs w @ [p]\<rparr>))"

definition remove_file :: "path \<Rightarrow> 'e \<Rightarrow> fs \<Rightarrow> ('e + unit) \<times> fs" where
  "remove_file p e = guarded e (\<lambda>w.
     if lookup w p = None then (Inl e, w)
     else (Inr (), w\<lparr>fs_files := AList.delete p (fs_files w)\<rparr>))"

definition remove_dir :: "path \<Rightarrow> 'e \<Rightarrow> fs \<Rightarrow> ('e + unit) \<times> fs" where
  "remove_dir p e = guarded e (\<lambda>w.
     if p \<notin> set (fs_dirs w) \<or> list_ex (\<lambda>q. q \<noteq> [] \<and> butlast q = p) (map fst (fs_files w) @ fs_dirs w)
     then (Inl e, w)
     else (Inr (), w\<lparr>fs_dirs := removeAll p (fs_dirs w)\<rparr>))"

section \<open>Atomic publication\<close>

datatype atomic_write_error = Conflict | Io string

definition published ::
  "patch_env \<Rightarrow> path \<Rightarrow> string \<Rightarrow> nat option \<Rightarrow> fs \<Rightarrow> fs" where
  "published env p contents permissions w =
     w\<lparr>fs_files := AList.update p
         \<lparr>fl_bytes = contents,
          fl_mode = (case permissions of
             Some m \<Rightarrow> m
           | None \<Rightarrow> (case lookup w p of Some f \<Rightarrow> fl_mode f | None \<Rightarrow> pe_new_file_mode env))\<rparr>
         (fs_files w)\<rparr>"

definition write_atomic_if_unchanged ::
  "patch_env \<Rightarrow> path \<Rightarrow> string option \<Rightarrow> string \<Rightarrow> nat option \<Rightarrow> fs \<Rightarrow> (atomic_write_error + unit) \<times> fs" where
  "write_atomic_if_unchanged env p expected contents permissions w0 =
     (let (fault, w) = next_fault w0; io = Io (pe_io_error env)
      in case parent p of
           None \<Rightarrow> (Inl io, w)
         | Some dir \<Rightarrow>
             if fault = FailsBefore \<or> dir \<notin> set (fs_dirs w) then (Inl io, w)
             else
               (case expected of
                  Some bytes \<Rightarrow>
                    if map_option fl_bytes (lookup w p) \<noteq> Some bytes then (Inl Conflict, w)
                    else
                      let w' = published env p contents permissions w
                      in (if fault = FailsAfter then Inl io else Inr (), w')
                | None \<Rightarrow>
                    if path_exists w p then (Inl Conflict, w)
                    else
                      let w' = published env p contents permissions w
                      in (if fault = FailsAfter then Inl io else Inr (), w')))"

section \<open>Pending writes\<close>

record pending_write =
  pw_path :: path
  pw_content :: "string option"
  pw_original :: "string option"
  pw_original_permissions :: "nat option"

fun tool_error_display :: "tool_error \<Rightarrow> string" where
  "tool_error_display (SchemaValidation m) = [CHR 0xE5, CHR 0xB7, CHR 0xA5, CHR 0xE5, CHR 0x85,
    CHR 0xB7, CHR 0xE5, CHR 0x8F, CHR 0x82, CHR 0xE6, CHR 0x95, CHR 0xB0, CHR 0xE4, CHR 0xB8, CHR
    0x8D, CHR 0xE7, CHR 0xAC, CHR 0xA6, CHR 0xE5, CHR 0x90, CHR 0x88] @ '' schema'' @ [CHR 0xEF,
    CHR 0xBC, CHR 0x9A] @ m"
| "tool_error_display (InvalidInput m) = [CHR 0xE5, CHR 0xB7, CHR 0xA5, CHR 0xE5, CHR 0x85, CHR 0xB7, CHR 0xE5, CHR 0x8F, CHR 0x82, CHR 0xE6, CHR 0x95, CHR 0xB0, CHR 0xE6, CHR 0x97, CHR 0xA0, CHR 0xE6, CHR 0x95, CHR 0x88, CHR 0xEF, CHR 0xBC, CHR 0x9A] @ m"
| "tool_error_display (MissingField f) = [CHR 0xE5, CHR 0xB7, CHR 0xA5, CHR 0xE5, CHR 0x85, CHR
  0xB7, CHR 0xE5, CHR 0x8F, CHR 0x82, CHR 0xE6, CHR 0x95, CHR 0xB0, CHR 0xE6, CHR 0x97, CHR 0xA0,
  CHR 0xE6, CHR 0x95, CHR 0x88, CHR 0xEF, CHR 0xBC, CHR 0x9A, CHR 0xE7, CHR 0xBC, CHR 0xBA, CHR
  0xE5, CHR 0xB0, CHR 0x91, CHR 0xE5, CHR 0xBF, CHR 0x85, CHR 0xE5, CHR 0xA1, CHR 0xAB, CHR 0xE5,
  CHR 0xAD, CHR 0x97, CHR 0xE6, CHR 0xAE, CHR 0xB5] @ '' '' @ [CHR 0x27] @ f @ [CHR 0x27]"
| "tool_error_display (PathEscape p) = [CHR 0xE8, CHR 0xB7, CHR 0xAF, CHR 0xE5, CHR 0xBE, CHR
  0x84, CHR 0xE8, CHR 0xA7, CHR 0xA3, CHR 0xE6, CHR 0x9E, CHR 0x90, CHR 0xE5, CHR 0xA4, CHR 0xB1,
  CHR 0xE8, CHR 0xB4, CHR 0xA5, CHR 0xEF, CHR 0xBC, CHR 0x9A, CHR 0x27] @ display_buf p @ [CHR
  0x27] @ '' '' @ [CHR 0xE8, CHR 0xB6, CHR 0x85, CHR 0xE5, CHR 0x87, CHR 0xBA, CHR 0xE5, CHR 0xB7,
  CHR 0xA5, CHR 0xE4, CHR 0xBD, CHR 0x9C, CHR 0xE5, CHR 0x8C, CHR 0xBA]"
| "tool_error_display (ExecutionFailed m) = [CHR 0xE5, CHR 0xB7, CHR 0xA5, CHR 0xE5, CHR 0x85, CHR 0xB7, CHR 0xE6, CHR 0x89, CHR 0xA7, CHR 0xE8, CHR 0xA1, CHR 0x8C, CHR 0xE5, CHR 0xA4, CHR 0xB1, CHR 0xE8, CHR 0xB4, CHR 0xA5, CHR 0xEF, CHR 0xBC, CHR 0x9A] @ m"
| "tool_error_display (ToolTimeout s) =
     [CHR 0xE5, CHR 0xB7, CHR 0xA5, CHR 0xE5, CHR 0x85, CHR 0xB7, CHR 0xE6, CHR 0x89, CHR 0xA7,
       CHR 0xE8, CHR 0xA1, CHR 0x8C, CHR 0xE5, CHR 0xA4, CHR 0xB1, CHR 0xE8, CHR 0xB4, CHR 0xA5,
       CHR 0xEF, CHR 0xBC, CHR 0x9A, CHR 0xE6, CHR 0x93, CHR 0x8D, CHR 0xE4, CHR 0xBD, CHR 0x9C,
       CHR 0xE5, CHR 0x9C, CHR 0xA8] @ '' '' @ decimal (unat s) @ '' '' @ [CHR 0xE7, CHR 0xA7, CHR
       0x92, CHR 0xE5, CHR 0x90, CHR 0x8E, CHR 0xE8, CHR 0xB6, CHR 0x85, CHR 0xE6, CHR 0x97, CHR
       0xB6]"
| "tool_error_display (NotAvailable m) = [CHR 0xE6, CHR 0x89, CHR 0xBE, CHR 0xE4, CHR 0xB8, CHR 0x8D, CHR 0xE5, CHR 0x88, CHR 0xB0, CHR 0xE5, CHR 0xB7, CHR 0xA5, CHR 0xE5, CHR 0x85, CHR 0xB7, CHR 0xEF, CHR 0xBC, CHR 0x9A] @ m"
| "tool_error_display (PermissionDenied m) = [CHR 0xE5, CHR 0xB7, CHR 0xA5, CHR 0xE5, CHR 0x85, CHR 0xB7, CHR 0xE6, CHR 0x89, CHR 0xA7, CHR 0xE8, CHR 0xA1, CHR 0x8C, CHR 0xE6, CHR 0x9C, CHR 0xAA, CHR 0xE8, CHR 0x8E, CHR 0xB7, CHR 0xE6, CHR 0x8E, CHR 0x88, CHR 0xE6, CHR 0x9D, CHR 0x83, CHR 0xEF, CHR 0xBC, CHR 0x9A] @ m"
| "tool_error_display (WorkspacePrecondition m) = [CHR 0xE5, CHR 0xB7, CHR 0xA5, CHR 0xE4, CHR 0xBD, CHR 0x9C, CHR 0xE5, CHR 0x8C, CHR 0xBA, CHR 0xE5, CHR 0x89, CHR 0x8D, CHR 0xE7, CHR 0xBD, CHR 0xAE, CHR 0xE6, CHR 0x9D, CHR 0xA1, CHR 0xE4, CHR 0xBB, CHR 0xB6, CHR 0xE4, CHR 0xB8, CHR 0x8D, CHR 0xE6, CHR 0xBB, CHR 0xA1, CHR 0xE8, CHR 0xB6, CHR 0xB3, CHR 0xEF, CHR 0xBC, CHR 0x9A] @ m"
| "tool_error_display (StaleRead m) = [CHR 0xE5, CHR 0xB7, CHR 0xA5, CHR 0xE4, CHR 0xBD, CHR 0x9C, CHR 0xE5, CHR 0x8C, CHR 0xBA, CHR 0xE5, CHR 0x9C, CHR 0xA8, CHR 0xE8, CHR 0xAF, CHR 0xBB, CHR 0xE5, CHR 0x8F, CHR 0x96, CHR 0xE5, CHR 0x90, CHR 0x8E, CHR 0xE5, CHR 0x8F, CHR 0x91, CHR 0xE7, CHR 0x94, CHR 0x9F, CHR 0xE5, CHR 0x8F, CHR 0x98, CHR 0xE5, CHR 0x8C, CHR 0x96, CHR 0xEF, CHR 0xBC, CHR 0x9A] @ m"
| "tool_error_display (AmbiguousEdit m) = [CHR 0xE7, CHR 0xBC, CHR 0x96, CHR 0xE8, CHR 0xBE, CHR 0x91, CHR 0xE7, CHR 0x9B, CHR 0xAE, CHR 0xE6, CHR 0xA0, CHR 0x87, CHR 0xE4, CHR 0xB8, CHR 0x8D, CHR 0xE5, CHR 0x94, CHR 0xAF, CHR 0xE4, CHR 0xB8, CHR 0x80, CHR 0xEF, CHR 0xBC, CHR 0x9A] @ m"
| "tool_error_display (PatchParse m) = ''Patch '' @ [CHR 0xE5, CHR 0x8F, CHR 0x82, CHR 0xE6, CHR
  0x95, CHR 0xB0, CHR 0xE6, CHR 0x97, CHR 0xA0, CHR 0xE6, CHR 0x95, CHR 0x88, CHR 0xEF, CHR 0xBC,
  CHR 0x9A] @ m"

definition atomic_write_error_of :: "path \<Rightarrow> atomic_write_error \<Rightarrow> tool_error" where
  "atomic_write_error_of p e =
     (case e of
        Conflict \<Rightarrow> StaleRead (''apply_patch cannot publish '' @ display p @
          '' because it changed after validation'')
      | Io m \<Rightarrow> ExecutionFailed (''Failed to write '' @ display p @ '': '' @ m))"

text \<open>The directories between a path and its closest existing ancestor, the outermost last.\<close>

function missing_directories :: "fs \<Rightarrow> path \<Rightarrow> path list" where
  "missing_directories w cursor =
     (if path_exists w cursor then []
      else cursor # (case parent cursor of None \<Rightarrow> [] | Some next \<Rightarrow> missing_directories w next))"
  by pat_completeness auto

termination
  by (relation "measure (\<lambda>(w, cursor). length cursor)") (auto simp: parent_def split: if_splits)

declare missing_directories.simps [simp del]

text \<open>The loop adds each directory it made to the list, also when a later one fails.\<close>

fun create_directories ::
  "patch_env \<Rightarrow> path list \<Rightarrow> path list \<Rightarrow> fs \<Rightarrow> (tool_error + unit) \<times> path list \<times> fs" where
  "create_directories env created [] w = (Inr (), created, w)"
| "create_directories env created (d # ds) w =
     (case create_dir d (ExecutionFailed (''Failed to create directory '' @ display d @ '': '' @
             pe_io_error env)) w of
        (Inl e, w') \<Rightarrow> (Inl e, created, w')
      | (Inr _, w') \<Rightarrow> create_directories env (created @ [d]) ds w')"

definition create_missing_parent_directories ::
  "patch_env \<Rightarrow> path \<Rightarrow> path list \<Rightarrow> fs \<Rightarrow> (tool_error + unit) \<times> path list \<times> fs" where
  "create_missing_parent_directories env p created w =
     (case parent p of
        None \<Rightarrow>
          (Inl (ExecutionFailed (''Path '' @ display p @ '' has no parent directory'')), created, w)
      | Some dir \<Rightarrow> create_directories env created (rev (missing_directories w dir)) w)"

definition remove_file_if_unchanged ::
  "patch_env \<Rightarrow> pending_write \<Rightarrow> fs \<Rightarrow> (tool_error + unit) \<times> fs" where
  "remove_file_if_unchanged env entry w0 =
     (case pw_original entry of
        None \<Rightarrow>
          (Inl (WorkspacePrecondition (''Cannot delete '' @ display (pw_path entry) @
             '' because no original content was captured'')), w0)
      | Some expected \<Rightarrow>
          then_do (read_bytes (pw_path entry) (StaleRead (''apply_patch cannot delete '' @
              display (pw_path entry) @ '' because it changed or disappeared: '' @ pe_io_error env)) w0)
            (\<lambda>current w.
               if current \<noteq> expected then
                 (Inl (StaleRead (''apply_patch cannot delete '' @ display (pw_path entry) @
                    '' because it changed after validation'')), w)
               else
                 remove_file (pw_path entry) (ExecutionFailed (''Failed to delete '' @
                   display (pw_path entry) @ '': '' @ pe_io_error env)) w))"

definition rollback_entry :: "patch_env \<Rightarrow> pending_write \<Rightarrow> fs \<Rightarrow> (tool_error + unit) \<times> fs" where
  "rollback_entry env entry w0 =
     (let p = pw_path entry
      in case pw_original entry of
           Some content \<Rightarrow>
             (let (r, w) = write_atomic_if_unchanged env p (pw_content entry) content
                  (pw_original_permissions entry) w0
              in (map_err (atomic_write_error_of p) r, w))
         | None \<Rightarrow>
             (case pw_content entry of
                None \<Rightarrow>
                  (Inl (ExecutionFailed (''Rollback lacks created content for '' @ display p)), w0)
              | Some expected \<Rightarrow>
                  then_do (read_bytes p (ExecutionFailed (''Rollback cannot inspect created file '' @
                      display p @ '': '' @ pe_io_error env)) w0)
                    (\<lambda>current w.
                       if current \<noteq> expected then
                         (Inl (ExecutionFailed (''Rollback refuses to remove changed file '' @ display p)), w)
                       else
                         remove_file p (ExecutionFailed (''Rollback failed to remove '' @ display p @
                           '': '' @ pe_io_error env)) w)))"

fun rollback_entries :: "patch_env \<Rightarrow> pending_write list \<Rightarrow> fs \<Rightarrow> (tool_error + unit) \<times> fs" where
  "rollback_entries env [] w = (Inr (), w)"
| "rollback_entries env (entry # entries) w =
     then_do (rollback_entry env entry w) (\<lambda>_. rollback_entries env entries)"

definition rollback_pending_writes ::
  "patch_env \<Rightarrow> pending_write list \<Rightarrow> fs \<Rightarrow> (tool_error + unit) \<times> fs" where
  "rollback_pending_writes env applied = rollback_entries env (rev applied)"

fun remove_directories :: "patch_env \<Rightarrow> path list \<Rightarrow> fs \<Rightarrow> (tool_error + unit) \<times> fs" where
  "remove_directories env [] w = (Inr (), w)"
| "remove_directories env (d # ds) w =
     then_do (remove_dir d (ExecutionFailed (''Rollback failed to remove directory '' @ display d @
         '': '' @ pe_io_error env)) w) (\<lambda>_. remove_directories env ds)"

definition rollback_created_directories ::
  "patch_env \<Rightarrow> path list \<Rightarrow> fs \<Rightarrow> (tool_error + unit) \<times> fs" where
  "rollback_created_directories env created = remove_directories env (rev created)"

text \<open>One pending write: its result, the directories made so far, the file system.\<close>

definition apply_entry ::
  "patch_env \<Rightarrow> pending_write \<Rightarrow> path list \<Rightarrow> fs \<Rightarrow> (tool_error + unit) \<times> path list \<times> fs" where
  "apply_entry env entry created w =
     (case pw_content entry of
        Some content \<Rightarrow>
          (case create_missing_parent_directories env (pw_path entry) created w of
             (Inl e, created', w') \<Rightarrow> (Inl e, created', w')
           | (Inr _, created', w') \<Rightarrow>
               (let (r, w'') = write_atomic_if_unchanged env (pw_path entry) (pw_original entry) content
                    (pw_original_permissions entry) w'
                in (map_err (atomic_write_error_of (pw_path entry)) r, created', w'')))
      | None \<Rightarrow> (let (r, w') = remove_file_if_unchanged env entry w in (r, created, w')))"

fun apply_entries ::
  "patch_env \<Rightarrow> pending_write list \<Rightarrow> path list \<Rightarrow> pending_write list \<Rightarrow> fs \<Rightarrow> (tool_error + unit) \<times> fs" where
  "apply_entries env applied created [] w = (Inr (), w)"
| "apply_entries env applied created (entry # entries) w =
     (case apply_entry env entry created w of
        (Inr _, created', w') \<Rightarrow> apply_entries env (applied @ [entry]) created' entries w'
      | (Inl err, created', w') \<Rightarrow>
          (case then_do (rollback_pending_writes env applied w')
                  (\<lambda>_. rollback_created_directories env created') of
             (Inl rollback, w'') \<Rightarrow>
               (Inl (ExecutionFailed
                  (''apply_patch failed and rollback is incomplete; original error: '' @
                   tool_error_display err @ ''; rollback error: '' @ tool_error_display rollback)), w'')
           | (Inr _, w'') \<Rightarrow> (Inl err, w'')))"

definition apply_pending_writes :: "patch_env \<Rightarrow> pending_write list \<Rightarrow> fs \<Rightarrow> (tool_error + unit) \<times> fs" where
  "apply_pending_writes env pending = apply_entries env [] [] pending"

end
