(* ===== verification/Patch_Execute.thy ===== *)
theory Patch_Execute
  imports Patch_Write
begin

text \<open>
  The collection of the pending writes and \<^verbatim>\<open>execute_apply_patch\<close>
  (crates/tools/src/apply_patch.rs). The JSON rendering of the result is not modelled: the
  outcome is the record of its fields with the preflight that becomes its metadata.
\<close>

record file_summary =
  fsm_path :: string
  fsm_hunks :: nat
  fsm_hunks_applied :: nat
  fsm_fuzz_used :: nat
  fsm_hunks_with_fuzz :: nat
  fsm_created :: bool
  fsm_deleted :: bool

record patch_stats =
  pst_files_applied :: nat
  pst_files_total :: nat
  pst_hunks_applied :: nat
  pst_hunks_total :: nat
  pst_fuzz_used :: nat
  pst_hunks_with_fuzz :: nat
  pst_touched_files :: "string list"
  pst_file_summaries :: "file_summary list"
  pst_header_path_mismatch :: "string option"

definition no_stats :: patch_stats where
  "no_stats =
     \<lparr>pst_files_applied = 0, pst_files_total = 0, pst_hunks_applied = 0, pst_hunks_total = 0,
      pst_fuzz_used = 0, pst_hunks_with_fuzz = 0, pst_touched_files = [], pst_file_summaries = [],
      pst_header_path_mismatch = None\<rparr>"

definition read_file_content :: "patch_env \<Rightarrow> path \<Rightarrow> fs \<Rightarrow> (tool_error + string) \<times> fs" where
  "read_file_content env p w0 =
     (let e = ExecutionFailed (''Failed to read '' @ display p @ '': '' @ pe_io_error env)
      in then_do (read_bytes p e w0) (\<lambda>bytes w. (if utf8_valid bytes then Inr bytes else Inl e, w)))"

definition read_original :: "patch_env \<Rightarrow> path \<Rightarrow> fs \<Rightarrow> (tool_error + string option) \<times> fs" where
  "read_original env p w =
     (if path_exists w p
      then then_do (read_file_content env p w) (\<lambda>content w'. (Inr (Some content), w'))
      else (Inr None, w))"

definition permissions_of :: "fs \<Rightarrow> path \<Rightarrow> nat option" where
  "permissions_of w p = map_option fl_mode (lookup w p)"

section \<open>Whole-file changes\<close>

fun changes_pending ::
  "patch_env \<Rightarrow> pending_write list \<Rightarrow> patch_stats \<Rightarrow> json list \<Rightarrow> fs \<Rightarrow>
     (tool_error + (pending_write list \<times> patch_stats)) \<times> fs" where
  "changes_pending env pending stats [] w = (Inr (pending, stats), w)"
| "changes_pending env pending stats (change # changes) w =
     (case rbind (change_field change ''path'') (\<lambda>path.
           rbind (change_field change ''content'') (\<lambda>content.
           rbind (pe_resolve_write_path env path) (\<lambda>resolved. Inr (path, content, resolved)))) of
        Inl e \<Rightarrow> (Inl e, w)
      | Inr (path, content, resolved) \<Rightarrow>
          if resolved \<in> pw_path ` set pending then
            (Inl (InvalidInput ([CHR 0x60] @ ''changes'' @ [CHR 0x60] @
              '' resolves more than once to '' @ [CHR 0x60] @ display resolved @ [CHR 0x60])), w)
          else
            then_do (read_original env resolved w) (\<lambda>original w'.
              if original = Some content then
                (Inl (InvalidInput ([CHR 0x60] @ ''changes'' @ [CHR 0x60] @ '' target '' @ [CHR
                  0x60] @ path @
                   [CHR 0x60] @ '' already has the requested content'')), w')
              else
                changes_pending env
                  (pending @ [\<lparr>pw_path = resolved, pw_content = Some content, pw_original = original,
                               pw_original_permissions = permissions_of w' resolved\<rparr>])
                  (stats\<lparr>pst_files_total := pst_files_total stats + 1,
                         pst_files_applied := pst_files_applied stats + 1,
                         pst_touched_files := push_unique (pst_touched_files stats) path,
                         pst_file_summaries := pst_file_summaries stats @
                           [\<lparr>fsm_path = path, fsm_hunks = 0, fsm_hunks_applied = 0, fsm_fuzz_used = 0,
                             fsm_hunks_with_fuzz = 0, fsm_created = (original = None),
                             fsm_deleted = False\<rparr>]\<rparr>)
                  changes w'))"

definition build_pending_writes_from_changes ::
  "patch_env \<Rightarrow> json \<Rightarrow> fs \<Rightarrow> (tool_error + (pending_write list \<times> patch_stats)) \<times> fs" where
  "build_pending_writes_from_changes env changes_value w =
     (case as_array changes_value of
        None \<Rightarrow>
          (Inl (InvalidInput ([CHR 0x60] @ ''changes'' @ [CHR 0x60] @
            '' must be an array of objects like {path, content}'')), w)
      | Some changes \<Rightarrow>
          if changes = [] then (Inl (InvalidInput ([CHR 0x60] @ ''changes'' @ [CHR 0x60] @
            '' cannot be empty'')), w)
          else changes_pending env [] no_stats changes w)"

section \<open>Patches\<close>

text \<open>What is checked before the hunks of one file are applied.\<close>

definition patch_precondition ::
  "file_patch \<Rightarrow> path \<Rightarrow> string option \<Rightarrow> tool_error + unit" where
  "patch_precondition fp resolved original =
     (if fp_create_from_null fp \<and> original \<noteq> None then
        Inl (WorkspacePrecondition (''Patch declares '' @ [CHR 0x60] @ fp_path fp @
          [CHR 0x60] @ '' as a new file, but the target already exists at '' @ [CHR 0x60] @
            display resolved @ [CHR 0x60]))
      else if original = None \<and> \<not> fp_create_if_missing fp then
        Inl (ExecutionFailed (''File '' @ [CHR 0x60] @ fp_path fp @ [CHR 0x60] @
          '' does not exist at '' @ [CHR 0x60] @ display resolved @
          [CHR 0x60] @ ''. Set create_if_missing=true for new files or include '' @
            ''headers for file creation.''))
      else if fp_delete_after fp \<and> original = None then
        Inl (ExecutionFailed (''File '' @ [CHR 0x60] @ fp_path fp @ [CHR 0x60] @
          '' does not exist at '' @ [CHR 0x60] @ display resolved @
          [CHR 0x60] @ '' to delete.''))
      else Inr ())"

definition patched_content ::
  "nat \<Rightarrow> file_patch \<Rightarrow> string option \<Rightarrow> tool_error + (string option \<times> hunk_apply_stats)" where
  "patched_content fuzz fp original =
     (let base_content = (case original of None \<Rightarrow> [] | Some c \<Rightarrow> c);
          base_lines = (if base_content = [] then [] else lines_of base_content)
      in rbind (apply_hunks_to_lines base_lines (fp_hunks fp) fuzz (fp_path fp)) (\<lambda>(lines, applied).
           if fp_delete_after fp \<and> lines \<noteq> [] then
             Inl (InvalidInput (''Delete patch for '' @ [CHR 0x60] @ fp_path fp @ [CHR 0x60] @
               '' leaves '' @
               decimal (length lines) @
               '' line(s); a '' @ [CHR 0x60] @ ''/dev/null'' @ [CHR 0x60] @
                 '' target must remove the complete file content''))
           else if fp_delete_after fp then Inr (None, applied)
           else
             let new_content = reassemble_preserving_newlines lines base_content
             in if original = Some new_content then
                  Inl (InvalidInput (''Patch for '' @ [CHR 0x60] @ fp_path fp @ [CHR 0x60] @
                    '' would not change the file''))
                else Inr (Some new_content, applied)))"

definition add_file_stats ::
  "patch_stats \<Rightarrow> file_patch \<Rightarrow> string option \<Rightarrow> hunk_apply_stats \<Rightarrow> patch_stats" where
  "add_file_stats stats fp original applied =
     stats\<lparr>pst_hunks_applied := pst_hunks_applied stats + has_hunks_applied applied,
           pst_hunks_total := pst_hunks_total stats + length (fp_hunks fp),
           pst_fuzz_used := pst_fuzz_used stats + has_fuzz_used applied,
           pst_hunks_with_fuzz := pst_hunks_with_fuzz stats + has_hunks_with_fuzz applied,
           pst_files_applied := pst_files_applied stats + 1,
           pst_touched_files := push_unique (pst_touched_files stats) (fp_path fp),
           pst_file_summaries := pst_file_summaries stats @
             [\<lparr>fsm_path = fp_path fp, fsm_hunks = length (fp_hunks fp),
               fsm_hunks_applied = has_hunks_applied applied, fsm_fuzz_used = has_fuzz_used applied,
               fsm_hunks_with_fuzz = has_hunks_with_fuzz applied,
               fsm_created = (original = None \<and> \<not> fp_delete_after fp),
               fsm_deleted = fp_delete_after fp\<rparr>]\<rparr>"

fun patches_pending ::
  "patch_env \<Rightarrow> nat \<Rightarrow> pending_write list \<Rightarrow> patch_stats \<Rightarrow> file_patch list \<Rightarrow> fs \<Rightarrow>
     (tool_error + (pending_write list \<times> patch_stats)) \<times> fs" where
  "patches_pending env fuzz pending stats [] w = (Inr (pending, stats), w)"
| "patches_pending env fuzz pending stats (fp # fps) w =
     (if fp_hunks fp = [] then
        (Inl (InvalidInput (''Patch section for '' @ [CHR 0x60] @ fp_path fp @ [CHR 0x60] @
          '' has no hunks ('' @ [CHR 0x60] @ ''@@ ... @@'' @ [CHR 0x60] @ '').'')), w)
      else
        (case pe_resolve_write_path env (fp_path fp) of
           Inl e \<Rightarrow> (Inl e, w)
         | Inr resolved \<Rightarrow>
             if resolved \<in> pw_path ` set pending then
               (Inl (InvalidInput (''Patch resolves more than once to '' @ [CHR 0x60] @ display
                 resolved @ [CHR 0x60])), w)
             else
               then_do (read_original env resolved w) (\<lambda>original w'.
                 case and_then (patch_precondition fp resolved original)
                        (patched_content fuzz fp original) of
                   Inl e \<Rightarrow> (Inl e, w')
                 | Inr (content, applied) \<Rightarrow>
                     patches_pending env fuzz
                       (pending @ [\<lparr>pw_path = resolved, pw_content = content, pw_original = original,
                                    pw_original_permissions = permissions_of w' resolved\<rparr>])
                       (add_file_stats stats fp original applied) fps w')))"

definition build_pending_writes_from_patches ::
  "patch_env \<Rightarrow> file_patch list \<Rightarrow> nat \<Rightarrow> fs \<Rightarrow> (tool_error + (pending_write list \<times> patch_stats)) \<times> fs" where
  "build_pending_writes_from_patches env file_patches fuzz =
     patches_pending env fuzz [] (no_stats\<lparr>pst_files_total := length file_patches\<rparr>) file_patches"

section \<open>The tool\<close>

definition build_summary_message :: "patch_stats \<Rightarrow> string" where
  "build_summary_message stats =
     join '' ''
       ((if pst_hunks_total stats > 0
         then [[CHR 0xE5, CHR 0xB7, CHR 0xB2, CHR 0xE5, CHR 0x9C, CHR 0xA8] @ '' '' @ decimal
           (pst_files_applied stats) @ '' '' @ [CHR 0xE4, CHR 0xB8, CHR 0xAA, CHR 0xE6, CHR 0x96,
           CHR 0x87, CHR 0xE4, CHR 0xBB, CHR 0xB6, CHR 0xE4, CHR 0xB8, CHR 0xAD, CHR 0xE5, CHR
           0xBA, CHR 0x94, CHR 0xE7, CHR 0x94, CHR 0xA8] @ '' '' @
               decimal (pst_hunks_applied stats) @ ''/'' @ decimal (pst_hunks_total stats) @ '' ''
                 @ [CHR 0xE4, CHR 0xB8, CHR 0xAA] @ '' hunk'' @ [CHR 0xE3, CHR 0x80, CHR 0x82]]
         else [[CHR 0xE5, CHR 0xB7, CHR 0xB2, CHR 0xE5, CHR 0xBA, CHR 0x94, CHR 0xE7, CHR 0x94,
           CHR 0xA8] @ '' '' @ decimal (pst_files_applied stats) @ '' '' @ [CHR 0xE4, CHR 0xB8,
           CHR 0xAA, CHR 0xE6, CHR 0x96, CHR 0x87, CHR 0xE4, CHR 0xBB, CHR 0xB6, CHR 0xE4, CHR
           0xBF, CHR 0xAE, CHR 0xE6, CHR 0x94, CHR 0xB9, CHR 0xE3, CHR 0x80, CHR 0x82]]) @
        (if pst_touched_files stats \<noteq> []
         then [[CHR 0xE6, CHR 0x96, CHR 0x87, CHR 0xE4, CHR 0xBB, CHR 0xB6, CHR 0xEF, CHR 0xBC, CHR 0x9A] @ format_file_list (pst_touched_files stats) @ [CHR 0xE3, CHR 0x80, CHR 0x82]] else []) @
        (if pst_fuzz_used stats > 0
         then [decimal (pst_hunks_with_fuzz stats) @ '' '' @ [CHR 0xE4, CHR 0xB8, CHR 0xAA] @
           '' hunk '' @ [CHR 0xE4, CHR 0xBD, CHR 0xBF, CHR 0xE7, CHR 0x94, CHR 0xA8, CHR 0xE4, CHR
           0xBA, CHR 0x86] @ '' fuzz'' @ [CHR 0xEF, CHR 0xBC, CHR 0x88, CHR 0xE6, CHR 0x80, CHR
           0xBB] @ '' fuzz='' @
               decimal (pst_fuzz_used stats) @ [CHR 0xEF, CHR 0xBC, CHR 0x89, CHR 0xE3, CHR 0x80, CHR 0x82]] else []) @
        taken (pst_header_path_mismatch stats))"

record patch_outcome =
  po_stats :: patch_stats
  po_message :: string
  po_preflight :: apply_patch_preflight

definition outcome_of :: "patch_stats \<Rightarrow> apply_patch_preflight \<Rightarrow> patch_outcome" where
  "outcome_of stats preflight =
     \<lparr>po_stats = stats, po_message = build_summary_message stats, po_preflight = preflight\<rparr>"

definition execute_apply_patch :: "patch_env \<Rightarrow> json \<Rightarrow> fs \<Rightarrow> (tool_error + patch_outcome) \<times> fs" where
  "execute_apply_patch env input w0 =
     (let fuzz = min (optional_u64 input ''fuzz'' DEFAULT_FUZZ) MAX_FUZZ;
          create_if_missing = optional_bool input ''create_if_missing'' False
      in case preflight_apply_patch_plan input of
           Inl e \<Rightarrow> (Inl e, w0)
         | Inr (summary, kind) \<Rightarrow>
             (case get_field input ''changes'' of
                Some changes_value \<Rightarrow>
                  then_do (build_pending_writes_from_changes env changes_value w0)
                    (\<lambda>(pending, stats) w.
                       then_do (apply_pending_writes env pending w)
                         (\<lambda>_ w'. (Inr (outcome_of stats summary), w')))
              | None \<Rightarrow>
                  let file_patches =
                        (case kind of
                           Changes \<Rightarrow> []
                         | PathOverride path hunks \<Rightarrow>
                             [\<lparr>fp_path = path, fp_hunks = hunks, fp_delete_after = False,
                               fp_create_if_missing = create_if_missing, fp_create_from_null = False\<rparr>]
                         | FilePatches fps \<Rightarrow> fps)
                  in then_do (build_pending_writes_from_patches env file_patches fuzz w0)
                       (\<lambda>(pending, stats) w.
                          then_do (apply_pending_writes env pending w)
                            (\<lambda>_ w'. (Inr (outcome_of
                               (stats\<lparr>pst_header_path_mismatch := pf_header_path_mismatch summary\<rparr>)
                               summary), w')))))"

end
