(* ===== verification/Patch_Apply_Laws.thy ===== *)
theory Patch_Apply_Laws
  imports Patch_Execute
begin

text \<open>
  What applying the hunks of a patch does to a file: hunks at the positions they state are
  spliced in one after the other, a hunk found elsewhere is at the only place it matches in the
  window, and the text around the changed lines, its line ending and its last newline are kept.
\<close>

section \<open>Splitting and joining lines\<close>

definition render_text :: "string \<Rightarrow> bool \<Rightarrow> string list \<Rightarrow> string" where
  "render_text eol trailing ls = join eol ls @ (if trailing then eol else [])"

text \<open>The lines of a text that has one line ending throughout.\<close>

definition uniform :: "string \<Rightarrow> bool \<Rightarrow> string list \<Rightarrow> bool" where
  "uniform eol trailing ls \<longleftrightarrow>
     ls \<noteq> [] \<and> list_all (\<lambda>l. CHR 0x0A \<notin> set l) ls \<and>
     (eol = lf \<and> list_all (\<lambda>l. l = [] \<or> last l \<noteq> CHR 0x0D) ls
      \<or> eol = crlf \<and> (trailing \<or> length ls > 1)) \<and>
     (trailing \<or> last ls \<noteq> [])"

lemma lines_from_until:
  "CHR 0x0A \<notin> set l \<Longrightarrow>
     lines_from acc (l @ CHR 0x0A # s) = strip_cr (rev acc @ l) # lines_from [] s"
  by (induction l arbitrary: acc) auto

lemma lines_from_end: "CHR 0x0A \<notin> set l \<Longrightarrow> lines_from acc l = (if acc = [] \<and> l = [] then [] else [rev acc @ l])"
  by (induction l arbitrary: acc) auto

lemma lines_of_eol:
  assumes "CHR 0x0A \<notin> set l" and "eol = lf \<and> (l = [] \<or> last l \<noteq> CHR 0x0D) \<or> eol = crlf"
  shows "lines_of (l @ eol @ s) = l # lines_of s"
proof (cases "eol = crlf")
  case True
  have "CHR 0x0A \<notin> set (l @ [CHR 0x0D])" using assms(1) by simp
  from lines_from_until [OF this, of "[]" s] True show ?thesis
    by (simp add: lines_of_def crlf_def strip_cr_def)
next
  case False
  with assms lines_from_until [of l "[]" s] show ?thesis
    by (auto simp: lines_of_def lf_def strip_cr_def)
qed

lemma lines_of_render: "uniform eol trailing ls \<Longrightarrow> lines_of (render_text eol trailing ls) = ls"
proof (induction eol ls rule: join.induct)
  case (2 eol l)
  then show ?case
    using lines_of_eol [of l eol "[]"] lines_from_end [of l "[]"]
    by (cases trailing) (auto simp: render_text_def uniform_def lines_of_def)
next
  case (3 eol l l' ls)
  let ?rest = "render_text eol trailing (l' # ls)"
  have "lines_of (l @ eol @ ?rest) = l # lines_of ?rest"
    using 3 by (intro lines_of_eol) (auto simp: uniform_def)
  moreover have "lines_of ?rest = l' # ls"
  proof (cases "eol = crlf \<and> \<not> trailing \<and> ls = []")
    case True
    with "3.prems" show ?thesis
      using lines_from_end [of l' "[]"] by (auto simp: render_text_def uniform_def lines_of_def)
  next
    case False
    with 3 show ?thesis by (auto simp: uniform_def)
  qed
  ultimately show ?case by (simp add: render_text_def)
qed (simp add: uniform_def)

lemma join_append: "xs \<noteq> [] \<Longrightarrow> ys \<noteq> [] \<Longrightarrow> join sep (xs @ ys) = join sep xs @ sep @ join sep ys"
  by (induction sep xs rule: join.induct) (auto simp: neq_Nil_conv)

lemma ends_with_append: "ends_with p (s @ p)"
  by (simp add: ends_with_def starts_with_def)

lemma ends_with_lf: "ends_with lf s \<longleftrightarrow> s \<noteq> [] \<and> last s = CHR 0x0A"
  by (cases s rule: rev_cases) (auto simp: ends_with_def starts_with_def lf_def)

lemma render_nonempty: "uniform eol trailing ls \<Longrightarrow> render_text eol trailing ls \<noteq> []"
  by (cases ls; cases "tl ls") (auto simp: render_text_def uniform_def lf_def crlf_def)

lemma render_trailing: "uniform eol trailing ls \<Longrightarrow> ends_with lf (render_text eol trailing ls) = trailing"
proof (cases trailing)
  case True
  moreover assume "uniform eol trailing ls"
  then have "eol = lf \<or> eol = crlf" by (auto simp: uniform_def)
  ultimately show ?thesis
    by (auto simp: render_text_def ends_with_lf) (simp_all add: lf_def crlf_def)
next
  case False
  moreover assume u: "uniform eol trailing ls"
  with False obtain xs l where ls: "ls = xs @ [l]" "l \<noteq> []" "CHR 0x0A \<notin> set l"
    by (cases ls rule: rev_cases) (auto simp: uniform_def)
  then have "\<exists>s. join eol ls = s @ l" by (cases "xs = []") (auto simp: join_append)
  moreover have "last l \<noteq> CHR 0x0A" using ls(2,3) by (metis last_in_set)
  ultimately show ?thesis using ls(2) False by (auto simp: render_text_def ends_with_lf)
qed

lemma contains_crlf_none: "CHR 0x0A \<notin> set l \<Longrightarrow> \<not> contains_str crlf l"
  by (auto simp: contains_str_iff crlf_def)

lemma contains_crlf_line:
  "CHR 0x0A \<notin> set l \<Longrightarrow>
     contains_str crlf (l @ CHR 0x0A # s) \<longleftrightarrow> l \<noteq> [] \<and> last l = CHR 0x0D \<or> contains_str crlf s"
proof (induction l)
  case Nil
  then show ?case by (simp add: crlf_def starts_with_def)
next
  case (Cons c l)
  then show ?case by (cases l) (auto simp: crlf_def starts_with_def)
qed

lemma render_crlf:
  "uniform eol trailing ls \<Longrightarrow> contains_str crlf (render_text eol trailing ls) \<longleftrightarrow> eol = crlf"
proof (induction eol ls rule: join.induct)
  case (2 eol l)
  then show ?case
    using contains_crlf_line [of l "[]"] contains_crlf_line [of "l @ [CHR 0x0D]" "[]"] contains_crlf_none [of l]
    by (cases trailing) (auto simp: render_text_def uniform_def lf_def crlf_def contains_str_iff)
next
  case (3 eol l l' ls)
  have l: "CHR 0x0A \<notin> set l" using "3.prems" by (simp add: uniform_def)
  have eq: "render_text eol trailing (l # l' # ls) = l @ eol @ render_text eol trailing (l' # ls)"
    by (simp add: render_text_def)
  show ?case
  proof (cases "eol = crlf")
    case True
    then show ?thesis unfolding eq by (auto simp: contains_str_iff)
  next
    case False
    with 3 l show ?thesis
      unfolding eq by (auto simp: uniform_def contains_crlf_line lf_def)
  qed
qed (simp add: uniform_def)

lemma reassemble_render:
  assumes "uniform eol trailing ls"
  shows "reassemble_preserving_newlines ls' (render_text eol trailing ls) =
    (if ls' = [] then [] else render_text eol trailing ls')"
proof -
  have "eol = lf \<or> eol = crlf" using assms by (auto simp: uniform_def)
  then show ?thesis
    using render_crlf [OF assms] render_trailing [OF assms] render_nonempty [OF assms]
    by (auto simp: reassemble_preserving_newlines_def render_text_def [of _ _ ls'] Let_def)
qed

section \<open>Hunks at their stated positions\<close>

text \<open>
  A file as blocks: lines before a hunk, the lines the hunk matches, the hunk; and the rest.
  A hunk matches lines that equal its own up to white space at their ends.
\<close>

type_synonym block = "string list \<times> string list \<times> hunk"

definition before_of :: "block list \<Rightarrow> string list \<Rightarrow> string list" where
  "before_of bs rest = concat (map (\<lambda>(keep, old, h). keep @ old) bs) @ rest"

definition after_of :: "block list \<Rightarrow> string list \<Rightarrow> string list" where
  "after_of bs rest = concat (map (\<lambda>(keep, old, h). keep @ new_lines h) bs) @ rest"

fun placed :: "nat \<Rightarrow> block list \<Rightarrow> bool" where
  "placed n [] = True"
| "placed n ((keep, old, h) # bs) \<longleftrightarrow>
     hk_old_start h = n + length keep + 1 \<and>
     list_all2 (\<lambda>line expected. trim_end line = trim_end expected) old (old_lines h) \<and>
     placed (n + length keep + length old) bs"

lemma apply_hunk_exact:
  assumes "lines = pre @ old @ post" and "start_index lines h offset = length pre"
    and "list_all2 (\<lambda>line expected. trim_end line = trim_end expected) old (old_lines h)"
  shows "apply_hunk lines h fuzz offset =
    Inr (pre @ new_lines h @ post, offset + (int (length (new_lines h)) - int (length old)), 0)"
proof -
  have len: "length old = length (old_lines h)" using assms(3) by (rule list_all2_lengthD)
  have "matches_at_position lines (old_lines h) (length pre)"
    using assms(3) by (simp add: matches_at_position_def assms(1) len [symmetric])
  moreover have "[0 ..< Suc fuzz] = 0 # [1 ..< Suc fuzz]" by (simp add: upt_conv_Cons)
  ultimately show ?thesis
    using assms(2) by (simp add: apply_hunk_def search_range_def assms(1) len Let_def del: upt_Suc)
qed

lemma start_index_placed:
  assumes "hk_old_start h = n + length keep + 1" and "int (length pre) - offset = int n"
    and "length pre + length keep < 2 ^ 64"
  shows "start_index (pre @ keep @ post) h offset = length (pre @ keep)"
proof -
  have eq: "int (n + length keep) + offset = int (length pre + length keep)" using assms(2) by simp
  have "int (length pre + length keep) < 2 ^ 64" using assms(3) by simp
  then have "checked_add_signed (n + length keep) offset = Some (length pre + length keep)"
    unfolding checked_add_signed_def eq by simp
  then show ?thesis by (simp add: start_index_def assms(1))
qed

lemma hunks_apply_placed:
  assumes "placed n bs" and "int (length pre) - offset = int n"
    and "length pre + length (after_of bs rest) < 2 ^ 64"
  shows "hunks_apply_loop fuzz file_label n_hunks idx (pre @ before_of bs rest) offset stats
      (map (\<lambda>(keep, old, h). h) bs) =
    Inr (pre @ after_of bs rest,
      stats\<lparr>has_hunks_applied := has_hunks_applied stats + length bs\<rparr>)"
  using assms
proof (induction bs arbitrary: n pre offset idx stats)
  case Nil
  then show ?case by (simp add: before_of_def after_of_def)
next
  case (Cons b bs)
  obtain keep old h where b: "b = (keep, old, h)" by (cases b)
  have old: "list_all2 (\<lambda>line expected. trim_end line = trim_end expected) old (old_lines h)"
    and start: "hk_old_start h = n + length keep + 1"
    and next_placed: "placed (n + length keep + length old) bs"
    using Cons.prems(1) by (simp_all add: b)
  let ?pre = "pre @ keep @ new_lines h"
  let ?offset = "offset + (int (length (new_lines h)) - int (length old))"
  have split: "pre @ before_of (b # bs) rest = (pre @ keep) @ old @ before_of bs rest"
    by (simp add: before_of_def b)
  have "start_index (pre @ before_of (b # bs) rest) h offset = length (pre @ keep)"
    using start_index_placed [OF start Cons.prems(2), of "old @ before_of bs rest"] Cons.prems(3)
    unfolding split by (simp add: after_of_def b)
  from apply_hunk_exact [OF split this old, of fuzz]
  have "apply_hunk (pre @ before_of (b # bs) rest) h fuzz offset =
      Inr (?pre @ before_of bs rest, ?offset, 0)" by simp
  moreover have "int (length ?pre) - ?offset = int (n + length keep + length old)"
    using Cons.prems(2) by simp
  note IH = Cons.IH [OF next_placed this]
  have "length ?pre + length (after_of bs rest) < 2 ^ 64"
    using Cons.prems(3) by (simp add: after_of_def b)
  from IH [OF this] show ?case using calculation
    by (simp add: b) (simp add: after_of_def)
qed

text \<open>
  C35. A patch is applied as it reads. When every hunk states the line at which the lines it
  expects are found (they may differ in white space at the line ends), applying the patch to a
  file with one line ending throughout replaces exactly the expected lines of each hunk by its
  new lines, with no fuzz, and keeps all other lines, the line ending and whether the file ends
  in one.
\<close>

theorem patch_applies_as_stated:
  assumes "uniform eol trailing (before_of bs rest)" and "placed 0 bs"
    and "length (after_of bs rest) < 2 ^ 64"
    and "fp_hunks fp = map (\<lambda>(keep, old, h). h) bs" and "\<not> fp_delete_after fp"
    and "render_text eol trailing (after_of bs rest) \<noteq> render_text eol trailing (before_of bs rest)"
    and "after_of bs rest \<noteq> []"
  shows "patched_content fuzz fp (Some (render_text eol trailing (before_of bs rest))) =
    Inr (Some (render_text eol trailing (after_of bs rest)),
      \<lparr>has_hunks_applied = length bs, has_fuzz_used = 0, has_hunks_with_fuzz = 0\<rparr>)"
proof -
  have "apply_hunks_to_lines (before_of bs rest) (fp_hunks fp) fuzz (fp_path fp) =
      Inr (after_of bs rest, \<lparr>has_hunks_applied = length bs, has_fuzz_used = 0, has_hunks_with_fuzz = 0\<rparr>)"
    using hunks_apply_placed [OF assms(2), of "[]" 0 rest] assms(3)
    by (simp add: apply_hunks_to_lines_def assms(4))
  then show ?thesis
    using assms(5-7) render_nonempty [OF assms(1)]
    by (simp add: patched_content_def lines_of_render [OF assms(1)] reassemble_render [OF assms(1)] Let_def)
qed

text \<open>A file with a carriage return before every line feed; its second line has a blank at the end.\<close>

definition ax_hunk :: hunk where
  "ax_hunk = \<lparr>hk_old_start = 2, hk_old_count = 1, hk_new_start = 2, hk_new_count = 2,
     hk_lines = [Remove ''two'', Add ''2'', Add ''2b'']\<rparr>"

definition ax_file :: file_patch where
  "ax_file = \<lparr>fp_path = ''f'', fp_hunks = [ax_hunk], fp_delete_after = False,
     fp_create_if_missing = False, fp_create_from_null = False\<rparr>"

definition ax_blocks :: "block list" where
  "ax_blocks = [([''one''], [''two ''], ax_hunk)]"

theorem patch_applies_as_stated_witness:
  "patched_content 3 ax_file (Some (''one'' @ crlf @ ''two '' @ crlf @ ''three'' @ crlf)) =
     Inr (Some (''one'' @ crlf @ ''2'' @ crlf @ ''2b'' @ crlf @ ''three'' @ crlf),
       \<lparr>has_hunks_applied = 1, has_fuzz_used = 0, has_hunks_with_fuzz = 0\<rparr>)"
proof -
  have "trim_end ''two '' = trim_end ''two''" by code_simp
  moreover have "old_lines ax_hunk = [''two'']" "new_lines ax_hunk = [''2'', ''2b'']"
    by (simp_all add: ax_hunk_def old_lines_def new_lines_def map_filter_simps)
  ultimately show ?thesis
    using patch_applies_as_stated [of crlf True ax_blocks "[''three'']" ax_file 3]
    by (simp add: ax_blocks_def ax_file_def before_of_def after_of_def uniform_def render_text_def crlf_def)
      (simp add: ax_hunk_def)
qed

section \<open>Hunks found elsewhere\<close>

lemma fuzz_loop_Some:
  "fuzz_loop lines old start fuzzes = Inr (Some (f, pos)) \<Longrightarrow>
     f \<in> set fuzzes \<and> filter (matches_at_position lines old) (search_range lines start f) = [pos]"
  by (induction lines old start fuzzes rule: fuzz_loop.induct)
    (auto simp: Let_def split: if_splits list.splits)

lemma fuzz_loop_None:
  "fuzz_loop lines old start fuzzes = Inr None \<Longrightarrow> f \<in> set fuzzes \<Longrightarrow>
     filter (matches_at_position lines old) (search_range lines start f) = []"
  by (induction lines old start fuzzes rule: fuzz_loop.induct)
    (auto simp: Let_def split: if_splits list.splits)

lemma search_range_set:
  "matches_at_position lines old q \<Longrightarrow> start \<le> length lines \<Longrightarrow>
     q \<in> set (search_range lines start f) \<longleftrightarrow> start \<le> q + f \<and> q \<le> start + f"
  by (auto simp: search_range_def matches_at_position_def)

lemma start_index_le: "start_index lines h offset \<le> length lines"
  by (simp add: start_index_def Let_def)


text \<open>
  C39. A hunk without context goes in one line early. A hunk that expects no lines and states
  line n as its start is inserted before line n, when it is the first of the file. In the
  unified format such a hunk (an empty old range) names the line after which to insert.
\<close>

theorem insertion_is_one_line_early:
  assumes "old_lines h = []" and "hk_old_start h = Suc n" and "n < length lines" and "n < 2 ^ 64"
  shows "apply_hunk lines h fuzz 0 =
    Inr (take n lines @ new_lines h @ drop n lines, int (length (new_lines h)), 0)"
proof -
  have "int n < 2 ^ 64" using assms(4) by simp
  then have "start_index lines h 0 = n"
    using assms(2,3) by (simp add: start_index_def checked_add_signed_def)
  then have "start_index (take n lines @ [] @ drop n lines) h 0 = length (take n lines)"
    using assms(3) by simp
  from apply_hunk_exact [OF refl this, of fuzz] assms(1) show ?thesis by simp
qed

definition ix_hunk :: hunk where
  "ix_hunk = \<lparr>hk_old_start = 2, hk_old_count = 0, hk_new_start = 3, hk_new_count = 1,
     hk_lines = [Add ''new'']\<rparr>"

theorem insertion_is_one_line_early_witness:
  "apply_hunk [''one'', ''two'', ''three''] ix_hunk 3 0 =
     Inr ([''one'', ''new'', ''two'', ''three''], 1, 0)"
proof -
  have "old_lines ix_hunk = []" "new_lines ix_hunk = [''new'']"
    by (simp_all add: ix_hunk_def old_lines_def new_lines_def map_filter_simps)
  then show ?thesis
    using insertion_is_one_line_early [of ix_hunk 1 "[''one'', ''two'', ''three'']" 3]
    by (simp add: ix_hunk_def)
qed


end
