(* ===== verification/Patch_Write_Laws.thy ===== *)
theory Patch_Write_Laws
  imports Patch_Execute "HOL-Library.Sublist"
begin

text \<open>
  The write side of \<^verbatim>\<open>apply_patch\<close> changes all files of a patch or none: what each call does to
  the files and directories, what a rollback restores, and the whole tool.
\<close>

section \<open>Single calls\<close>

definition same_tree :: "fs \<Rightarrow> fs \<Rightarrow> bool" where
  "same_tree w w' \<longleftrightarrow> lookup w' = lookup w \<and> set (fs_dirs w') = set (fs_dirs w)"

text \<open>No directory sync fails after its rename.\<close>

definition syncs :: "fs \<Rightarrow> bool" where
  "syncs w \<longleftrightarrow> FailsAfter \<notin> set (fs_faults w)"

lemma lookup_updates [simp]:
  "lookup (w\<lparr>fs_dirs := ds\<rparr>) = lookup w"
  "lookup (w\<lparr>fs_faults := fs\<rparr>) = lookup w"
  "lookup (w\<lparr>fs_files := AList.update p f (fs_files w)\<rparr>) = (lookup w)(p \<mapsto> f)"
  "lookup (w\<lparr>fs_files := AList.delete p (fs_files w)\<rparr>) = (lookup w)(p := None)"
  by (simp_all add: fun_eq_iff lookup_def update_conv' delete_conv')

lemma syncs_updates [simp]:
  "syncs (w\<lparr>fs_dirs := ds\<rparr>) = syncs w"
  "syncs (w\<lparr>fs_files := fs\<rparr>) = syncs w"
  by (simp_all add: syncs_def)

named_theorems call_effects \<open>what a call does to the file tree\<close>

lemma next_fault_effect [call_effects]:
  "next_fault w = (f, w') \<Longrightarrow> lookup w' = lookup w \<and> fs_dirs w' = fs_dirs w \<and>
     (syncs w \<longrightarrow> syncs w' \<and> f \<noteq> FailsAfter)"
  by (auto simp: next_fault_def syncs_def split: list.splits)

lemma read_bytes_effect [call_effects]:
  "read_bytes p e w = (r, w') \<Longrightarrow> lookup w' = lookup w \<and> fs_dirs w' = fs_dirs w \<and>
     (syncs w \<longrightarrow> syncs w') \<and> (\<forall>bytes. r = Inr bytes \<longrightarrow> map_option fl_bytes (lookup w p) = Some bytes)"
  by (auto simp: read_bytes_def guarded_def result_simps split: prod.splits if_splits dest!: next_fault_effect)

lemma next_fault_suffix: "suffix (fs_faults (snd (next_fault w))) (fs_faults w)"
  by (simp add: next_fault_def suffix_ConsI split: list.splits)

lemma read_bytes_suffix: "suffix (fs_faults (snd (read_bytes p e w))) (fs_faults w)"
  using next_fault_suffix [of w] by (auto simp: read_bytes_def guarded_def split: prod.splits)

lemma create_dir_effect [call_effects]:
  "create_dir p e w = (r, w') \<Longrightarrow> lookup w' = lookup w \<and> (syncs w \<longrightarrow> syncs w') \<and>
     (case r of Inl _ \<Rightarrow> fs_dirs w' = fs_dirs w
      | Inr _ \<Rightarrow> p \<notin> set (fs_dirs w) \<and> fs_dirs w' = fs_dirs w @ [p])"
  by (auto simp: create_dir_def guarded_def path_exists_def split: prod.splits if_splits
      dest!: next_fault_effect)

lemma remove_file_effect [call_effects]:
  "remove_file p e w = (r, w') \<Longrightarrow> fs_dirs w' = fs_dirs w \<and> (syncs w \<longrightarrow> syncs w') \<and>
     (case r of Inl _ \<Rightarrow> lookup w' = lookup w | Inr _ \<Rightarrow> lookup w' = (lookup w)(p := None))"
  by (auto simp: remove_file_def guarded_def split: prod.splits if_splits
      dest!: next_fault_effect)

lemma remove_dir_effect [call_effects]:
  "remove_dir p e w = (r, w') \<Longrightarrow> lookup w' = lookup w \<and> (syncs w \<longrightarrow> syncs w') \<and>
     (case r of Inl _ \<Rightarrow> fs_dirs w' = fs_dirs w | Inr _ \<Rightarrow> set (fs_dirs w') = set (fs_dirs w) - {p})"
  by (auto simp: remove_dir_def guarded_def split: prod.splits if_splits
      dest!: next_fault_effect)

definition written :: "patch_env \<Rightarrow> fs \<Rightarrow> path \<Rightarrow> string \<Rightarrow> nat option \<Rightarrow> file_node" where
  "written env w p contents permissions =
     \<lparr>fl_bytes = contents,
      fl_mode = (case permissions of
         Some m \<Rightarrow> m
       | None \<Rightarrow> (case lookup w p of Some f \<Rightarrow> fl_mode f | None \<Rightarrow> pe_new_file_mode env))\<rparr>"

lemma lookup_published:
  "lookup (published env p contents permissions w) = (lookup w)(p \<mapsto> written env w p contents permissions)"
  "fs_dirs (published env p contents permissions w) = fs_dirs w"
  "syncs (published env p contents permissions w) = syncs w"
  by (simp_all add: published_def written_def)

lemma write_effect [call_effects]:
  assumes "write_atomic_if_unchanged env p expected contents permissions w = (r, w')" and "syncs w"
  shows "fs_dirs w' = fs_dirs w \<and> syncs w' \<and>
    (case r of Inl _ \<Rightarrow> lookup w' = lookup w
     | Inr _ \<Rightarrow> lookup w' = (lookup w)(p \<mapsto> written env w p contents permissions) \<and>
         map_option fl_bytes (lookup w p) = expected)"
proof -
  obtain f v where f: "next_fault w = (f, v)" by fastforce
  note v = next_fault_effect [OF f]
  have written: "written env v = written env w" using v [THEN conjunct1] by (intro ext) (simp add: written_def cong: option.case_cong)
  show ?thesis
    using assms v unfolding write_atomic_if_unchanged_def f
    by (auto simp: lookup_published written path_exists_def Let_def
        split: option.splits if_splits)
qed

section \<open>One pending write and its rollback\<close>

definition captured :: "fs \<Rightarrow> pending_write \<Rightarrow> bool" where
  "captured w entry \<longleftrightarrow>
     pw_original entry = map_option fl_bytes (lookup w (pw_path entry)) \<and>
     pw_original_permissions entry = map_option fl_mode (lookup w (pw_path entry))"

definition target :: "patch_env \<Rightarrow> pending_write \<Rightarrow> file_node option" where
  "target env entry =
     map_option (\<lambda>c. \<lparr>fl_bytes = c,
         fl_mode = (case pw_original_permissions entry of Some m \<Rightarrow> m | None \<Rightarrow> pe_new_file_mode env)\<rparr>)
       (pw_content entry)"

definition tree_after ::
  "patch_env \<Rightarrow> pending_write list \<Rightarrow> (path \<Rightarrow> file_node option) \<Rightarrow> path \<Rightarrow> file_node option" where
  "tree_after env pending m = fold (\<lambda>e m. m(pw_path e := target env e)) pending m"

lemma tree_after_snoc:
  "tree_after env (pending @ [e]) m = (tree_after env pending m)(pw_path e := target env e)"
  by (simp add: tree_after_def)

lemma tree_after_other: "p \<notin> pw_path ` set pending \<Longrightarrow> tree_after env pending m p = m p"
  by (induction pending arbitrary: m) (auto simp: tree_after_def)

lemma create_directories_effect:
  "create_directories env created ds w = (r, created', w') \<Longrightarrow>
     lookup w' = lookup w \<and> (syncs w \<longrightarrow> syncs w') \<and>
     (\<exists>made. created' = created @ made \<and> set made \<inter> set (fs_dirs w) = {} \<and>
        set (fs_dirs w') = set (fs_dirs w) \<union> set made)"
proof (induction ds arbitrary: created w)
  case (Cons d ds)
  obtain q v where c: "create_dir d (ExecutionFailed (''Failed to create directory '' @ display d @
      '': '' @ pe_io_error env)) w = (q, v)" by fastforce
  note effect = create_dir_effect [OF c]
  show ?case
  proof (cases q)
    case (Inl e)
    then show ?thesis using Cons.prems effect unfolding create_directories.simps c by auto
  next
    case (Inr u)
    with Cons.prems have "create_directories env (created @ [d]) ds v = (r, created', w')"
      unfolding create_directories.simps c by simp
    from Cons.IH [OF this] obtain made where
      "lookup w' = lookup v" "syncs v \<longrightarrow> syncs w'" "created' = created @ (d # made)"
      "set made \<inter> set (fs_dirs v) = {}" "set (fs_dirs w') = set (fs_dirs v) \<union> set made" by auto
    with effect Inr show ?thesis by (intro conjI exI [of _ "d # made"]) auto
  qed
qed auto

lemma create_missing_parents_effect:
  "create_missing_parent_directories env p created w = (r, created', w') \<Longrightarrow>
     lookup w' = lookup w \<and> (syncs w \<longrightarrow> syncs w') \<and>
     (\<exists>made. created' = created @ made \<and> set made \<inter> set (fs_dirs w) = {} \<and>
        set (fs_dirs w') = set (fs_dirs w) \<union> set made)"
  by (auto simp: create_missing_parent_directories_def split: option.splits
      dest: create_directories_effect)

lemma remove_file_if_unchanged_effect:
  assumes "remove_file_if_unchanged env entry w = (r, w')" and "syncs w"
  shows "fs_dirs w' = fs_dirs w \<and> syncs w' \<and>
    (case r of Inl _ \<Rightarrow> lookup w' = lookup w | Inr _ \<Rightarrow> lookup w' = (lookup w)(pw_path entry := None))"
  using assms
  by (auto simp: remove_file_if_unchanged_def then_do_def split: option.splits sum.splits prod.splits if_splits
      dest!: read_bytes_effect remove_file_effect)

lemma written_captured:
  "captured w entry \<Longrightarrow> lookup v = lookup w \<Longrightarrow> pw_content entry = Some c \<Longrightarrow>
     Some (written env v (pw_path entry) c (pw_original_permissions entry)) = target env entry"
  by (auto simp: captured_def written_def target_def split: option.splits)

lemma apply_entry_effect:
  assumes run: "apply_entry env entry created w = (r, created', w')"
    and syncs: "syncs w" and captured: "captured w entry"
  shows "syncs w'" and "\<exists>made. created' = created @ made \<and> set made \<inter> set (fs_dirs w) = {} \<and>
        set (fs_dirs w') = set (fs_dirs w) \<union> set made"
    and "case r of Inl _ \<Rightarrow> lookup w' = lookup w
         | Inr _ \<Rightarrow> lookup w' = (lookup w)(pw_path entry := target env entry)"
proof -
  have "syncs w' \<and> (\<exists>made. created' = created @ made \<and> set made \<inter> set (fs_dirs w) = {} \<and>
        set (fs_dirs w') = set (fs_dirs w) \<union> set made) \<and>
      (case r of Inl _ \<Rightarrow> lookup w' = lookup w
         | Inr _ \<Rightarrow> lookup w' = (lookup w)(pw_path entry := target env entry))"
  proof (cases "pw_content entry")
    case None
    with run obtain "remove_file_if_unchanged env entry w = (r, w')" "created' = created"
      by (auto simp: apply_entry_def split: prod.splits)
    with remove_file_if_unchanged_effect [OF this(1) syncs] show ?thesis
      using None by (auto simp: target_def split: sum.splits)
  next
    case (Some content)
    obtain q created1 v where
      p: "create_missing_parent_directories env (pw_path entry) created w = (q, created1, v)"
      using prod_cases3 by blast
    note made = create_missing_parents_effect [OF p]
    obtain s u where
      wr: "write_atomic_if_unchanged env (pw_path entry) (pw_original entry) content
             (pw_original_permissions entry) v = (s, u)" by fastforce
    from made syncs have "syncs v" by simp
    note wrote = write_effect [OF wr this]
    note same = written_captured [OF captured made [THEN conjunct1] Some, of env]
    show ?thesis
      using run made wrote syncs unfolding apply_entry_def Some p
      by (cases q; cases s) (auto simp: wr map_err_def same)
  qed
  then show "syncs w'" and "\<exists>made. created' = created @ made \<and> set made \<inter> set (fs_dirs w) = {} \<and>
        set (fs_dirs w') = set (fs_dirs w) \<union> set made"
    and "case r of Inl _ \<Rightarrow> lookup w' = lookup w
         | Inr _ \<Rightarrow> lookup w' = (lookup w)(pw_path entry := target env entry)" by auto
qed

lemma rollback_entry_effect:
  assumes run: "rollback_entry env entry w = (Inr (), w')" and "syncs w" and captured: "captured w0 entry"
  shows "fs_dirs w' = fs_dirs w \<and> syncs w' \<and> lookup w' = (lookup w)(pw_path entry := lookup w0 (pw_path entry))"
proof (cases "lookup w0 (pw_path entry)")
  case None
  with captured have "pw_original entry = None" by (simp add: captured_def)
  with run None \<open>syncs w\<close> show ?thesis
    by (auto simp: rollback_entry_def then_do_def Let_def split: option.splits sum.splits prod.splits if_splits
        dest!: read_bytes_effect remove_file_effect)
next
  case (Some f)
  with captured have "pw_original entry = Some (fl_bytes f)" "pw_original_permissions entry = Some (fl_mode f)"
    by (simp_all add: captured_def)
  with run Some \<open>syncs w\<close> show ?thesis
    by (auto simp: rollback_entry_def map_err_def written_def Let_def split: sum.splits prod.splits dest!: write_effect)
qed

section \<open>All writes or none\<close>

lemma rollback_entries_effect:
  assumes "rollback_entries env entries w = (Inr (), w')" and "syncs w"
    and "\<forall>e \<in> set entries. captured w0 e"
  shows "fs_dirs w' = fs_dirs w \<and> syncs w' \<and>
    (\<forall>p. lookup w' p = (if p \<in> pw_path ` set entries then lookup w0 p else lookup w p))"
  using assms
proof (induction entries arbitrary: w)
  case (Cons e es)
  then obtain v where "rollback_entry env e w = (Inr (), v)" "rollback_entries env es v = (Inr (), w')"
    by (auto simp: then_do_def split: prod.splits sum.splits)
  with Cons rollback_entry_effect [OF this(1) Cons.prems(2)] show ?case by fastforce
qed simp

lemma remove_directories_effect:
  assumes "remove_directories env ds w = (Inr (), w')"
  shows "lookup w' = lookup w \<and> set (fs_dirs w') = set (fs_dirs w) - set ds"
  using assms
proof (induction ds arbitrary: w)
  case (Cons d ds)
  then obtain v where "remove_dir d (ExecutionFailed (''Rollback failed to remove directory '' @ display d @
         '': '' @ pe_io_error env)) w = (Inr (), v)" "remove_directories env ds v = (Inr (), w')"
    unfolding remove_directories.simps then_do_def by (auto split: prod.splits sum.splits)
  with Cons remove_dir_effect [OF this(1)] show ?case by auto
qed simp

lemma rollback_restores:
  assumes run: "then_do (rollback_pending_writes env applied w)
      (\<lambda>_. rollback_created_directories env created) = (Inr (), w')"
    and "syncs w" and "\<forall>e \<in> set applied. captured w0 e"
    and files: "\<forall>p. p \<notin> pw_path ` set applied \<longrightarrow> lookup w p = lookup w0 p"
    and dirs: "set (fs_dirs w) = set (fs_dirs w0) \<union> set created" "set created \<inter> set (fs_dirs w0) = {}"
  shows "same_tree w0 w'"
proof -
  from run obtain v where v: "rollback_entries env (rev applied) w = (Inr (), v)"
    and w': "remove_directories env (rev created) v = (Inr (), w')"
    by (auto simp: then_do_def rollback_pending_writes_def rollback_created_directories_def
        split: prod.splits sum.splits)
  have "fs_dirs v = fs_dirs w \<and> (\<forall>p. lookup v p = lookup w0 p)"
    using rollback_entries_effect [OF v \<open>syncs w\<close>, of w0] assms(3) files by auto
  with remove_directories_effect [OF w'] dirs show ?thesis
    unfolding same_tree_def by auto
qed

definition rollback_incomplete :: "tool_error \<Rightarrow> bool" where
  "rollback_incomplete e \<longleftrightarrow> (\<exists>original rollback. e = ExecutionFailed
     (''apply_patch failed and rollback is incomplete; original error: '' @
      tool_error_display original @ ''; rollback error: '' @ tool_error_display rollback))"

lemma rollback_incompleteI:
  "rollback_incomplete (ExecutionFailed
     (''apply_patch failed and rollback is incomplete; original error: '' @
      tool_error_display original @ ''; rollback error: '' @ tool_error_display rollback))"
  unfolding rollback_incomplete_def by blast

lemma apply_entries_all_or_none:
  assumes "apply_entries env applied created entries w = (r, w')" and "syncs w"
    and "\<forall>e \<in> set (applied @ entries). captured w0 e" and "distinct (map pw_path (applied @ entries))"
    and "lookup w = tree_after env applied (lookup w0)"
    and "set (fs_dirs w) = set (fs_dirs w0) \<union> set created" "set created \<inter> set (fs_dirs w0) = {}"
  shows "case r of
      Inl e \<Rightarrow> same_tree w0 w' \<or> rollback_incomplete e
    | Inr _ \<Rightarrow> lookup w' = tree_after env (applied @ entries) (lookup w0) \<and>
        set (fs_dirs w0) \<subseteq> set (fs_dirs w')"
  using assms
proof (induction entries arbitrary: applied created w)
  case (Cons entry entries)
  obtain q created1 v where step: "apply_entry env entry created w = (q, created1, v)"
    using prod_cases3 by blast
  have same: "lookup w p = lookup w0 p" if "p \<notin> pw_path ` set applied" for p
    using that Cons.prems(5) by (simp add: tree_after_other)
  have "captured w entry"
    using Cons.prems(3,4) same [of "pw_path entry"] by (auto simp: captured_def)
  note effect = apply_entry_effect [OF step Cons.prems(2) this]
  have dirs: "set (fs_dirs v) = set (fs_dirs w0) \<union> set created1" "set created1 \<inter> set (fs_dirs w0) = {}"
    using effect(2) Cons.prems(6,7) by auto
  show ?case
  proof (cases q)
    case (Inr u)
    have "lookup v = tree_after env (applied @ [entry]) (lookup w0)"
      using effect(3) Inr Cons.prems(5) by (simp add: tree_after_snoc)
    with Cons.IH [of "applied @ [entry]" created1 v] Cons.prems(1,3,4) effect(1) dirs Inr
    show ?thesis by (auto simp: step split: sum.splits)
  next
    case (Inl err)
    obtain b u where rb: "then_do (rollback_pending_writes env applied v)
        (\<lambda>_. rollback_created_directories env created1) = (b, u)" by fastforce
    show ?thesis
    proof (cases b)
      case (Inl rollback)
      with Cons.prems(1) \<open>q = Inl err\<close> show ?thesis
        unfolding apply_entries.simps step by (auto simp: rb intro: rollback_incompleteI [simplified])
    next
      case (Inr x)
      have "same_tree w0 u"
        by (rule rollback_restores [OF _ effect(1) _ _ dirs])
          (use rb Inr Cons.prems(3) effect(3) \<open>q = Inl err\<close> same in auto)
      with Cons.prems(1) \<open>q = Inl err\<close> Inr show ?thesis
        unfolding apply_entries.simps step by (auto simp: rb)
    qed
  qed
qed auto

section \<open>What is captured\<close>

lemma read_original_effect:
  assumes "read_original env p w = (r, w')"
  shows "lookup w' = lookup w \<and> fs_dirs w' = fs_dirs w \<and> (syncs w \<longrightarrow> syncs w') \<and>
    (\<forall>original. r = Inr original \<longrightarrow> original = map_option fl_bytes (lookup w p))"
  using assms
  by (auto simp: read_original_def read_file_content_def then_do_def path_exists_def Let_def
      split: if_splits prod.splits sum.splits dest!: read_bytes_effect)

lemma read_original_suffix: "suffix (fs_faults (snd (read_original env p w))) (fs_faults w)"
proof -
  obtain r v where "read_bytes p (ExecutionFailed (''Failed to read '' @ display p @ '': '' @
      pe_io_error env)) w = (r, v)" by fastforce
  with read_bytes_suffix [of p "ExecutionFailed (''Failed to read '' @ display p @ '': '' @
      pe_io_error env)" w] show ?thesis
    unfolding read_original_def read_file_content_def then_do_def Let_def
    by (auto split: sum.splits)
qed

lemma read_original_none: "fst (read_original env p w) = Inr None \<Longrightarrow> p \<notin> set (fs_dirs w)"
  by (auto simp: read_original_def then_do_def path_exists_def split: if_splits prod.splits sum.splits)

lemma deletion_has_original:
  "and_then (patch_precondition fp p original) (patched_content fuzz fp original) = Inr (None, applied) \<Longrightarrow>
     original \<noteq> None"
  by (auto simp: result_simps patch_precondition_def patched_content_def Let_def split: if_splits prod.splits)

definition fits :: "fs \<Rightarrow> pending_write \<Rightarrow> bool" where
  "fits w e \<longleftrightarrow> captured w e \<and> (pw_original e = None \<longrightarrow> pw_path e \<notin> set (fs_dirs w)) \<and>
     (pw_content e = None \<longrightarrow> pw_original e \<noteq> None)"

definition ready :: "fs \<Rightarrow> fs \<Rightarrow> pending_write list \<Rightarrow> bool" where
  "ready w0 w pending \<longleftrightarrow>
     lookup w = lookup w0 \<and> fs_dirs w = fs_dirs w0 \<and> suffix (fs_faults w) (fs_faults w0) \<and>
     distinct (map pw_path pending) \<and> (\<forall>e \<in> set pending. fits w0 e)"

lemma ready_syncs: "ready w0 w pending \<Longrightarrow> syncs w0 \<Longrightarrow> syncs w"
  by (auto simp: ready_def syncs_def dest: set_mono_suffix)

lemma ready_snoc:
  assumes "ready w0 w pending" and "read_original env p w = (Inr original, w')" and "p \<notin> pw_path ` set pending"
    and "c = None \<longrightarrow> original \<noteq> None"
  shows "ready w0 w' (pending @ [\<lparr>pw_path = p, pw_content = c, pw_original = original,
     pw_original_permissions = permissions_of w' p\<rparr>])"
proof -
  let ?e = "\<lparr>pw_path = p, pw_content = c, pw_original = original, pw_original_permissions = permissions_of w' p\<rparr>"
  note read = read_original_effect [OF assms(2)]
  have "fits w0 ?e"
    using assms(1,4) read read_original_none [of env p w] assms(2)
    by (auto simp: ready_def fits_def captured_def permissions_of_def)
  then show ?thesis
    using assms(1,3) read read_original_suffix [of env p w] assms(2)
    by (auto simp: ready_def intro: suffix_order.trans)
qed

lemma ready_read: "ready w0 w pending \<Longrightarrow> read_original env p w = (r, w') \<Longrightarrow> ready w0 w' pending"
  using read_original_effect [of env p w r w'] read_original_suffix [of env p w]
  by (auto simp: ready_def intro: suffix_order.trans)

definition collected :: "fs \<Rightarrow> ('e + (pending_write list \<times> 's)) \<times> fs \<Rightarrow> bool" where
  "collected w0 m \<longleftrightarrow> ready w0 (snd m) (case fst m of Inr (pending, _) \<Rightarrow> pending | Inl _ \<Rightarrow> [])"

lemma collected_Inl: "ready w0 w pending \<Longrightarrow> collected w0 (Inl e, w)"
  by (auto simp: collected_def ready_def)

lemma changes_pending_collected:
  "ready w0 w pending \<Longrightarrow> collected w0 (changes_pending env pending stats changes w)"
proof (induction changes arbitrary: pending stats w)
  case (Cons change changes)
  show ?case
    unfolding changes_pending.simps
    by (auto simp: then_do_def collected_Inl [OF Cons.prems] split: sum.splits prod.splits
        intro!: Cons.IH ready_snoc [OF Cons.prems] collected_Inl dest: ready_read [OF Cons.prems])
qed (simp add: collected_def)

lemma patches_pending_collected:
  "ready w0 w pending \<Longrightarrow> collected w0 (patches_pending env fuzz pending stats fps w)"
proof (induction fps arbitrary: pending stats w)
  case (Cons fp fps)
  show ?case
    unfolding patches_pending.simps
    by (auto simp: then_do_def collected_Inl [OF Cons.prems] split: sum.splits prod.splits
        intro!: Cons.IH ready_snoc [OF Cons.prems] collected_Inl
        dest: ready_read [OF Cons.prems] deletion_has_original)
qed (simp add: collected_def)

lemma build_collected:
  "collected w (build_pending_writes_from_changes env v w)"
  "collected w (build_pending_writes_from_patches env fps fuzz w)"
proof -
  have "ready w w []" by (simp add: ready_def)
  then show "collected w (build_pending_writes_from_changes env v w)"
    and "collected w (build_pending_writes_from_patches env fps fuzz w)"
    by (auto simp: build_pending_writes_from_changes_def build_pending_writes_from_patches_def
        split: option.splits intro: collected_Inl changes_pending_collected patches_pending_collected)
qed

section \<open>The tool\<close>

text \<open>The writes a call plans: what it collects before it writes anything.\<close>

definition collect_writes ::
  "patch_env \<Rightarrow> json \<Rightarrow> apply_patch_preflight_kind \<Rightarrow> fs \<Rightarrow> (tool_error + (pending_write list \<times> patch_stats)) \<times> fs" where
  "collect_writes env input kind w =
     (case get_field input ''changes'' of
        Some changes_value \<Rightarrow> build_pending_writes_from_changes env changes_value w
      | None \<Rightarrow>
          build_pending_writes_from_patches env
            (case kind of
               Changes \<Rightarrow> []
             | PathOverride path hunks \<Rightarrow>
                 [\<lparr>fp_path = path, fp_hunks = hunks, fp_delete_after = False,
                   fp_create_if_missing = optional_bool input ''create_if_missing'' False,
                   fp_create_from_null = False\<rparr>]
             | FilePatches fps \<Rightarrow> fps)
            (min (optional_u64 input ''fuzz'' DEFAULT_FUZZ) MAX_FUZZ) w)"

definition planned_writes :: "patch_env \<Rightarrow> json \<Rightarrow> fs \<Rightarrow> pending_write list" where
  "planned_writes env input w =
     (case preflight_apply_patch_plan input of
        Inl _ \<Rightarrow> []
      | Inr (_, kind) \<Rightarrow>
          (case fst (collect_writes env input kind w) of Inl _ \<Rightarrow> [] | Inr (pending, _) \<Rightarrow> pending))"

definition all_or_none :: "patch_env \<Rightarrow> fs \<Rightarrow> pending_write list \<Rightarrow> (tool_error + 'a) \<times> fs \<Rightarrow> bool" where
  "all_or_none env w pending m \<longleftrightarrow>
     (case m of
        (Inl e, w') \<Rightarrow> same_tree w w' \<or> rollback_incomplete e
      | (Inr _, w') \<Rightarrow> distinct (map pw_path pending) \<and> (\<forall>e \<in> set pending. captured w e) \<and>
          lookup w' = tree_after env pending (lookup w) \<and> set (fs_dirs w) \<subseteq> set (fs_dirs w'))"

lemma apply_pending_writes_all_or_none:
  assumes "ready w0 w pending" and "syncs w0"
  shows "all_or_none env w0 pending (then_do (apply_pending_writes env pending w) (\<lambda>_ w'. (Inr a, w')))"
proof -
  obtain r w' where run: "apply_entries env [] [] pending w = (r, w')" by fastforce
  have "case r of
      Inl e \<Rightarrow> same_tree w0 w' \<or> rollback_incomplete e
    | Inr _ \<Rightarrow> lookup w' = tree_after env ([] @ pending) (lookup w0) \<and>
        set (fs_dirs w0) \<subseteq> set (fs_dirs w')"
    by (rule apply_entries_all_or_none [OF run])
      (use assms ready_syncs [OF assms] in \<open>auto simp: ready_def fits_def tree_after_def\<close>)
  then show ?thesis
    using assms(1)
    by (auto simp: all_or_none_def apply_pending_writes_def run then_do_def ready_def fits_def split: sum.splits)
qed

lemma collected_then_apply:
  assumes "collected w0 m" and "syncs w0"
  shows "all_or_none env w0 (case fst m of Inl _ \<Rightarrow> [] | Inr (pending, _) \<Rightarrow> pending)
    (then_do m (\<lambda>(pending, stats) w.
       then_do (apply_pending_writes env pending w) (\<lambda>_ w'. (Inr (f stats), w'))))"
proof (cases m)
  case (Pair r w)
  show ?thesis
  proof (cases r)
    case (Inl e)
    with Pair assms show ?thesis
      by (simp add: then_do_def all_or_none_def collected_def ready_def same_tree_def)
  next
    case (Inr a)
    obtain pending stats where a: "a = (pending, stats)" by fastforce
    with Pair Inr assms(1) have "ready w0 w pending" by (simp add: collected_def)
    from apply_pending_writes_all_or_none [OF this assms(2), of env "f stats"] show ?thesis
      by (simp add: Pair Inr a then_do_def)
  qed
qed

lemma collect_writes_collected: "collected w (collect_writes env input kind w)"
  by (simp add: collect_writes_def build_collected split: option.splits)

lemma execute_apply_patch_alt:
  "execute_apply_patch env input w =
     (case preflight_apply_patch_plan input of
        Inl e \<Rightarrow> (Inl e, w)
      | Inr (summary, kind) \<Rightarrow>
          then_do (collect_writes env input kind w) (\<lambda>(pending, stats) w.
            then_do (apply_pending_writes env pending w) (\<lambda>_ w'. (Inr (outcome_of
              (if get_field input ''changes'' = None
               then stats\<lparr>pst_header_path_mismatch := pf_header_path_mismatch summary\<rparr> else stats) summary), w'))))"
  by (simp add: execute_apply_patch_def collect_writes_def Let_def split: sum.splits option.splits)

text \<open>
  C5. The tool changes all files of a patch or none. Whatever the input and whichever calls to
  the operating system fail, as long as no directory sync fails after a completed rename: a
  successful run applies exactly the planned writes, each target replaced by its new content
  under its old permissions, created or removed, with every other file as it was and no
  directory lost; a run that reports an error leaves every file and directory as it was, or
  says that the rollback is incomplete.
\<close>

theorem apply_patch_is_all_or_none:
  assumes "FailsAfter \<notin> set (fs_faults w)"
  shows "case execute_apply_patch env input w of
      (Inl e, w') \<Rightarrow> same_tree w w' \<or> rollback_incomplete e
    | (Inr _, w') \<Rightarrow>
        distinct (map pw_path (planned_writes env input w)) \<and>
        (\<forall>e \<in> set (planned_writes env input w). captured w e) \<and>
        lookup w' = tree_after env (planned_writes env input w) (lookup w) \<and>
        set (fs_dirs w) \<subseteq> set (fs_dirs w')"
proof -
  have syncs: "syncs w" using assms by (simp add: syncs_def)
  have "all_or_none env w (planned_writes env input w) (execute_apply_patch env input w)"
  proof (cases "preflight_apply_patch_plan input")
    case (Inl e)
    then show ?thesis by (simp add: execute_apply_patch_alt all_or_none_def same_tree_def)
  next
    case (Inr plan)
    obtain summary kind where plan: "plan = (summary, kind)" by fastforce
    show ?thesis
      using collected_then_apply [OF collect_writes_collected [of w env input kind] syncs, where env = env
          and f = "\<lambda>stats. outcome_of (if get_field input ''changes'' = None
               then stats\<lparr>pst_header_path_mismatch := pf_header_path_mismatch summary\<rparr> else stats) summary"]
      by (simp only: execute_apply_patch_alt planned_writes_def Inr plan sum.case prod.case)
  qed
  then show ?thesis by (simp only: all_or_none_def)
qed

text \<open>A patch of two files whose second write fails: the first file is restored.\<close>

definition ex_env :: patch_env where
  "ex_env = \<lparr>pe_resolve_write_path = (\<lambda>p. Inr [''w'', p]), pe_io_error = ''io'', pe_new_file_mode = 420\<rparr>"

definition ex_tree :: fs where
  "ex_tree = \<lparr>fs_files = [([''w'', ''a''], \<lparr>fl_bytes = ''one'', fl_mode = 493\<rparr>)], fs_dirs = [[], [''w'']],
     fs_faults = [Works, Works, FailsBefore]\<rparr>"

definition ex_changes :: json where
  "ex_changes = JObject [(''changes'', JArray
     [JObject [(''path'', JString ''a''), (''content'', JString ''two'')],
      JObject [(''path'', JString ''b''), (''content'', JString ''new'')]])]"

theorem apply_patch_is_all_or_none_witness:
  "FailsAfter \<notin> set (fs_faults ex_tree) \<and> isl (fst (execute_apply_patch ex_env ex_changes ex_tree)) \<and>
   \<not> isl (fst (execute_apply_patch ex_env ex_changes (ex_tree\<lparr>fs_faults := []\<rparr>))) \<and>
   (case execute_apply_patch ex_env ex_changes ex_tree of
      (Inl e, w') \<Rightarrow> same_tree ex_tree w' \<or> rollback_incomplete e
    | (Inr _, w') \<Rightarrow>
        distinct (map pw_path (planned_writes ex_env ex_changes ex_tree)) \<and>
        (\<forall>e \<in> set (planned_writes ex_env ex_changes ex_tree). captured ex_tree e) \<and>
        lookup w' = tree_after ex_env (planned_writes ex_env ex_changes ex_tree) (lookup ex_tree) \<and>
        set (fs_dirs ex_tree) \<subseteq> set (fs_dirs w'))"
proof (intro conjI)
  show no_sync: "FailsAfter \<notin> set (fs_faults ex_tree)" by (simp add: ex_tree_def)
  show "isl (fst (execute_apply_patch ex_env ex_changes ex_tree))" by code_simp
  show "\<not> isl (fst (execute_apply_patch ex_env ex_changes (ex_tree\<lparr>fs_faults := []\<rparr>)))" by code_simp
  show "case execute_apply_patch ex_env ex_changes ex_tree of
      (Inl e, w') \<Rightarrow> same_tree ex_tree w' \<or> rollback_incomplete e
    | (Inr _, w') \<Rightarrow>
        distinct (map pw_path (planned_writes ex_env ex_changes ex_tree)) \<and>
        (\<forall>e \<in> set (planned_writes ex_env ex_changes ex_tree). captured ex_tree e) \<and>
        lookup w' = tree_after ex_env (planned_writes ex_env ex_changes ex_tree) (lookup ex_tree) \<and>
        set (fs_dirs ex_tree) \<subseteq> set (fs_dirs w')"
    by (rule apply_patch_is_all_or_none [OF no_sync])
qed

end
