(* ===== verification/Patch_Fault_Laws.thy ===== *)
theory Patch_Fault_Laws
  imports Patch_Write_Laws
begin

text \<open>
  When the writes of a patch and their rollback succeed: in a well-formed tree every call
  fails only because the operating system makes it fail, so that a single failing call is
  always rolled back and a run without one applies every write.
\<close>

section \<open>Calls fail only on a fault\<close>

definition bad :: "fs \<Rightarrow> nat" where
  "bad w = length (filter (\<lambda>f. f \<noteq> Works) (fs_faults w))"

definition costs :: "fs \<Rightarrow> ('e + 'a) \<Rightarrow> fs \<Rightarrow> bool" where
  "costs w r w' \<longleftrightarrow> bad w' \<le> bad w \<and> (\<forall>e. r = Inl e \<longrightarrow> bad w' < bad w)"

lemma bad_updates [simp]:
  "bad (w\<lparr>fs_dirs := ds\<rparr>) = bad w" "bad (w\<lparr>fs_files := fs\<rparr>) = bad w"
  by (simp_all add: bad_def)

lemma bad_published [simp]: "bad (published env p c m w) = bad w"
  by (simp add: published_def)

lemma next_fault_bad: "next_fault w = (f, w') \<Longrightarrow> bad w = bad w' + (if f = Works then 0 else 1)"
  by (auto simp: next_fault_def bad_def split: list.splits)

lemma costs_trans: "costs w (Inr a) v \<Longrightarrow> costs v r u \<Longrightarrow> costs w r u"
  by (auto simp: costs_def)

lemma read_bytes_costs:
  "read_bytes p e w = (r, w') \<Longrightarrow> lookup w p \<noteq> None \<Longrightarrow> costs w r w'"
  by (auto simp: read_bytes_def guarded_def costs_def result_simps split: prod.splits if_splits
      dest: next_fault_bad next_fault_effect)

lemma create_dir_costs:
  "create_dir p e w = (r, w') \<Longrightarrow> \<not> path_exists w p \<Longrightarrow> p \<noteq> [] \<Longrightarrow> butlast p \<in> set (fs_dirs w) \<Longrightarrow> costs w r w'"
  by (auto simp: create_dir_def guarded_def costs_def path_exists_def split: prod.splits if_splits
      dest: next_fault_effect next_fault_bad)

lemma remove_file_costs:
  "remove_file p e w = (r, w') \<Longrightarrow> lookup w p \<noteq> None \<Longrightarrow> costs w r w'"
  by (auto simp: remove_file_def guarded_def costs_def split: prod.splits if_splits
      dest: next_fault_effect next_fault_bad)

lemma fst_files_iff: "q \<in> fst ` set (fs_files w) \<longleftrightarrow> lookup w q \<noteq> None"
  by (simp add: lookup_def map_of_eq_None_iff)

lemma remove_dir_costs:
  assumes "remove_dir p e w = (r, w')" and "p \<in> set (fs_dirs w)"
    and "\<And>q. q \<noteq> [] \<Longrightarrow> lookup w q \<noteq> None \<or> q \<in> set (fs_dirs w) \<Longrightarrow> butlast q \<noteq> p"
  shows "costs w r w'"
proof -
  obtain f v where f: "next_fault w = (f, v)" by fastforce
  have "butlast q \<noteq> p" if "q \<in> fst ` set (fs_files v) \<union> set (fs_dirs v)" "q \<noteq> []" for q
    using that assms(3) [of q] next_fault_effect [OF f] unfolding fst_files_iff Un_iff by simp
  then have "\<not> list_ex (\<lambda>q. q \<noteq> [] \<and> butlast q = p) (map fst (fs_files v) @ fs_dirs v)"
    unfolding list_ex_iff set_append set_map by blast
  with assms(1,2) next_fault_effect [OF f] next_fault_bad [OF f] show ?thesis
    by (auto simp: remove_dir_def guarded_def f costs_def split: if_splits)
qed

lemma write_costs:
  assumes "write_atomic_if_unchanged env p expected c m w = (r, w')" and "syncs w"
    and "p \<noteq> []" and "butlast p \<in> set (fs_dirs w)"
    and "expected = map_option fl_bytes (lookup w p)" and "expected = None \<Longrightarrow> p \<notin> set (fs_dirs w)"
  shows "costs w r w'"
proof -
  obtain f v where f: "next_fault w = (f, v)" by fastforce
  note v = next_fault_effect [OF f] next_fault_bad [OF f]
  show ?thesis
    using assms v unfolding write_atomic_if_unchanged_def f parent_def
    by (cases f) (auto simp: costs_def path_exists_def Let_def split: option.splits if_splits)
qed

section \<open>Directories\<close>

definition closed_dirs :: "path set \<Rightarrow> bool" where
  "closed_dirs D \<longleftrightarrow> (\<forall>d \<in> D. d \<noteq> [] \<longrightarrow> butlast d \<in> D)"

text \<open>The directories of the list can be made one after the other.\<close>

fun chain :: "path set \<Rightarrow> path list \<Rightarrow> bool" where
  "chain D [] \<longleftrightarrow> True"
| "chain D (d # ds) \<longleftrightarrow> d \<noteq> [] \<and> d \<notin> D \<and> butlast d \<in> D \<and> chain (insert d D) ds"

lemma chain_append: "chain D (xs @ ys) \<longleftrightarrow> chain D xs \<and> chain (D \<union> set xs) ys"
  by (induction xs arbitrary: D) auto

lemma chain_closed: "closed_dirs D \<Longrightarrow> chain D ds \<Longrightarrow> closed_dirs (D \<union> set ds)"
proof (induction ds arbitrary: D)
  case (Cons d ds)
  then have "closed_dirs (insert d D)" by (auto simp: closed_dirs_def)
  with Cons show ?case by fastforce
qed simp

lemma chain_fresh: "chain D ds \<Longrightarrow> set ds \<inter> D = {}"
  by (induction ds arbitrary: D) auto

lemma missing_directories_chain:
  assumes "[] \<in> set (fs_dirs w)" and "\<And>q. prefix q cursor \<Longrightarrow> lookup w q = None"
  shows "chain (set (fs_dirs w)) (rev (missing_directories w cursor)) \<and>
     (\<forall>d \<in> set (missing_directories w cursor). prefix d cursor) \<and>
     cursor \<in> set (fs_dirs w) \<union> set (missing_directories w cursor)"
  using assms
proof (induction w cursor rule: missing_directories.induct)
  case (1 w cursor)
  show ?case
  proof (cases "path_exists w cursor")
    case True
    with 1(3) [of cursor] show ?thesis
      by (simp add: missing_directories.simps [of w cursor] path_exists_def)
  next
    case False
    with 1(2) have ne: "cursor \<noteq> []" by (auto simp: path_exists_def)
    then have up: "prefix d cursor" if "prefix d (butlast cursor)" for d
      using that prefixeq_butlast prefix_order.trans by blast
    note IH = 1(1) [OF False, of "butlast cursor", OF _ 1(2) 1(3) [OF up]]
    have "cursor \<notin> set (missing_directories w (butlast cursor))"
    proof
      assume "cursor \<in> set (missing_directories w (butlast cursor))"
      with IH ne have "prefix cursor (butlast cursor)" by (simp add: parent_def)
      from prefix_length_le [OF this] ne show False by (cases cursor rule: rev_cases) auto
    qed
    with IH up False ne show ?thesis
      by (auto simp: missing_directories.simps [of w cursor] parent_def path_exists_def chain_append)
  qed
qed

lemma create_directories_made:
  "create_directories env created ds w = (r, created', w') \<Longrightarrow>
     \<exists>made. prefix made ds \<and> created' = created @ made \<and> fs_dirs w' = fs_dirs w @ made \<and>
       (\<forall>u. r = Inr u \<longrightarrow> made = ds)"
proof (induction ds arbitrary: created w)
  case (Cons d ds)
  obtain q v where c: "create_dir d (ExecutionFailed (''Failed to create directory '' @ display d @
      '': '' @ pe_io_error env)) w = (q, v)" by fastforce
  note effect = create_dir_effect [OF c]
  show ?case
  proof (cases q)
    case (Inl e)
    then show ?thesis using Cons.prems effect unfolding create_directories.simps c by auto
  next
    case (Inr u)
    with Cons.prems have "create_directories env (created @ [d]) ds v = (r, created', w')"
      unfolding create_directories.simps c by simp
    from Cons.IH [OF this] obtain made where "prefix made ds" "created' = created @ (d # made)"
      "fs_dirs w' = fs_dirs v @ made" "\<forall>u. r = Inr u \<longrightarrow> made = ds" by auto
    with effect Inr show ?thesis by (intro exI [of _ "d # made"]) auto
  qed
qed simp

lemma create_directories_costs:
  assumes "create_directories env created ds w = (r, created', w')"
    and "chain (set (fs_dirs w)) ds" and "\<forall>d \<in> set ds. lookup w d = None"
  shows "costs w r w'"
  using assms
proof (induction ds arbitrary: created w)
  case (Cons d ds)
  obtain q v where c: "create_dir d (ExecutionFailed (''Failed to create directory '' @ display d @
      '': '' @ pe_io_error env)) w = (q, v)" by fastforce
  have cost: "costs w q v"
    by (rule create_dir_costs [OF c]) (use Cons.prems in \<open>auto simp: path_exists_def\<close>)
  show ?case
  proof (cases q)
    case (Inl e)
    then show ?thesis using Cons.prems(1) cost unfolding create_directories.simps c by (auto simp: costs_def)
  next
    case (Inr u)
    with Cons.prems(1) have "create_directories env (created @ [d]) ds v = (r, created', w')"
      unfolding create_directories.simps c by simp
    from Cons.IH [OF this] Cons.prems(2,3) create_dir_effect [OF c] Inr have "costs v r w'" by simp
    with cost show ?thesis unfolding Inr by (rule costs_trans)
  qed
qed (auto simp: costs_def)

lemma remove_directories_costs:
  assumes "remove_directories env (rev ds) w = (r, w')"
    and "set (fs_dirs w) = D \<union> set ds" and "closed_dirs D" and "chain D ds"
    and "\<And>q. lookup w q \<noteq> None \<Longrightarrow> butlast q \<in> D"
  shows "costs w r w'"
  using assms
proof (induction ds arbitrary: w rule: rev_induct)
  case (snoc d ds)
  obtain q v where c: "remove_dir d (ExecutionFailed (''Rollback failed to remove directory '' @ display d @
         '': '' @ pe_io_error env)) w = (q, v)" by fastforce
  from snoc.prems(4) have d: "chain D ds" "d \<noteq> []" "d \<notin> D \<union> set ds" by (simp_all add: chain_append)
  with chain_closed [OF snoc.prems(3)] have closed: "closed_dirs (D \<union> set ds)" by simp
  have cost: "costs w q v"
  proof (rule remove_dir_costs [OF c])
    fix x assume "x \<noteq> []" "lookup w x \<noteq> None \<or> x \<in> set (fs_dirs w)"
    then show "butlast x \<noteq> d"
      using snoc.prems(2,4,5) d closed by (auto simp: closed_dirs_def chain_append)
  qed (use snoc.prems(2) in simp)
  have run: "remove_directories env (d # rev ds) w = (r, w')" using snoc.prems(1) by simp
  show ?case
  proof (cases q)
    case (Inl e)
    with run cost show ?thesis
      unfolding remove_directories.simps then_do_def c by (auto simp: costs_def)
  next
    case (Inr u)
    with run have "remove_directories env (rev ds) v = (r, w')"
      unfolding remove_directories.simps then_do_def c by simp
    note rest = this
    have v: "lookup v = lookup w" "set (fs_dirs v) = set (fs_dirs w) - {d}"
      using remove_dir_effect [OF c] Inr by auto
    have "costs v r w'"
    proof (rule snoc.IH [OF rest _ snoc.prems(3) d(1)])
      show "set (fs_dirs v) = D \<union> set ds" using v(2) snoc.prems(2) d(3) by auto
      show "butlast q \<in> D" if "lookup v q \<noteq> None" for q using that snoc.prems(5) [of q] v(1) by simp
    qed
    with cost show ?thesis unfolding Inr by (rule costs_trans)
  qed
qed (auto simp: costs_def)

section \<open>Entries\<close>

definition placeable :: "fs \<Rightarrow> pending_write \<Rightarrow> bool" where
  "placeable w entry \<longleftrightarrow>
     pw_path entry \<noteq> [] \<and> pw_path entry \<notin> set (fs_dirs w) \<and>
     (\<forall>q. strict_prefix q (pw_path entry) \<longrightarrow> lookup w q = None) \<and>
     (pw_content entry = None \<longrightarrow> pw_original entry \<noteq> None)"

lemma strict_prefix_butlast: "p \<noteq> [] \<Longrightarrow> prefix q (butlast p) \<longleftrightarrow> strict_prefix q p"
  by (cases p rule: rev_cases) (auto simp: strict_prefix_def)

lemma create_missing_parents_costs:
  assumes run: "create_missing_parent_directories env p created w = (r, created', w')"
    and root: "[] \<in> set (fs_dirs w)" and p: "p \<noteq> []" and free: "\<forall>q. strict_prefix q p \<longrightarrow> lookup w q = None"
  shows "costs w r w'"
    and "\<exists>made. created' = created @ made \<and> fs_dirs w' = fs_dirs w @ made \<and> chain (set (fs_dirs w)) made \<and>
      (\<forall>d \<in> set made. strict_prefix d p) \<and> (\<forall>u. r = Inr u \<longrightarrow> butlast p \<in> set (fs_dirs w'))"
proof -
  have free': "lookup w q = None" if "prefix q (butlast p)" for q
    using that free p by (simp add: strict_prefix_butlast)
  note missing = missing_directories_chain [OF root, of "butlast p", OF free']
  from run p have dirs: "create_directories env created (rev (missing_directories w (butlast p))) w = (r, created', w')"
    by (simp add: create_missing_parent_directories_def parent_def)
  show "costs w r w'"
    by (rule create_directories_costs [OF dirs]) (use missing free' in auto)
  from create_directories_made [OF dirs] obtain made where
    made: "prefix made (rev (missing_directories w (butlast p)))" "created' = created @ made"
      "fs_dirs w' = fs_dirs w @ made" "\<forall>u. r = Inr u \<longrightarrow> made = rev (missing_directories w (butlast p))" by blast
  from made(1) obtain rest where rest: "rev (missing_directories w (butlast p)) = made @ rest"
    by (auto simp: prefix_def)
  from missing have "chain (set (fs_dirs w)) made" by (simp add: rest chain_append)
  moreover have "set made \<subseteq> set (missing_directories w (butlast p))"
    using arg_cong [OF rest, of set] by auto
  then have "\<forall>d \<in> set made. strict_prefix d p"
    using missing by (auto simp: strict_prefix_butlast [OF p])
  ultimately
  show "\<exists>made. created' = created @ made \<and> fs_dirs w' = fs_dirs w @ made \<and>
      chain (set (fs_dirs w)) made \<and> (\<forall>d \<in> set made. strict_prefix d p) \<and>
      (\<forall>u. r = Inr u \<longrightarrow> butlast p \<in> set (fs_dirs w'))" using made missing by (intro exI [of _ made]) auto
qed

lemma remove_file_if_unchanged_costs:
  assumes "remove_file_if_unchanged env entry w = (r, w')"
    and "pw_original entry = map_option fl_bytes (lookup w (pw_path entry))" and "pw_original entry \<noteq> None"
  shows "costs w r w'"
proof -
  from assms(2,3) obtain f where f: "lookup w (pw_path entry) = Some f" "pw_original entry = Some (fl_bytes f)"
    by auto
  obtain q v where rd: "read_bytes (pw_path entry) (StaleRead (''apply_patch cannot delete '' @
              display (pw_path entry) @ '' because it changed or disappeared: '' @ pe_io_error env)) w = (q, v)"
    by fastforce
  have cost: "costs w q v" by (rule read_bytes_costs [OF rd]) (simp add: f)
  note effect = read_bytes_effect [OF rd]
  show ?thesis
  proof (cases q)
    case (Inl e)
    with assms(1) f cost show ?thesis
      unfolding remove_file_if_unchanged_def then_do_def f option.case rd by (auto simp: costs_def)
  next
    case (Inr bytes)
    with effect f have "bytes = fl_bytes f" "lookup v (pw_path entry) \<noteq> None" by simp_all
    with assms(1) f Inr have "costs v r w'"
      unfolding remove_file_if_unchanged_def then_do_def f option.case rd
      by (auto intro: remove_file_costs)
    with cost show ?thesis unfolding Inr by (rule costs_trans)
  qed
qed

text \<open>A tree whose files and directories all lie in directories, and writes it has room for.\<close>

definition tree_ok :: "fs \<Rightarrow> bool" where
  "tree_ok w \<longleftrightarrow>
     [] \<in> set (fs_dirs w) \<and> closed_dirs (set (fs_dirs w)) \<and>
     (\<forall>p. lookup w p \<noteq> None \<longrightarrow> p \<noteq> [] \<and> p \<notin> set (fs_dirs w) \<and> butlast p \<in> set (fs_dirs w))"

definition plan_ok :: "fs \<Rightarrow> pending_write list \<Rightarrow> bool" where
  "plan_ok w pending \<longleftrightarrow>
     (\<forall>e \<in> set pending. captured w e \<and> placeable w e \<and>
        (\<forall>q. strict_prefix q (pw_path e) \<longrightarrow> q \<notin> pw_path ` set pending)) \<and>
     distinct (map pw_path pending)"

lemma rollback_entry_costs:
  assumes run: "rollback_entry env entry w = (r, w')" and syncs: "syncs w"
    and now: "lookup w (pw_path entry) = target env entry"
    and p: "pw_path entry \<noteq> []" "butlast (pw_path entry) \<in> set (fs_dirs w)" "pw_path entry \<notin> set (fs_dirs w)"
    and some: "pw_content entry = None \<longrightarrow> pw_original entry \<noteq> None"
  shows "costs w r w'"
proof (cases "pw_original entry")
  case (Some content)
  obtain q v where wr: "write_atomic_if_unchanged env (pw_path entry) (pw_content entry) content
      (pw_original_permissions entry) w = (q, v)" by fastforce
  have "costs w q v"
    by (rule write_costs [OF wr syncs p(1,2)]) (use now p(3) in \<open>auto simp: target_def option.map_comp o_def option.map_ident\<close>)
  with run Some wr show ?thesis
    by (cases q) (auto simp: rollback_entry_def Let_def costs_def)
next
  case None
  with some obtain expected where content: "pw_content entry = Some expected" by auto
  obtain q v where rd: "read_bytes (pw_path entry) (ExecutionFailed (''Rollback cannot inspect created file '' @
      display (pw_path entry) @ '': '' @ pe_io_error env)) w = (q, v)" by fastforce
  have cost: "costs w q v" by (rule read_bytes_costs [OF rd]) (simp add: now target_def content)
  note effect = read_bytes_effect [OF rd]
  show ?thesis
  proof (cases q)
    case (Inl e)
    with run cost show ?thesis
      unfolding rollback_entry_def Let_def None content option.case then_do_def rd by (auto simp: costs_def)
  next
    case (Inr bytes)
    with effect now content have "bytes = expected" "lookup v (pw_path entry) \<noteq> None"
      by (simp_all add: target_def)
    with run Inr have "costs v r w'"
      unfolding rollback_entry_def Let_def None content option.case then_do_def rd
      by (auto intro: remove_file_costs)
    with cost show ?thesis unfolding Inr by (rule costs_trans)
  qed
qed

definition rollback_ok :: "patch_env \<Rightarrow> fs \<Rightarrow> pending_write list \<Rightarrow> bool" where
  "rollback_ok env w entries \<longleftrightarrow>
     (\<forall>e \<in> set entries. lookup w (pw_path e) = target env e \<and> pw_path e \<noteq> [] \<and>
        butlast (pw_path e) \<in> set (fs_dirs w) \<and> pw_path e \<notin> set (fs_dirs w) \<and>
        (pw_content e = None \<longrightarrow> pw_original e \<noteq> None))"

lemma rollback_entries_costs:
  assumes "rollback_entries env entries w = (r, w')" and "syncs w" and "rollback_ok env w entries"
    and "distinct (map pw_path entries)" and "\<forall>e \<in> set entries. captured w0 e"
  shows "costs w r w'"
  using assms
proof (induction entries arbitrary: w)
  case (Cons e es)
  obtain q v where q: "rollback_entry env e w = (q, v)" by fastforce
  have cost: "costs w q v"
    by (rule rollback_entry_costs [OF q Cons.prems(2)]) (use Cons.prems(3) in \<open>auto simp: rollback_ok_def\<close>)
  show ?case
  proof (cases q)
    case (Inl x)
    with Cons.prems(1) q cost show ?thesis by (auto simp: then_do_def costs_def)
  next
    case (Inr u)
    with q rollback_entry_effect [of env e w v w0] Cons.prems(2,5)
    have v: "fs_dirs v = fs_dirs w" "syncs v" "lookup v = (lookup w)(pw_path e := lookup w0 (pw_path e))"
      by auto
    have "rollback_ok env v es"
      unfolding rollback_ok_def
    proof
      fix x assume x: "x \<in> set es"
      from Cons.prems(4) have "pw_path e \<notin> pw_path ` set es" by simp
      with x have "pw_path x \<noteq> pw_path e" by (metis image_eqI)
      with x Cons.prems(3) show "lookup v (pw_path x) = target env x \<and> pw_path x \<noteq> [] \<and>
          butlast (pw_path x) \<in> set (fs_dirs v) \<and> pw_path x \<notin> set (fs_dirs v) \<and>
          (pw_content x = None \<longrightarrow> pw_original x \<noteq> None)"
        by (simp add: rollback_ok_def v)
    qed
    with Cons.IH [of v] Cons.prems(1,4,5) v(2) q Inr have "costs v r w'" by (simp add: then_do_def)
    with cost show ?thesis unfolding Inr by (rule costs_trans)
  qed
qed (auto simp: costs_def)

section \<open>All entries\<close>

text \<open>What holds between two entries: the writes so far are in place, and every directory made lies above a target.\<close>

definition under_way ::
  "patch_env \<Rightarrow> fs \<Rightarrow> pending_write list \<Rightarrow> pending_write list \<Rightarrow> path list \<Rightarrow> fs \<Rightarrow> bool" where
  "under_way env w0 pending applied created w \<longleftrightarrow>
     syncs w \<and> lookup w = tree_after env applied (lookup w0) \<and>
     set (fs_dirs w) = set (fs_dirs w0) \<union> set created \<and> chain (set (fs_dirs w0)) created \<and>
     (\<forall>d \<in> set created. \<exists>e \<in> set pending. strict_prefix d (pw_path e)) \<and>
     (\<forall>e \<in> set applied. butlast (pw_path e) \<in> set (fs_dirs w))"

lemma tree_after_Cons: "tree_after env (e # pending) m = tree_after env pending (m(pw_path e := target env e))"
  by (simp add: tree_after_def)

lemma tree_after_at:
  "distinct (map pw_path pending) \<Longrightarrow> e \<in> set pending \<Longrightarrow> tree_after env pending m (pw_path e) = target env e"
proof (induction pending arbitrary: m)
  case (Cons x pending)
  then show ?case
    by (cases "e = x") (auto simp: tree_after_Cons tree_after_other)
qed simp

lemma under_way_entry:
  assumes "under_way env w0 pending applied created w" and "plan_ok w0 pending" and "e \<in> set pending"
  shows "pw_path e \<notin> set (fs_dirs w)"
    and "set applied \<subseteq> set pending \<Longrightarrow> strict_prefix q (pw_path e) \<Longrightarrow> lookup w q = None"
proof -
  from assms(2,3) have free: "pw_path e \<notin> set (fs_dirs w0)" by (simp add: plan_ok_def placeable_def)
  have "pw_path e \<notin> set created"
  proof
    assume "pw_path e \<in> set created"
    with assms(1) obtain e' where e': "e' \<in> set pending" "strict_prefix (pw_path e) (pw_path e')"
      unfolding under_way_def by blast
    with assms(2) have "pw_path e \<notin> pw_path ` set pending" unfolding plan_ok_def by blast
    with assms(3) show False by simp
  qed
  with free assms(1) show "pw_path e \<notin> set (fs_dirs w)" by (simp add: under_way_def)
  show "lookup w q = None" if "set applied \<subseteq> set pending" "strict_prefix q (pw_path e)"
  proof -
    from assms(2,3) that(2) have "q \<notin> pw_path ` set pending" "lookup w0 q = None"
      by (auto simp: plan_ok_def placeable_def)
    with that(1) tree_after_other [of q applied env "lookup w0"] assms(1) show ?thesis
      by (auto simp: under_way_def)
  qed
qed

lemma under_way_rollback:
  assumes "under_way env w0 pending applied created w" and "plan_ok w0 pending" and "set applied \<subseteq> set pending"
    and "distinct (map pw_path applied)" and "tree_ok w0"
    and run: "then_do (rollback_pending_writes env applied w)
      (\<lambda>_. rollback_created_directories env created) = (r, w')"
  shows "costs w r w'"
proof -
  obtain q v where q: "rollback_entries env (rev applied) w = (q, v)" by fastforce
  have captured: "\<forall>e \<in> set (rev applied). captured w0 e" using assms(2,3) by (auto simp: plan_ok_def)
  have "rollback_ok env w (rev applied)"
    using assms(1-4) under_way_entry(1) [OF assms(1,2)] tree_after_at [OF assms(4)]
    by (auto simp: rollback_ok_def under_way_def plan_ok_def placeable_def subset_iff)
  with assms(1,4) captured have cost: "costs w q v"
    by (intro rollback_entries_costs [OF q, of w0]) (auto simp: under_way_def rev_map [symmetric])
  show ?thesis
  proof (cases q)
    case (Inl e)
    with run q cost show ?thesis by (auto simp: then_do_def rollback_pending_writes_def costs_def)
  next
    case (Inr u)
    from rollback_entries_effect [OF _ _ captured, of env w v] q Inr assms(1)
    have v: "fs_dirs v = fs_dirs w" "\<forall>p. lookup v p = lookup w0 p"
      using tree_after_other [of _ applied env "lookup w0"] by (auto simp: under_way_def)
    have "costs v r w'"
      by (rule remove_directories_costs [of env created v r w' "set (fs_dirs w0)"])
        (use run q Inr v assms(1,5) in \<open>auto simp: then_do_def rollback_pending_writes_def
          rollback_created_directories_def under_way_def tree_ok_def\<close>)
    with cost show ?thesis unfolding Inr by (rule costs_trans)
  qed
qed

text \<open>One entry fails only on a fault, and makes directories above its target only.\<close>

definition entry_made :: "pending_write \<Rightarrow> path list \<Rightarrow> fs \<Rightarrow> tool_error + unit \<Rightarrow> path list \<Rightarrow> fs \<Rightarrow> bool" where
  "entry_made entry created w r created' w' \<longleftrightarrow>
     costs w r w' \<and>
     (\<exists>made. created' = created @ made \<and> set (fs_dirs w') = set (fs_dirs w) \<union> set made \<and>
        chain (set (fs_dirs w)) made \<and> (\<forall>d \<in> set made. strict_prefix d (pw_path entry)) \<and>
        (\<forall>u. r = Inr u \<longrightarrow> butlast (pw_path entry) \<in> set (fs_dirs w')))"

lemma remove_entry_made:
  assumes step: "apply_entry env entry created w = (r, created', w')" and none: "pw_content entry = None"
    and syncs: "syncs w" and captured: "captured w entry" and original: "pw_original entry \<noteq> None"
    and parent: "butlast (pw_path entry) \<in> set (fs_dirs w)"
  shows "entry_made entry created w r created' w'"
proof -
  from step none obtain rm: "remove_file_if_unchanged env entry w = (r, w')" and "created' = created"
    by (auto simp: apply_entry_def split: prod.splits)
  moreover from remove_file_if_unchanged_effect [OF rm syncs] have "fs_dirs w' = fs_dirs w" by simp
  moreover have "costs w r w'"
    by (rule remove_file_if_unchanged_costs [OF rm _ original]) (use captured in \<open>simp add: captured_def\<close>)
  ultimately show ?thesis using parent by (simp add: entry_made_def)
qed

lemma write_entry_made:
  assumes step: "apply_entry env entry created w = (r, created', w')" and content: "pw_content entry = Some content"
    and syncs: "syncs w" and captured: "captured w entry" and root: "[] \<in> set (fs_dirs w)"
    and p: "pw_path entry \<noteq> []" "pw_path entry \<notin> set (fs_dirs w)"
    and free: "\<forall>q. strict_prefix q (pw_path entry) \<longrightarrow> lookup w q = None"
  shows "entry_made entry created w r created' w'"
proof -
  obtain q created1 v where
    ps: "create_missing_parent_directories env (pw_path entry) created w = (q, created1, v)"
    using prod_cases3 by blast
  note parents = create_missing_parents_costs [OF ps root p(1) free] create_missing_parents_effect [OF ps]
  from parents(2) obtain made where made: "created1 = created @ made" "fs_dirs v = fs_dirs w @ made"
    "chain (set (fs_dirs w)) made" "\<forall>d \<in> set made. strict_prefix d (pw_path entry)"
    "\<forall>u. q = Inr u \<longrightarrow> butlast (pw_path entry) \<in> set (fs_dirs v)" by blast
  from parents(3) syncs have "syncs v" by simp
  obtain s u where
    wr: "write_atomic_if_unchanged env (pw_path entry) (pw_original entry) content
           (pw_original_permissions entry) v = (s, u)" by fastforce
  show ?thesis
  proof (cases q)
    case (Inl e)
    with step content ps have "r = Inl e" "created' = created1" "w' = v" by (simp_all add: apply_entry_def)
    with parents(1) made Inl show ?thesis by (auto simp: entry_made_def)
  next
    case (Inr a)
    with step content ps wr have r: "r = map_err (atomic_write_error_of (pw_path entry)) s"
      "created' = created1" "w' = u"
      by (simp_all add: apply_entry_def)
    have "costs v s u"
      by (rule write_costs [OF wr \<open>syncs v\<close> p(1)])
        (use made Inr captured parents(3) p(2) in \<open>auto simp: captured_def\<close>)
    then have "costs v r w'" by (cases s) (auto simp: r costs_def)
    then have "costs w r w'" using costs_trans [of w a v r w'] parents(1) Inr by simp
    with write_effect [OF wr \<open>syncs v\<close>] made Inr r(2,3) show ?thesis by (auto simp: entry_made_def)
  qed
qed

lemma under_way_step:
  assumes way: "under_way env w0 pending applied created w" and plan: "plan_ok w0 pending"
    and pending: "pending = applied @ entry # entries" and "tree_ok w0"
    and step: "apply_entry env entry created w = (r, created', w')"
  shows "costs w r w'"
    and "under_way env w0 pending (case r of Inl _ \<Rightarrow> applied | Inr _ \<Rightarrow> applied @ [entry]) created' w'"
proof -
  have member: "entry \<in> set pending" "set applied \<subseteq> set pending" using pending by auto
  note entry = under_way_entry [OF way plan member(1)]
  from plan member(1) have p: "pw_path entry \<noteq> []" "pw_content entry = None \<Longrightarrow> pw_original entry \<noteq> None"
    by (auto simp: plan_ok_def placeable_def)
  have "lookup w (pw_path entry) = lookup w0 (pw_path entry)"
    using way plan pending tree_after_other [of "pw_path entry" applied env "lookup w0"]
    by (simp add: under_way_def plan_ok_def)
  with plan member(1) have captured: "captured w entry" by (simp add: plan_ok_def captured_def)
  have syncs: "syncs w" and root: "[] \<in> set (fs_dirs w)"
    using way \<open>tree_ok w0\<close> by (auto simp: under_way_def tree_ok_def)
  note effect = apply_entry_effect [OF step syncs captured]
  have "entry_made entry created w r created' w'"
  proof (cases "pw_content entry")
    case None
    have "butlast (pw_path entry) \<in> set (fs_dirs w)"
      using p(2) [OF None] plan member(1) \<open>tree_ok w0\<close> way
      by (auto simp: plan_ok_def captured_def tree_ok_def under_way_def)
    then show ?thesis by (rule remove_entry_made [OF step None syncs captured p(2) [OF None]])
  next
    case (Some content)
    show ?thesis
      by (rule write_entry_made [OF step Some syncs captured root p(1) entry(1)])
        (use entry(2) [OF member(2)] in blast)
  qed
  then obtain new where new: "costs w r w'" "created' = created @ new" "set (fs_dirs w') = set (fs_dirs w) \<union> set new"
    "chain (set (fs_dirs w)) new" "\<forall>d \<in> set new. strict_prefix d (pw_path entry)"
    "\<forall>u. r = Inr u \<longrightarrow> butlast (pw_path entry) \<in> set (fs_dirs w')" unfolding entry_made_def by blast
  show "costs w r w'" by (rule new(1))
  have "chain (set (fs_dirs w0)) created'" "\<forall>d \<in> set created'. \<exists>e \<in> set pending. strict_prefix d (pw_path e)"
    using way new(2,4,5) member(1) by (auto simp: under_way_def chain_append)
  with way new effect(1,3) show
    "under_way env w0 pending (case r of Inl _ \<Rightarrow> applied | Inr _ \<Rightarrow> applied @ [entry]) created' w'"
    by (cases r) (auto simp: under_way_def tree_after_snoc)
qed

lemma apply_entries_single_fault:
  assumes "apply_entries env applied created entries w = (r, w')"
    and "under_way env w0 pending applied created w" and "pending = applied @ entries"
    and "plan_ok w0 pending" and "tree_ok w0" and "bad w \<le> 1"
  shows "\<forall>e. r = Inl e \<longrightarrow> same_tree w0 w' \<and> bad w = 1"
  using assms
proof (induction entries arbitrary: applied created w)
  case (Cons entry entries)
  obtain q created1 v where step: "apply_entry env entry created w = (q, created1, v)"
    using prod_cases3 by blast
  note next_way = under_way_step [OF Cons.prems(2,4,3,5) step]
  show ?case
  proof (cases q)
    case (Inr u)
    then have "bad v \<le> bad w" using next_way(1) by (simp add: costs_def)
    with Cons.IH [of "applied @ [entry]" created1 v] Cons.prems next_way(2) step Inr show ?thesis by auto
  next
    case (Inl err)
    then have none_left: "bad v = 0" "bad w = 1" using next_way(1) Cons.prems(6) by (auto simp: costs_def)
    obtain b u where rb: "then_do (rollback_pending_writes env applied v)
        (\<lambda>_. rollback_created_directories env created1) = (b, u)" by fastforce
    have applied: "set applied \<subseteq> set pending" "distinct (map pw_path applied)"
      using Cons.prems(3,4) by (auto simp: plan_ok_def)
    have way: "under_way env w0 pending applied created1 v" using next_way(2) Inl by simp
    have "costs v b u" by (rule under_way_rollback [OF way Cons.prems(4) applied Cons.prems(5) rb])
    then have b: "b = Inr ()" using none_left(1) by (cases b) (auto simp: costs_def)
    have "same_tree w0 u"
      by (rule rollback_restores [OF rb [unfolded b]])
        (use way applied Cons.prems(4) tree_after_other [of _ applied env "lookup w0"]
            chain_fresh [of "set (fs_dirs w0)" created1] in \<open>auto simp: under_way_def plan_ok_def\<close>)
    with Cons.prems(1) step Inl rb b none_left(2) show ?thesis by auto
  qed
qed auto

lemma bad_suffix: "suffix (fs_faults w) (fs_faults w0) \<Longrightarrow> bad w \<le> bad w0"
  by (auto simp: bad_def suffix_def)

definition room_for :: "fs \<Rightarrow> pending_write list \<Rightarrow> bool" where
  "room_for w pending \<longleftrightarrow>
     (\<forall>e \<in> set pending. pw_path e \<noteq> [] \<and>
        (\<forall>q. strict_prefix q (pw_path e) \<longrightarrow> lookup w q = None \<and> q \<notin> pw_path ` set pending))"

lemma plan_okI:
  assumes "ready w0 w pending" and "tree_ok w0" and "room_for w0 pending"
  shows "plan_ok w0 pending"
proof -
  have fits: "fits w0 e" if "e \<in> set pending" for e using assms(1) that by (simp add: ready_def)
  have "placeable w0 e" if e: "e \<in> set pending" for e
  proof -
    have "pw_path e \<notin> set (fs_dirs w0)"
      using fits [OF e] assms(2) by (cases "lookup w0 (pw_path e)") (auto simp: fits_def captured_def tree_ok_def)
    with fits [OF e] assms(3) e show ?thesis by (auto simp: fits_def room_for_def placeable_def)
  qed
  with fits assms(1,3) show ?thesis by (auto simp: plan_ok_def ready_def room_for_def fits_def)
qed


lemma ex_tree_lookup: "lookup ex_tree p \<noteq> None \<longleftrightarrow> p = [''w'', ''a'']"
  by (simp add: lookup_def ex_tree_def)

lemma strict_prefix_pair: "strict_prefix q [x, y] \<longleftrightarrow> q = [] \<or> q = [x]"
  by (auto simp: strict_prefix_def prefix_Cons)


text \<open>
  The failure left out above: when the directory sync after a rename fails, the write is
  reported as failed though the file is in place, so the rollback, which covers completed
  entries only, leaves it behind.
\<close>

lemma failed_sync_leaves_the_file:
  "isl (fst (execute_apply_patch ex_env ex_changes (ex_tree\<lparr>fs_faults := [Works, Works, FailsAfter]\<rparr>)))"
  "map_option fl_bytes (lookup (snd (execute_apply_patch ex_env ex_changes
     (ex_tree\<lparr>fs_faults := [Works, Works, FailsAfter]\<rparr>))) [''w'', ''b'']) = Some ''new''"
  by code_simp+

end
