(* ===== verification/Production_Context.thy ===== *)
theory Production_Context
  imports Transcript Patch_Write
begin

text \<open>
  The workspace-bound context of the built-in tools (crates/tools/src/production_context.rs): path
  resolution against the workspace, the write boundary of an isolated writer, and the record of
  the files read that an edit has to match. SHA-256 is a parameter. The record of reads is
  shared by the clones of a context and is threaded through the operations; \<open>None\<close> is a
  poisoned lock.
\<close>

section \<open>The context\<close>

datatype write_path_guard = Ordinary | IsolatedWriter path_buf

record production_tool_context =
  ptc_workspace :: path_buf
  ptc_allow_external_paths :: bool
  ptc_follow_symlinks :: bool
  ptc_cancel_token :: "nat option"
  ptc_permission_mode :: run_permission_mode
  ptc_write_path_guard :: write_path_guard

definition new_tool_context :: "path_buf \<Rightarrow> production_tool_context" where
  "new_tool_context workspace =
     \<lparr>ptc_workspace = workspace, ptc_allow_external_paths = False, ptc_follow_symlinks = False,
      ptc_cancel_token = None, ptc_permission_mode = PermissionAsk, ptc_write_path_guard = Ordinary\<rparr>"

definition with_external_path_authority :: "production_tool_context \<Rightarrow> bool \<Rightarrow> production_tool_context" where
  "with_external_path_authority ctx allow = ctx\<lparr>ptc_allow_external_paths := allow\<rparr>"

definition with_follow_symlinks :: "production_tool_context \<Rightarrow> bool \<Rightarrow> production_tool_context" where
  "with_follow_symlinks ctx follow = ctx\<lparr>ptc_follow_symlinks := follow\<rparr>"

definition with_permission_mode ::
  "production_tool_context \<Rightarrow> run_permission_mode \<Rightarrow> production_tool_context" where
  "with_permission_mode ctx mode = ctx\<lparr>ptc_permission_mode := mode\<rparr>"

definition for_invocation :: "production_tool_context \<Rightarrow> nat \<Rightarrow> production_tool_context" where
  "for_invocation ctx cancellation = ctx\<lparr>ptc_cancel_token := Some cancellation\<rparr>"

section \<open>Lexical normalization\<close>

text \<open>The stack is kept with its top first.\<close>

fun normalize_loop :: "bool \<Rightarrow> path_buf \<Rightarrow> path_buf \<Rightarrow> bool \<times> path_buf" where
  "normalize_loop is_root stack [] = (is_root, stack)"
| "normalize_loop is_root stack (RootDir # cs) = normalize_loop True stack cs"
| "normalize_loop is_root stack (CurDir # cs) = normalize_loop is_root stack cs"
| "normalize_loop is_root stack (ParentDir # cs) =
     normalize_loop is_root
       (case stack of
          upper # rest \<Rightarrow> if upper = ParentDir then ParentDir # upper # rest else rest
        | [] \<Rightarrow> if is_root then [] else [ParentDir])
       cs"
| "normalize_loop is_root stack (Normal s # cs) = normalize_loop is_root (Normal s # stack) cs"

definition normalize_path :: "path_buf \<Rightarrow> path_buf" where
  "normalize_path p =
     (let (is_root, stack) = normalize_loop False [] p in (if is_root then [RootDir] else []) @ rev stack)"

definition with_isolated_writer_write_guard ::
  "file_tree \<Rightarrow> production_tool_context \<Rightarrow> path_buf \<Rightarrow> production_tool_context" where
  "with_isolated_writer_write_guard t ctx workspace =
     ctx\<lparr>ptc_write_path_guard := IsolatedWriter
       (case canonicalize t workspace of Some p \<Rightarrow> p | None \<Rightarrow> normalize_path workspace)\<rparr>"

section \<open>Resolution\<close>

text \<open>The loop of \<^verbatim>\<open>resolve_nonexistent_path\<close>: the closest existing ancestor and the names left.\<close>

function ancestor_loop :: "file_tree \<Rightarrow> path_buf \<Rightarrow> string list \<Rightarrow> path_buf \<times> string list" where
  "ancestor_loop t existing_ancestor suffix_parts =
     (if path_exists_at t existing_ancestor then (existing_ancestor, suffix_parts)
      else
        let suffix_parts =
              (case path_file_name existing_ancestor of
                 Some file_name \<Rightarrow> suffix_parts @ [file_name]
               | None \<Rightarrow> suffix_parts)
        in case path_parent existing_ancestor of
             Some up \<Rightarrow>
               if up \<noteq> [] then ancestor_loop t up suffix_parts
               else (existing_ancestor, suffix_parts)
           | None \<Rightarrow> (existing_ancestor, suffix_parts))"
  by pat_completeness auto

termination
  by (relation "measure (\<lambda>(t, p, suffix). length p)") (auto simp: path_parent_def split: if_splits)

declare ancestor_loop.simps [simp del]

definition resolve_nonexistent_path ::
  "file_tree \<Rightarrow> production_tool_context \<Rightarrow> path_buf \<Rightarrow> path_buf \<Rightarrow> tool_error + path_buf" where
  "resolve_nonexistent_path t ctx candidate workspace_canonical =
     (let workspace_normalized = normalize_path workspace_canonical;
          workspace_plain = normalize_path (ptc_workspace ctx);
          (existing_ancestor, suffix_parts) = ancestor_loop t candidate [];
          ancestor_normalized = normalize_path existing_ancestor;
          canonical_ancestor =
            (case canonicalize t existing_ancestor of Some p \<Rightarrow> p | None \<Rightarrow> existing_ancestor);
          canonical = normalize_path (canonical_ancestor @ map Normal (rev suffix_parts))
      in if ptc_follow_symlinks ctx \<and>
            (prefix workspace_plain ancestor_normalized \<or> prefix workspace_normalized ancestor_normalized)
         then Inr canonical
         else if \<not> prefix workspace_canonical canonical \<and> \<not> prefix workspace_normalized canonical
         then Inl (PathEscape canonical)
         else Inr canonical)"

definition resolve_path :: "file_tree \<Rightarrow> production_tool_context \<Rightarrow> string \<Rightarrow> tool_error + path_buf" where
  "resolve_path t ctx raw =
     (let candidate = path_join (ptc_workspace ctx) (components raw);
          canonical_or = (\<lambda>p other. case canonicalize t p of Some q \<Rightarrow> q | None \<Rightarrow> other);
          workspace_canonical = canonical_or (ptc_workspace ctx) (ptc_workspace ctx)
      in if ptc_allow_external_paths ctx then Inr (canonical_or candidate candidate)
         else if ptc_follow_symlinks ctx \<and>
                 (prefix (normalize_path (ptc_workspace ctx)) (normalize_path candidate) \<or>
                  prefix (normalize_path workspace_canonical) (normalize_path candidate))
         then
           if path_exists_at t candidate then Inr (canonical_or candidate candidate)
           else resolve_nonexistent_path t ctx candidate workspace_canonical
         else
           let candidate_canonical = canonical_or candidate (normalize_path candidate);
               workspace_normalized = normalize_path workspace_canonical
           in if \<not> prefix workspace_normalized candidate_canonical \<and>
                 \<not> prefix (normalize_path (ptc_workspace ctx)) (normalize_path candidate)
              then Inl (PathEscape candidate_canonical)
              else if path_exists_at t candidate then
                (case canonicalize t candidate of
                   None \<Rightarrow> Inl (ExecutionFailed (''Failed to canonicalize '' @ display_buf candidate @ '': '' @ ft_io_error t))
                 | Some canonical \<Rightarrow>
                     if \<not> prefix workspace_canonical canonical then Inl (PathEscape canonical)
                     else Inr canonical)
              else resolve_nonexistent_path t ctx candidate workspace_canonical)"

definition path_is_external :: "file_tree \<Rightarrow> production_tool_context \<Rightarrow> string \<Rightarrow> bool" where
  "path_is_external t ctx raw =
     (let workspace =
            (case canonicalize t (ptc_workspace ctx) of
               Some p \<Rightarrow> p
             | None \<Rightarrow> normalize_path (ptc_workspace ctx))
      in case resolve_path t ctx raw of
           Inr resolved \<Rightarrow> \<not> prefix workspace (normalize_path resolved)
         | Inl _ \<Rightarrow> True)"

definition isolated_writer_write_denied :: "path_buf \<Rightarrow> tool_error" where
  "isolated_writer_write_denied p =
     PermissionDenied ([CHR 0xE9, CHR 0x9A, CHR 0x94, CHR 0xE7, CHR 0xA6, CHR 0xBB] @ '' Writer ''
       @ [CHR 0xE5, CHR 0x8F, CHR 0xAA, CHR 0xE8, CHR 0x83, CHR 0xBD, CHR 0xE4, CHR 0xBF, CHR
       0xAE, CHR 0xE6, CHR 0x94, CHR 0xB9, CHR 0xE5, CHR 0x85, CHR 0xB6] @ '' worktree '' @ [CHR
       0xE5, CHR 0x86, CHR 0x85, CHR 0xE7, CHR 0x9A, CHR 0x84, CHR 0xE6, CHR 0x99, CHR 0xAE, CHR
       0xE9, CHR 0x80, CHR 0x9A, CHR 0xE6, CHR 0x96, CHR 0x87, CHR 0xE4, CHR 0xBB, CHR 0xB6, CHR
       0xEF, CHR 0xBC, CHR 0x8C, CHR 0xE6, CHR 0x8B, CHR 0x92, CHR 0xE7, CHR 0xBB, CHR 0x9D, CHR
       0xE8, CHR 0xB7, CHR 0xAF, CHR 0xE5, CHR 0xBE, CHR 0x84] @ '' '' @ display_buf p)"

definition is_protected :: "component \<Rightarrow> bool" where
  "is_protected c \<longleftrightarrow> c \<in> set [Normal ''.git'', Normal ''.dse'', Normal ''.deepseek'']"

definition resolve_write_path ::
  "file_tree \<Rightarrow> production_tool_context \<Rightarrow> string \<Rightarrow> tool_error + path_buf" where
  "resolve_write_path t ctx raw =
     (case resolve_path t ctx raw of
        Inl e \<Rightarrow>
          (case (ptc_write_path_guard ctx, e) of
             (IsolatedWriter _, PathEscape _) \<Rightarrow> Inl (isolated_writer_write_denied (components raw))
           | _ \<Rightarrow> Inl e)
      | Inr resolved0 \<Rightarrow>
          (case ptc_write_path_guard ctx of
             Ordinary \<Rightarrow> Inr resolved0
           | IsolatedWriter workspace \<Rightarrow>
               let resolved = normalize_path resolved0
               in if \<not> prefix workspace resolved then Inl (isolated_writer_write_denied resolved)
                  else if list_ex is_protected (drop (length workspace) resolved)
                  then Inl (isolated_writer_write_denied resolved)
                  else Inr resolved))"

section \<open>Files read\<close>

type_synonym file_read_tracker = "(path_buf \<times> string) list option"

definition note_file_read_digest :: "path_buf \<Rightarrow> string \<Rightarrow> file_read_tracker \<Rightarrow> file_read_tracker" where
  "note_file_read_digest p content_sha256 tracker = map_option (AList.update p content_sha256) tracker"

text \<open>The parameters of the tools: what lies outside the repository or below the standard library.\<close>

record tool_env =
  te_tree :: file_tree
  te_context :: production_tool_context
  te_sha256 :: "string \<Rightarrow> string"
  te_text_diff :: "string \<Rightarrow> string \<Rightarrow> string \<Rightarrow> string \<Rightarrow> string"
  te_io_error :: string
  te_utf8_error :: "string \<Rightarrow> string"
  te_new_file_mode :: nat

definition note_file_read_bytes ::
  "tool_env \<Rightarrow> path_buf \<Rightarrow> string \<Rightarrow> file_read_tracker \<Rightarrow> file_read_tracker" where
  "note_file_read_bytes env p bytes = note_file_read_digest p (te_sha256 env bytes)"

text \<open>The file a path names: its components below the root.\<close>

definition names_of :: "path_buf \<Rightarrow> path" where
  "names_of p = concat (map (\<lambda>c. case c of Normal s \<Rightarrow> [s] | _ \<Rightarrow> []) (normalize_path p))"

definition note_file_read ::
  "tool_env \<Rightarrow> path_buf \<Rightarrow> file_read_tracker \<Rightarrow> fs \<Rightarrow> file_read_tracker \<times> fs" where
  "note_file_read env p tracker w =
     (case read_bytes (names_of p) () w of
        (Inl _, w') \<Rightarrow> (tracker, w')
      | (Inr bytes, w') \<Rightarrow> (note_file_read_bytes env p bytes tracker, w'))"

definition read_fresh_file_bytes ::
  "tool_env \<Rightarrow> path_buf \<Rightarrow> string \<Rightarrow> file_read_tracker \<Rightarrow> fs \<Rightarrow> (tool_error + string) \<times> fs" where
  "read_fresh_file_bytes env p requested_path tracker w0 =
     (case tracker of
        None \<Rightarrow>
          (Inl (ExecutionFailed ''Failed to check read-before-edit state: tracker lock poisoned''), w0)
      | Some reads \<Rightarrow>
          (case map_of reads p of
             None \<Rightarrow>
               (Inl (WorkspacePrecondition (''edit_file '' @ [CHR 0xE6, CHR 0x8B, CHR 0x92, CHR
                 0xE7, CHR 0xBB, CHR 0x9D, CHR 0xE4, CHR 0xBF, CHR 0xAE, CHR 0xE6, CHR 0x94, CHR
                 0xB9] @ '' '' @ display_buf p @
                  [CHR 0xEF, CHR 0xBC, CHR 0x9A, CHR 0xE6, CHR 0x9C, CHR 0xAC, CHR 0xE6, CHR 0xAC,
                    CHR 0xA1, CHR 0xE8, CHR 0xBF, CHR 0x90, CHR 0xE8, CHR 0xA1, CHR 0x8C, CHR
                    0xE5, CHR 0xB0, CHR 0x9A, CHR 0xE6, CHR 0x9C, CHR 0xAA, CHR 0xE8, CHR 0xAF,
                    CHR 0xBB, CHR 0xE5, CHR 0x8F, CHR 0x96, CHR 0xE8, CHR 0xAF, CHR 0xA5, CHR
                    0xE6, CHR 0x96, CHR 0x87, CHR 0xE4, CHR 0xBB, CHR 0xB6, CHR 0xEF, CHR 0xBC,
                    CHR 0x88] @ ''path='' @ [CHR 0x22] @ requested_path @ [CHR 0x22, CHR 0xEF, CHR
                    0xBC, CHR 0x89])), w0)
           | Some prior \<Rightarrow>
               then_do (read_bytes (names_of p) (WorkspacePrecondition (''edit_file '' @ [CHR
                 0xE6, CHR 0x97, CHR 0xA0, CHR 0xE6, CHR 0xB3, CHR 0x95, CHR 0xE7, CHR 0xA1, CHR
                 0xAE, CHR 0xE8, CHR 0xAE, CHR 0xA4] @ '' '' @
                   display_buf p @ '' '' @ [CHR 0xE6, CHR 0x98, CHR 0xAF, CHR 0xE5, CHR 0x90, CHR
                     0xA6, CHR 0xE4, CHR 0xBB, CHR 0x8D, CHR 0xE4, CHR 0xB8, CHR 0xBA, CHR 0xE5,
                     CHR 0xB7, CHR 0xB2, CHR 0xE8, CHR 0xAF, CHR 0xBB, CHR 0xE5, CHR 0x8F, CHR
                     0x96, CHR 0xE7, CHR 0x89, CHR 0x88, CHR 0xE6, CHR 0x9C, CHR 0xAC, CHR 0xEF,
                     CHR 0xBC, CHR 0x88] @ ''path='' @ [CHR 0x22] @ requested_path @ [CHR 0x22,
                     CHR 0xEF, CHR 0xBC, CHR 0x89, CHR 0xEF, CHR 0xBC, CHR 0x9A] @
                   te_io_error env)) w0)
                 (\<lambda>current w.
                    if te_sha256 env current \<noteq> prior then
                      (Inl (StaleRead (''edit_file '' @ [CHR 0xE6, CHR 0x8B, CHR 0x92, CHR 0xE7,
                        CHR 0xBB, CHR 0x9D, CHR 0xE4, CHR 0xBF, CHR 0xAE, CHR 0xE6, CHR 0x94, CHR
                        0xB9] @ '' '' @ display_buf p @
                         [CHR 0xEF, CHR 0xBC, CHR 0x9A, CHR 0xE6, CHR 0x96, CHR 0x87, CHR 0xE4,
                           CHR 0xBB, CHR 0xB6, CHR 0xE5, CHR 0x9C, CHR 0xA8, CHR 0xE6, CHR 0x9C,
                           CHR 0x80, CHR 0xE8, CHR 0xBF, CHR 0x91, CHR 0xE4, CHR 0xB8, CHR 0x80,
                           CHR 0xE6, CHR 0xAC, CHR 0xA1] @ '' read_file '' @ [CHR 0xE5, CHR 0x90,
                           CHR 0x8E, CHR 0xE5, CHR 0xB7, CHR 0xB2, CHR 0xE7, CHR 0xBB, CHR 0x8F,
                           CHR 0xE5, CHR 0x8F, CHR 0x98, CHR 0xE5, CHR 0x8C, CHR 0x96, CHR 0xEF,
                           CHR 0xBC, CHR 0x88] @ ''path='' @ [CHR 0x22] @ requested_path @ [CHR
                           0x22, CHR 0xEF, CHR 0xBC, CHR 0x89])), w)
                    else (Inr current, w))))"

definition require_fresh_file_read ::
  "tool_env \<Rightarrow> path_buf \<Rightarrow> string \<Rightarrow> file_read_tracker \<Rightarrow> fs \<Rightarrow> (tool_error + unit) \<times> fs" where
  "require_fresh_file_read env p requested_path tracker w =
     then_do (read_fresh_file_bytes env p requested_path tracker w) (\<lambda>_ w'. (Inr (), w'))"

end
