(* ===== verification/Edit_File.thy ===== *)
theory Edit_File
  imports Production_Context
begin

text \<open>
  The \<^verbatim>\<open>edit_file\<close> tool (crates/tools/src/edit_file.rs): search and replace of one place of a file
  the run has read, with a fallback that ignores indentation and one that ignores typographic
  punctuation. The text diff of the result (crate \<^verbatim>\<open>similar\<close>) is a parameter.
\<close>

section \<open>Positions in a text\<close>

fun find_str :: "string \<Rightarrow> string \<Rightarrow> nat option" where
  "find_str pat [] = (if pat = [] then Some 0 else None)"
| "find_str pat (c # s) = (if starts_with pat (c # s) then Some 0 else map_option Suc (find_str pat s))"

definition find_at :: "string \<Rightarrow> string \<Rightarrow> nat \<Rightarrow> nat option" where
  "find_at contents pat cursor = map_option (\<lambda>i. cursor + i) (find_str pat (drop cursor contents))"

definition is_char_boundary :: "string \<Rightarrow> nat \<Rightarrow> bool" where
  "is_char_boundary s i \<longleftrightarrow> i = 0 \<or> i = length s \<or> i < length s \<and> \<not> between 128 191 (s ! i)"

function boundary_loop :: "string \<Rightarrow> nat \<Rightarrow> nat" where
  "boundary_loop input next_idx =
     (if next_idx < length input \<and> \<not> is_char_boundary input next_idx
      then boundary_loop input (Suc next_idx) else next_idx)"
  by pat_completeness auto

termination
  by (relation "measure (\<lambda>(input, next_idx). length input - next_idx)") auto

declare boundary_loop.simps [simp del]

definition next_char_boundary :: "string \<Rightarrow> nat \<Rightarrow> nat" where
  "next_char_boundary input idx = (if length input \<le> idx then length input else boundary_loop input (Suc idx))"

lemma boundary_loop_ge: "n \<le> boundary_loop input n"
proof (induction input n rule: boundary_loop.induct)
  case (1 input n)
  then show ?case by (subst boundary_loop.simps) (auto intro: Suc_leD)
qed

lemma next_char_boundary_gt: "idx < length input \<Longrightarrow> idx < next_char_boundary input idx"
  using boundary_loop_ge [of "Suc idx" input] by (simp add: next_char_boundary_def)

lemma find_str_bound: "find_str pat s = Some i \<Longrightarrow> i + length pat \<le> length s"
proof (induction s arbitrary: i)
  case (Cons c s)
  show ?case
  proof (cases "starts_with pat (c # s)")
    case True
    then obtain r where "c # s = pat @ r" by (auto simp: starts_with_iff)
    from arg_cong [OF this, of length] True Cons.prems show ?thesis by simp
  next
    case False
    with Cons show ?thesis by auto
  qed
qed (simp split: if_splits)

lemma find_at_bound: "find_at contents pat cursor = Some start \<Longrightarrow> pat \<noteq> [] \<Longrightarrow>
    cursor \<le> start \<and> start < length contents"
  by (cases pat) (auto simp: find_at_def dest!: find_str_bound)

lemma find_at_progress: "find_at contents pat cursor = Some start \<Longrightarrow> pat \<noteq> [] \<Longrightarrow>
    length contents - next_char_boundary contents start < length contents - cursor"
  using find_at_bound [of contents pat cursor start] next_char_boundary_gt [of start contents] by linarith

section \<open>Exact matches\<close>

text \<open>All occurrences, also overlapping ones, from a position on.\<close>

function matches_from :: "string \<Rightarrow> string \<Rightarrow> nat \<Rightarrow> (nat \<times> nat) list" where
  "matches_from contents pat cursor =
     (if pat = [] then []
      else case find_at contents pat cursor of
             None \<Rightarrow> []
           | Some start \<Rightarrow>
               (start, start + length pat) # matches_from contents pat (next_char_boundary contents start))"
  by pat_completeness auto

termination
  by (relation "measure (\<lambda>(contents, pat, cursor). length contents - cursor)")
    (auto dest: find_at_progress)

declare matches_from.simps [simp del]

definition overlapping_matches :: "string \<Rightarrow> string \<Rightarrow> (nat \<times> nat) list" where
  "overlapping_matches contents pat = matches_from contents pat 0"

section \<open>Matches up to indentation\<close>

text \<open>The text without the blanks at the start of its lines, with the offset of each byte's code point.\<close>

fun strip_loop :: "nat \<Rightarrow> bool \<Rightarrow> string list \<Rightarrow> string \<times> nat list" where
  "strip_loop idx at_line_start [] = ([], [])"
| "strip_loop idx at_line_start (ch # chs) =
     (if at_line_start \<and> (ch = '' '' \<or> ch = [CHR 0x09])
      then strip_loop (idx + length ch) at_line_start chs
      else
        let (normalized, byte_map) = strip_loop (idx + length ch) (ch = [CHR 0x0A]) chs
        in (ch @ normalized, replicate (length ch) idx @ byte_map))"

definition strip_line_leading_whitespace_with_map :: "string \<Rightarrow> string \<times> nat list" where
  "strip_line_leading_whitespace_with_map input = strip_loop 0 True (utf8_chars input)"

definition line_start_before :: "string \<Rightarrow> nat \<Rightarrow> nat" where
  "line_start_before input idx = idx - length (takeWhile (\<lambda>c. c \<noteq> CHR 0x0A) (rev (take idx input)))"

definition map_get :: "nat list \<Rightarrow> nat \<Rightarrow> nat option" where
  "map_get byte_map i = (if i < length byte_map then Some (byte_map ! i) else None)"

definition original_end :: "string \<Rightarrow> nat list \<Rightarrow> nat \<Rightarrow> nat" where
  "original_end contents byte_map norm_end =
     (case map_get byte_map norm_end of Some e \<Rightarrow> e | None \<Rightarrow> length contents)"

definition fuzzy_start :: "string \<Rightarrow> string \<Rightarrow> nat \<Rightarrow> nat \<Rightarrow> nat" where
  "fuzzy_start contents normalized_contents norm_start mapped_start =
     (if norm_start = 0 \<or> normalized_contents ! (norm_start - 1) = CHR 0x0A
      then line_start_before contents mapped_start else mapped_start)"

text \<open>
  The loop both fallbacks share: matches in the normalized text, mapped back to the original;
  \<open>start_of\<close> gives the start from the match and from its mapped offset.
\<close>

function mapped_matches ::
  "string \<Rightarrow> string \<Rightarrow> nat list \<Rightarrow> string \<Rightarrow> (nat \<Rightarrow> nat \<Rightarrow> nat) \<Rightarrow> nat \<Rightarrow> (nat \<times> nat) list" where
  "mapped_matches contents norm_contents byte_map norm_search start_of cursor =
     (if norm_search = [] then []
      else case find_at norm_contents norm_search cursor of
             None \<Rightarrow> []
           | Some norm_start \<Rightarrow>
               (case map_get byte_map norm_start of
                  None \<Rightarrow> []
                | Some mapped_start \<Rightarrow>
                    (start_of norm_start mapped_start,
                     original_end contents byte_map (norm_start + length norm_search)) #
                    mapped_matches contents norm_contents byte_map norm_search start_of
                      (next_char_boundary norm_contents norm_start)))"
  by pat_completeness auto

termination
  by (relation "measure (\<lambda>(contents, norm_contents, byte_map, norm_search, start_of, cursor).
      length norm_contents - cursor)")
    (auto dest: find_at_progress)

declare mapped_matches.simps [simp del]

definition leading_whitespace_fuzzy_matches :: "string \<Rightarrow> string \<Rightarrow> (nat \<times> nat) list" where
  "leading_whitespace_fuzzy_matches contents pat =
     (let (normalized_contents, byte_map) = strip_line_leading_whitespace_with_map contents;
          (normalized_search, _) = strip_line_leading_whitespace_with_map pat
      in mapped_matches contents normalized_contents byte_map normalized_search
           (fuzzy_start contents normalized_contents) 0)"

section \<open>Matches up to punctuation\<close>

definition ascii_punctuation :: "string \<Rightarrow> string" where
  "ascii_punctuation ch =
     (if ch = [CHR 0xE2, CHR 0x80, CHR 0x9C] \<or> ch = [CHR 0xE2, CHR 0x80, CHR 0x9D] then [CHR 0x22]
      else if ch = [CHR 0xE2, CHR 0x80, CHR 0x98] \<or> ch = [CHR 0xE2, CHR 0x80, CHR 0x99] then [CHR 0x27]
      else if ch = [CHR 0xE2, CHR 0x80, CHR 0x93] \<or> ch = [CHR 0xE2, CHR 0x80, CHR 0x94] then
        ''-''
      else if ch = [CHR 0xC2, CHR 0xA0] then '' ''
      else ch)"

fun punctuation_loop :: "nat \<Rightarrow> string list \<Rightarrow> string \<times> nat list" where
  "punctuation_loop idx [] = ([], [])"
| "punctuation_loop idx (ch # chs) =
     (let written = ascii_punctuation ch;
          (normalized, byte_map) = punctuation_loop (idx + length ch) chs
      in (written @ normalized, replicate (length written) idx @ byte_map))"

definition punctuation_normalized_with_map :: "string \<Rightarrow> string \<times> nat list" where
  "punctuation_normalized_with_map input = punctuation_loop 0 (utf8_chars input)"

definition punctuation_normalized_matches :: "string \<Rightarrow> string \<Rightarrow> (nat \<times> nat) list" where
  "punctuation_normalized_matches contents pat =
     (let (norm_contents, byte_map) = punctuation_normalized_with_map contents;
          (norm_search, _) = punctuation_normalized_with_map pat
      in if norm_contents = contents \<and> norm_search = pat then []
         else mapped_matches contents norm_contents byte_map norm_search (\<lambda>_ mapped. mapped) 0)"

section \<open>The tool\<close>

datatype fuzz_kind = Indentation | Punctuation

definition replace_range :: "string \<Rightarrow> nat \<times> nat \<Rightarrow> string \<Rightarrow> string" where
  "replace_range contents r replacement = take (fst r) contents @ replacement @ drop (snd r) contents"

text \<open>The edited text, or why it is refused.\<close>

definition edit_text ::
  "path_buf \<Rightarrow> string \<Rightarrow> string \<Rightarrow> string \<Rightarrow> string \<Rightarrow> tool_error + (string \<times> fuzz_kind option)" where
  "edit_text file_path path_str contents pat replacement =
     (case overlapping_matches contents pat of
        [] \<Rightarrow>
          (case leading_whitespace_fuzzy_matches contents pat of
             [r] \<Rightarrow> Inr (replace_range contents r replacement, Some Indentation)
           | [] \<Rightarrow>
               (case punctuation_normalized_matches contents pat of
                  [] \<Rightarrow>
                    Inl (WorkspacePrecondition (''edit_file '' @ [CHR 0xE5, CHR 0x9C, CHR 0xA8] @
                      '' '' @ display_buf file_path @
                      '' '' @ [CHR 0xE4, CHR 0xB8, CHR 0xAD, CHR 0xE6, CHR 0x89, CHR 0xBE, CHR
                        0xE4, CHR 0xB8, CHR 0x8D, CHR 0xE5, CHR 0x88, CHR 0xB0] @ '' search '' @
                        [CHR 0xE6, CHR 0x8C, CHR 0x87, CHR 0xE5, CHR 0xAE, CHR 0x9A, CHR 0xE7, CHR
                        0x9A, CHR 0x84, CHR 0xE5, CHR 0x86, CHR 0x85, CHR 0xE5, CHR 0xAE, CHR
                        0xB9, CHR 0xEF, CHR 0xBC, CHR 0x88] @ ''path='' @ [CHR 0x22] @ path_str @
                        [CHR 0x22, CHR 0xEF, CHR 0xBC, CHR 0x89]))
                | [r] \<Rightarrow> Inr (replace_range contents r replacement, Some Punctuation)
                | rs \<Rightarrow>
                    Inl (AmbiguousEdit (''edit_file '' @ [CHR 0xE5, CHR 0xAF, CHR 0xB9] @
                      '' search '' @ [CHR 0xE5, CHR 0x81, CHR 0x9A, CHR 0xE6, CHR 0xA0, CHR 0x87,
                      CHR 0xE7, CHR 0x82, CHR 0xB9, CHR 0xE5, CHR 0xBD, CHR 0x92, CHR 0xE4, CHR
                      0xB8, CHR 0x80, CHR 0xE5, CHR 0x8C, CHR 0x96, CHR 0xE5, CHR 0x90, CHR 0x8E,
                      CHR 0xE5, CHR 0x9C, CHR 0xA8] @ '' '' @ display_buf file_path @
                      '' '' @ [CHR 0xE4, CHR 0xB8, CHR 0xAD, CHR 0xE5, CHR 0x8C, CHR 0xB9, CHR
                        0xE9, CHR 0x85, CHR 0x8D, CHR 0xE5, CHR 0x88, CHR 0xB0] @ '' '' @ decimal
                        (length rs) @ '' '' @ [CHR 0xE5, CHR 0xA4, CHR 0x84, CHR 0xEF, CHR 0xBC,
                        CHR 0x88] @ ''path='' @ [CHR 0x22] @ path_str @ [CHR 0x22, CHR 0xEF, CHR
                        0xBC, CHR 0x89])))
           | rs \<Rightarrow>
               Inl (AmbiguousEdit (''edit_file '' @ [CHR 0xE5, CHR 0xAF, CHR 0xB9] @ '' search ''
                 @ [CHR 0xE5, CHR 0x81, CHR 0x9A, CHR 0xE7, CHR 0xBC, CHR 0xA9, CHR 0xE8, CHR
                 0xBF, CHR 0x9B, CHR 0xE5, CHR 0xBD, CHR 0x92, CHR 0xE4, CHR 0xB8, CHR 0x80, CHR
                 0xE5, CHR 0x8C, CHR 0x96, CHR 0xE5, CHR 0x90, CHR 0x8E, CHR 0xE5, CHR 0x9C, CHR
                 0xA8] @ '' '' @ display_buf file_path @
                 '' '' @ [CHR 0xE4, CHR 0xB8, CHR 0xAD, CHR 0xE5, CHR 0x8C, CHR 0xB9, CHR 0xE9,
                   CHR 0x85, CHR 0x8D, CHR 0xE5, CHR 0x88, CHR 0xB0] @ '' '' @ decimal (length rs)
                   @ '' '' @ [CHR 0xE5, CHR 0xA4, CHR 0x84, CHR 0xEF, CHR 0xBC, CHR 0x88] @
                   ''path='' @ [CHR 0x22] @ path_str @ [CHR 0x22, CHR 0xEF, CHR 0xBC, CHR 0x89])))
      | [r] \<Rightarrow> Inr (replace_range contents r replacement, None)
      | rs \<Rightarrow>
          Inl (AmbiguousEdit (''edit_file '' @ [CHR 0xE7, CHR 0x9A, CHR 0x84] @ '' search '' @
            [CHR 0xE5, CHR 0x9C, CHR 0xA8] @ '' '' @ display_buf file_path @
            '' '' @ [CHR 0xE4, CHR 0xB8, CHR 0xAD, CHR 0xE5, CHR 0x8C, CHR 0xB9, CHR 0xE9, CHR
              0x85, CHR 0x8D, CHR 0xE5, CHR 0x88, CHR 0xB0] @ '' '' @ decimal (length rs) @ '' ''
              @ [CHR 0xE5, CHR 0xA4, CHR 0x84, CHR 0xEF, CHR 0xBC, CHR 0x88] @ ''path='' @ [CHR
              0x22] @ path_str @ [CHR 0x22, CHR 0xEF, CHR 0xBC, CHR 0x89])))"

definition make_unified_diff :: "tool_env \<Rightarrow> string \<Rightarrow> string \<Rightarrow> string \<Rightarrow> string" where
  "make_unified_diff env p old new =
     (if old = new then [] else te_text_diff env (''a/'' @ p) (''b/'' @ p) old new)"

definition edit_outcome :: "tool_env \<Rightarrow> path_buf \<Rightarrow> string \<Rightarrow> string \<Rightarrow> fuzz_kind option \<Rightarrow> tool_outcome" where
  "edit_outcome env file_path contents updated fuzz =
     (let shown = display_buf file_path;
          diff = make_unified_diff env shown contents updated;
          fuzz_note =
            (case fuzz of
               Some Indentation \<Rightarrow> [CHR 0xEF, CHR 0xBC, CHR 0x88, CHR 0xE7, CHR 0xBC, CHR 0xA9, CHR 0xE8, CHR 0xBF, CHR 0x9B, CHR 0xE6, CHR 0xA8, CHR 0xA1, CHR 0xE7, CHR 0xB3, CHR 0x8A, CHR 0xE5, CHR 0x8C, CHR 0xB9, CHR 0xE9, CHR 0x85, CHR 0x8D, CHR 0xEF, CHR 0xBC, CHR 0x89]
             | Some Punctuation \<Rightarrow> [CHR 0xEF, CHR 0xBC, CHR 0x88, CHR 0xE6, CHR 0xA0, CHR 0x87, CHR 0xE7, CHR 0x82, CHR 0xB9, CHR 0xE5, CHR 0xBD, CHR 0x92, CHR 0xE4, CHR 0xB8, CHR 0x80, CHR 0xE5, CHR 0x8C, CHR 0x96, CHR 0xE5, CHR 0x8C, CHR 0xB9, CHR 0xE9, CHR 0x85, CHR 0x8D, CHR 0xEF, CHR 0xBC, CHR 0x89]
             | None \<Rightarrow> []);
          summary = [CHR 0xE5, CHR 0xB7, CHR 0xB2, CHR 0xE5, CHR 0x9C, CHR 0xA8] @ '' '' @ shown @
            '' '' @ [CHR 0xE6, CHR 0x9B, CHR 0xBF, CHR 0xE6, CHR 0x8D, CHR 0xA2] @ '' '' @ decimal
            1 @ '' '' @ [CHR 0xE5, CHR 0xA4, CHR 0x84] @ fuzz_note;
          body = (if diff = [] then summary @ [CHR 0x0A] @ [CHR 0xEF, CHR 0xBC, CHR 0x88, CHR 0xE6, CHR 0x96, CHR 0x87, CHR 0xE6, CHR 0x9C, CHR 0xAC, CHR 0xE6, CHR 0x9C, CHR 0xAA, CHR 0xE5, CHR 0x8F, CHR 0x98, CHR 0xE5, CHR 0x8C, CHR 0x96, CHR 0xEF, CHR 0xBC, CHR 0x89] else diff @ [CHR 0x0A] @ summary)
      in (tool_outcome_success body)\<lparr>to_side_effect := EffectApplied\<rparr>)"

definition patch_env_of :: "tool_env \<Rightarrow> patch_env" where
  "patch_env_of env =
     \<lparr>pe_resolve_write_path = (\<lambda>raw.
        case resolve_write_path (te_tree env) (te_context env) raw of
          Inl e \<Rightarrow> Inl e
        | Inr p \<Rightarrow> Inr (names_of p)),
      pe_io_error = te_io_error env, pe_new_file_mode = te_new_file_mode env\<rparr>"

definition publish_edit ::
  "tool_env \<Rightarrow> path_buf \<Rightarrow> string \<Rightarrow> string \<Rightarrow> string \<Rightarrow> fs \<Rightarrow> (tool_error + unit) \<times> fs" where
  "publish_edit env file_path path_str observed updated w =
     (let (r, w') = write_atomic_if_unchanged (patch_env_of env) (names_of file_path) (Some observed) updated None w
      in (map_err (\<lambda>e. case e of
             Conflict \<Rightarrow>
               StaleRead (''edit_file '' @ [CHR 0xE6, CHR 0x8B, CHR 0x92, CHR 0xE7, CHR 0xBB, CHR
                 0x9D, CHR 0xE4, CHR 0xBF, CHR 0xAE, CHR 0xE6, CHR 0x94, CHR 0xB9] @ '' '' @
                 display_buf file_path @
                 [CHR 0xEF, CHR 0xBC, CHR 0x9A, CHR 0xE6, CHR 0x96, CHR 0x87, CHR 0xE4, CHR 0xBB,
                   CHR 0xB6, CHR 0xE5, CHR 0x9C, CHR 0xA8, CHR 0xE6, CHR 0x9B, CHR 0xBF, CHR 0xE6,
                   CHR 0x8D, CHR 0xA2, CHR 0xE5, CHR 0x8F, CHR 0x91, CHR 0xE5, CHR 0xB8, CHR 0x83,
                   CHR 0xE5, CHR 0x89, CHR 0x8D, CHR 0xE5, CHR 0x86, CHR 0x8D, CHR 0xE6, CHR 0xAC,
                   CHR 0xA1, CHR 0xE5, CHR 0x8F, CHR 0x98, CHR 0xE5, CHR 0x8C, CHR 0x96, CHR 0xEF,
                   CHR 0xBC, CHR 0x88] @ ''path='' @ [CHR 0x22] @ path_str @ [CHR 0x22, CHR 0xEF,
                   CHR 0xBC, CHR 0x89])
           | Io m \<Rightarrow> ExecutionFailed (''Failed to write '' @ display_buf file_path @ '': '' @ m)) r, w'))"

definition execute_edit_file ::
  "tool_env \<Rightarrow> json \<Rightarrow> file_read_tracker \<Rightarrow> fs \<Rightarrow> (tool_error + tool_outcome) \<times> file_read_tracker \<times> fs" where
  "execute_edit_file env input tracker w0 =
     (case rbind (required_str input ''path'') (\<lambda>path_str.
           rbind (required_str input ''search'') (\<lambda>pat.
           rbind (required_str input ''replace'') (\<lambda>replacement.
           if pat = replacement then
             Inl (InvalidInput (''search '' @ [CHR 0xE4, CHR 0xB8, CHR 0x8E] @ '' replace '' @
               [CHR 0xE7, CHR 0x9B, CHR 0xB8, CHR 0xE5, CHR 0x90, CHR 0x8C, CHR 0xEF, CHR 0xBC,
               CHR 0x8C, CHR 0xE4, CHR 0xB8, CHR 0x8D, CHR 0xE4, CHR 0xBC, CHR 0x9A, CHR 0xE4, CHR
               0xBA, CHR 0xA7, CHR 0xE7, CHR 0x94, CHR 0x9F, CHR 0xE4, CHR 0xBF, CHR 0xAE, CHR
               0xE6, CHR 0x94, CHR 0xB9]))
           else
             rbind (resolve_write_path (te_tree env) (te_context env) path_str) (\<lambda>file_path.
             Inr (path_str, pat, replacement, file_path))))) of
        Inl e \<Rightarrow> (Inl e, tracker, w0)
      | Inr (path_str, pat, replacement, file_path) \<Rightarrow>
          (case read_fresh_file_bytes env file_path path_str tracker w0 of
             (Inl e, w1) \<Rightarrow> (Inl e, tracker, w1)
           | (Inr contents, w1) \<Rightarrow>
               if \<not> utf8_valid contents then
                 (Inl (ExecutionFailed (''Failed to read '' @ display_buf file_path @ '' as UTF-8: '' @
                    te_utf8_error env contents)), tracker, w1)
               else if pat = [] then (Inl (InvalidInput ''search must not be empty''), tracker, w1)
               else
                 (case edit_text file_path path_str contents pat replacement of
                    Inl e \<Rightarrow> (Inl e, tracker, w1)
                  | Inr (updated, fuzz) \<Rightarrow>
                      if updated = contents then
                        (Inl (InvalidInput ''replacement would not change the file''), tracker, w1)
                      else
                        (case publish_edit env file_path path_str contents updated w1 of
                           (Inl e, w2) \<Rightarrow> (Inl e, tracker, w2)
                         | (Inr _, w2) \<Rightarrow>
                             (Inr (edit_outcome env file_path contents updated fuzz),
                              note_file_read_bytes env file_path updated tracker, w2)))))"

end
