(* ===== verification/Edit_File_Laws.thy ===== *)
theory Edit_File_Laws
  imports Edit_File Patch_Write_Laws
begin

text \<open>
  What an edit changes: one place of the file that was read, which equals the search text
  exactly and nowhere else, or up to the fallback in use.
\<close>

section \<open>Occurrences\<close>

definition occurs_at :: "string \<Rightarrow> string \<Rightarrow> nat \<Rightarrow> bool" where
  "occurs_at contents pat i \<longleftrightarrow> (\<exists>u v. contents = u @ pat @ v \<and> length u = i)"

lemma occurs_at_iff: "occurs_at contents pat i \<longleftrightarrow> i \<le> length contents \<and> starts_with pat (drop i contents)"
proof
  assume "occurs_at contents pat i"
  then show "i \<le> length contents \<and> starts_with pat (drop i contents)"
    by (auto simp: occurs_at_def starts_with_iff)
next
  assume "i \<le> length contents \<and> starts_with pat (drop i contents)"
  then obtain v where "drop i contents = pat @ v" "i \<le> length contents" by (auto simp: starts_with_iff)
  then have "contents = take i contents @ pat @ v" "length (take i contents) = i"
    by (metis append_take_drop_id, simp)
  then show "occurs_at contents pat i" unfolding occurs_at_def by blast
qed

lemma find_str_Some: "find_str pat s = Some i \<Longrightarrow> starts_with pat (drop i s) \<and> (\<forall>j < i. \<not> starts_with pat (drop j s))"
proof (induction s arbitrary: i)
  case Nil
  then show ?case by (auto simp: starts_with_iff split: if_splits)
next
  case (Cons c s)
  show ?case
  proof (cases "starts_with pat (c # s)")
    case True
    with Cons.prems show ?thesis by simp
  next
    case False
    with Cons.prems obtain k where "find_str pat s = Some k" "i = Suc k" by auto
    with Cons.IH [of k] False show ?thesis by (auto simp: less_Suc_eq_0_disj)
  qed
qed

lemma find_str_None: "find_str pat s = None \<Longrightarrow> j \<le> length s \<Longrightarrow> \<not> starts_with pat (drop j s)"
proof (induction s arbitrary: j)
  case Nil
  then show ?case by (auto simp: starts_with_iff split: if_splits)
next
  case (Cons c s)
  then show ?case by (cases j) (auto split: if_splits)
qed

lemma find_at_Some:
  assumes "find_at contents pat cursor = Some start" and "cursor \<le> length contents"
  shows "occurs_at contents pat start" and "cursor \<le> start"
    and "\<forall>j. cursor \<le> j \<and> j < start \<longrightarrow> \<not> occurs_at contents pat j"
proof -
  from assms(1) obtain i where i: "find_str pat (drop cursor contents) = Some i" "start = cursor + i"
    by (auto simp: find_at_def)
  note first = find_str_Some [OF i(1)] find_str_bound [OF i(1)]
  show "cursor \<le> start" using i(2) by simp
  show "occurs_at contents pat start"
    using first i(2) assms(2) by (simp add: occurs_at_iff add.commute)
  show "\<forall>j. cursor \<le> j \<and> j < start \<longrightarrow> \<not> occurs_at contents pat j"
  proof (intro allI impI)
    fix j assume j: "cursor \<le> j \<and> j < start"
    then have "j - cursor < i" using i(2) by arith
    with first(1) have "\<not> starts_with pat (drop (j - cursor) (drop cursor contents))" by blast
    with j show "\<not> occurs_at contents pat j" by (simp add: occurs_at_iff)
  qed
qed

lemma find_at_None:
  assumes "find_at contents pat cursor = None" and "cursor \<le> j"
  shows "\<not> occurs_at contents pat j"
proof
  assume "occurs_at contents pat j"
  then have "j - cursor \<le> length (drop cursor contents)" "starts_with pat (drop (j - cursor) (drop cursor contents))"
    using assms(2) by (auto simp: occurs_at_iff)
  with assms(1) find_str_None [of pat "drop cursor contents" "j - cursor"] show False by (simp add: find_at_def)
qed

lemma boundary_loop_least: "n \<le> i \<Longrightarrow> is_char_boundary input i \<Longrightarrow> boundary_loop input n \<le> i"
proof (induction input n rule: boundary_loop.induct)
  case (1 input n)
  show ?case
  proof (cases "n < length input \<and> \<not> is_char_boundary input n")
    case True
    with "1.prems" have "Suc n \<le> i" by (metis Suc_leI le_neq_implies_less)
    with "1.IH" [OF True] "1.prems" True show ?thesis by (subst boundary_loop.simps) simp
  next
    case False
    then have "boundary_loop input n = n" by (subst boundary_loop.simps) auto
    with "1.prems" show ?thesis by simp
  qed
qed

lemma occurs_boundary:
  assumes "occurs_at contents pat i" and "pat \<noteq> []" and "\<not> between 128 191 (hd pat)"
  shows "is_char_boundary contents i"
proof -
  from assms(1,2) obtain u c p v where "contents = u @ (c # p) @ v" "length u = i" "pat = c # p"
    by (auto simp: occurs_at_def neq_Nil_conv)
  moreover from this have "contents ! i = c" by (metis append_Cons nth_append_length)
  ultimately show ?thesis using assms(3) by (simp add: is_char_boundary_def)
qed

lemma next_char_boundary_le: "idx < length input \<Longrightarrow> next_char_boundary input idx \<le> length input"
  using boundary_loop_least [of "Suc idx" "length input" input]
  by (simp add: next_char_boundary_def is_char_boundary_def)

lemma matches_from_complete:
  assumes "occurs_at contents pat i" and "cursor \<le> i" and "pat \<noteq> []" and "\<not> between 128 191 (hd pat)"
  shows "(i, i + length pat) \<in> set (matches_from contents pat cursor)"
  using assms
proof (induction contents pat cursor rule: matches_from.induct)
  case (1 contents pat cursor)
  have "cursor \<le> length contents" using "1.prems"(1,2) by (simp add: occurs_at_iff)
  obtain start where start: "find_at contents pat cursor = Some start"
    using find_at_None [of contents pat cursor i] "1.prems"(1,2) by (cases "find_at contents pat cursor") auto
  note first = find_at_Some [OF start \<open>cursor \<le> length contents\<close>] find_at_bound [OF start "1.prems"(3)]
  show ?case
  proof (cases "i = start")
    case True
    with start "1.prems"(3) show ?thesis by (subst matches_from.simps) simp
  next
    case False
    with first(3) "1.prems"(1,2) have "start < i" by (meson linorder_neqE_nat)
    then have "next_char_boundary contents start \<le> i"
      using boundary_loop_least [of "Suc start" i contents] occurs_boundary [OF "1.prems"(1,3,4)] first(4)
      by (simp add: next_char_boundary_def)
    with "1.IH" [OF "1.prems"(3) start "1.prems"(1) _ "1.prems"(3,4)] start "1.prems"(3) show ?thesis
      by (subst matches_from.simps) simp
  qed
qed

lemma single_match:
  assumes "overlapping_matches contents pat = [r]" and "pat \<noteq> []" and "\<not> between 128 191 (hd pat)"
  shows "\<exists>u v. contents = u @ pat @ v \<and> r = (length u, length u + length pat) \<and>
    (\<forall>u' v'. contents = u' @ pat @ v' \<longrightarrow> u' = u)"
proof -
  from assms(1,2) obtain start where start: "find_at contents pat 0 = Some start" "r = (start, start + length pat)"
    by (subst (asm) overlapping_matches_def, subst (asm) matches_from.simps) (auto split: option.splits)
  from find_at_Some(1) [OF start(1)] obtain u v where uv: "contents = u @ pat @ v" "length u = start"
    by (auto simp: occurs_at_def)
  have "u' = u" if eq: "contents = u' @ pat @ v'" for u' v'
  proof -
    have "(length u', length u' + length pat) \<in> set (matches_from contents pat 0)"
      by (rule matches_from_complete [OF _ _ assms(2,3)]) (use eq in \<open>auto simp: occurs_at_def\<close>)
    with assms(1) start(2) uv(2) have "length u' = length u" by (simp add: overlapping_matches_def)
    with eq uv(1) show ?thesis by (simp add: append_eq_append_conv)
  qed
  with uv start(2) show ?thesis by blast
qed

lemma no_match:
  assumes "overlapping_matches contents pat = []" and "pat \<noteq> []"
  shows "\<not> contains_str pat contents"
proof -
  from assms have "find_at contents pat 0 = None"
    by (subst (asm) overlapping_matches_def, subst (asm) matches_from.simps) (auto split: option.splits)
  from find_at_None [OF this] show ?thesis by (fastforce simp: contains_str_iff occurs_at_def)
qed

section \<open>Mapped matches\<close>

definition map_ok :: "nat list \<Rightarrow> nat \<Rightarrow> bool" where
  "map_ok byte_map n \<longleftrightarrow> sorted byte_map \<and> (\<forall>i \<in> set byte_map. i \<le> n)"

lemma strip_loop_map:
  "sorted (snd (strip_loop idx f chs)) \<and> (\<forall>i \<in> set (snd (strip_loop idx f chs)). idx \<le> i \<and> i \<le> idx + length (concat chs))"
proof (induction idx f chs rule: strip_loop.induct)
  case (2 idx f ch chs)
  then show ?case by (force simp: sorted_append Let_def split: prod.splits)
qed simp

lemma punctuation_loop_map:
  "sorted (snd (punctuation_loop idx chs)) \<and>
   (\<forall>i \<in> set (snd (punctuation_loop idx chs)). idx \<le> i \<and> i \<le> idx + length (concat chs))"
proof (induction idx chs rule: punctuation_loop.induct)
  case (2 idx ch chs)
  then show ?case by (force simp: sorted_append Let_def split: prod.splits)
qed simp

lemma original_end_bounds:
  assumes "map_ok byte_map (length contents)" and "map_get byte_map i = Some s" and "i \<le> j"
  shows "s \<le> original_end contents byte_map j" and "original_end contents byte_map j \<le> length contents"
  using assms
  by (auto simp: original_end_def map_get_def map_ok_def sorted_nth_mono split: if_splits option.splits)

lemma single_mapped_match:
  assumes "mapped_matches contents norm_contents byte_map norm_search start_of 0 = [r]"
  obtains norm_start mapped_start where "norm_search \<noteq> []" "occurs_at norm_contents norm_search norm_start"
    "map_get byte_map norm_start = Some mapped_start"
    "r = (start_of norm_start mapped_start, original_end contents byte_map (norm_start + length norm_search))"
  using assms find_at_Some(1) [of norm_contents norm_search 0]
  by (subst (asm) mapped_matches.simps) (auto split: if_splits option.splits)

text \<open>The place a match stands for, and the text that replaces it.\<close>

definition edits :: "string \<Rightarrow> string \<Rightarrow> string \<Rightarrow> string \<Rightarrow> nat \<times> nat \<Rightarrow> bool" where
  "edits contents before old after r \<longleftrightarrow>
     contents = before @ old @ after \<and> r = (length before, length before + length old)"

lemma edits_replace: "edits contents before old after r \<Longrightarrow> replace_range contents r s = before @ s @ after"
  by (auto simp: edits_def replace_range_def)

lemma range_edits:
  assumes "s \<le> e" and "e \<le> length contents"
  shows "edits contents (take s contents) (take (e - s) (drop s contents)) (drop e contents) (s, e)"
proof -
  have "take s contents @ take (e - s) (drop s contents) = take e contents"
    using assms by (simp add: take_add [symmetric])
  then have "contents = take s contents @ take (e - s) (drop s contents) @ drop e contents"
    by (metis append_assoc append_take_drop_id)
  with assms show ?thesis by (simp add: edits_def)
qed

lemma line_start_before_le: "line_start_before input idx \<le> idx"
  by (simp add: line_start_before_def)

lemma fuzzy_start_le: "fuzzy_start contents norm n m \<le> m"
  by (simp add: fuzzy_start_def line_start_before_le)

lemma concat_length_utf8: "length (concat (utf8_chars s)) = length s"
  by simp

lemma mapped_match_edits:
  assumes "mapped_matches contents norm_contents byte_map norm_search start_of 0 = [r]"
    and "map_ok byte_map (length contents)" and "\<And>n m. start_of n m \<le> m"
  shows "\<exists>before old after. edits contents before old after r"
proof -
  from assms(1) obtain n m where nm: "map_get byte_map n = Some m"
    "r = (start_of n m, original_end contents byte_map (n + length norm_search))"
    by (rule single_mapped_match)
  from original_end_bounds [OF assms(2) nm(1), of "n + length norm_search"] assms(3) [of n m]
  have "start_of n m \<le> original_end contents byte_map (n + length norm_search)"
    "original_end contents byte_map (n + length norm_search) \<le> length contents" by auto
  from range_edits [OF this] nm(2) show ?thesis by blast
qed

lemma fuzzy_match_edits:
  assumes "leading_whitespace_fuzzy_matches contents pat = [r]"
  shows "\<exists>before old after. edits contents before old after r"
proof -
  obtain norm bm where norm: "strip_line_leading_whitespace_with_map contents = (norm, bm)" by fastforce
  with strip_loop_map [of 0 True "utf8_chars contents"] have "map_ok bm (length contents)"
    by (simp add: strip_line_leading_whitespace_with_map_def map_ok_def)
  with assms norm show ?thesis
    by (auto simp: leading_whitespace_fuzzy_matches_def split: prod.splits
        intro: mapped_match_edits fuzzy_start_le)
qed

lemma punctuation_match_edits:
  assumes "punctuation_normalized_matches contents pat = [r]"
  shows "\<exists>before old after. edits contents before old after r"
proof -
  obtain norm bm where norm: "punctuation_normalized_with_map contents = (norm, bm)" by fastforce
  with punctuation_loop_map [of 0 "utf8_chars contents"] have "map_ok bm (length contents)"
    by (simp add: punctuation_normalized_with_map_def map_ok_def)
  with assms norm show ?thesis
    by (auto simp: punctuation_normalized_matches_def split: prod.splits if_splits intro: mapped_match_edits)
qed

section \<open>Indentation\<close>

text \<open>The text without the blanks at the start of its lines, and the positions that are kept.\<close>

definition blank :: "char \<Rightarrow> bool" where
  "blank c \<longleftrightarrow> c = CHR '' '' \<or> c = CHR 0x09"

fun unindent :: "bool \<Rightarrow> string \<Rightarrow> string" where
  "unindent f [] = []"
| "unindent f (c # s) = (if f \<and> blank c then unindent f s else c # unindent (c = CHR 0x0A) s)"

fun kept :: "nat \<Rightarrow> bool \<Rightarrow> string \<Rightarrow> nat list" where
  "kept i f [] = []"
| "kept i f (c # s) = (if f \<and> blank c then kept (Suc i) f s else i # kept (Suc i) (c = CHR 0x0A) s)"

fun at_start :: "bool \<Rightarrow> string \<Rightarrow> bool" where
  "at_start f [] = f"
| "at_start f (c # s) = at_start (if f \<and> blank c then f else c = CHR 0x0A) s"

lemma strip_loop_ascii: "strip_loop i f (map (\<lambda>c. [c]) s) = (unindent f s, kept i f s)"
  by (induction s arbitrary: i f) (auto simp: blank_def)

lemma strip_ascii:
  "list_all is_ascii s \<Longrightarrow> strip_line_leading_whitespace_with_map s = (unindent True s, kept 0 True s)"
  by (simp add: strip_line_leading_whitespace_with_map_def utf8_chars_ascii strip_loop_ascii)

lemma unindent_append: "unindent f (x @ y) = unindent f x @ unindent (at_start f x) y"
  by (induction x arbitrary: f) auto

lemma at_start_append: "at_start f (x @ y) = at_start (at_start f x) y"
  by (induction x arbitrary: f) auto

lemma kept_nth:
  "k < length (kept i f s) \<Longrightarrow> \<exists>x c z. s = x @ c # z \<and> kept i f s ! k = i + length x \<and>
     length (unindent f x) = k \<and> \<not> (at_start f x \<and> blank c)"
proof (induction s arbitrary: i f k)
  case (Cons a s)
  show ?case
  proof (cases "f \<and> blank a")
    case True
    with Cons.prems Cons.IH [of k "Suc i" f] obtain x c z where
      "s = x @ c # z" "kept (Suc i) f s ! k = Suc i + length x" "length (unindent f x) = k" "\<not> (at_start f x \<and> blank c)"
      by auto
    with True show ?thesis by (intro exI [of _ "a # x"] exI [of _ c] exI [of _ z]) auto
  next
    case False
    show ?thesis
    proof (cases k)
      case 0
      with False show ?thesis by (intro exI [of _ "[]"] exI [of _ a] exI [of _ s]) auto
    next
      case (Suc k')
      with False Cons.prems Cons.IH [of k' "Suc i" "a = CHR 0x0A"] obtain x c z where
        "s = x @ c # z" "kept (Suc i) (a = CHR 0x0A) s ! k' = Suc i + length x"
        "length (unindent (a = CHR 0x0A) x) = k'" "\<not> (at_start (a = CHR 0x0A) x \<and> blank c)"
        by auto
      with Suc False show ?thesis by (intro exI [of _ "a # x"] exI [of _ c] exI [of _ z]) auto
    qed
  qed
qed simp

lemma length_kept [simp]: "length (kept i f s) = length (unindent f s)"
  by (induction s arbitrary: i f) auto

lemma at_start_iff: "at_start True x \<longleftrightarrow> unindent True x = [] \<or> last (unindent True x) = CHR 0x0A"
proof (induction x rule: rev_induct)
  case (snoc c x)
  have "\<not> blank (CHR 0x0A)" by (simp add: blank_def)
  with snoc show ?case by (auto simp: at_start_append unindent_append)
qed simp

lemma at_start_line:
  "at_start True x \<Longrightarrow> \<exists>y w. x = y @ w \<and> list_all blank w \<and> (y = [] \<or> last y = CHR 0x0A)"
proof (induction x rule: rev_induct)
  case (snoc c x)
  show ?case
  proof (cases "at_start True x \<and> blank c")
    case True
    with snoc.IH obtain y w where "x = y @ w" "list_all blank w" "y = [] \<or> last y = CHR 0x0A" by blast
    with True show ?thesis by (intro exI [of _ y] exI [of _ "w @ [c]"]) simp
  next
    case False
    with snoc.prems have "c = CHR 0x0A" by (auto simp: at_start_append split: if_splits)
    then show ?thesis by (intro exI [of _ "x @ [c]"] exI [of _ "[]"]) simp
  qed
qed simp

lemma unindent_blanks: "list_all blank w \<Longrightarrow> unindent True (w @ y) = unindent True y"
  by (induction w) auto

lemma unindent_hd: "unindent True s = c # t \<Longrightarrow> \<not> blank c"
  by (induction s) (auto split: if_splits)

lemma line_start_at:
  assumes "list_all blank w" and "y = [] \<or> last y = CHR 0x0A"
  shows "line_start_before (y @ w @ z) (length (y @ w)) = length y"
proof -
  have w: "c \<noteq> CHR 0x0A" if "c \<in> set (rev w)" for c
  proof -
    from that assms(1) have "blank c" by (simp add: list_all_iff)
    then show ?thesis by (auto simp: blank_def)
  qed
  have "takeWhile (\<lambda>c. c \<noteq> CHR 0x0A) (rev y) = []"
    using assms(2) by (cases y rule: rev_cases) auto
  with takeWhile_append2 [of "rev w" "\<lambda>c. c \<noteq> CHR 0x0A" "rev y", OF w]
  have "takeWhile (\<lambda>c. c \<noteq> CHR 0x0A) (rev (y @ w)) = rev w" by (simp only: rev_append append_Nil2)
  moreover have "take (length (y @ w)) (y @ w @ z) = y @ w" by simp
  ultimately show ?thesis unfolding line_start_before_def by (simp only: length_rev length_append diff_add_inverse2)
qed

lemma kept_end:
  assumes "e \<le> length (unindent True contents)"
  shows "\<exists>x z. contents = x @ z \<and> length x = original_end contents (kept 0 True contents) e \<and>
    length (unindent True x) = e"
proof (cases "e < length (unindent True contents)")
  case True
  then obtain x c z where "contents = x @ c # z" "kept 0 True contents ! e = length x" "length (unindent True x) = e"
    using kept_nth [of e 0 True contents] by auto
  with True show ?thesis by (intro exI [of _ x] exI [of _ "c # z"]) (simp add: original_end_def map_get_def)
next
  case False
  with assms show ?thesis
    by (intro exI [of _ contents] exI [of _ "[]"]) (simp add: original_end_def map_get_def)
qed

lemma edits_unique:
  assumes "edits contents before old after r" and "contents = b @ o' @ a" and "r = (length b, length b + length o')"
  shows "old = o'"
  using assms by (auto simp: edits_def)

lemma unindent_prefix:
  assumes "contents = x @ z" and "contents = x' @ z'" and "length (unindent True x) < length (unindent True x')"
  obtains y where "x' = x @ y" "y \<noteq> []" "z = y @ z'"
proof -
  from assms(1,2) consider us where "x' = x @ us" "z = us @ z'" | us where "x = x' @ us"
    by (auto simp: append_eq_append_conv2)
  then show ?thesis
  proof cases
    case 1
    with assms(3) that show ?thesis by (cases "us = []") auto
  next
    case 2
    with assms(3) show ?thesis by (simp add: unindent_append)
  qed
qed

text \<open>The two positions of a match: a text \<open>x\<close> before it, and the matched text \<open>y\<close>.\<close>

lemma unindent_match:
  assumes "unindent True contents = u @ p @ v" and "p \<noteq> []"
    and "map_get (kept 0 True contents) (length u) = Some m"
  obtains x y z where "contents = x @ y @ z" "length x = m" "unindent True x = u"
    "unindent (at_start True x) y = p" "y \<noteq> []"
    "length (x @ y) = original_end contents (kept 0 True contents) (length u + length p)"
proof -
  from assms(3) obtain x c w where x: "contents = x @ c # w" "m = length x" "length (unindent True x) = length u"
    using kept_nth [of "length u" 0 True contents] by (auto simp: map_get_def split: if_splits)
  from kept_end [of "length u + length p" contents] assms(1) obtain x' z where
    x': "contents = x' @ z" "length x' = original_end contents (kept 0 True contents) (length u + length p)"
      "length (unindent True x') = length u + length p" by auto
  from assms(2) x(3) x'(3) have "length (unindent True x) < length (unindent True x')" by simp
  from unindent_prefix [OF x(1) x'(1) this] obtain y where y: "x' = x @ y" "y \<noteq> []" by metis
  have "unindent True contents = unindent True x' @ unindent (at_start True x') z"
    using x'(1) by (simp add: unindent_append)
  with assms(1) x'(3) have all: "unindent True x' = u @ p" by (metis append_assoc append_eq_append_conv length_append)
  then have "unindent True x @ unindent (at_start True x) y = u @ p" using y(1) by (simp add: unindent_append)
  with x(3) have "unindent True x = u" "unindent (at_start True x) y = p" by (simp_all add: append_eq_append_conv)
  with x x' y show ?thesis by (intro that [of x y z]) auto
qed

lemma last_nth_append: "u \<noteq> [] \<Longrightarrow> (u @ w) ! (length u - 1) = last u"
  by (simp add: last_conv_nth nth_append)

lemma fuzzy_match_unindent:
  assumes ascii: "list_all is_ascii contents" "list_all is_ascii pat"
    and match: "leading_whitespace_fuzzy_matches contents pat = [r]" and old: "edits contents before old after r"
  shows "unindent True old = unindent True pat"
proof -
  let ?n = "unindent True contents" and ?k = "kept 0 True contents" and ?p = "unindent True pat"
  from match ascii have "mapped_matches contents ?n ?k ?p (fuzzy_start contents ?n) 0 = [r]"
    by (simp add: leading_whitespace_fuzzy_matches_def strip_ascii)
  then obtain n m where nm: "?p \<noteq> []" "occurs_at ?n ?p n" "map_get ?k n = Some m"
    "r = (fuzzy_start contents ?n n m, original_end contents ?k (n + length ?p))"
    by (rule single_mapped_match)
  from nm(2) obtain u v where uv: "?n = u @ ?p @ v" "length u = n" by (auto simp: occurs_at_def)
  from unindent_match [OF uv(1) nm(1)] nm(3) uv(2) obtain x y z where xyz:
    "contents = x @ y @ z" "length x = m" "unindent True x = u" "unindent (at_start True x) y = ?p" "y \<noteq> []"
    "length (x @ y) = original_end contents ?k (n + length ?p)" by metis
  show ?thesis
  proof (cases "at_start True x")
    case True
    then obtain b w where bw: "x = b @ w" "list_all blank w" "b = [] \<or> last b = CHR 0x0A" using at_start_line by blast
    have "n = 0 \<or> ?n ! (n - 1) = CHR 0x0A"
      using True at_start_iff [of x] xyz(3) uv last_nth_append [of u "?p @ v"] by (cases "u = []") auto
    then have "fuzzy_start contents ?n n m = length b"
      using line_start_at [OF bw(2,3), of "y @ z"] xyz(1,2) bw(1) by (simp add: fuzzy_start_def)
    with nm(4) xyz(1,6) bw(1) have "old = w @ y"
      by (intro edits_unique [OF old, of b "w @ y" z]) simp_all
    with unindent_blanks [OF bw(2), of y] True xyz(4) show ?thesis by simp
  next
    case False
    with at_start_iff [of x] xyz(3) have "u \<noteq> []" "last u \<noteq> CHR 0x0A" by auto
    with uv last_nth_append [of u "?p @ v"] have "\<not> (n = 0 \<or> ?n ! (n - 1) = CHR 0x0A)" by auto
    then have "fuzzy_start contents ?n n m = m" unfolding fuzzy_start_def by (simp only: if_False)
    with nm(4) xyz(1,2,6) have "old = y"
      by (intro edits_unique [OF old, of x y z]) simp_all
    moreover from xyz(5) obtain c t where "y = c # t" by (cases y) auto
    moreover from this False xyz(4) have "?p = c # unindent (c = CHR 0x0A) t" by simp
    ultimately show ?thesis using unindent_hd [of pat c] by simp
  qed
qed

section \<open>The edit\<close>

text \<open>
  The one place an edit replaces: the only occurrence of the search text, or, when it does not
  occur, a place that equals it up to the indentation of its lines.
\<close>

definition edit_place :: "string \<Rightarrow> string \<Rightarrow> string \<Rightarrow> string \<Rightarrow> bool" where
  "edit_place pat before old after \<longleftrightarrow>
     old = pat \<and> (\<forall>u v. before @ old @ after = u @ pat @ v \<longrightarrow> u = before) \<or>
     \<not> contains_str pat (before @ old @ after) \<and>
     (list_all is_ascii (before @ old @ after) \<and> list_all is_ascii pat \<longrightarrow> unindent True old = unindent True pat)"

lemma punctuation_loop_ascii: "list_all is_ascii s \<Longrightarrow> fst (punctuation_loop i (map (\<lambda>c. [c]) s)) = s"
proof (induction s arbitrary: i)
  case (Cons c s)
  have "ascii_punctuation [c] = [c]" by (simp add: ascii_punctuation_def)
  with Cons show ?case by (simp add: split_beta)
qed simp

lemma punctuation_ascii:
  assumes "list_all is_ascii contents" and "list_all is_ascii pat"
  shows "punctuation_normalized_matches contents pat = []"
  using punctuation_loop_ascii [OF assms(1), of 0] punctuation_loop_ascii [OF assms(2), of 0]
  by (simp add: punctuation_normalized_matches_def punctuation_normalized_with_map_def utf8_chars_ascii assms
      split_beta)

lemma edit_text_place:
  assumes "edit_text file_path path_str contents pat replacement = Inr (updated, fuzz)"
    and "pat \<noteq> []" and "\<not> between 128 191 (hd pat)"
  shows "\<exists>before old after. contents = before @ old @ after \<and> updated = before @ replacement @ after \<and>
    edit_place pat before old after"
proof -
  consider (exact) r where "overlapping_matches contents pat = [r]" "updated = replace_range contents r replacement"
    | (indentation) r where "overlapping_matches contents pat = []" "leading_whitespace_fuzzy_matches contents pat = [r]"
        "updated = replace_range contents r replacement"
    | (punctuation) r where "overlapping_matches contents pat = []" "punctuation_normalized_matches contents pat = [r]"
        "updated = replace_range contents r replacement"
    using assms(1) unfolding edit_text_def by (auto split: list.splits)
  then show ?thesis
  proof cases
    case exact
    from single_match [OF exact(1) assms(2,3)] obtain u v where
      uv: "contents = u @ pat @ v" "r = (length u, length u + length pat)"
      "\<forall>u' v'. contents = u' @ pat @ v' \<longrightarrow> u' = u" by blast
    from uv(3) have "edit_place pat u pat v" unfolding edit_place_def uv(1) by blast
    moreover have "updated = u @ replacement @ v" unfolding exact(2) uv(1,2) by (simp add: replace_range_def)
    ultimately show ?thesis using uv(1) by blast
  next
    case indentation
    from fuzzy_match_edits [OF indentation(2)] obtain before old after where
      e: "edits contents before old after r" by blast
    have "contents = before @ old @ after" using e by (simp add: edits_def)
    with e indentation no_match [OF indentation(1) assms(2)] fuzzy_match_unindent [OF _ _ indentation(2) e]
      edits_replace [OF e, of replacement] show ?thesis
      unfolding edit_place_def by blast
  next
    case punctuation
    from punctuation_match_edits [OF punctuation(2)] obtain before old after where
      e: "edits contents before old after r" by blast
    have "contents = before @ old @ after" using e by (simp add: edits_def)
    moreover have "\<not> (list_all is_ascii contents \<and> list_all is_ascii pat)"
      using punctuation_ascii punctuation(2) by fastforce
    ultimately show ?thesis
      using no_match [OF punctuation(1) assms(2)] punctuation(3) edits_replace [OF e, of replacement]
      unfolding edit_place_def by blast
  qed
qed

lemma write_succeeds:
  assumes "write_atomic_if_unchanged env p (Some observed) contents None w = (Inr (), w')"
  shows "\<exists>f. lookup w p = Some f \<and> fl_bytes f = observed \<and> fs_dirs w' = fs_dirs w \<and>
    lookup w' = (lookup w)(p \<mapsto> \<lparr>fl_bytes = contents, fl_mode = fl_mode f\<rparr>)"
proof -
  obtain f v where f: "next_fault w = (f, v)" by fastforce
  note v = next_fault_effect [OF f]
  show ?thesis
    using assms v unfolding write_atomic_if_unchanged_def f
    by (auto simp: lookup_published written_def Let_def split: option.splits if_splits)
qed

lemma read_fresh_succeeds:
  assumes "read_fresh_file_bytes env p requested tracker w = (Inr contents, w')"
  shows "lookup w' = lookup w \<and> fs_dirs w' = fs_dirs w \<and>
    (\<exists>reads. tracker = Some reads \<and> map_of reads p = Some (te_sha256 env contents))"
  using assms unfolding read_fresh_file_bytes_def
  by (auto simp: then_do_def split: option.splits prod.splits sum.splits if_splits dest!: read_bytes_effect)


text \<open>A file of two lines, the second indented, that was read.\<close>

definition ex_lines :: string where
  "ex_lines = ''a'' @ [CHR 0x0A] @ ''    b'' @ [CHR 0x0A]"

definition ex_editor :: tool_env where
  "ex_editor =
     \<lparr>te_tree = \<lparr>ft_nodes = [([''w''], DirNode), ([''w'', ''a''], FileNode)], ft_cwd = [], ft_io_error = ''io''\<rparr>,
      te_context = new_tool_context (absolute [''w'']), te_sha256 = (\<lambda>bytes. bytes),
      te_text_diff = (\<lambda>_ _ _ _. ''diff''), te_io_error = ''io'', te_utf8_error = (\<lambda>_. ''utf8''),
      te_new_file_mode = 420\<rparr>"

definition ex_edited_tree :: fs where
  "ex_edited_tree = \<lparr>fs_files = [([''w'', ''a''], \<lparr>fl_bytes = ex_lines, fl_mode = 420\<rparr>)],
     fs_dirs = [[], [''w'']], fs_faults = []\<rparr>"

definition ex_edit :: "string \<Rightarrow> string \<Rightarrow> json" where
  "ex_edit pat replacement =
     JObject [(''path'', JString ''a''), (''search'', JString pat), (''replace'', JString replacement)]"

definition ex_reads :: file_read_tracker where
  "ex_reads = Some [(absolute [''w'', ''a''], ex_lines)]"



end
