(* ===== verification/Production_Context_Laws.thy ===== *)
theory Production_Context_Laws
  imports Production_Context
begin

text \<open>
  Confinement of the built-in tools: what lexical normalization and the resolution of symbolic
  links return, and that a resolved path lies in the workspace and is redirected by no link.
\<close>

section \<open>Normalization\<close>

fun normal :: "component \<Rightarrow> bool" where
  "normal (Normal s) \<longleftrightarrow> True"
| "normal _ \<longleftrightarrow> False"

lemma absolute_eq_iff [simp]: "absolute a = absolute b \<longleftrightarrow> a = b"
  by (simp add: absolute_def inj_map_eq_map inj_def)

lemma prefix_absolute [simp]: "prefix (absolute a) (absolute b) \<longleftrightarrow> prefix a b"
  by (auto simp: absolute_def prefix_def map_eq_append_conv inj_map_eq_map inj_def)

lemma normalize_loop_Normal:
  "normalize_loop r stack (map Normal names @ cs) = normalize_loop r (rev (map Normal names) @ stack) cs"
  by (induction names arbitrary: stack) auto

lemma normalize_absolute [simp]: "normalize_path (absolute names) = absolute names"
  using normalize_loop_Normal [of True "[]" names "[]"] by (simp add: normalize_path_def absolute_def)

lemma normalize_loop_root:
  assumes "list_all normal stack" and "RootDir \<notin> set cs"
  shows "fst (normalize_loop True stack cs) \<and> list_all normal (snd (normalize_loop True stack cs))"
  using assms
proof (induction cs arbitrary: stack)
  case (Cons c cs)
  have rest: "RootDir \<notin> set cs" and c: "c \<noteq> RootDir" using Cons.prems(2) by auto
  show ?case
  proof (cases c)
    case ParentDir
    show ?thesis
    proof (cases stack)
      case Nil
      then show ?thesis using Cons.IH [OF _ rest, of "[]"] ParentDir by simp
    next
      case stack: (Cons upper lower)
      moreover from stack Cons.prems(1) have "upper \<noteq> ParentDir" "list_all normal lower" by auto
      ultimately show ?thesis using Cons.IH [OF _ rest, of lower] ParentDir by simp
    qed
  next
    case (Normal s)
    then show ?thesis using Cons.IH [OF _ rest, of "Normal s # stack"] Cons.prems(1) by simp
  qed (use Cons.IH [OF Cons.prems(1) rest] c in simp_all)
qed simp

lemma all_normal: "list_all normal p \<Longrightarrow> \<exists>names. p = map Normal names"
proof (induction p)
  case (Cons c p)
  then obtain s names where "c = Normal s" "p = map Normal names" by (cases c) auto
  then have "c # p = map Normal (s # names)" by simp
  then show ?case by (rule exI)
qed simp

lemma normalize_rooted:
  assumes "RootDir \<notin> set cs"
  obtains names where "normalize_path (RootDir # cs) = absolute names"
proof -
  obtain r stack where run: "normalize_loop True [] cs = (r, stack)" by fastforce
  with normalize_loop_root [of "[]" cs] assms have r: r "list_all normal (rev stack)" by auto
  from all_normal [OF r(2)] obtain names where "rev stack = map Normal names" by blast
  with run r(1) have "normalize_path (RootDir # cs) = absolute names"
    by (simp add: normalize_path_def absolute_def)
  then show ?thesis by (rule that)
qed

lemma normalize_appended [simp]: "normalize_path (absolute a @ map Normal b) = absolute (a @ b)"
  using normalize_absolute [of "a @ b"] by (simp add: absolute_def)

section \<open>Resolved paths\<close>

text \<open>A directory, and a path to a file or a directory, reached without a link.\<close>

definition real_dir :: "file_tree \<Rightarrow> path \<Rightarrow> bool" where
  "real_dir t p \<longleftrightarrow> (\<forall>q. prefix q p \<longrightarrow> node_at t q = Some DirNode)"

definition real :: "file_tree \<Rightarrow> path \<Rightarrow> bool" where
  "real t p \<longleftrightarrow> real_dir t p \<or> p \<noteq> [] \<and> real_dir t (butlast p) \<and> node_at t p = Some FileNode"

definition tree_wf :: "file_tree \<Rightarrow> bool" where
  "tree_wf t \<longleftrightarrow> real_dir t (ft_cwd t) \<and> (\<forall>p. p \<noteq> [] \<and> node_at t p \<noteq> None \<longrightarrow> real_dir t (butlast p))"

lemma real_dir_Nil [simp]: "real_dir t []"
  by (simp add: real_dir_def node_at_def)

lemma real_dir_snoc: "real_dir t (p @ [s]) \<longleftrightarrow> real_dir t p \<and> node_at t (p @ [s]) = Some DirNode"
  by (auto simp: real_dir_def)

lemma real_dir_butlast: "real_dir t p \<Longrightarrow> real_dir t (butlast p)"
  by (cases p rule: rev_cases) (auto simp: real_dir_snoc)

lemma real_dir_prefix: "real_dir t p \<Longrightarrow> prefix q p \<Longrightarrow> real_dir t q"
  by (auto simp: real_dir_def intro: prefix_order.trans)

lemma real_prefix: "real t p \<Longrightarrow> prefix q p \<Longrightarrow> real t q"
  by (cases p rule: rev_cases) (auto simp: real_def dest: real_dir_prefix)

lemma walk_real: "walk t n cur cs = Some r \<Longrightarrow> real_dir t cur \<Longrightarrow> real t r"
proof (induction t n cur cs rule: walk.induct)
  case (5 t n cur s cs)
  then show ?case
    by (auto simp: real_def real_dir_snoc split: option.splits node.splits if_splits)
qed (auto simp: real_def real_dir_butlast)

lemma walk_names:
  "real_dir t cur \<Longrightarrow> real t (cur @ names) \<Longrightarrow> walk t n cur (map Normal names) = Some (cur @ names)"
proof (induction names arbitrary: cur)
  case (Cons s names)
  from Cons.prems(2) have "real t (cur @ [s])" by (rule real_prefix) simp
  moreover have "names = []" if "\<not> real_dir t (cur @ [s])"
  proof (rule ccontr)
    assume "names \<noteq> []"
    then have "prefix (cur @ [s]) (butlast (cur @ s # names))"
      by (cases names rule: rev_cases) (auto simp: butlast_append)
    with Cons.prems(2) that show False
      by (auto simp: real_def dest: real_dir_prefix intro: prefix_order.trans [OF _ prefixeq_butlast])
  qed
  ultimately show ?case
    using Cons.IH [of "cur @ [s]"] Cons.prems by (auto simp: real_def real_dir_snoc)
qed simp

lemma walk_real_path: "real t p \<Longrightarrow> walk t n cur (absolute p) = Some p"
  using walk_names [of t "[]" p n] by (simp add: absolute_def)

lemma canonicalize_real: "real t p \<Longrightarrow> canonicalize t (absolute p) = Some (absolute p)"
  by (simp add: canonicalize_def walk_real_path)

lemma canonicalize_SomeE:
  assumes "canonicalize t p = Some q" and "tree_wf t"
  obtains r where "q = absolute r" "real t r" "walk t MAXSYMLINKS (ft_cwd t) p = Some r"
  using assms walk_real [of t MAXSYMLINKS "ft_cwd t" p] by (auto simp: canonicalize_def tree_wf_def)

text \<open>More links to follow never lose a result, and a path resolves only if its beginning does.\<close>

lemma walk_more_links: "walk t n cur cs = Some r \<Longrightarrow> n \<le> m \<Longrightarrow> walk t m cur cs = Some r"
proof (induction t n cur cs arbitrary: m rule: walk.induct)
  case (5 t n cur s cs)
  show ?case
  proof (cases "node_at t (cur @ [s])")
    case (Some x)
    show ?thesis
    proof (cases x)
      case (LinkNode target)
      with Some 5(3) have "n \<noteq> 0" "walk t (n - 1) cur (target @ cs) = Some r" by (auto split: if_splits)
      with 5(2) [OF Some LinkNode, of "m - 1"] 5(4) Some LinkNode show ?thesis by simp
    next
      case DirNode
      with 5(1) [OF Some DirNode _ 5(4)] 5(3) Some show ?thesis by simp
    qed (use Some 5(3) in simp)
  qed (use 5(3) in simp)
qed auto

lemma walk_append:
  "walk t n cur cs = Some r \<Longrightarrow> real_dir t r \<Longrightarrow> walk t m r ds = Some q \<Longrightarrow> walk t (n + m) cur (cs @ ds) = Some q"
proof (induction t n cur cs rule: walk.induct)
  case (1 t n cur)
  then show ?case by (auto intro: walk_more_links)
next
  case (5 t n cur s cs)
  show ?case
  proof (cases "node_at t (cur @ [s])")
    case (Some x)
    show ?thesis
    proof (cases x)
      case FileNode
      with Some 5(3) have "r = cur @ [s]" by (simp split: if_splits)
      with 5(4) Some FileNode show ?thesis by (simp add: real_dir_snoc)
    next
      case DirNode
      with Some 5(3) have "walk t n (cur @ [s]) cs = Some r" by simp
      from 5(1) [OF Some DirNode this 5(4,5)] Some DirNode show ?thesis by simp
    next
      case (LinkNode target)
      with Some 5(3) have "n \<noteq> 0" and rest: "walk t (n - 1) cur (target @ cs) = Some r"
        by (simp_all split: if_splits)
      from 5(2) [OF Some LinkNode \<open>n \<noteq> 0\<close> rest 5(4,5)] \<open>n \<noteq> 0\<close> Some LinkNode show ?thesis by simp
    qed
  next
    case None
    with 5(3) show ?thesis by simp
  qed
qed auto

lemma walk_beginning:
  "walk t n cur (cs @ ds) = Some q \<Longrightarrow> walk t n cur cs \<noteq> None"
proof (induction t n cur cs rule: walk.induct)
  case (5 t n cur s cs)
  show ?case
  proof (cases "node_at t (cur @ [s])")
    case (Some x)
    show ?thesis
    proof (cases x)
      case (LinkNode target)
      with Some 5(3) have "n \<noteq> 0" "walk t (n - 1) cur ((target @ cs) @ ds) = Some q"
        by (auto split: if_splits)
      with 5(2) [OF Some LinkNode] Some LinkNode show ?thesis by simp
    next
      case DirNode
      with 5(1) [OF Some DirNode] 5(3) Some show ?thesis by simp
    qed (use Some 5(3) in \<open>simp split: if_splits\<close>)
  qed (use 5(3) in simp)
qed auto

section \<open>The closest existing ancestor\<close>

text \<open>The links on the way to a path and to its ancestors stay below the limit.\<close>

definition within_link_limit :: "file_tree \<Rightarrow> path_buf \<Rightarrow> bool" where
  "within_link_limit t p \<longleftrightarrow>
     (\<forall>q m. prefix q p \<longrightarrow> MAXSYMLINKS \<le> m \<longrightarrow> walk t m (ft_cwd t) q = walk t MAXSYMLINKS (ft_cwd t) q)"

definition normal_names :: "path_buf \<Rightarrow> string list" where
  "normal_names p = concat (map (\<lambda>c. case c of Normal s \<Rightarrow> [s] | _ \<Rightarrow> []) p)"

lemma path_file_name_snoc [simp]:
  "path_file_name (p @ [c]) = (case c of Normal s \<Rightarrow> Some s | _ \<Rightarrow> None)"
  by (simp add: path_file_name_def)

lemma path_parent_snoc [simp]: "path_parent (p @ [c]) = (if c = RootDir then None else Some p)"
  by (simp add: path_parent_def)

lemma root_exists: "path_exists_at t [RootDir]"
  by (simp add: path_exists_at_def canonicalize_def)

lemma ancestor_loop_exists: "path_exists_at t p \<Longrightarrow> ancestor_loop t p parts = (p, parts)"
  by (subst ancestor_loop.simps) simp

lemma ancestor_loop_rooted:
  assumes "RootDir \<notin> set cs"
  shows "\<exists>a b. ancestor_loop t (RootDir # cs) parts = (RootDir # a, parts @ rev (normal_names b)) \<and>
     cs = a @ b \<and> path_exists_at t (RootDir # a) \<and> (b \<noteq> [] \<longrightarrow> \<not> path_exists_at t (RootDir # a @ [hd b]))"
  using assms
proof (induction cs arbitrary: parts rule: rev_induct)
  case Nil
  show ?case by (simp add: ancestor_loop_exists root_exists normal_names_def)
next
  case (snoc c cs)
  show ?case
  proof (cases "path_exists_at t (RootDir # cs @ [c])")
    case True
    then show ?thesis
      by (intro exI [of _ "cs @ [c]"] exI [of _ "[]"]) (simp add: ancestor_loop_exists normal_names_def)
  next
    case False
    let ?parts = "parts @ (case c of Normal s \<Rightarrow> [s] | _ \<Rightarrow> [])"
    have "path_parent (RootDir # cs @ [c]) = Some (RootDir # cs)"
      using path_parent_snoc [of "RootDir # cs" c] snoc.prems by auto
    moreover have "path_file_name (RootDir # cs @ [c]) = (case c of Normal s \<Rightarrow> Some s | _ \<Rightarrow> None)"
      using path_file_name_snoc [of "RootDir # cs" c] by simp
    ultimately have step: "ancestor_loop t (RootDir # cs @ [c]) parts = ancestor_loop t (RootDir # cs) ?parts"
      using False by (subst ancestor_loop.simps) (simp add: Let_def split: component.split)
    from snoc.IH [of ?parts] snoc.prems obtain a b where ab:
      "ancestor_loop t (RootDir # cs) ?parts = (RootDir # a, ?parts @ rev (normal_names b))"
      "cs = a @ b" "path_exists_at t (RootDir # a)" "b \<noteq> [] \<longrightarrow> \<not> path_exists_at t (RootDir # a @ [hd b])"
      by auto
    have "?parts @ rev (normal_names b) = parts @ rev (normal_names (b @ [c]))"
      by (cases c) (simp_all add: normal_names_def)
    moreover have "\<not> path_exists_at t (RootDir # a @ [hd (b @ [c])])"
      using ab(2,4) False by (cases b) auto
    ultimately show ?thesis
      using ab(1-3) step by (intro exI [of _ a] exI [of _ "b @ [c]"]) simp
  qed
qed

section \<open>Confinement\<close>

lemma walk_dirs: "real_dir t (cur @ names) \<Longrightarrow> walk t n cur (map Normal names @ cs) = walk t n (cur @ names) cs"
proof (induction names arbitrary: cur)
  case (Cons s names)
  then have "node_at t (cur @ [s]) = Some DirNode" by (auto simp: real_dir_def)
  with Cons.IH [of "cur @ [s]"] Cons.prems show ?case by simp
qed simp

lemma walk_past_file:
  assumes "real t r" and "\<not> real_dir t r" and "cs \<noteq> []"
  shows "walk t n [] (map Normal r @ cs) = None"
proof -
  from assms(1,2) obtain d f where r: "r = d @ [f]" "real_dir t d" "node_at t (d @ [f]) = Some FileNode"
    by (cases r rule: rev_cases) (auto simp: real_def)
  with assms(3) walk_dirs [of t "[]" d n "Normal f # cs"] show ?thesis by simp
qed

text \<open>Below the closest existing ancestor nothing exists, also after the ancestor is resolved.\<close>

lemma unresolved_stays:
  assumes "tree_wf t" and "walk t MAXSYMLINKS (ft_cwd t) a = Some r"
    and "b \<noteq> []" and none: "\<not> path_exists_at t (a @ [hd b])" and "within_link_limit t (a @ b)"
    and "hd b \<noteq> CurDir" "hd b \<noteq> RootDir" and "normal_names b = s # rest"
  shows "walk t n [] (map Normal (r @ s # deeper)) = None"
proof (rule ccontr)
  assume "walk t n [] (map Normal (r @ s # deeper)) \<noteq> None"
  then obtain q where q: "walk t n [] (map Normal r @ Normal s # map Normal deeper) = Some q" by auto
  have real: "real t r" using walk_real [OF assms(2)] assms(1) by (simp add: tree_wf_def)
  have dir: "real_dir t r"
  proof (rule ccontr)
    assume "\<not> real_dir t r"
    from walk_past_file [OF real this, of "Normal s # map Normal deeper" n] q show False by simp
  qed
  have "prefix (a @ [hd b]) (a @ b)" using assms(3) by (cases b) auto
  then have "walk t m (ft_cwd t) (a @ [hd b]) = walk t MAXSYMLINKS (ft_cwd t) (a @ [hd b])"
    if "MAXSYMLINKS \<le> m" for m
    using assms(5) that unfolding within_link_limit_def by blast
  moreover have "walk t MAXSYMLINKS (ft_cwd t) (a @ [hd b]) = None"
    using none by (simp add: path_exists_at_def canonicalize_def)
  ultimately have never: "walk t m (ft_cwd t) (a @ [hd b]) = None" if "MAXSYMLINKS \<le> m" for m
    using that by simp
  show False
  proof (cases "hd b")
    case ParentDir
    have "walk t 0 r [ParentDir] = Some (butlast r)" by simp
    from walk_append [OF assms(2) dir this] never [of "MAXSYMLINKS + 0"] show False by (simp add: ParentDir)
  next
    case (Normal x)
    obtain cs where "b = Normal x # cs" using assms(3) Normal by (cases b) auto
    with assms(8) have x: "x = s" by (simp add: normal_names_def)
    from q walk_dirs [of t "[]" r n "Normal s # map Normal deeper"] dir
    have "walk t n r ([Normal s] @ map Normal deeper) = Some q" by simp
    from walk_beginning [OF this] obtain q' where "walk t n r [Normal s] = Some q'" by auto
    from walk_append [OF assms(2) dir this] never [of "MAXSYMLINKS + n"] show False by (simp add: Normal x)
  qed (use assms(6,7) in simp_all)
qed

definition direct :: "file_tree \<Rightarrow> path \<Rightarrow> bool" where
  "direct t p \<longleftrightarrow>
     (\<forall>q. prefix q p \<longrightarrow> canonicalize t (absolute q) = None \<or> canonicalize t (absolute q) = Some (absolute q))"

lemma direct_real: "real t p \<Longrightarrow> direct t p"
  by (auto simp: direct_def intro: canonicalize_real real_prefix)

lemma direct_unresolved:
  assumes "tree_wf t" and "walk t MAXSYMLINKS (ft_cwd t) a = Some r"
    and "b \<noteq> [] \<longrightarrow> \<not> path_exists_at t (a @ [hd b])" and "within_link_limit t (a @ b)"
    and "CurDir \<notin> set b" "RootDir \<notin> set b"
  shows "direct t (r @ normal_names b)"
  unfolding direct_def
proof (intro allI impI)
  fix q assume q: "prefix q (r @ normal_names b)"
  have real: "real t r" using walk_real [OF assms(2)] assms(1) by (simp add: tree_wf_def)
  show "canonicalize t (absolute q) = None \<or> canonicalize t (absolute q) = Some (absolute q)"
  proof (cases "prefix q r")
    case True
    with real show ?thesis by (simp add: canonicalize_real real_prefix)
  next
    case False
    with q obtain s deeper where deeper: "q = r @ s # deeper" "prefix (s # deeper) (normal_names b)"
      by (auto simp: prefix_append) (metis append.right_neutral neq_Nil_conv prefix_order.refl)
    then obtain rest where names: "normal_names b = s # rest" by (cases "normal_names b") auto
    then have "b \<noteq> []" by (auto simp: normal_names_def)
    with assms(5,6) have "hd b \<noteq> CurDir" "hd b \<noteq> RootDir" by (cases b; auto)+
    from unresolved_stays [OF assms(1,2) \<open>b \<noteq> []\<close> _ assms(4) this names, of MAXSYMLINKS deeper] assms(3) \<open>b \<noteq> []\<close>
    show ?thesis by (simp add: canonicalize_def absolute_def deeper(1))
  qed
qed

lemma components_inner:
  "\<exists>inner. (components raw = inner \<or> components raw = RootDir # inner \<or> components raw = CurDir # inner) \<and>
     RootDir \<notin> set inner \<and> CurDir \<notin> set inner"
  by (auto simp: components_def Let_def component_of_def)

lemma candidate_rooted:
  obtains cs where "path_join (absolute ws) (components raw) = RootDir # cs" "RootDir \<notin> set cs" "CurDir \<notin> set cs"
proof -
  obtain inner where inner: "RootDir \<notin> set inner" "CurDir \<notin> set inner"
    "components raw = inner \<or> components raw = RootDir # inner \<or> components raw = CurDir # inner"
    using components_inner by blast
  then have "filter (\<lambda>c. c \<noteq> CurDir) inner = inner" by (auto simp: filter_id_conv)
  with inner have "path_join (absolute ws) (components raw) = RootDir # inner \<or>
      path_join (absolute ws) (components raw) = RootDir # map Normal ws @ inner"
    by (cases inner) (auto simp: path_join_def is_absolute_def absolute_def)
  moreover have "RootDir \<notin> set (map Normal ws @ inner)" "CurDir \<notin> set (map Normal ws @ inner)"
    using inner by auto
  ultimately show ?thesis using inner(1,2) that by blast
qed

text \<open>The root the context compares with: the workspace, resolved when it exists.\<close>

definition workspace_root :: "file_tree \<Rightarrow> path \<Rightarrow> path \<Rightarrow> bool" where
  "workspace_root t ws root \<longleftrightarrow>
     canonicalize t (absolute ws) = Some (absolute root) \<or>
     canonicalize t (absolute ws) = None \<and> root = ws"

lemma workspace_canonical_root:
  assumes "tree_wf t"
  obtains root where "workspace_root t ws root"
    "(case canonicalize t (absolute ws) of Some q \<Rightarrow> q | None \<Rightarrow> absolute ws) = absolute root"
proof (cases "canonicalize t (absolute ws)")
  case None
  then show ?thesis by (intro that [of ws]) (simp_all add: workspace_root_def)
next
  case (Some q)
  then obtain r where "q = absolute r" by (rule canonicalize_SomeE [OF _ assms])
  with Some show ?thesis by (intro that [of r]) (simp_all add: workspace_root_def)
qed

lemma resolve_nonexistent_confined:
  assumes "tree_wf t" and "RootDir \<notin> set cs" "CurDir \<notin> set cs" and "\<not> ptc_follow_symlinks ctx"
    and run: "resolve_nonexistent_path t ctx (RootDir # cs) (absolute root) = Inr p"
  shows "\<exists>names. p = absolute names \<and> prefix root names \<and> (within_link_limit t (RootDir # cs) \<longrightarrow> direct t names)"
proof -
  from ancestor_loop_rooted [OF assms(2), of t "[]"] obtain a b where ab:
    "ancestor_loop t (RootDir # cs) [] = (RootDir # a, rev (normal_names b))" "cs = a @ b"
    "path_exists_at t (RootDir # a)" "b \<noteq> [] \<longrightarrow> \<not> path_exists_at t (RootDir # a @ [hd b])" by auto
  then obtain q where "canonicalize t (RootDir # a) = Some q" by (auto simp: path_exists_at_def)
  moreover from this obtain r where "q = absolute r" "walk t MAXSYMLINKS (ft_cwd t) (RootDir # a) = Some r"
    by (rule canonicalize_SomeE [OF _ assms(1)])
  ultimately have q: "canonicalize t (RootDir # a) = Some (absolute r)"
    "walk t MAXSYMLINKS (ft_cwd t) (RootDir # a) = Some r" by simp_all
  from run have p: "p = absolute (r @ normal_names b)" "prefix root (r @ normal_names b)"
    using assms(4) by (auto simp: resolve_nonexistent_path_def ab(1) q(1) Let_def split: if_splits)
  have "direct t (r @ normal_names b)" if "within_link_limit t (RootDir # cs)"
    by (rule direct_unresolved [OF assms(1) q(2)]) (use ab assms(2,3) that in auto)
  with p show ?thesis by blast
qed

lemma resolve_path_confined:
  assumes "tree_wf t" and "ptc_workspace ctx = absolute ws"
    and "\<not> ptc_allow_external_paths ctx" and "\<not> ptc_follow_symlinks ctx" and "resolve_path t ctx raw = Inr p"
  shows "\<exists>root names. p = absolute names \<and> workspace_root t ws root \<and> prefix root names \<and>
     (within_link_limit t (path_join (absolute ws) (components raw)) \<longrightarrow> direct t names)"
proof -
  obtain root where root: "workspace_root t ws root"
    "(case canonicalize t (absolute ws) of Some q \<Rightarrow> q | None \<Rightarrow> absolute ws) = absolute root"
    by (rule workspace_canonical_root [OF assms(1)])
  obtain cs where cs: "path_join (absolute ws) (components raw) = RootDir # cs" "RootDir \<notin> set cs" "CurDir \<notin> set cs"
    by (rule candidate_rooted)
  show ?thesis
  proof (cases "canonicalize t (RootDir # cs)")
    case None
    with assms(5) have "resolve_nonexistent_path t ctx (RootDir # cs) (absolute root) = Inr p"
      by (auto simp: resolve_path_def assms(2-4) root(2) cs(1) Let_def path_exists_at_def split: if_splits)
    from resolve_nonexistent_confined [OF assms(1) cs(2,3) assms(4) this] root(1) show ?thesis
      unfolding cs(1) by blast
  next
    case (Some q)
    from Some obtain r where r: "q = absolute r" "real t r" by (rule canonicalize_SomeE [OF _ assms(1)])
    from assms(5) Some r(1) have "p = absolute r" "prefix root r"
      by (auto simp: resolve_path_def assms(2-4) root(2) cs(1) Let_def path_exists_at_def split: if_splits)
    with root(1) direct_real [OF r(2)] show ?thesis by blast
  qed
qed

text \<open>
  C8. A path resolved for a tool stays in the workspace. In a context that neither allows
  external paths nor follows links, whatever the argument: the result is an absolute path
  without dot components below the resolved workspace, and no symbolic link redirects it or one
  of its ancestors, provided resolving the argument stays below the link limit of the system.
\<close>

theorem resolved_path_is_confined:
  assumes "tree_wf t" and "ptc_workspace ctx = absolute ws"
    and "\<not> ptc_allow_external_paths ctx" and "\<not> ptc_follow_symlinks ctx"
    and "within_link_limit t (path_join (absolute ws) (components raw))"
    and "resolve_path t ctx raw = Inr p"
  shows "\<exists>root names. p = absolute names \<and> workspace_root t ws root \<and> prefix root names \<and>
     (\<forall>q. prefix q names \<longrightarrow>
        canonicalize t (absolute q) = None \<or> canonicalize t (absolute q) = Some (absolute q))"
  using resolve_path_confined [OF assms(1-4,6)] assms(5) unfolding direct_def by blast

text \<open>
  A workspace with a link to itself and a link to a file outside. The file outside is refused by
  name; after forty times the first link the system gives up, the path counts as absent, and
  its last name is appended unresolved.
\<close>

definition ex_links :: file_tree where
  "ex_links =
     \<lparr>ft_nodes = [([''w''], DirNode), ([''w'', ''a''], LinkNode [CurDir]),
        ([''w'', ''secret''], LinkNode (absolute [''etc'', ''passwd''])),
        ([''etc''], DirNode), ([''etc'', ''passwd''], FileNode)],
      ft_cwd = [], ft_io_error = ''io''\<rparr>"

definition ex_context :: production_tool_context where
  "ex_context = new_tool_context (absolute [''w''])"

lemma ex_links_wf: "tree_wf ex_links"
proof -
  have w: "real_dir ex_links [''w'']" and etc: "real_dir ex_links [''etc'']"
    using real_dir_snoc [of ex_links "[]" "''w''"] real_dir_snoc [of ex_links "[]" "''etc''"]
    by (simp_all add: node_at_def ex_links_def)
  have "real_dir ex_links (butlast p)" if "p \<noteq> []" "node_at ex_links p \<noteq> None" for p
  proof -
    from that have "p \<in> {[''w''], [''w'', ''a''], [''w'', ''secret''], [''etc''], [''etc'', ''passwd'']}"
      by (auto simp: node_at_def ex_links_def split: if_splits)
    then show ?thesis using w etc by auto
  qed
  then show ?thesis by (simp add: tree_wf_def) (simp add: ex_links_def)
qed

theorem resolved_path_is_confined_witness:
  "tree_wf ex_links \<and> ptc_workspace ex_context = absolute [''w''] \<and>
   \<not> ptc_allow_external_paths ex_context \<and> \<not> ptc_follow_symlinks ex_context \<and>
   within_link_limit ex_links (path_join (absolute [''w'']) (components ''new'')) \<and>
   resolve_path ex_links ex_context ''new'' = Inr (absolute [''w'', ''new'']) \<and>
   (\<exists>root names. absolute [''w'', ''new''] = absolute names \<and> workspace_root ex_links [''w''] root \<and>
      prefix root names \<and>
      (\<forall>q. prefix q names \<longrightarrow>
         canonicalize ex_links (absolute q) = None \<or> canonicalize ex_links (absolute q) = Some (absolute q)))"
proof -
  have ctx: "ptc_workspace ex_context = absolute [''w'']" "\<not> ptc_allow_external_paths ex_context"
    "\<not> ptc_follow_symlinks ex_context"
    by (simp_all add: ex_context_def new_tool_context_def)
  have "path_join (absolute [''w'']) (components ''new'') = [RootDir, Normal ''w'', Normal ''new'']" by code_simp
  moreover have "within_link_limit ex_links [RootDir, Normal ''w'', Normal ''new'']"
    by (auto simp: within_link_limit_def prefix_Cons node_at_def ex_links_def)
  ultimately have limit: "within_link_limit ex_links (path_join (absolute [''w'']) (components ''new''))" by simp
  have run: "resolve_path ex_links ex_context ''new'' = Inr (absolute [''w'', ''new''])" by code_simp
  from resolved_path_is_confined [OF ex_links_wf ctx limit run] ex_links_wf ctx limit run show ?thesis by blast
qed


end
