(* ===== verification/Tool_Confinement.thy ===== *)
theory Tool_Confinement
  imports Production_Context_Laws Edit_File Patch_Write_Laws
begin

text \<open>
  The write tools on top of the context: \<^verbatim>\<open>apply_patch\<close> and \<^verbatim>\<open>edit_file\<close> change no file but the targets
  the context resolved for them, so an isolated writer changes nothing outside its worktree.
\<close>

section \<open>What a call leaves alone\<close>

definition leaves :: "path \<Rightarrow> fs \<Rightarrow> fs \<Rightarrow> bool" where
  "leaves q w w' \<longleftrightarrow> lookup w' q = lookup w q"

lemma leaves_refl [simp]: "leaves q w w"
  by (simp add: leaves_def)

lemma leaves_trans: "leaves q w v \<Longrightarrow> leaves q v u \<Longrightarrow> leaves q w u"
  by (simp add: leaves_def)

lemma leaves_then_do:
  "m = (r, v) \<Longrightarrow> leaves q w v \<Longrightarrow> (\<And>a. r = Inr a \<Longrightarrow> leaves q v (snd (f a v))) \<Longrightarrow> leaves q w (snd (then_do m f))"
  by (cases r) (auto simp: then_do_def leaves_def)

lemma leaves_snd: "leaves q w (snd m) \<Longrightarrow> m = (r, v) \<Longrightarrow> leaves q w v"
  by simp

lemma leaves_next_fault: "leaves q w (snd (next_fault w))"
  using next_fault_effect [of w "fst (next_fault w)" "snd (next_fault w)"] by (simp add: leaves_def)

lemma leaves_read_bytes: "leaves q w (snd (read_bytes p e w))"
  using read_bytes_effect [of p e w "fst (read_bytes p e w)" "snd (read_bytes p e w)"] by (simp add: leaves_def)

lemma leaves_remove_file: "q \<noteq> p \<Longrightarrow> leaves q w (snd (remove_file p e w))"
  using remove_file_effect [of p e w "fst (remove_file p e w)" "snd (remove_file p e w)"]
  by (auto simp: leaves_def split: sum.splits)

lemma leaves_remove_dir: "leaves q w (snd (remove_dir p e w))"
  using remove_dir_effect [of p e w "fst (remove_dir p e w)" "snd (remove_dir p e w)"]
  by (simp add: leaves_def)

lemma leaves_write:
  assumes "q \<noteq> p"
  shows "leaves q w (snd (write_atomic_if_unchanged env p expected contents permissions w))"
proof -
  obtain f v where f: "next_fault w = (f, v)" by fastforce
  from leaves_next_fault [of q w] f have "leaves q w v" by simp
  with assms show ?thesis
    unfolding write_atomic_if_unchanged_def f
    by (auto simp: leaves_def lookup_published Let_def split: option.splits)
qed

lemma leaves_read_then:
  assumes "\<And>bytes v. leaves q v (snd (f bytes v))"
  shows "leaves q w (snd (then_do (read_bytes p e w) f))"
proof -
  obtain r v where r: "read_bytes p e w = (r, v)" by fastforce
  from leaves_then_do [OF r, of q w f] leaves_read_bytes [of q w p e] r assms show ?thesis by simp
qed

lemma leaves_remove_unchanged:
  "q \<noteq> pw_path entry \<Longrightarrow> leaves q w (snd (remove_file_if_unchanged env entry w))"
  unfolding remove_file_if_unchanged_def
  by (auto split: option.splits intro!: leaves_read_then leaves_remove_file)

lemma leaves_rollback_entry: "q \<noteq> pw_path entry \<Longrightarrow> leaves q w (snd (rollback_entry env entry w))"
  unfolding rollback_entry_def
  by (auto simp: Let_def split: option.splits prod.splits
      intro!: leaves_read_then leaves_remove_file intro: leaves_snd [OF leaves_write])

lemma leaves_rollback_entries:
  "q \<notin> pw_path ` set entries \<Longrightarrow> leaves q w (snd (rollback_entries env entries w))"
proof (induction entries arbitrary: w)
  case (Cons e es)
  obtain r v where r: "rollback_entry env e w = (r, v)" by fastforce
  have "leaves q w v" using leaves_rollback_entry [of q e w env] Cons.prems r by simp
  with Cons show ?case by (auto intro!: leaves_then_do [OF r])
qed simp

lemma leaves_remove_directories: "leaves q w (snd (remove_directories env ds w))"
proof (induction ds arbitrary: w)
  case (Cons d ds)
  obtain r v where r: "remove_dir d (ExecutionFailed (''Rollback failed to remove directory '' @ display d @
      '': '' @ pe_io_error env)) w = (r, v)" by fastforce
  have "leaves q w v" using leaves_remove_dir [of q w d] r by (metis snd_conv)
  with Cons.IH [of v] show ?case unfolding remove_directories.simps by (intro leaves_then_do [OF r])
qed simp

lemma leaves_apply_entry:
  assumes "q \<noteq> pw_path entry"
  shows "leaves q w (snd (snd (apply_entry env entry created w)))"
proof (cases "pw_content entry")
  case None
  with leaves_remove_unchanged [OF assms, of w env] show ?thesis
    by (auto simp: apply_entry_def split: prod.splits)
next
  case (Some content)
  obtain r created1 v where
    ps: "create_missing_parent_directories env (pw_path entry) created w = (r, created1, v)"
    using prod_cases3 by blast
  have "leaves q w v" using create_missing_parents_effect [OF ps] by (simp add: leaves_def)
  with leaves_write [OF assms, of v env "pw_original entry" content "pw_original_permissions entry"] show ?thesis
    by (auto simp: apply_entry_def Some ps leaves_def split: sum.splits prod.splits)
qed

lemma leaves_apply_entries:
  assumes "q \<notin> pw_path ` set (applied @ entries)"
  shows "leaves q w (snd (apply_entries env applied created entries w))"
  using assms
proof (induction entries arbitrary: applied created w)
  case (Cons entry entries)
  obtain r created1 v where step: "apply_entry env entry created w = (r, created1, v)" using prod_cases3 by blast
  have v: "leaves q w v" using leaves_apply_entry [of q entry w env created] Cons.prems step by simp
  show ?case
  proof (cases r)
    case (Inr u)
    have "leaves q v (snd (apply_entries env (applied @ [entry]) created1 entries v))"
      by (rule Cons.IH) (use Cons.prems in auto)
    with v Inr step show ?thesis by (auto intro: leaves_trans)
  next
    case (Inl err)
    obtain b u where b: "rollback_entries env (rev applied) v = (b, u)" by fastforce
    have "leaves q v u" using leaves_rollback_entries [of q "rev applied" v env] Cons.prems b by auto
    then have "leaves q v (snd (then_do (rollback_pending_writes env applied v)
        (\<lambda>_. rollback_created_directories env created1)))"
      unfolding rollback_pending_writes_def rollback_created_directories_def
      by (intro leaves_then_do [OF b] leaves_remove_directories)
    with v have "leaves q w (snd (then_do (rollback_pending_writes env applied v)
        (\<lambda>_. rollback_created_directories env created1)))" by (rule leaves_trans)
    with Inl step show ?thesis
      unfolding apply_entries.simps step by (auto split: prod.splits sum.splits)
  qed
qed simp

section \<open>Only resolved targets are written\<close>

definition resolved_target :: "patch_env \<Rightarrow> path \<Rightarrow> bool" where
  "resolved_target env p \<longleftrightarrow> (\<exists>raw. pe_resolve_write_path env raw = Inr p)"

lemma changes_pending_resolved:
  assumes "fst (changes_pending env pending stats changes w) = Inr (pending', stats')"
    and "\<forall>e \<in> set pending. resolved_target env (pw_path e)"
  shows "\<forall>e \<in> set pending'. resolved_target env (pw_path e)"
  using assms
proof (induction changes arbitrary: pending stats w)
  case (Cons change changes)
  from Cons.prems(1) obtain p c resolved original v where
    "pe_resolve_write_path env p = Inr resolved"
    "fst (changes_pending env (pending @ [\<lparr>pw_path = resolved, pw_content = Some c, pw_original = original,
       pw_original_permissions = permissions_of v resolved\<rparr>])
       (stats\<lparr>pst_files_total := pst_files_total stats + 1, pst_files_applied := pst_files_applied stats + 1,
          pst_touched_files := push_unique (pst_touched_files stats) p,
          pst_file_summaries := pst_file_summaries stats @
            [\<lparr>fsm_path = p, fsm_hunks = 0, fsm_hunks_applied = 0, fsm_fuzz_used = 0, fsm_hunks_with_fuzz = 0,
              fsm_created = (original = None), fsm_deleted = False\<rparr>]\<rparr>) changes v) = Inr (pending', stats')"
    unfolding changes_pending.simps
    by (auto simp: then_do_def result_simps split: sum.splits prod.splits if_splits)
  with Cons.IH [OF this(2)] Cons.prems(2) show ?case by (auto simp: resolved_target_def)
qed simp

lemma patches_pending_resolved:
  assumes "fst (patches_pending env fuzz pending stats fps w) = Inr (pending', stats')"
    and "\<forall>e \<in> set pending. resolved_target env (pw_path e)"
  shows "\<forall>e \<in> set pending'. resolved_target env (pw_path e)"
  using assms
proof (induction fps arbitrary: pending stats w)
  case (Cons fp fps)
  from Cons.prems(1) obtain resolved original content applied v where
    "pe_resolve_write_path env (fp_path fp) = Inr resolved"
    "fst (patches_pending env fuzz (pending @ [\<lparr>pw_path = resolved, pw_content = content, pw_original = original,
       pw_original_permissions = permissions_of v resolved\<rparr>]) (add_file_stats stats fp original applied) fps v) =
     Inr (pending', stats')"
    unfolding patches_pending.simps
    by (auto simp: then_do_def split: sum.splits prod.splits if_splits)
  with Cons.IH [OF this(2)] Cons.prems(2) show ?case by (auto simp: resolved_target_def)
qed simp

lemma collect_writes_resolved:
  assumes "fst (collect_writes env input kind w) = Inr (pending, stats)"
  shows "\<forall>e \<in> set pending. resolved_target env (pw_path e)"
  using assms
  by (auto simp: collect_writes_def build_pending_writes_from_changes_def build_pending_writes_from_patches_def
      split: option.splits if_splits dest: changes_pending_resolved patches_pending_resolved)

lemma apply_patch_leaves:
  assumes "\<not> resolved_target env q"
  shows "leaves q w (snd (execute_apply_patch env input w))"
proof (cases "preflight_apply_patch_plan input")
  case (Inl e)
  then show ?thesis by (simp add: execute_apply_patch_alt)
next
  case (Inr plan)
  obtain summary kind where plan: "plan = (summary, kind)" by fastforce
  obtain r v where collect: "collect_writes env input kind w = (r, v)" by fastforce
  have v: "leaves q w v"
    using collect_writes_collected [of w env input kind] collect by (simp add: collected_def ready_def leaves_def)
  show ?thesis
  proof (cases r)
    case (Inl e)
    with v collect plan Inr show ?thesis by (simp add: execute_apply_patch_alt then_do_def)
  next
    case (Inr a)
    obtain pending stats where a: "a = (pending, stats)" by fastforce
    from collect_writes_resolved [of env input kind w pending stats] collect Inr a assms
    have "q \<notin> pw_path ` set ([] @ pending)" by auto
    from leaves_apply_entries [OF this, of v env "[]"] v have "leaves q w (snd (apply_pending_writes env pending v))"
      by (simp add: apply_pending_writes_def leaves_def)
    then show ?thesis
      using \<open>preflight_apply_patch_plan input = Inr plan\<close>
      by (auto simp: execute_apply_patch_alt plan collect Inr a then_do_def leaves_def split: sum.splits prod.splits)
  qed
qed

lemma edit_file_leaves:
  assumes "\<not> resolved_target (patch_env_of env) q"
  shows "leaves q w (snd (snd (execute_edit_file env input tracker w)))"
proof -
  have read: "leaves q w (snd (read_fresh_file_bytes env p path_str tracker w))" for p path_str
    unfolding read_fresh_file_bytes_def by (auto split: option.splits intro!: leaves_read_then)
  have publish: "leaves q v (snd (publish_edit env p path_str contents updated v))"
    if "resolve_write_path (te_tree env) (te_context env) raw = Inr p" for raw p path_str contents updated v
  proof -
    from that assms have "q \<noteq> names_of p"
      by (auto simp: resolved_target_def patch_env_of_def split: sum.splits)
    from leaves_write [OF this, of v "patch_env_of env" "Some contents" updated None] show ?thesis
      by (auto simp: publish_edit_def split: prod.splits)
  qed
  show ?thesis
    unfolding execute_edit_file_def
    by (auto simp: result_simps split: sum.splits prod.splits
        dest: leaves_snd [OF read] leaves_snd [OF publish] intro: leaves_trans)
qed

section \<open>Isolated writers\<close>

lemma normal_names_map [simp]: "normal_names (map Normal names) = names"
  by (induction names) (simp_all add: normal_names_def)

lemma names_of_absolute [simp]: "names_of (absolute names) = names"
  using normal_names_map [of names] unfolding names_of_def normalize_absolute
  by (simp add: absolute_def normal_names_def)

definition rooted :: "path_buf \<Rightarrow> bool" where
  "rooted p \<longleftrightarrow> (\<exists>cs. p = RootDir # cs \<and> RootDir \<notin> set cs)"

lemma rooted_absolute [simp]: "rooted (absolute names)"
  by (auto simp: rooted_def absolute_def)

lemma rooted_canonicalize: "canonicalize t p = Some q \<Longrightarrow> rooted q"
  by (auto simp: canonicalize_def)

lemma normalize_of_rooted: "rooted p \<Longrightarrow> \<exists>names. normalize_path p = absolute names"
  by (metis normalize_rooted rooted_def)

lemma resolve_nonexistent_rooted:
  assumes "RootDir \<notin> set cs" and "resolve_nonexistent_path t ctx (RootDir # cs) wsc = Inr p"
  shows "rooted p"
proof -
  from ancestor_loop_rooted [OF assms(1), of t "[]"] obtain a parts where
    "ancestor_loop t (RootDir # cs) [] = (RootDir # a, parts)" "path_exists_at t (RootDir # a)" by auto
  moreover from this obtain r where "canonicalize t (RootDir # a) = Some (absolute r)"
    by (auto simp: path_exists_at_def canonicalize_def)
  ultimately have "p = absolute (r @ rev parts)"
    using assms(2) by (auto simp: resolve_nonexistent_path_def Let_def split: if_splits)
  then show ?thesis by simp
qed

lemma resolve_path_rooted:
  assumes "ptc_workspace ctx = absolute ws" and "resolve_path t ctx raw = Inr p"
  shows "rooted p"
proof -
  obtain cs where cs: "path_join (absolute ws) (components raw) = RootDir # cs" "RootDir \<notin> set cs"
    by (rule candidate_rooted)
  then have "rooted (RootDir # cs)" by (simp add: rooted_def)
  with assms cs show ?thesis
    by (auto simp: resolve_path_def Let_def
        split: if_splits option.splits
        dest: rooted_canonicalize resolve_nonexistent_rooted)
qed

lemma isolated_target:
  assumes "ptc_write_path_guard (te_context env) = IsolatedWriter (absolute ws)"
    and "ptc_workspace (te_context env) = absolute root"
    and "resolved_target (patch_env_of env) q"
  shows "prefix ws q \<and> (\<forall>name \<in> set (drop (length ws) q). \<not> is_protected (Normal name))"
proof -
  from assms(3) obtain raw where raw: "pe_resolve_write_path (patch_env_of env) raw = Inr q"
    by (auto simp: resolved_target_def)
  then obtain p where p: "resolve_write_path (te_tree env) (te_context env) raw = Inr p" "q = names_of p"
    by (cases "resolve_write_path (te_tree env) (te_context env) raw") (auto simp: patch_env_of_def)
  from p(1) assms(1) obtain p0 where p0: "resolve_path (te_tree env) (te_context env) raw = Inr p0"
    "p = normalize_path p0" "prefix (absolute ws) p" "\<not> list_ex is_protected (drop (length (absolute ws)) p)"
    by (auto simp: resolve_write_path_def Let_def split: sum.splits tool_error.splits if_splits)
  from normalize_of_rooted [OF resolve_path_rooted [OF assms(2) p0(1)]] p0(2) obtain names
    where names: "p = absolute names" by auto
  with p(2) have "q = names" by simp
  with p0(3,4) names show ?thesis
    by (auto simp: absolute_def drop_map list_ex_iff prefix_def map_eq_append_conv inj_map_eq_map inj_def)
qed


definition ex_writer :: tool_env where
  "ex_writer =
     \<lparr>te_tree = \<lparr>ft_nodes = [([''w''], DirNode)], ft_cwd = [], ft_io_error = ''io''\<rparr>,
      te_context = (new_tool_context (absolute [''w'']))\<lparr>ptc_write_path_guard := IsolatedWriter (absolute [''w''])\<rparr>,
      te_sha256 = (\<lambda>bytes. bytes), te_text_diff = (\<lambda>_ _ _ _. ''diff''), te_io_error = ''io'',
      te_utf8_error = (\<lambda>_. ''utf8''), te_new_file_mode = 420\<rparr>"


end
