(* ===== verification/Command_Safety.thy ===== *)
theory Command_Safety
  imports Exec_Policy
begin

text \<open>
  The classification of shell commands before they run (crates/tools/src/command_safety.rs): the
  canonical prefix of a command, the commands a read-only shell accepts, the safety level of a
  command and whether it has critical impact.

  \<open>shell_text\<close> names what the module takes from elsewhere: \<^verbatim>\<open>shlex::split\<close> of another package and
  the Unicode table behind \<^verbatim>\<open>str::to_lowercase\<close>, which is used for code points outside ASCII.
\<close>

record shell_text =
  st_shlex :: "string \<Rightarrow> string list option"
  st_lower :: "string \<Rightarrow> string"

definition to_lowercase :: "shell_text \<Rightarrow> string \<Rightarrow> string" where
  "to_lowercase sh s =
     concat (map (\<lambda>cp. case cp of [c] \<Rightarrow> [ascii_lower c] | _ \<Rightarrow> st_lower sh cp) (utf8_chars s))"

definition eq_ignore_ascii_case :: "string \<Rightarrow> string \<Rightarrow> bool" where
  "eq_ignore_ascii_case s t \<longleftrightarrow> to_ascii_lowercase s = to_ascii_lowercase t"

section \<open>The arity dictionary\<close>

definition COMMAND_ARITY :: "(string \<times> nat) list" where
  "COMMAND_ARITY =
     [(''git add'', 2), (''git am'', 2), (''git apply'', 2), (''git bisect'', 2),
      (''git blame'', 2), (''git branch'', 2), (''git cat-file'', 2), (''git checkout'', 2),
      (''git cherry-pick'', 2), (''git clean'', 2), (''git clone'', 2), (''git commit'', 2),
      (''git config'', 2), (''git describe'', 2), (''git diff'', 2), (''git fetch'', 2),
      (''git format-patch'', 2), (''git grep'', 2), (''git init'', 2), (''git log'', 2),
      (''git ls-files'', 2), (''git merge'', 2), (''git mv'', 2), (''git notes'', 2),
      (''git pull'', 2), (''git push'', 2), (''git rebase'', 2), (''git reflog'', 2),
      (''git remote'', 2), (''git reset'', 2), (''git restore'', 2), (''git revert'', 2),
      (''git rm'', 2), (''git show'', 2), (''git stash'', 2), (''git status'', 2),
      (''git submodule'', 2), (''git switch'', 2), (''git tag'', 2), (''git worktree'', 2),
      (''npm audit'', 2), (''npm build'', 2), (''npm cache'', 2), (''npm ci'', 2),
      (''npm dedupe'', 2), (''npm fund'', 2), (''npm help'', 2), (''npm info'', 2),
      (''npm init'', 2), (''npm install'', 2), (''npm link'', 2), (''npm list'', 2),
      (''npm ls'', 2), (''npm outdated'', 2), (''npm pack'', 2), (''npm prune'', 2),
      (''npm publish'', 2), (''npm rebuild'', 2), (''npm run'', 3), (''npm start'', 2),
      (''npm stop'', 2), (''npm test'', 2), (''npm uninstall'', 2), (''npm update'', 2),
      (''npm version'', 2), (''npm view'', 2), (''yarn add'', 2), (''yarn audit'', 2),
      (''yarn build'', 2), (''yarn install'', 2), (''yarn run'', 3), (''yarn start'', 2),
      (''yarn test'', 2), (''yarn upgrade'', 2), (''yarn workspace'', 3), (''pnpm add'', 2),
      (''pnpm build'', 2), (''pnpm install'', 2), (''pnpm run'', 3), (''pnpm start'', 2),
      (''pnpm test'', 2), (''pnpm update'', 2), (''cargo add'', 2), (''cargo bench'', 2),
      (''cargo build'', 2), (''cargo check'', 2), (''cargo clean'', 2), (''cargo clippy'', 2),
      (''cargo doc'', 2), (''cargo fix'', 2), (''cargo fmt'', 2), (''cargo generate'', 2),
      (''cargo install'', 2), (''cargo metadata'', 2), (''cargo package'', 2),
      (''cargo publish'', 2), (''cargo remove'', 2), (''cargo run'', 2), (''cargo search'', 2),
      (''cargo test'', 2), (''cargo tree'', 2), (''cargo uninstall'', 2), (''cargo update'', 2),
      (''cargo yank'', 2), (''docker build'', 2), (''docker compose'', 3),
      (''docker container'', 3), (''docker cp'', 2), (''docker exec'', 2), (''docker image'', 3),
      (''docker images'', 2), (''docker inspect'', 2), (''docker kill'', 2), (''docker logs'', 2),
      (''docker network'', 3), (''docker ps'', 2), (''docker pull'', 2), (''docker push'', 2),
      (''docker rm'', 2), (''docker rmi'', 2), (''docker run'', 2), (''docker start'', 2),
      (''docker stop'', 2), (''docker system'', 3), (''docker tag'', 2), (''docker volume'', 3),
      (''kubectl apply'', 2), (''kubectl create'', 3), (''kubectl delete'', 3),
      (''kubectl describe'', 3), (''kubectl exec'', 2), (''kubectl explain'', 2),
      (''kubectl get'', 3), (''kubectl label'', 2), (''kubectl logs'', 2), (''kubectl patch'', 2),
      (''kubectl port-forward'', 2), (''kubectl rollout'', 3), (''kubectl scale'', 2),
      (''kubectl set'', 2), (''kubectl top'', 3), (''go build'', 2), (''go clean'', 2),
      (''go env'', 2), (''go fmt'', 2), (''go generate'', 2), (''go get'', 2),
      (''go install'', 2), (''go list'', 2), (''go mod'', 3), (''go run'', 2), (''go test'', 2),
      (''go vet'', 2), (''go work'', 3), (''pip install'', 2), (''pip uninstall'', 2),
      (''pip list'', 2), (''pip show'', 2), (''pip freeze'', 2), (''pip3 install'', 2),
      (''pip3 uninstall'', 2), (''pip3 list'', 2), (''pip3 show'', 2), (''python'', 2),
      (''python3'', 2), (''make'', 1), (''gh pr'', 3), (''gh issue'', 3), (''gh repo'', 3),
      (''gh release'', 3), (''gh workflow'', 3), (''gh run'', 3), (''gh secret'', 3),
      (''rustup default'', 2), (''rustup install'', 2), (''rustup show'', 2),
      (''rustup target'', 3), (''rustup toolchain'', 3), (''rustup update'', 2),
      (''deno run'', 2), (''deno test'', 2), (''deno fmt'', 2), (''deno lint'', 2),
      (''bun add'', 2), (''bun build'', 2), (''bun install'', 2), (''bun run'', 3),
      (''bun test'', 2), (''npx'', 2)]"

text \<open>The loop of \<^verbatim>\<open>classify_command\<close> from the given depth down.\<close>

primrec classify_depth :: "string list \<Rightarrow> nat \<Rightarrow> string option" where
  "classify_depth positional 0 = None"
| "classify_depth positional (Suc d) =
     (case map_of COMMAND_ARITY (join '' '' (take (Suc d) positional)) of
        Some arity \<Rightarrow> Some (join '' '' (take (min arity (length positional)) positional))
      | None \<Rightarrow> classify_depth positional d)"

definition classify_command :: "string list \<Rightarrow> string" where
  "classify_command tokens =
     (if tokens = [] then []
      else
        let positional = map to_ascii_lowercase (filter (\<lambda>t. \<not> starts_with ''-'' t) tokens)
        in if positional = [] then []
           else
             (case classify_depth positional (min (length positional) 3) of
                Some prefix_words \<Rightarrow> prefix_words
              | None \<Rightarrow> hd positional))"

definition collapse_words :: "string \<Rightarrow> string" where
  "collapse_words s = join '' '' (split_whitespace (to_ascii_lowercase (trim s)))"

definition prefix_allow_matches :: "string \<Rightarrow> string \<Rightarrow> bool" where
  "prefix_allow_matches pattern command =
     (let pattern_norm = collapse_words pattern;
          tokens = split_whitespace command
      in if tokens = [] then pattern_norm = []
         else if classify_command tokens = pattern_norm then True
         else
           let command_norm = collapse_words command
           in command_norm = pattern_norm \<or> starts_with (pattern_norm @ '' '') command_norm)"

section \<open>Words of a command\<close>

definition split_command_segments :: "string \<Rightarrow> string list" where
  "split_command_segments command =
     filter (\<lambda>segment. segment \<noteq> [])
       (map trim (split_on (\<lambda>c. c = CHR 0x0A)
          (replace_str '';'' [CHR 0x0A] (replace_str ''||'' [CHR 0x0A]
             (replace_str ''&&'' [CHR 0x0A] command)))))"

definition is_quote :: "char \<Rightarrow> bool" where
  "is_quote c \<longleftrightarrow> c = CHR 0x22 \<or> c = CHR 0x27"

definition shell_words :: "shell_text \<Rightarrow> string \<Rightarrow> string list" where
  "shell_words sh segment =
     (case st_shlex sh segment of
        Some tokens \<Rightarrow> tokens
      | None \<Rightarrow> map (trim_matches is_quote) (split_whitespace segment))"

definition is_env_assignment :: "string \<Rightarrow> bool" where
  "is_env_assignment token =
     (case split_once (CHR ''='') token of
        None \<Rightarrow> False
      | Some (name, _) \<Rightarrow>
          name \<noteq> [] \<and> list_all (\<lambda>c. c = CHR ''_'' \<or> is_ascii_alphanumeric
            c) name
          \<and> (hd name = CHR ''_'' \<or> is_ascii_alphabetic (hd name)))"

text \<open>
  The loop of \<^verbatim>\<open>primary_token_index\<close> at an index, with the tokens from there on; the flag says that
  it is the inner loop, which skips the options and assignments after \<^verbatim>\<open>env\<close>.
\<close>

fun primary_from :: "nat \<Rightarrow> bool \<Rightarrow> string list \<Rightarrow> nat option" where
  "primary_from idx in_env [] = None"
| "primary_from idx in_env (token # tokens) =
     (if in_env \<and> (starts_with ''-'' token \<or> is_env_assignment token)
      then primary_from (Suc idx) True tokens
      else if token = ''env'' then primary_from (Suc idx) True tokens
      else if is_env_assignment token then primary_from (Suc idx) False tokens
      else Some idx)"

definition primary_token_index :: "string list \<Rightarrow> nat option" where
  "primary_token_index tokens = primary_from 0 False tokens"

definition primary_shell_command_is :: "shell_text \<Rightarrow> string \<Rightarrow> string \<Rightarrow> bool" where
  "primary_shell_command_is sh command expected =
     list_ex (\<lambda>segment.
        let tokens = shell_words sh segment
        in case primary_token_index tokens of
             None \<Rightarrow> False
           | Some idx \<Rightarrow> idx < length tokens \<and> tokens ! idx = expected)
       (split_command_segments command)"

section \<open>Read-only commands\<close>

definition PARALLEL_READONLY_PREFIXES :: "string list" where
  "PARALLEL_READONLY_PREFIXES =
     [''git status'', ''git log'', ''git diff'', ''git show'', ''git ls-files'', ''git blame'',
      ''git grep'', ''ls'', ''pwd'', ''cat'', ''head'', ''tail'', ''wc'', ''which'', ''stat'',
      ''file'', ''du'', ''df'', ''grep'', ''rg'', ''fd'']"

definition is_dse_readonly_invocation :: "string list \<Rightarrow> bool" where
  "is_dse_readonly_invocation tokens =
     (case tokens of
        [] \<Rightarrow> False
      | command # args \<Rightarrow>
          command = ''dse'' \<and>
          args \<in> set [[''--version''], [''-V''], [''-v''], [''--help''], [''-h'']])"

definition readonly_shell_wrapper_inner_command :: "string list \<Rightarrow> string option" where
  "readonly_shell_wrapper_inner_command tokens =
     (case tokens of
        [shell, flag, inner] \<Rightarrow>
          if shell \<in> set [''bash'', ''sh'', ''zsh''] \<and> flag \<in> set [''-c'', ''-lc''] then Some inner
          else None
      | _ \<Rightarrow> None)"

definition follows_file :: "string \<Rightarrow> bool" where
  "follows_file token \<longleftrightarrow>
     token \<in> set [''-f'', ''-F'', ''--follow''] \<or> starts_with ''--follow='' token"

definition readonly_tokens :: "string list \<Rightarrow> bool" where
  "readonly_tokens command_tokens =
     (if is_dse_readonly_invocation command_tokens then True
      else
        let canonical = classify_command command_tokens
        in if canonical = ''tail'' \<and> list_ex follows_file (drop 1 command_tokens) then False
           else canonical \<in> set PARALLEL_READONLY_PREFIXES)"

text \<open>
  \<^verbatim>\<open>is_parallel_readonly_command\<close> calls itself on the argument of a shell wrapper. The first
  argument bounds the calls; a command has fewer nested wrappers than bytes.
\<close>

fun readonly_upto :: "nat \<Rightarrow> shell_text \<Rightarrow> string \<Rightarrow> bool" where
  "readonly_upto 0 sh command = False"
| "readonly_upto (Suc n) sh command =
     (let trimmed = trim command
      in if trimmed = [] then False
         else if contains_str ''$('' trimmed \<or>
                 list_ex (\<lambda>c. c \<in> set ([CHR 0x0A, CHR 0x0D, CHR 0x60] @ '';&|><''))
                   trimmed
         then False
         else
           let tokens = shell_words sh trimmed
           in case primary_token_index tokens of
                None \<Rightarrow> False
              | Some start \<Rightarrow>
                  (case readonly_shell_wrapper_inner_command (drop start tokens) of
                     Some inner_command \<Rightarrow> readonly_upto n sh inner_command
                   | None \<Rightarrow> readonly_tokens (drop start tokens)))"

declare readonly_upto.simps(2) [simp del]

definition is_parallel_readonly_command :: "shell_text \<Rightarrow> string \<Rightarrow> bool" where
  "is_parallel_readonly_command sh command = readonly_upto (Suc (length command)) sh command"

section \<open>Safety levels\<close>

datatype safety_level = Safe | WorkspaceSafe | RequiresApproval | Dangerous

record safety_analysis =
  sa_level :: safety_level
  sa_reasons :: "string list"
  sa_suggestions :: "string list"

definition safe_analysis :: safety_analysis where
  "safe_analysis =
     \<lparr>sa_level = Safe, sa_reasons = [''Command is read-only''], sa_suggestions = []\<rparr>"

definition workspace_safe :: "string \<Rightarrow> safety_analysis" where
  "workspace_safe reason =
     \<lparr>sa_level = WorkspaceSafe, sa_reasons = [reason], sa_suggestions = []\<rparr>"

definition requires_approval :: "string list \<Rightarrow> safety_analysis" where
  "requires_approval reasons =
     \<lparr>sa_level = RequiresApproval, sa_reasons = reasons, sa_suggestions = []\<rparr>"

definition dangerous :: "string list \<Rightarrow> string list \<Rightarrow> safety_analysis" where
  "dangerous reasons suggestions =
     \<lparr>sa_level = Dangerous, sa_reasons = reasons, sa_suggestions = suggestions\<rparr>"

definition SAFE_COMMANDS :: "string list" where
  "SAFE_COMMANDS =
     [''ls'', ''dir'', ''pwd'', ''cd'', ''cat'', ''head'', ''tail'', ''less'', ''more'', ''grep'',
      ''rg'', ''ag'', ''find'', ''fd'', ''which'', ''whereis'', ''type'', ''echo'', ''printf'',
      ''date'', ''cal'', ''uptime'', ''whoami'', ''id'', ''hostname'', ''uname'', ''env'',
      ''printenv'', ''set'', ''ps'', ''top'', ''htop'', ''df'', ''du'', ''free'', ''vmstat'',
      ''wc'', ''sort'', ''uniq'', ''cut'', ''tr'', ''awk'', ''sed'', ''diff'', ''file'', ''stat'',
      ''md5'', ''sha1sum'', ''sha256sum'', ''git status'', ''git log'', ''git diff'',
      ''git show'', ''git branch'', ''git remote'', ''git tag'', ''git stash list'', ''npm list'',
      ''npm ls'', ''npm outdated'', ''npm view'', ''cargo check'', ''cargo test'',
      ''cargo build'', ''cargo doc'', ''python --version'', ''node --version'',
      ''rustc --version'', ''man'', ''help'', ''info'']"

definition WORKSPACE_SAFE_COMMANDS :: "string list" where
  "WORKSPACE_SAFE_COMMANDS =
     [''mkdir'', ''touch'', ''cp'', ''mv'', ''git add'', ''git commit'', ''git checkout'',
      ''git switch'', ''git restore'', ''git merge'', ''git rebase'', ''git cherry-pick'',
      ''git reset --soft'', ''npm install'', ''npm ci'', ''npm update'', ''cargo build'',
      ''cargo run'', ''cargo test'', ''cargo fmt'', ''pip install'', ''pip uninstall'', ''make'',
      ''cmake'', ''ninja'']"

definition DANGEROUS_PATTERNS :: "(string \<times> string) list" where
  "DANGEROUS_PATTERNS =
     [(''rm -rf /'', ''Attempts to recursively delete root filesystem''),
      (''rm -rf /*'', ''Attempts to recursively delete all root directories''),
      (''rm -rf ~'', ''Attempts to recursively delete home directory''),
      (''rm -rf $HOME'', ''Attempts to recursively delete home directory''),
      ('':(){ :|:& };:'', ''Fork bomb '' @ [CHR 0xE2, CHR 0x80, CHR 0x94] @
        '' will crash the system'')]"

definition PRIVILEGED_PATTERNS :: "string list" where
  "PRIVILEGED_PATTERNS =
     [''sudo'', ''su '', ''doas'', ''pkexec'', ''gksudo'', ''kdesudo'']"

definition NETWORK_COMMANDS :: "string list" where
  "NETWORK_COMMANDS =
     [''curl'', ''wget'', ''fetch'', ''nc'', ''netcat'', ''ncat'', ''ssh'', ''scp'', ''sftp'',
      ''rsync'', ''ftp'', ''ping'', ''traceroute'', ''nslookup'', ''dig'', ''host'', ''nmap'',
      ''masscan'', ''tcpdump'', ''wireshark'']"

definition KNOWN_SAFE_CHAIN_PREFIXES :: "string list" where
  "KNOWN_SAFE_CHAIN_PREFIXES =
     [''cargo'', ''rustc'', ''rustup'', ''git'', ''gh'', ''hub'', ''npm'', ''yarn'', ''pnpm'',
      ''node'', ''npx'', ''zig'', ''go'', ''deno'', ''bun'', ''make'', ''cmake'', ''ninja'',
      ''meson'', ''python'', ''python3'', ''pip'', ''pip3'', ''uv'', ''poetry'', ''ls'', ''pwd'',
      ''cd'', ''echo'', ''cat'', ''head'', ''tail'', ''grep'', ''rg'', ''find'', ''fd'', ''wc'',
      ''sort'', ''uniq'', ''which'', ''env'', ''true'', ''false'']"

section \<open>Destructive commands\<close>

definition unslash :: "string \<Rightarrow> string" where
  "unslash s = replace_str [CHR 0x5C] ''/'' s"

definition is_root_delete_target :: "string \<Rightarrow> bool" where
  "is_root_delete_target target =
     (let normalized = unslash (trim_matches is_quote target)
      in normalized \<in> set [''/'', ''/*'', ''//''] \<or> starts_with ''/*/'' normalized
         \<or> starts_with ''/.'' normalized)"

definition is_home_delete_target :: "string \<Rightarrow> bool" where
  "is_home_delete_target target =
     (let lower = to_ascii_lowercase (unslash (trim_matches is_quote target))
      in lower = ''~'' \<or> starts_with ''~/'' lower
         \<or> lower = ''$home'' \<or> starts_with ''$home/'' lower
         \<or> lower = ''${home}'' \<or> starts_with ''${home}/'' lower)"

definition target_contains_parent_escape :: "string \<Rightarrow> bool" where
  "target_contains_parent_escape target \<longleftrightarrow>
     ''..'' \<in> set (split_on (\<lambda>c. c = CHR ''/'') (unslash target))"

text \<open>The loop of \<^verbatim>\<open>dangerous_rm_reason\<close> over the arguments: recursive, force and the targets.\<close>

fun rm_arguments :: "bool \<Rightarrow> bool \<Rightarrow> string list \<Rightarrow> string list \<Rightarrow> bool \<times> bool \<times> string list" where
  "rm_arguments recursive force targets [] = (recursive, force, targets)"
| "rm_arguments recursive force targets (arg # args) =
     (if arg = ''--'' then rm_arguments recursive force targets args
      else if arg = ''--recursive'' \<or> arg = ''--dir'' then rm_arguments True force targets args
      else if arg = ''--force'' then rm_arguments recursive True targets args
      else if starts_with ''-'' arg \<and> \<not> starts_with ''--'' arg
      then rm_arguments (recursive \<or> list_ex (\<lambda>c. c \<in> set ''rR'') arg)
             (force \<or> CHR ''f'' \<in> set arg) targets args
      else rm_arguments recursive force (targets @ [arg]) args)"

fun rm_target_reason :: "string list \<Rightarrow> string option" where
  "rm_target_reason [] = None"
| "rm_target_reason (target # targets) =
     (if is_root_delete_target target
      then Some ''Recursive or forced deletion targets the root filesystem''
      else if is_home_delete_target target
      then Some ''Recursive or forced deletion targets the home directory''
      else if target_contains_parent_escape target
      then Some ''Recursive or forced deletion may escape the workspace''
      else rm_target_reason targets)"

definition dangerous_rm_reason :: "string list \<Rightarrow> string option" where
  "dangerous_rm_reason args =
     (let (recursive, force, targets) = rm_arguments False False [] args
      in if \<not> (recursive \<or> force) then None else rm_target_reason targets)"

definition analyze_find_mutation :: "string list \<Rightarrow> safety_analysis option" where
  "analyze_find_mutation args =
     (let has_delete = ''-delete'' \<in> set args;
          execs_rm = any_pair (\<lambda>a b. a = ''-exec'' \<and> b = ''rm'') args;
          targets = takeWhile (\<lambda>arg. \<not> starts_with ''-'' arg) args
      in if \<not> (has_delete \<or> execs_rm) then None
         else if list_ex (\<lambda>target. is_root_delete_target target \<or> is_home_delete_target target
                   \<or> target_contains_parent_escape target) targets
         then Some (dangerous [''find mutation targets a broad or external path'']
                [''Restrict the find root to a workspace-relative path''])
         else Some (requires_approval [''find command may delete files'']))"

definition pipes_remote_content_to_shell :: "shell_text \<Rightarrow> string \<Rightarrow> bool" where
  "pipes_remote_content_to_shell sh command =
     list_ex (\<lambda>segment.
        any_pair (\<lambda>left right.
            (contains_str ''curl'' (to_ascii_lowercase left)
             \<or> contains_str ''wget'' (to_ascii_lowercase left)) \<and>
            (let right_tokens = shell_words sh right
             in case primary_token_index right_tokens of
                  None \<Rightarrow> False
                | Some idx \<Rightarrow> idx < length right_tokens
                    \<and> right_tokens ! idx \<in> set [''sh'', ''bash'', ''zsh'']))
          (split_on (\<lambda>c. c = CHR ''|'') segment))
       (split_command_segments command)"

text \<open>One round of the loop over the segments: the analysis it returns, if any.\<close>

definition segment_analysis :: "shell_text \<Rightarrow> string \<Rightarrow> safety_analysis option" where
  "segment_analysis sh segment =
     (let tokens = shell_words sh segment
      in case primary_token_index tokens of
           None \<Rightarrow> None
         | Some start \<Rightarrow>
             if tokens ! start = ''rm'' then
               (case dangerous_rm_reason (drop (Suc start) tokens) of
                  None \<Rightarrow> None
                | Some reason \<Rightarrow>
                    Some (dangerous [reason] [''Review the deletion target before retrying'']))
             else if tokens ! start = ''find'' then analyze_find_mutation (drop (Suc start) tokens)
             else None)"

definition analyze_destructive_patterns :: "shell_text \<Rightarrow> string \<Rightarrow> safety_analysis option" where
  "analyze_destructive_patterns sh command =
     (if primary_shell_command_is sh command ''eval'' then
        Some (dangerous [''Command invokes shell eval'']
          [''Avoid evaluating dynamically generated shell input''])
      else if pipes_remote_content_to_shell sh command then
        Some (dangerous [''Piping remote content directly to shell is dangerous'']
          [''Download the script first and review it before execution''])
      else find_map (segment_analysis sh) (split_command_segments command))"

section \<open>The analysis\<close>

definition is_safe_command :: "shell_text \<Rightarrow> string \<Rightarrow> bool" where
  "is_safe_command sh command =
     (let command_lower = to_lowercase sh command;
          tokens = shell_words sh command
      in (case primary_token_index tokens of
            None \<Rightarrow> False
          | Some start \<Rightarrow> is_dse_readonly_invocation (drop start tokens))
         \<or> list_ex (\<lambda>safe_cmd. starts_with safe_cmd command_lower) SAFE_COMMANDS)"

definition all_segments_known_safe :: "string \<Rightarrow> bool" where
  "all_segments_known_safe command =
     (let segments = split_command_segments command
      in if segments = [] then False
         else list_all (\<lambda>seg.
            let head = (case find (\<lambda>tok. CHR ''='' \<notin> set tok \<and> tok \<noteq>
              ''env'') (split_whitespace seg) of
                          None \<Rightarrow> [] | Some tok \<Rightarrow> tok)
            in list_ex (eq_ignore_ascii_case head) KNOWN_SAFE_CHAIN_PREFIXES) segments)"

definition is_workspace_safe_command :: "shell_text \<Rightarrow> string \<Rightarrow> bool" where
  "is_workspace_safe_command sh command =
     list_ex (\<lambda>ws_cmd. starts_with ws_cmd (to_lowercase sh command)) WORKSPACE_SAFE_COMMANDS"

definition extract_primary_command :: "string \<Rightarrow> string option" where
  "extract_primary_command command =
     (let trimmed = trim command
      in if starts_with ''env '' trimmed \<or> starts_with ''ENV='' trimmed
         then find (\<lambda>s. CHR ''='' \<notin> set s \<and> s \<noteq> ''env'')
           (split_whitespace trimmed)
         else (case split_whitespace trimmed of [] \<Rightarrow> None | w # _ \<Rightarrow> Some w))"

definition first_word :: "string \<Rightarrow> string" where
  "first_word command = (case split_whitespace command of [] \<Rightarrow> [] | w # _ \<Rightarrow> w)"

text \<open>\<^verbatim>\<open>analyze_command\<close> from the check for a privileged command on.\<close>

definition privileged_by :: "shell_text \<Rightarrow> string \<Rightarrow> string \<Rightarrow> bool" where
  "privileged_by sh command pattern \<longleftrightarrow>
     starts_with pattern (trim command)
     \<or> contains_str ('' '' @ pattern @ '' '') (to_lowercase sh command)"

definition analyze_plain_command :: "shell_text \<Rightarrow> string \<Rightarrow> safety_analysis" where
  "analyze_plain_command sh command =
     (let command_lower = to_lowercase sh command;
          command_trimmed = trim command;
          has = (\<lambda>p. contains_str p command_lower)
      in case find (privileged_by sh command) PRIVILEGED_PATTERNS of
           Some pattern \<Rightarrow>
             requires_approval [''Command uses privileged execution ('' @ trim pattern @ '')'']
         | None \<Rightarrow>
             if (has ''curl'' \<or> has ''wget'') \<and> (has ''| sh'' \<or> has ''| bash'' \<or> has ''| zsh'')
             then dangerous [''Piping remote content directly to shell is dangerous'']
                    [''Download the script first and review it before execution'']
             else if is_safe_command sh command_trimmed then safe_analysis
             else if is_workspace_safe_command sh command_trimmed
             then workspace_safe ''Command modifies files within workspace''
             else if first_word command_trimmed \<in> set NETWORK_COMMANDS
             then requires_approval [''Command may make network requests'']
             else if first_word command_trimmed = ''rm'' \<and> (has ''-r'' \<or> has ''-f'')
             then
               if has ''..'' \<or> has ''~/'' \<or> has ''$HOME''
               then dangerous [''Recursive or forced deletion'', ''May delete files outside workspace'']
                      [''Use relative paths within the workspace'']
               else requires_approval [''Recursive or forced deletion'']
             else if has ''git push''
             then
               if has ''--force'' \<or> has ''-f''
               then requires_approval [''Force push can overwrite remote history'']
               else requires_approval [''Push will modify remote repository'']
             else requires_approval [''Unknown command - review before execution''])"

definition analyze_command :: "shell_text \<Rightarrow> string \<Rightarrow> safety_analysis" where
  "analyze_command sh command =
     (if CHR 0x0A \<in> set command \<or> CHR 0x0D \<in> set command then
        dangerous [''Command contains multiple lines'']
          [''Run one command at a time'',
           ''Write multiline scripts to a file first, then execute the script'']
      else if CHR 0x00 \<in> set command then
        dangerous [''Command contains a null byte''] [''Strip embedded null bytes before retrying'']
      else
        (case analyze_destructive_patterns sh command of
           Some analysis \<Rightarrow> analysis
         | None \<Rightarrow>
             if contains_str ''&&'' command \<or> contains_str ''||'' command \<or> CHR '';''
               \<in> set command
             then
               if all_segments_known_safe command
               then requires_approval [''Command chains known-safe segments (cargo/git/etc.)'']
               else requires_approval [''Command chaining detected'']
             else if CHR 0x60 \<in> set command \<or> contains_str ''$('' command
             then requires_approval [''Command substitution detected'']
             else
               (case find (\<lambda>(pattern, _). contains_str (to_lowercase sh pattern) (to_lowercase sh command))
                       DANGEROUS_PATTERNS of
                  Some (_, reason) \<Rightarrow>
                    dangerous [reason] [''Review the command carefully before execution'']
                | None \<Rightarrow> analyze_plain_command sh command)))"

section \<open>Critical impact\<close>

definition git_tag_is_mutation :: "string list \<Rightarrow> bool" where
  "git_tag_is_mutation tokens =
     (if length tokens < 2 then False
      else
        let args = drop 2 tokens
        in if args = [] then False
           else if list_ex (\<lambda>arg. arg \<in> set [''-d'', ''--delete'', ''-a'', ''--annotate'', ''-s'',
                     ''--sign'', ''-f'', ''--force'']) args
           then True
           else if list_ex (\<lambda>arg.
                     arg \<in> set [''-l'', ''--list'', ''-v'', ''--verify'', ''--contains'',
                       ''--points-at'', ''--merged'', ''--no-merged'', ''--sort'', ''--format'',
                       ''--column'']
                     \<or> list_ex (\<lambda>p. starts_with p arg)
                         [''--list='', ''--contains='', ''--points-at='', ''--merged='',
                          ''--no-merged='', ''--sort='', ''--format='', ''--column='']) args
           then False
           else list_ex (\<lambda>arg. \<not> starts_with ''-'' arg) args)"

definition segment_is_high_impact :: "shell_text \<Rightarrow> string \<Rightarrow> bool" where
  "segment_is_high_impact sh segment =
     (let tokens = shell_words sh segment
      in case primary_token_index tokens of
           None \<Rightarrow> False
         | Some start \<Rightarrow>
             let command_tokens = drop start tokens;
                 canonical = classify_command command_tokens
             in if canonical \<in> set [''git push'', ''npm publish'', ''cargo publish''] then True
                else if canonical = ''git tag'' then git_tag_is_mutation command_tokens
                else
                  (case strip_prefix ''gh release '' canonical of
                     None \<Rightarrow> False
                   | Some action \<Rightarrow>
                       action \<in> set [''create'', ''delete'', ''delete-asset'', ''edit'', ''upload'']))"

definition command_is_high_impact :: "shell_text \<Rightarrow> string \<Rightarrow> bool" where
  "command_is_high_impact sh command \<longleftrightarrow>
     sa_level (analyze_command sh command) = Dangerous
     \<or> list_ex (segment_is_high_impact sh) (split_command_segments command)"

end
