(* ===== verification/Command_Safety_Laws.thy ===== *)
theory Command_Safety_Laws
  imports Command_Safety
begin

text \<open>
  What the classification of shell commands guarantees: which commands a read-only shell accepts,
  that a destructive segment is refused, and what a command that runs without approval cannot
  contain.
\<close>

section \<open>Words are not longer than the text\<close>

lemma length_concat_filter_le: "length (concat (takeWhile P xs)) \<le> length (concat xs)"
  "length (concat (dropWhile P xs)) \<le> length (concat xs)"
  by (induction xs) auto

lemma length_concat_split: "length (concat (takeWhile P xs)) + length (concat (dropWhile P xs)) = length (concat xs)"
  by (metis concat_append length_append takeWhile_dropWhile_id)

lemma words_of_length: "length (concat (words_of cps)) \<le> length (concat cps)"
proof (induction cps rule: words_of.induct)
  case (1 cps)
  show ?case
  proof (cases "dropWhile is_whitespace cps")
    case Nil
    show ?thesis by (subst words_of.simps) (simp add: Nil)
  next
    case (Cons cp rest)
    let ?P = "\<lambda>c. \<not> is_whitespace c"
    have "length (concat (words_of cps)) =
        length cp + length (concat (takeWhile ?P rest)) + length (concat (words_of (dropWhile ?P rest)))"
      by (subst words_of.simps) (simp add: Cons)
    also have "\<dots> \<le> length cp + length (concat (takeWhile ?P rest)) + length (concat (dropWhile ?P rest))"
      using 1 [OF Cons] by simp
    also have "\<dots> = length (concat (dropWhile is_whitespace cps))"
      using length_concat_split [of ?P rest] by (simp add: Cons)
    also have "\<dots> \<le> length (concat cps)" by (rule length_concat_filter_le)
    finally show ?thesis .
  qed
qed

lemma split_whitespace_length: "length (concat (split_whitespace s)) \<le> length s"
  using words_of_length [of "utf8_chars s"] by (simp add: split_whitespace_def)

lemma trim_start_length: "length (trim_start s) \<le> length s"
  using length_concat_filter_le(2) [of is_whitespace "utf8_chars s"] by (simp add: trim_start_def)

lemma trim_end_length: "length (trim_end s) \<le> length s"
proof -
  have "length (concat (rev xs)) = length (concat xs)" for xs :: "string list"
    by (simp add: length_concat flip: rev_map)
  then show ?thesis
    using length_concat_filter_le(2) [of is_whitespace "rev (utf8_chars s)"]
    by (simp add: trim_end_def)
qed

lemma trim_length: "length (trim s) \<le> length s"
  using trim_start_length [of s] trim_end_length [of "trim_start s"] by (simp add: trim_def)

lemma trim_matches_length: "length (trim_matches P s) \<le> length s"
  using length_dropWhile_le [of P s] length_dropWhile_le [of P "rev (dropWhile P s)"]
  by (simp add: trim_matches_def)

text \<open>Splitting takes the characters of the text: what is relied on of \<^verbatim>\<open>shlex::split\<close>.\<close>

definition shlex_shrinks :: "shell_text \<Rightarrow> bool" where
  "shlex_shrinks sh \<longleftrightarrow> (\<forall>s ts. st_shlex sh s = Some ts \<longrightarrow> length (concat ts) \<le> length s)"

lemma shell_words_length:
  assumes "shlex_shrinks sh"
  shows "length (concat (shell_words sh s)) \<le> length s"
proof (cases "st_shlex sh s")
  case None
  have "length (concat (map (trim_matches P) ws)) \<le> length (concat ws)" for P ws
    by (induction ws) (auto intro: add_mono trim_matches_length)
  from this [of is_quote "split_whitespace s"] split_whitespace_length [of s] None show ?thesis
    by (simp add: shell_words_def)
next
  case (Some ts)
  with assms show ?thesis by (simp add: shell_words_def shlex_shrinks_def)
qed

section \<open>Read-only commands\<close>

definition plain_command :: "string \<Rightarrow> bool" where
  "plain_command trimmed \<longleftrightarrow>
     trimmed \<noteq> [] \<and> \<not> contains_str ''$('' trimmed \<and>
     set trimmed \<inter> set ([CHR 0x0A, CHR 0x0D, CHR 0x60] @ '';&|><'') = {}"

text \<open>The words a command runs once the shell wrappers around it are taken off.\<close>

inductive runs_as :: "shell_text \<Rightarrow> string \<Rightarrow> string list \<Rightarrow> bool" for sh where
  direct: "plain_command (trim command) \<Longrightarrow>
    primary_token_index (shell_words sh (trim command)) = Some start \<Longrightarrow>
    words = drop start (shell_words sh (trim command)) \<Longrightarrow>
    readonly_shell_wrapper_inner_command words = None \<Longrightarrow> runs_as sh command words"
| wrapped: "plain_command (trim command) \<Longrightarrow>
    primary_token_index (shell_words sh (trim command)) = Some start \<Longrightarrow>
    readonly_shell_wrapper_inner_command (drop start (shell_words sh (trim command))) = Some inner \<Longrightarrow>
    runs_as sh inner words \<Longrightarrow> runs_as sh command words"

inductive_cases runs_as_cases: "runs_as sh command words"

lemma readonly_upto_Suc:
  "readonly_upto (Suc n) sh command \<longleftrightarrow>
     plain_command (trim command) \<and>
     (case primary_token_index (shell_words sh (trim command)) of
        None \<Rightarrow> False
      | Some start \<Rightarrow>
          (case readonly_shell_wrapper_inner_command (drop start (shell_words sh (trim command))) of
             Some inner \<Rightarrow> readonly_upto n sh inner
           | None \<Rightarrow> readonly_tokens (drop start (shell_words sh (trim command)))))"
proof -
  have "list_ex (\<lambda>c. c \<in> A) s \<longleftrightarrow> set s \<inter> A \<noteq> {}" for A and s :: string
    by (auto simp: list_ex_iff)
  then show ?thesis
    unfolding readonly_upto.simps plain_command_def Let_def by (simp only:) auto
qed

lemma inner_shorter:
  assumes "shlex_shrinks sh"
    and "readonly_shell_wrapper_inner_command (drop start (shell_words sh (trim command))) = Some inner"
  shows "length inner < length command"
proof -
  obtain shell flag where "drop start (shell_words sh (trim command)) = [shell, flag, inner]"
    "shell \<in> set [''bash'', ''sh'', ''zsh'']"
    using assms(2) by (auto simp: readonly_shell_wrapper_inner_command_def split: list.splits if_splits)
  moreover from this(2) have "shell \<noteq> []" by auto
  moreover have "length (concat (drop start ws)) \<le> length (concat ws)" for ws :: "string list"
    by (metis append_take_drop_id concat_append le_add2 length_append)
  ultimately have "length inner < length (concat (shell_words sh (trim command)))"
    by (metis (no_types, lifting) concat.simps(2) length_append length_greater_0_conv less_add_same_cancel2
        order_less_le_trans trans_less_add2 add.commute append_Nil2 concat.simps(1))
  with shell_words_length [OF assms(1), of "trim command"] trim_length [of command] show ?thesis
    by linarith
qed

lemma readonly_upto_iff:
  assumes "shlex_shrinks sh" and "length command < n"
  shows "readonly_upto n sh command \<longleftrightarrow> (\<exists>words. runs_as sh command words \<and> readonly_tokens words)"
  using assms(2)
proof (induction n arbitrary: command)
  case (Suc n)
  let ?ws = "shell_words sh (trim command)"
  show ?case
  proof (cases "plain_command (trim command)")
    case False
    then show ?thesis by (auto simp: readonly_upto_Suc elim: runs_as_cases)
  next
    case plain: True
    show ?thesis
    proof (cases "primary_token_index ?ws")
      case None
      then show ?thesis by (auto simp: readonly_upto_Suc elim: runs_as_cases)
    next
      case (Some start)
      show ?thesis
      proof (cases "readonly_shell_wrapper_inner_command (drop start ?ws)")
        case None
        with plain Some show ?thesis
          by (auto simp: readonly_upto_Suc elim: runs_as_cases intro: runs_as.direct)
      next
        case (Some inner)
        have "length inner < n" using inner_shorter [OF assms(1) Some] Suc.prems by simp
        from Suc.IH [OF this] plain Some \<open>primary_token_index ?ws = Some start\<close> show ?thesis
          by (auto simp: readonly_upto_Suc elim: runs_as_cases intro: runs_as.wrapped)
      qed
    qed
  qed
qed simp


text \<open>
  C0. What a read-only shell accepts. When splitting a text into words takes the characters of the
  text, the recursion through shell wrappers always ends, and a command is accepted exactly when
  it and every command it wraps are plain (no chaining, redirection, substitution or line break)
  and the words it finally runs are those of a command of the read-only table.
\<close>

theorem readonly_command_iff:
  assumes "shlex_shrinks sh"
  shows "is_parallel_readonly_command sh command \<longleftrightarrow>
    (\<exists>words. runs_as sh command words \<and>
       (is_dse_readonly_invocation words \<or>
        classify_command words \<in> set PARALLEL_READONLY_PREFIXES \<and>
        (classify_command words = ''tail'' \<longrightarrow> list_all (\<lambda>w. \<not> follows_file w) (drop 1 words))))"
proof -
  have "readonly_tokens words \<longleftrightarrow> is_dse_readonly_invocation words \<or>
      classify_command words \<in> set PARALLEL_READONLY_PREFIXES \<and>
      (classify_command words = ''tail'' \<longrightarrow> list_all (\<lambda>w. \<not> follows_file w) (drop 1 words))" for words
    by (auto simp: readonly_tokens_def Let_def list_ex_iff list_all_iff)
  then show ?thesis
    using readonly_upto_iff [OF assms, of command "Suc (length command)"]
    by (simp only: is_parallel_readonly_command_def lessI simp_thms)
qed

section \<open>Destructive segments\<close>

definition runs :: "shell_text \<Rightarrow> string \<Rightarrow> string \<Rightarrow> string list \<Rightarrow> bool" where
  "runs sh segment program args \<longleftrightarrow>
     (\<exists>i. primary_token_index (shell_words sh segment) = Some i \<and>
          i < length (shell_words sh segment) \<and>
          drop i (shell_words sh segment) = program # args)"

definition short_flag :: "string \<Rightarrow> bool" where
  "short_flag arg \<longleftrightarrow> starts_with ''-'' arg \<and> \<not> starts_with ''--'' arg"

definition recursive_flag :: "string \<Rightarrow> bool" where
  "recursive_flag arg \<longleftrightarrow>
     arg = ''--recursive'' \<or> arg = ''--dir'' \<or> short_flag arg \<and> (CHR ''r'' \<in> set arg \<or> CHR ''R'' \<in> set arg)"

definition force_flag :: "string \<Rightarrow> bool" where
  "force_flag arg \<longleftrightarrow> arg = ''--force'' \<or> short_flag arg \<and> CHR ''f'' \<in> set arg"

definition forbidden_target :: "string \<Rightarrow> bool" where
  "forbidden_target t \<longleftrightarrow>
     is_root_delete_target t \<or> is_home_delete_target t \<or> target_contains_parent_escape t"

lemma rm_arguments_step:
  "rm_arguments r f ts (arg # args) =
     rm_arguments (r \<or> recursive_flag arg) (f \<or> force_flag arg)
       (ts @ (if starts_with ''-'' arg \<and> (short_flag arg \<or> arg \<in> {''--'', ''--recursive'', ''--dir'', ''--force''})
              then [] else [arg])) args"
proof -
  have long: "starts_with ''--'' ''--''" "starts_with ''--'' ''--recursive''" "starts_with ''--'' ''--dir''"
    "starts_with ''--'' ''--force''" "starts_with ''-'' ''--''" "starts_with ''-'' ''--recursive''"
    "starts_with ''-'' ''--dir''" "starts_with ''-'' ''--force''"
    by code_simp+
  show ?thesis
  proof (cases "arg \<in> {''--'', ''--recursive'', ''--dir'', ''--force''}")
    case True
    then show ?thesis by (auto simp: long recursive_flag_def force_flag_def short_flag_def)
  next
    case False
    show ?thesis
    proof (cases "short_flag arg")
      case True
      then have "starts_with ''-'' arg \<and> \<not> starts_with ''--'' arg" by (simp add: short_flag_def)
      moreover have "list_ex (\<lambda>c. c = CHR ''r'' \<or> c = CHR ''R'') arg \<longleftrightarrow> CHR ''r'' \<in> set arg \<or> CHR ''R'' \<in> set arg"
        by (auto simp: list_ex_iff)
      ultimately show ?thesis using False True by (simp add: recursive_flag_def force_flag_def)
    next
      case not_short: False
      then have "\<not> (starts_with ''-'' arg \<and> \<not> starts_with ''--'' arg)" by (simp add: short_flag_def)
      then show ?thesis using False not_short by (cases "starts_with ''-'' arg") (simp_all add: recursive_flag_def force_flag_def)
    qed
  qed
qed

lemma rm_arguments_flags:
  "rm_arguments r f ts args = (r', f', ts') \<Longrightarrow>
     r' = (r \<or> list_ex recursive_flag args) \<and> f' = (f \<or> list_ex force_flag args) \<and>
     set ts \<subseteq> set ts' \<and> (\<forall>t \<in> set args. \<not> starts_with ''-'' t \<longrightarrow> t \<in> set ts')"
proof (induction args arbitrary: r f ts)
  case (Cons arg args)
  from Cons.IH [OF Cons.prems [unfolded rm_arguments_step]] show ?case by auto
qed simp

lemma rm_target_reason_Some: "t \<in> set ts \<Longrightarrow> forbidden_target t \<Longrightarrow> \<exists>r. rm_target_reason ts = Some r"
  by (induction ts) (auto simp: forbidden_target_def)

lemma segment_rm_dangerous:
  assumes "runs sh seg ''rm'' args" and "\<exists>a \<in> set args. recursive_flag a \<or> force_flag a"
    and "t \<in> set args" and "\<not> starts_with ''-'' t" and "forbidden_target t"
  shows "\<exists>a. segment_analysis sh seg = Some a \<and> sa_level a = Dangerous"
proof -
  obtain i where i: "primary_token_index (shell_words sh seg) = Some i"
    "i < length (shell_words sh seg)" "drop i (shell_words sh seg) = ''rm'' # args"
    using assms(1) by (auto simp: runs_def)
  then have "shell_words sh seg ! i = ''rm''" "drop (Suc i) (shell_words sh seg) = args"
    by (metis Cons_nth_drop_Suc list.inject)+
  note words = this
  obtain r f ts where rm: "rm_arguments False False [] args = (r, f, ts)" by (cases "rm_arguments False False [] args")
  from rm_arguments_flags [OF rm] assms(2-4) have "r \<or> f" "t \<in> set ts" by (auto simp: list_ex_iff)
  moreover obtain reason where "rm_target_reason ts = Some reason"
    using rm_target_reason_Some [OF \<open>t \<in> set ts\<close> assms(5)] by blast
  ultimately have "dangerous_rm_reason args = Some reason" using rm by (auto simp: dangerous_rm_reason_def)
  then show ?thesis using i(1) words by (simp add: segment_analysis_def Let_def dangerous_def)
qed

lemma segment_not_find:
  assumes "\<And>args. \<not> runs sh seg ''find'' args" and "segment_analysis sh seg = Some a"
    and "\<And>i. primary_token_index (shell_words sh seg) = Some i \<Longrightarrow> i < length (shell_words sh seg)"
  shows "sa_level a = Dangerous"
proof -
  obtain i where i: "primary_token_index (shell_words sh seg) = Some i"
    using assms(2) by (auto simp: segment_analysis_def Let_def split: option.splits)
  have "shell_words sh seg ! i \<noteq> ''find''"
    using assms(1) [of "drop (Suc i) (shell_words sh seg)"] i assms(3) [OF i]
    by (metis Cons_nth_drop_Suc runs_def)
  with assms(2) i show ?thesis
    by (auto simp: segment_analysis_def Let_def dangerous_def split: if_splits option.splits)
qed

lemma primary_from_bound: "primary_from idx b tokens = Some i \<Longrightarrow> idx \<le> i \<and> i < idx + length tokens"
  by (induction idx b tokens rule: primary_from.induct) (auto split: if_splits)

lemma primary_token_index_bound: "primary_token_index tokens = Some i \<Longrightarrow> i < length tokens"
  using primary_from_bound [of 0 False tokens i] by (simp add: primary_token_index_def)

lemma find_map_first:
  "(\<And>x y. x \<in> set before \<Longrightarrow> g x = Some y \<Longrightarrow> P y) \<Longrightarrow> g z = Some y \<Longrightarrow> P y \<Longrightarrow>
   \<exists>y. find_map g (before @ z # after) = Some y \<and> P y"
  by (induction before) (auto split: option.splits)

text \<open>
  C0. A destructive segment is refused. When a segment of a command runs \<^verbatim>\<open>rm\<close>, also behind \<^verbatim>\<open>env\<close>
  and variable assignments, with a recursive or force flag in any spelling and a target that is
  the root, below the home directory or goes through a parent directory, the analysis is
  \<^verbatim>\<open>Dangerous\<close>, whatever the other segments and arguments are, as long as no segment before it runs
  \<^verbatim>\<open>find\<close>.
\<close>

theorem destructive_segment_is_refused:
  assumes "split_command_segments command = before @ seg # after"
    and "runs sh seg ''rm'' args" and "\<exists>a \<in> set args. recursive_flag a \<or> force_flag a"
    and "t \<in> set args" and "\<not> starts_with ''-'' t" and "forbidden_target t"
    and "\<And>s fargs. s \<in> set before \<Longrightarrow> \<not> runs sh s ''find'' fargs"
  shows "sa_level (analyze_command sh command) = Dangerous"
proof -
  obtain a where a: "segment_analysis sh seg = Some a" "sa_level a = Dangerous"
    using segment_rm_dangerous [OF assms(2-6)] by blast
  have "\<exists>y. find_map (segment_analysis sh) (before @ seg # after) = Some y \<and> sa_level y = Dangerous"
    using find_map_first [of before "segment_analysis sh" "\<lambda>y. sa_level y = Dangerous", OF _ a]
      segment_not_find [OF assms(7) _ primary_token_index_bound] by blast
  then have "\<exists>y. analyze_destructive_patterns sh command = Some y \<and> sa_level y = Dangerous"
    by (auto simp: analyze_destructive_patterns_def assms(1) dangerous_def)
  then show ?thesis by (auto simp: analyze_command_def dangerous_def)
qed


text \<open>A splitter for the examples: words at white space.\<close>

definition ex_shell :: shell_text where
  "ex_shell = \<lparr>st_shlex = \<lambda>s. Some (split_whitespace s), st_lower = \<lambda>cp. cp\<rparr>"

lemma ex_shell_shrinks: "shlex_shrinks ex_shell"
  by (simp add: shlex_shrinks_def ex_shell_def split_whitespace_length)

theorem readonly_command_iff_witness:
  "is_parallel_readonly_command ex_shell ''git log -n 3'' \<and>
   (\<exists>words. runs_as ex_shell ''git log -n 3'' words \<and>
      (is_dse_readonly_invocation words \<or> classify_command words \<in> set PARALLEL_READONLY_PREFIXES))"
proof -
  have "is_parallel_readonly_command ex_shell ''git log -n 3''" by code_simp
  with readonly_command_iff [OF ex_shell_shrinks, of "''git log -n 3''"] show ?thesis by blast
qed

theorem destructive_segment_is_refused_witness:
  "sa_level (analyze_command ex_shell ''cd /tmp && env A=1 rm -v -Rf src ../x; ls'') = Dangerous"
proof (rule destructive_segment_is_refused)
  show "split_command_segments ''cd /tmp && env A=1 rm -v -Rf src ../x; ls'' =
      [''cd /tmp''] @ ''env A=1 rm -v -Rf src ../x'' # [''ls'']" by code_simp
  have "primary_token_index (shell_words ex_shell ''env A=1 rm -v -Rf src ../x'') = Some 2"
    "2 < length (shell_words ex_shell ''env A=1 rm -v -Rf src ../x'')"
    "drop 2 (shell_words ex_shell ''env A=1 rm -v -Rf src ../x'') = ''rm'' # [''-v'', ''-Rf'', ''src'', ''../x'']"
    by code_simp+
  then show "runs ex_shell ''env A=1 rm -v -Rf src ../x'' ''rm'' [''-v'', ''-Rf'', ''src'', ''../x'']"
    unfolding runs_def by blast
  have "recursive_flag ''-Rf''" by code_simp
  then show "\<exists>a \<in> set [''-v'', ''-Rf'', ''src'', ''../x'']. recursive_flag a \<or> force_flag a" by auto
  show "''../x'' \<in> set [''-v'', ''-Rf'', ''src'', ''../x'']" by simp
  show "\<not> starts_with ''-'' ''../x''" by code_simp
  show "forbidden_target ''../x''" by code_simp
  have "primary_token_index (shell_words ex_shell ''cd /tmp'') = Some 0"
    "drop 0 (shell_words ex_shell ''cd /tmp'') = [''cd'', ''/tmp'']" by code_simp+
  then show "\<not> runs ex_shell s ''find'' fargs" if "s \<in> set [''cd /tmp'']" for s fargs
    using that by (auto simp: runs_def)
qed

text \<open>
  C0. The order of the checks hides a deletion. The loop over the segments returns at the first
  finding, also when that is only a request for approval, so a \<^verbatim>\<open>find\<close> with \<^verbatim>\<open>-delete\<close> in front makes
  the deletion of the root an ordinary command; and the literal patterns are looked for after the
  test for chains, so the same deletion is dangerous alone and ordinary in a chain. Neither has
  critical impact then.
\<close>

theorem first_finding_hides_deletion:
  "sa_level (analyze_command ex_shell ''rm -rf /'') = Dangerous \<and>
   sa_level (analyze_command ex_shell ''find . -delete; rm -rf /'') = RequiresApproval \<and>
   \<not> command_is_high_impact ex_shell ''find . -delete; rm -rf /'' \<and>
   sa_level (analyze_command ex_shell ''rm -rf /etc'') = Dangerous \<and>
   sa_level (analyze_command ex_shell ''true; rm -rf /etc'') = RequiresApproval \<and>
   \<not> command_is_high_impact ex_shell ''true; rm -rf /etc''"
  by (intro conjI; code_simp)

section \<open>Commands that need no approval\<close>

lemma replace_from_absent: "\<not> contains_str p s \<Longrightarrow> replace_from 0 p r s = s"
  by (induction s) auto

lemma replace_str_absent: "\<not> contains_str p s \<Longrightarrow> replace_str p r s = s"
  by (simp add: replace_str_def replace_from_absent)

lemma contains_single: "contains_str [c] s \<longleftrightarrow> c \<in> set s"
  by (auto simp: contains_str_iff in_set_conv_decomp)

lemma split_on_absent: "(\<And>c. c \<in> set s \<Longrightarrow> \<not> P c) \<Longrightarrow> split_on P s = [s]"
  by (induction s) auto

lemma segment_analysis_level:
  "segment_analysis sh s = Some y \<Longrightarrow> sa_level y = Dangerous \<or> sa_level y = RequiresApproval"
  by (auto simp: segment_analysis_def analyze_find_mutation_def Let_def dangerous_def
      requires_approval_def split: option.splits if_splits)

lemma find_map_segment_level:
  "find_map (segment_analysis sh) ss = Some y \<Longrightarrow> sa_level y = Dangerous \<or> sa_level y = RequiresApproval"
  by (induction ss) (auto split: option.splits dest: segment_analysis_level)

lemma find_map_None: "find_map g xs = None \<Longrightarrow> x \<in> set xs \<Longrightarrow> g x = None"
  by (induction xs) (auto split: option.splits)

lemma destructive_level:
  "analyze_destructive_patterns sh command = Some y \<Longrightarrow> sa_level y = Dangerous \<or> sa_level y = RequiresApproval"
  using find_map_segment_level by (auto simp: analyze_destructive_patterns_def dangerous_def split: if_splits)

lemma level_simps [simp]:
  "sa_level (dangerous rs ss) = Dangerous" "sa_level (requires_approval rs) = RequiresApproval"
  "sa_level safe_analysis = Safe" "sa_level (workspace_safe r) = WorkspaceSafe"
  by (simp_all add: dangerous_def requires_approval_def safe_analysis_def workspace_safe_def)

definition unattended :: "shell_text \<Rightarrow> string \<Rightarrow> bool" where
  "unattended sh command \<longleftrightarrow>
     sa_level (analyze_command sh command) = Safe \<or> sa_level (analyze_command sh command) = WorkspaceSafe"

lemma unattended_cases:
  assumes "unattended sh command"
  shows "CHR 0x0A \<notin> set command" "CHR 0x0D \<notin> set command" "CHR 0x00 \<notin> set command"
    and "analyze_destructive_patterns sh command = None"
    and "\<not> contains_str ''&&'' command" "\<not> contains_str ''||'' command" "CHR '';'' \<notin> set command"
    and "CHR 0x60 \<notin> set command" "\<not> contains_str ''$('' command"
    and "find (\<lambda>(p, _). contains_str (to_lowercase sh p) (to_lowercase sh command)) DANGEROUS_PATTERNS = None"
    and "unattended sh command \<longleftrightarrow> sa_level (analyze_plain_command sh command) = Safe \<or>
      sa_level (analyze_plain_command sh command) = WorkspaceSafe"
proof -
  show ctl: "CHR 0x0A \<notin> set command" "CHR 0x0D \<notin> set command" "CHR 0x00 \<notin> set command"
    using assms by (auto simp: unattended_def analyze_command_def split: if_splits)
  show quiet: "analyze_destructive_patterns sh command = None"
    using assms ctl
    by (cases "analyze_destructive_patterns sh command")
       (auto simp: unattended_def analyze_command_def dest: destructive_level)
  show chain: "\<not> contains_str ''&&'' command" "\<not> contains_str ''||'' command" "CHR '';'' \<notin> set command"
    using assms ctl quiet by (auto simp: unattended_def analyze_command_def split: if_splits)
  show subst: "CHR 0x60 \<notin> set command" "\<not> contains_str ''$('' command"
    using assms ctl quiet chain by (auto simp: unattended_def analyze_command_def split: if_splits)
  show tables: "find (\<lambda>(p, _). contains_str (to_lowercase sh p) (to_lowercase sh command)) DANGEROUS_PATTERNS = None"
    using assms ctl quiet chain subst by (auto simp: unattended_def analyze_command_def split: option.splits)
  show "unattended sh command \<longleftrightarrow> sa_level (analyze_plain_command sh command) = Safe \<or>
      sa_level (analyze_plain_command sh command) = WorkspaceSafe"
    using ctl quiet chain subst tables by (simp add: unattended_def analyze_command_def)
qed

lemma plain_level_cases:
  assumes "sa_level (analyze_plain_command sh command) = Safe \<or> sa_level (analyze_plain_command sh command) = WorkspaceSafe"
  shows "find (privileged_by sh command) PRIVILEGED_PATTERNS = None"
    and "is_safe_command sh (trim command) \<or> is_workspace_safe_command sh (trim command)"
proof -
  show none: "find (privileged_by sh command) PRIVILEGED_PATTERNS = None"
    using assms by (auto simp: analyze_plain_command_def Let_def split: option.splits)
  show "is_safe_command sh (trim command) \<or> is_workspace_safe_command sh (trim command)"
    using assms none by (auto simp: analyze_plain_command_def Let_def split: if_splits)
qed

lemma single_segment:
  assumes "\<not> contains_str ''&&'' command" "\<not> contains_str ''||'' command" "CHR '';'' \<notin> set command"
    "CHR 0x0A \<notin> set command"
  shows "split_command_segments command = filter (\<lambda>s. s \<noteq> []) [trim command]"
proof -
  have "replace_str '';'' [CHR 0x0A] (replace_str ''||'' [CHR 0x0A] (replace_str ''&&'' [CHR 0x0A] command)) = command"
    using assms by (simp add: replace_str_absent contains_single)
  moreover have "split_on (\<lambda>c. c = CHR 0x0A) command = [command]"
    using assms(4) by (intro split_on_absent) auto
  ultimately show ?thesis by (simp add: split_command_segments_def)
qed

text \<open>
  C0. What runs without approval is one plain command. A command of level \<^verbatim>\<open>Safe\<close> or
  \<^verbatim>\<open>WorkspaceSafe\<close> has no line break, null byte, command separator or substitution, so it is one
  segment; that segment is no \<^verbatim>\<open>eval\<close>, no destructive \<^verbatim>\<open>rm\<close> and no deleting \<^verbatim>\<open>find\<close>; no pattern of
  the dangerous and of the privileged table occurs in it; and it begins with an entry of the
  table of its level or asks the program itself for its version or help.
\<close>

theorem unattended_command_is_plain:
  assumes "sa_level (analyze_command sh command) = Safe \<or> sa_level (analyze_command sh command) = WorkspaceSafe"
  shows "split_command_segments command = filter (\<lambda>s. s \<noteq> []) [trim command] \<and>
    set command \<inter> {CHR 0x0A, CHR 0x0D, CHR 0x00, CHR '';'', CHR 0x60} = {} \<and>
    \<not> contains_str ''&&'' command \<and> \<not> contains_str ''||'' command \<and> \<not> contains_str ''$('' command \<and>
    (\<forall>args. trim command \<noteq> [] \<longrightarrow> \<not> runs sh (trim command) ''eval'' args) \<and>
    (trim command \<noteq> [] \<longrightarrow> segment_analysis sh (trim command) = None) \<and>
    (\<forall>(p, _) \<in> set DANGEROUS_PATTERNS. \<not> contains_str (to_lowercase sh p) (to_lowercase sh command)) \<and>
    (\<forall>p \<in> set PRIVILEGED_PATTERNS. \<not> privileged_by sh command p) \<and>
    (is_safe_command sh (trim command) \<or> is_workspace_safe_command sh (trim command))"
proof -
  have un: "unattended sh command" using assms by (simp add: unattended_def)
  note c = unattended_cases [OF un]
  note p = plain_level_cases [OF c(11) [THEN iffD1, OF un]]
  have seg: "split_command_segments command = filter (\<lambda>s. s \<noteq> []) [trim command]"
    by (rule single_segment [OF c(5,6,7,1)])
  have "\<not> primary_shell_command_is sh command ''eval''"
    and "find_map (segment_analysis sh) (split_command_segments command) = None"
    using c(4) by (auto simp: analyze_destructive_patterns_def split: if_splits)
  then have "\<forall>args. trim command \<noteq> [] \<longrightarrow> \<not> runs sh (trim command) ''eval'' args"
    and "trim command \<noteq> [] \<longrightarrow> segment_analysis sh (trim command) = None"
    by (auto simp: seg primary_shell_command_is_def runs_def Let_def nth_via_drop split: option.splits)
  moreover have "\<forall>(p, _) \<in> set DANGEROUS_PATTERNS. \<not> contains_str (to_lowercase sh p) (to_lowercase sh command)"
    using c(10) by (auto simp: find_None_iff)
  moreover have "\<forall>p \<in> set PRIVILEGED_PATTERNS. \<not> privileged_by sh command p"
    using p(1) by (auto simp: find_None_iff)
  ultimately show ?thesis using seg c p(2) by blast
qed

theorem unattended_command_is_plain_witness:
  "sa_level (analyze_command ex_shell ''git status -s'') = Safe \<and>
   segment_analysis ex_shell ''git status -s'' = None \<and>
   is_safe_command ex_shell ''git status -s''"
proof -
  have safe: "sa_level (analyze_command ex_shell ''git status -s'') = Safe" by code_simp
  have trimmed: "trim ''git status -s'' = ''git status -s''" by code_simp
  have "\<not> is_workspace_safe_command ex_shell ''git status -s''" by code_simp
  with unattended_command_is_plain [of ex_shell "''git status -s''", unfolded trimmed] safe
  show ?thesis by blast
qed

text \<open>
  C0. The level for commands that only read is given to commands that write. The tables are
  compared with the beginning of the command, not with its words, so the entry \<^verbatim>\<open>tr\<close> covers
  \<^verbatim>\<open>truncate\<close>; a redirection, a pipe and a background separator are no separators; and the
  read-only shell accepts options that write a file.
\<close>

theorem read_only_level_admits_writes:
  "sa_level (analyze_command ex_shell ''truncate -s 0 data'') = Safe \<and>
   sa_level (analyze_command ex_shell ''cat a > b'') = Safe \<and>
   sa_level (analyze_command ex_shell ''ls & rm -r src'') = Safe \<and>
   is_parallel_readonly_command ex_shell ''git diff --output=src/main.rs''"
  by (intro conjI; code_simp)

end
