(* ===== verification/Browser_Request.thy ===== *)
theory Browser_Request
  imports Tool_Outcome Patch_Write
begin

text \<open>
  The typed requests of the semantic browser (crates/tools/src/semantic_browser.rs): the closed set
  of interactions with their arguments, read from the JSON input of the model, and the origin of a
  URL. \<^verbatim>\<open>Url::parse\<close> of crate \<^verbatim>\<open>url\<close> is a parameter; a parsed URL is the record of what its
  accessors return.
\<close>

section \<open>Failures and URLs\<close>

record browser_failure =
  bf_code :: string
  bf_stage :: string
  bf_message :: string
  bf_transport :: bool
  bf_retry :: tool_retry_disposition

definition browser_rejected :: "string \<Rightarrow> string \<Rightarrow> string \<Rightarrow> browser_failure" where
  "browser_rejected code stage message =
     \<lparr>bf_code = code, bf_stage = stage, bf_message = message, bf_transport = False,
      bf_retry = RetryAfterCorrection\<rparr>"

record url =
  url_text :: string
  url_scheme :: string
  url_username :: string
  url_password :: "string option"
  url_host :: "string option"
  url_port :: "nat option"
  url_known_port :: "nat option"

record origin =
  or_scheme :: string
  or_host :: string
  or_port :: nat

definition strip_brackets :: "string \<Rightarrow> string" where
  "strip_brackets host =
     (if starts_with ''['' host \<and> ends_with '']'' (tl host) then butlast (tl host) else host)"

definition trim_end_dots :: "string \<Rightarrow> string" where
  "trim_end_dots s = rev (dropWhile (\<lambda>c. c = CHR ''.'') (rev s))"

definition origin_from_url :: "url \<Rightarrow> browser_failure + origin" where
  "origin_from_url url =
     (if url_scheme url \<notin> set [''http'', ''https''] then
        Inl (browser_rejected ''browser_scheme_denied'' ''url''
          (''browser_navigate '' @ [CHR 0xE5, CHR 0x8F, CHR 0xAA, CHR 0xE5, CHR 0x85, CHR 0x81,
            CHR 0xE8, CHR 0xAE, CHR 0xB8] @ '' HTTP(S) URL'' @ [CHR 0xEF, CHR 0xBC, CHR 0x9B, CHR
            0xE6, CHR 0x94, CHR 0xB6, CHR 0xE5, CHR 0x88, CHR 0xB0] @ '' scheme='' @ url_scheme
            url))
      else if url_username url \<noteq> [] \<or> url_password url \<noteq> None then
        Inl (browser_rejected ''browser_userinfo_denied'' ''url''
          (''browser URL '' @ [CHR 0xE4, CHR 0xB8, CHR 0x8D, CHR 0xE5, CHR 0x85, CHR 0x81, CHR
            0xE8, CHR 0xAE, CHR 0xB8, CHR 0xE5, CHR 0x8C, CHR 0x85, CHR 0xE5, CHR 0x90, CHR 0xAB]
            @ '' userinfo'' @ [CHR 0xE3, CHR 0x80, CHR 0x81, CHR 0xE8, CHR 0xAE, CHR 0xA4, CHR
            0xE8, CHR 0xAF, CHR 0x81, CHR 0xE4, CHR 0xBF, CHR 0xA1, CHR 0xE6, CHR 0x81, CHR 0xAF,
            CHR 0xE6, CHR 0x88, CHR 0x96, CHR 0xE5, CHR 0xAF, CHR 0x86, CHR 0xE7, CHR 0xA0, CHR
            0x81]))
      else
        rbind (ok_or (url_host url)
                 (browser_rejected ''browser_url_host_missing'' ''url'' (''browser URL '' @ [CHR
                   0xE7, CHR 0xBC, CHR 0xBA, CHR 0xE5, CHR 0xB0, CHR 0x91, CHR 0xE4, CHR 0xB8, CHR
                   0xBB, CHR 0xE6, CHR 0x9C, CHR 0xBA, CHR 0xE5, CHR 0x90, CHR 0x8D])))
        (\<lambda>host.
           rbind (ok_or (url_known_port url)
                    (browser_rejected ''browser_port_missing'' ''url'' (''browser URL '' @ [CHR
                      0xE7, CHR 0xBC, CHR 0xBA, CHR 0xE5, CHR 0xB0, CHR 0x91, CHR 0xE6, CHR 0x9C,
                      CHR 0x89, CHR 0xE6, CHR 0x95, CHR 0x88, CHR 0xE7, CHR 0xAB, CHR 0xAF, CHR
                      0xE5, CHR 0x8F, CHR 0xA3])))
           (\<lambda>port.
              Inr \<lparr>or_scheme = url_scheme url,
                   or_host = to_ascii_lowercase (trim_end_dots (strip_brackets host)),
                   or_port = port\<rparr>)))"

definition origin_canonical :: "origin \<Rightarrow> string" where
  "origin_canonical origin =
     (let host = (if CHR '':'' \<in> set (or_host origin) then ''['' @ or_host origin @ '']'' else
       or_host origin);
          text = or_scheme origin @ ''://'' @ host
      in if or_scheme origin = ''http'' \<and> or_port origin = 80
            \<or> or_scheme origin = ''https'' \<and> or_port origin = 443
         then text else text @ '':'' @ decimal (or_port origin))"

section \<open>Requests\<close>

datatype browser_key = KeyEnter | KeyEscape | KeyTab | KeyArrowUp | KeyArrowDown | KeySpace

datatype browser_wait_condition = DocumentReady | TextPresent | TextAbsent | UrlEquals

datatype browser_scroll_direction = ScrollUp | ScrollDown

datatype browser_interact_request =
    Click string
  | Fill string string
  | Press string browser_key
  | Wait browser_wait_condition "string option" nat
  | Scroll string browser_scroll_direction nat
  | SelectOption string string
  | Back
  | TabOpen url
  | TabSwitch string
  | TabClose string
  | Submit string
  | Login string string
  | Upload string string
  | Download string
  | PromoteDownload string string
  | SessionStatus
  | SessionClear

definition MAX_ELEMENT_REF_CHARS :: nat where "MAX_ELEMENT_REF_CHARS = 40"
definition MAX_FILL_VALUE_CHARS :: nat where "MAX_FILL_VALUE_CHARS = 1024"
definition MAX_FILL_VALUE_BYTES :: nat where "MAX_FILL_VALUE_BYTES = 4096"
definition MAX_INTERACTION_VALUE_CHARS :: nat where "MAX_INTERACTION_VALUE_CHARS = 2048"
definition MAX_WAIT_MILLIS :: nat where "MAX_WAIT_MILLIS = 10000"
definition DEFAULT_WAIT_MILLIS :: nat where "DEFAULT_WAIT_MILLIS = 3000"
definition MAX_SCROLL_AMOUNT :: nat where "MAX_SCROLL_AMOUNT = 2000"
definition MAX_CREDENTIAL_REF_CHARS :: nat where "MAX_CREDENTIAL_REF_CHARS = 128"

text \<open>\<^verbatim>\<open>required_str\<close> with its error as a browser failure\<close>

definition required_arg :: "json \<Rightarrow> string \<Rightarrow> string \<Rightarrow> browser_failure + string" where
  "required_arg input code field =
     map_err (\<lambda>e. browser_rejected code field (tool_error_display e)) (required_str input field)"

definition char_count :: "string \<Rightarrow> nat" where
  "char_count s = length (utf8_chars s)"

text \<open>The control characters: C0, DEL and C1.\<close>

definition is_control :: "string \<Rightarrow> bool" where
  "is_control cp =
     (case cp of
        [a] \<Rightarrow> byte a < 32 \<or> byte a = 127
      | [a, b] \<Rightarrow> byte a = 0xC2 \<and> between 0x80 0x9F b
      | _ \<Rightarrow> False)"

definition opaque_hex :: "string \<Rightarrow> string \<Rightarrow> bool" where
  "opaque_hex tag s \<longleftrightarrow> starts_with tag s \<and> list_all is_ascii_hexdigit (drop (length tag) s)"

definition parse_element_ref :: "json \<Rightarrow> browser_failure + string" where
  "parse_element_ref input =
     rbind (required_arg input ''browser_element_ref_missing'' ''element_ref'')
     (\<lambda>element_ref.
        if trim element_ref \<noteq> element_ref \<or> element_ref = []
           \<or> char_count element_ref > MAX_ELEMENT_REF_CHARS \<or> \<not> opaque_hex ''eref_'' element_ref
        then Inl (browser_rejected ''browser_element_ref_invalid'' ''element_ref''
               (''element_ref '' @ [CHR 0xE5, CHR 0xBF, CHR 0x85, CHR 0xE9, CHR 0xA1, CHR 0xBB,
                 CHR 0xE6, CHR 0x98, CHR 0xAF] @ '' Host '' @ [CHR 0xE8, CHR 0xBF, CHR 0x94, CHR
                 0xE5, CHR 0x9B, CHR 0x9E, CHR 0xE7, CHR 0x9A, CHR 0x84, CHR 0xE6, CHR 0x9C, CHR
                 0x89, CHR 0xE7, CHR 0x95, CHR 0x8C] @ '' opaque ref''))
        else Inr element_ref)"

definition parse_page_ref :: "json \<Rightarrow> browser_failure + string" where
  "parse_page_ref input =
     rbind (required_arg input ''browser_page_ref_missing'' ''page_ref'')
     (\<lambda>page_ref.
        if length page_ref \<noteq> 37 \<or> \<not> opaque_hex ''page_'' page_ref
        then Inl (browser_rejected ''browser_page_ref_invalid'' ''page_ref''
               (''page_ref '' @ [CHR 0xE5, CHR 0xBF, CHR 0x85, CHR 0xE9, CHR 0xA1, CHR 0xBB, CHR
                 0xE6, CHR 0x98, CHR 0xAF] @ '' Host '' @ [CHR 0xE8, CHR 0xBF, CHR 0x94, CHR 0xE5,
                 CHR 0x9B, CHR 0x9E, CHR 0xE7, CHR 0x9A, CHR 0x84] @ '' opaque page ref''))
        else Inr page_ref)"

definition parse_fill_request :: "json \<Rightarrow> browser_failure + browser_interact_request" where
  "parse_fill_request input =
     rbind (parse_element_ref input)
     (\<lambda>element_ref.
        rbind (required_arg input ''browser_fill_value_missing'' ''value'')
        (\<lambda>val.
           if char_count val = 0 \<or> char_count val > MAX_FILL_VALUE_CHARS
              \<or> length val > MAX_FILL_VALUE_BYTES
           then Inl (browser_rejected ''browser_fill_value_invalid'' ''value''
                  (''value '' @ [CHR 0xE5, CHR 0xBF, CHR 0x85, CHR 0xE9, CHR 0xA1, CHR 0xBB, CHR
                    0xE9, CHR 0x9D, CHR 0x9E, CHR 0xE7, CHR 0xA9, CHR 0xBA, CHR 0xE4, CHR 0xB8,
                    CHR 0x94, CHR 0xE4, CHR 0xB8, CHR 0x8D, CHR 0xE8, CHR 0xB6, CHR 0x85, CHR
                    0xE8, CHR 0xBF, CHR 0x87] @ '' '' @ decimal MAX_FILL_VALUE_CHARS @ '' '' @
                    [CHR 0xE5, CHR 0xAD, CHR 0x97, CHR 0xE7, CHR 0xAC, CHR 0xA6] @ ''/'' @
                   decimal MAX_FILL_VALUE_BYTES @ '' UTF-8 '' @ [CHR 0xE5, CHR 0xAD, CHR 0x97, CHR
                     0xE8, CHR 0x8A, CHR 0x82]))
           else if list_ex is_control (utf8_chars val)
           then Inl (browser_rejected ''browser_fill_value_control_denied'' ''value''
                  (''value '' @ [CHR 0xE4, CHR 0xB8, CHR 0x8D, CHR 0xE5, CHR 0x85, CHR 0x81, CHR
                    0xE8, CHR 0xAE, CHR 0xB8] @ '' NUL'' @ [CHR 0xE3, CHR 0x80, CHR 0x81] @
                    ''C0/C1'' @ [CHR 0xE3, CHR 0x80, CHR 0x81] @ ''DEL '' @ [CHR 0xE6, CHR 0x88,
                    CHR 0x96, CHR 0xE6, CHR 0x8D, CHR 0xA2, CHR 0xE8, CHR 0xA1, CHR 0x8C, CHR
                    0xE6, CHR 0x8E, CHR 0xA7, CHR 0xE5, CHR 0x88, CHR 0xB6, CHR 0xE5, CHR 0xAD,
                    CHR 0x97, CHR 0xE7, CHR 0xAC, CHR 0xA6]))
           else Inr (Fill element_ref val)))"

definition parse_interaction_value :: "json \<Rightarrow> string \<Rightarrow> browser_failure + string" where
  "parse_interaction_value input code =
     rbind (required_arg input code ''value'')
     (\<lambda>val.
        if val = [] \<or> char_count val > MAX_INTERACTION_VALUE_CHARS \<or> list_ex is_control (utf8_chars val)
        then Inl (browser_rejected code ''value''
               (''value '' @ [CHR 0xE5, CHR 0xBF, CHR 0x85, CHR 0xE9, CHR 0xA1, CHR 0xBB, CHR
                 0xE9, CHR 0x9D, CHR 0x9E, CHR 0xE7, CHR 0xA9, CHR 0xBA, CHR 0xE3, CHR 0x80, CHR
                 0x81, CHR 0xE4, CHR 0xB8, CHR 0x8D, CHR 0xE5, CHR 0x90, CHR 0xAB, CHR 0xE6, CHR
                 0x8E, CHR 0xA7, CHR 0xE5, CHR 0x88, CHR 0xB6, CHR 0xE5, CHR 0xAD, CHR 0x97, CHR
                 0xE7, CHR 0xAC, CHR 0xA6, CHR 0xE4, CHR 0xB8, CHR 0x94, CHR 0xE4, CHR 0xB8, CHR
                 0x8D, CHR 0xE8, CHR 0xB6, CHR 0x85, CHR 0xE8, CHR 0xBF, CHR 0x87] @ '' '' @
                 decimal MAX_INTERACTION_VALUE_CHARS @ '' '' @ [CHR 0xE5, CHR 0xAD, CHR 0x97, CHR
                 0xE7, CHR 0xAC, CHR 0xA6]))
        else Inr val)"

definition parse_workspace_path :: "json \<Rightarrow> browser_failure + string" where
  "parse_workspace_path input =
     rbind (required_arg input ''browser_workspace_path_missing'' ''workspace_path'')
     (\<lambda>p.
        if p = [] \<or> char_count p > 1024 \<or> list_ex is_control (utf8_chars p)
           \<or> is_absolute (components p) \<or> list_ex (\<lambda>c. c = ParentDir \<or> c = RootDir) (components p)
        then Inl (browser_rejected ''browser_workspace_path_invalid'' ''workspace_path''
               (''workspace_path '' @ [CHR 0xE5, CHR 0xBF, CHR 0x85, CHR 0xE9, CHR 0xA1, CHR 0xBB,
                 CHR 0xE6, CHR 0x98, CHR 0xAF, CHR 0xE9, CHR 0x9D, CHR 0x9E, CHR 0xE7, CHR 0xA9,
                 CHR 0xBA, CHR 0xE3, CHR 0x80, CHR 0x81, CHR 0xE6, CHR 0x9C, CHR 0x89, CHR 0xE7,
                 CHR 0x95, CHR 0x8C, CHR 0xE3, CHR 0x80, CHR 0x81, CHR 0xE6, CHR 0x97, CHR 0xA0,
                 CHR 0xE6, CHR 0x8E, CHR 0xA7, CHR 0xE5, CHR 0x88, CHR 0xB6, CHR 0xE5, CHR 0xAD,
                 CHR 0x97, CHR 0xE7, CHR 0xAC, CHR 0xA6, CHR 0xE7, CHR 0x9A, CHR 0x84] @
                 '' workspace '' @ [CHR 0xE7, CHR 0x9B, CHR 0xB8, CHR 0xE5, CHR 0xAF, CHR 0xB9,
                 CHR 0xE8, CHR 0xB7, CHR 0xAF, CHR 0xE5, CHR 0xBE, CHR 0x84]))
        else Inr p)"

definition parse_key :: "json \<Rightarrow> browser_failure + browser_key" where
  "parse_key input =
     rbind (required_arg input ''browser_key_missing'' ''key'')
     (\<lambda>key.
        ok_or (map_of [(''enter'', KeyEnter), (''escape'', KeyEscape), (''tab'', KeyTab),
                       (''arrow_up'', KeyArrowUp), (''arrow_down'', KeyArrowDown), (''space'', KeySpace)] key)
          (browser_rejected ''browser_key_denied'' ''key''
             (''key '' @ [CHR 0xE5, CHR 0xBF, CHR 0x85, CHR 0xE9, CHR 0xA1, CHR 0xBB, CHR 0xE6,
               CHR 0x98, CHR 0xAF] @ '' enter/escape/tab/arrow_up/arrow_down/space'')))"

definition parse_wait_request :: "json \<Rightarrow> browser_failure + browser_interact_request" where
  "parse_wait_request input =
     rbind (required_arg input ''browser_wait_condition_missing'' ''condition'')
     (\<lambda>name.
        rbind (ok_or (map_of [(''document_ready'', DocumentReady), (''text_present'', TextPresent),
                              (''text_absent'', TextAbsent), (''url_equals'', UrlEquals)] name)
                 (browser_rejected ''browser_wait_condition_denied'' ''condition''
                    (''condition '' @ [CHR 0xE5, CHR 0xBF, CHR 0x85, CHR 0xE9, CHR 0xA1, CHR 0xBB,
                      CHR 0xE6, CHR 0x98, CHR 0xAF] @
                      '' document_ready/text_present/text_absent/url_equals'')))
        (\<lambda>condition.
           let val = optional_str input ''value'';
               timeout_ms = optional_u64 input ''timeout_ms'' DEFAULT_WAIT_MILLIS
           in if condition = DocumentReady \<and> val \<noteq> None then
                Inl (browser_rejected ''browser_wait_value_unexpected'' ''value''
                  (''document_ready '' @ [CHR 0xE4, CHR 0xB8, CHR 0x8D, CHR 0xE6, CHR 0x8E, CHR
                    0xA5, CHR 0xE5, CHR 0x8F, CHR 0x97] @ '' value''))
              else if condition \<noteq> DocumentReady \<and> (val = None \<or> val = Some []) then
                Inl (browser_rejected ''browser_wait_value_missing'' ''value''
                  ([CHR 0xE8, CHR 0xAF, CHR 0xA5] @ '' wait condition '' @ [CHR 0xE9, CHR 0x9C,
                    CHR 0x80, CHR 0xE8, CHR 0xA6, CHR 0x81, CHR 0xE9, CHR 0x9D, CHR 0x9E, CHR
                    0xE7, CHR 0xA9, CHR 0xBA] @ '' value''))
              else if (case val of None \<Rightarrow> False | Some v \<Rightarrow> char_count v > MAX_INTERACTION_VALUE_CHARS) then
                Inl (browser_rejected ''browser_wait_value_too_large'' ''value''
                  (''wait value '' @ [CHR 0xE4, CHR 0xB8, CHR 0x8D, CHR 0xE5, CHR 0xBE, CHR 0x97,
                    CHR 0xE8, CHR 0xB6, CHR 0x85, CHR 0xE8, CHR 0xBF, CHR 0x87] @ '' '' @ decimal
                    MAX_INTERACTION_VALUE_CHARS @ '' '' @ [CHR 0xE5, CHR 0xAD, CHR 0x97, CHR 0xE7,
                    CHR 0xAC, CHR 0xA6]))
              else if timeout_ms = 0 \<or> timeout_ms > MAX_WAIT_MILLIS then
                Inl (browser_rejected ''browser_wait_timeout_invalid'' ''timeout_ms''
                  (''timeout_ms '' @ [CHR 0xE5, CHR 0xBF, CHR 0x85, CHR 0xE9, CHR 0xA1, CHR 0xBB,
                    CHR 0xE4, CHR 0xB8, CHR 0xBA] @ '' 1..='' @ decimal MAX_WAIT_MILLIS))
              else Inr (Wait condition val timeout_ms)))"

definition parse_scroll_request :: "json \<Rightarrow> browser_failure + browser_interact_request" where
  "parse_scroll_request input =
     rbind (required_arg input ''browser_scroll_direction_missing'' ''direction'')
     (\<lambda>name.
        rbind (ok_or (map_of [(''up'', ScrollUp), (''down'', ScrollDown)] name)
                 (browser_rejected ''browser_scroll_direction_denied'' ''direction''
                    (''direction '' @ [CHR 0xE5, CHR 0xBF, CHR 0x85, CHR 0xE9, CHR 0xA1, CHR 0xBB,
                      CHR 0xE6, CHR 0x98, CHR 0xAF] @ '' up/down'')))
        (\<lambda>direction.
           let amount = optional_u64 input ''amount'' 600
           in if amount = 0 \<or> amount > MAX_SCROLL_AMOUNT then
                Inl (browser_rejected ''browser_scroll_amount_invalid'' ''amount''
                  (''amount '' @ [CHR 0xE5, CHR 0xBF, CHR 0x85, CHR 0xE9, CHR 0xA1, CHR 0xBB, CHR
                    0xE4, CHR 0xB8, CHR 0xBA] @ '' 1..='' @ decimal MAX_SCROLL_AMOUNT))
              else rbind (parse_element_ref input)
                     (\<lambda>element_ref. Inr (Scroll element_ref direction amount))))"

definition parse_tab_open :: "(string \<Rightarrow> string + url) \<Rightarrow> json \<Rightarrow> browser_failure + browser_interact_request" where
  "parse_tab_open parse_url input =
     rbind (required_arg input ''browser_tab_url_missing'' ''url'')
     (\<lambda>raw.
        rbind (map_err (\<lambda>e. browser_rejected ''browser_tab_url_invalid'' ''url''
                 (''tab URL '' @ [CHR 0xE8, CHR 0xA7, CHR 0xA3, CHR 0xE6, CHR 0x9E, CHR 0x90, CHR
                   0xE5, CHR 0xA4, CHR 0xB1, CHR 0xE8, CHR 0xB4, CHR 0xA5, CHR 0xEF, CHR 0xBC, CHR
                   0x9A] @ e)) (parse_url raw))
        (\<lambda>url. rbind (origin_from_url url) (\<lambda>_. Inr (TabOpen url))))"

definition parse_login_request :: "json \<Rightarrow> browser_failure + browser_interact_request" where
  "parse_login_request input =
     rbind (required_arg input ''browser_credential_ref_missing'' ''credential_ref'')
     (\<lambda>credential_ref.
        if credential_ref = [] \<or> char_count credential_ref > MAX_CREDENTIAL_REF_CHARS
           \<or> \<not> list_all (\<lambda>c. is_ascii_alphanumeric c \<or> c \<in> set ''-_'') credential_ref
        then Inl (browser_rejected ''browser_credential_ref_invalid'' ''credential_ref''
               (''credential_ref '' @ [CHR 0xE4, CHR 0xB8, CHR 0x8D, CHR 0xE6, CHR 0x98, CHR 0xAF]
                 @ '' Host '' @ [CHR 0xE6, CHR 0x94, CHR 0xAF, CHR 0xE6, CHR 0x8C, CHR 0x81, CHR
                 0xE7, CHR 0x9A, CHR 0x84, CHR 0xE6, CHR 0x9C, CHR 0x89, CHR 0xE7, CHR 0x95, CHR
                 0x8C] @ '' opaque label''))
        else rbind (parse_element_ref input) (\<lambda>element_ref. Inr (Login element_ref credential_ref)))"

definition parse_promote_request :: "json \<Rightarrow> browser_failure + browser_interact_request" where
  "parse_promote_request input =
     rbind (required_arg input ''browser_download_ref_missing'' ''download_ref'')
     (\<lambda>download_ref.
        if length download_ref \<noteq> 37 \<or> \<not> opaque_hex ''dref_'' download_ref
        then Inl (browser_rejected ''browser_download_ref_invalid'' ''download_ref''
               (''download_ref '' @ [CHR 0xE4, CHR 0xB8, CHR 0x8D, CHR 0xE6, CHR 0x98, CHR 0xAF] @
                 '' Host '' @ [CHR 0xE7, CHR 0x94, CHR 0x9F, CHR 0xE6, CHR 0x88, CHR 0x90, CHR
                 0xE7, CHR 0x9A, CHR 0x84] @ '' opaque download identity''))
        else rbind (parse_workspace_path input)
               (\<lambda>workspace_path. Inr (PromoteDownload download_ref workspace_path)))"

text \<open>The actions with the fields each of them allows and its parser, in the order of the source.\<close>

definition interact_actions ::
  "(string \<Rightarrow> string + url) \<Rightarrow> json \<Rightarrow>
     (string \<times> string list \<times> (browser_failure + browser_interact_request)) list" where
  "interact_actions parse_url input =
     (let element = (\<lambda>f. rbind (parse_element_ref input) (\<lambda>r. Inr (f r)));
          page = (\<lambda>f. rbind (parse_page_ref input) (\<lambda>r. Inr (f r)))
      in [(''click'', [''action'', ''element_ref''], element Click),
          (''fill'', [''action'', ''element_ref'', ''value''], parse_fill_request input),
          (''press'', [''action'', ''element_ref'', ''key''],
             rbind (parse_key input) (\<lambda>key. element (\<lambda>r. Press r key))),
          (''wait'', [''action'', ''condition'', ''value'', ''timeout_ms''], parse_wait_request input),
          (''scroll'', [''action'', ''element_ref'', ''direction'', ''amount''], parse_scroll_request input),
          (''select'', [''action'', ''element_ref'', ''value''],
             rbind (parse_interaction_value input ''browser_select_value_invalid'')
               (\<lambda>v. element (\<lambda>r. SelectOption r v))),
          (''back'', [''action''], Inr Back),
          (''tab_open'', [''action'', ''url''], parse_tab_open parse_url input),
          (''tab_switch'', [''action'', ''page_ref''], page TabSwitch),
          (''tab_close'', [''action'', ''page_ref''], page TabClose),
          (''submit'', [''action'', ''element_ref''], element Submit),
          (''login'', [''action'', ''element_ref'', ''credential_ref''], parse_login_request input),
          (''upload'', [''action'', ''element_ref'', ''workspace_path''],
             rbind (parse_element_ref input)
               (\<lambda>r. rbind (parse_workspace_path input) (\<lambda>p. Inr (Upload r p)))),
          (''download'', [''action'', ''element_ref''], element Download),
          (''promote_download'', [''action'', ''download_ref'', ''workspace_path''],
             parse_promote_request input),
          (''session_status'', [''action''], Inr SessionStatus),
          (''session_clear'', [''action''], Inr SessionClear)])"

definition only_fields :: "json \<Rightarrow> string list \<Rightarrow> bool" where
  "only_fields input names =
     (case as_object input of None \<Rightarrow> False | Some kvs \<Rightarrow> list_all (\<lambda>(k, _). k \<in> set names) kvs)"

definition parse_interact_request ::
  "(string \<Rightarrow> string + url) \<Rightarrow> json \<Rightarrow> browser_failure + browser_interact_request" where
  "parse_interact_request parse_url input =
     rbind (required_arg input ''browser_action_missing'' ''action'')
     (\<lambda>action.
        case map_of (interact_actions parse_url input) action of
          Some (names, request) \<Rightarrow>
            if only_fields input names then request
            else Inl (browser_rejected ''browser_action_arguments_invalid'' ''arguments''
                   (''action '' @ action @ '' '' @ [CHR 0xE7, CHR 0x9A, CHR 0x84, CHR 0xE5, CHR
                     0x8F, CHR 0x82, CHR 0xE6, CHR 0x95, CHR 0xB0, CHR 0xE9, CHR 0x9B, CHR 0x86,
                     CHR 0xE5, CHR 0x90, CHR 0x88, CHR 0xE4, CHR 0xB8, CHR 0x8D, CHR 0xE7, CHR
                     0xB2, CHR 0xBE, CHR 0xE7, CHR 0xA1, CHR 0xAE]))
        | None \<Rightarrow>
            Inl (browser_rejected ''browser_action_denied'' ''action''
              (''action '' @ [CHR 0xE4, CHR 0xB8, CHR 0x8D, CHR 0xE5, CHR 0x9C, CHR 0xA8] @
                '' Host '' @ [CHR 0xE5, CHR 0x9B, CHR 0xBA, CHR 0xE5, CHR 0xAE, CHR 0x9A] @
                '' semantic interaction '' @ [CHR 0xE9, CHR 0x9B, CHR 0x86, CHR 0xE5, CHR 0x90,
                CHR 0x88, CHR 0xE4, CHR 0xB8, CHR 0xAD])))"

definition parse_browser_interact_for_authorization ::
  "(string \<Rightarrow> string + url) \<Rightarrow> json \<Rightarrow> string + browser_interact_request" where
  "parse_browser_interact_for_authorization parse_url input =
     map_err bf_message (parse_interact_request parse_url input)"

end
