(* ===== verification/Tool_Authorization.thy ===== *)
theory Tool_Authorization
  imports Interaction Command_Safety Production_Context Browser_Request
begin

text \<open>
  The authority of the fixed tool catalog (crates/tools/src/production.rs): the executor built from
  its configuration, the decision on one tool call, and the conversion of what a tool returns or
  fails with into an outcome. The admission of a shell command and the guess whether it needs the
  network are in crates/tools/src/shell/exec_shell.rs, the sandbox policies in sandbox/policy.rs.

  \<open>tool_host\<close> names what is called elsewhere: the words of a shell command, the file tree, \<^verbatim>\<open>Url::parse\<close>,
  the preview of the browser session (a trait object), and the digest of the verifier the executor
  resolves for a call. Fields of the configuration that no operation here reads are left out.
\<close>

section \<open>Texts\<close>

definition txt_shell_disabled :: string where
  "txt_shell_disabled =
     [CHR 0xE5, CHR 0xBD, CHR 0x93, CHR 0xE5, CHR 0x89, CHR 0x8D, CHR 0xE6, CHR 0x9D, CHR 0x83,
       CHR 0xE9, CHR 0x99, CHR 0x90, CHR 0xE9, CHR 0x85, CHR 0x8D, CHR 0xE7, CHR 0xBD, CHR 0xAE,
       CHR 0xE5, CHR 0xB7, CHR 0xB2, CHR 0xE7, CHR 0xA6, CHR 0x81, CHR 0xE7, CHR 0x94, CHR 0xA8] @
       '' Shell '' @ [CHR 0xE5, CHR 0xB7, CHR 0xA5, CHR 0xE5, CHR 0x85, CHR 0xB7, CHR 0xE3, CHR
       0x80, CHR 0x82]"

definition txt_shell_read_only :: string where
  "txt_shell_read_only =
     [CHR 0xE5, CHR 0x8F, CHR 0xAA, CHR 0xE8, CHR 0xAF, CHR 0xBB] @ '' Shell '' @ [CHR 0xE7, CHR
       0xAD, CHR 0x96, CHR 0xE7, CHR 0x95, CHR 0xA5, CHR 0xE5, CHR 0xB7, CHR 0xB2, CHR 0xE9, CHR
       0x98, CHR 0xBB, CHR 0xE6, CHR 0xAD, CHR 0xA2, CHR 0xE8, CHR 0xAF, CHR 0xA5, CHR 0xE5, CHR
       0x91, CHR 0xBD, CHR 0xE4, CHR 0xBB, CHR 0xA4, CHR 0xE3, CHR 0x80, CHR 0x82, CHR 0xE8, CHR
       0xAF, CHR 0xB7, CHR 0xE6, CHR 0x94, CHR 0xB9, CHR 0xE7, CHR 0x94, CHR 0xA8, CHR 0xE9, CHR
       0x9D, CHR 0x9E, CHR 0xE4, CHR 0xBF, CHR 0xAE, CHR 0xE6, CHR 0x94, CHR 0xB9, CHR 0xE5, CHR
       0x9E, CHR 0x8B, CHR 0xE6, CHR 0xA3, CHR 0x80, CHR 0xE6, CHR 0x9F, CHR 0xA5, CHR 0xE5, CHR
       0x91, CHR 0xBD, CHR 0xE4, CHR 0xBB, CHR 0xA4, CHR 0xEF, CHR 0xBC, CHR 0x8C, CHR 0xE6, CHR
       0x88, CHR 0x96, CHR 0xE5, CHR 0x88, CHR 0x87, CHR 0xE6, CHR 0x8D, CHR 0xA2, CHR 0xE5, CHR
       0x88, CHR 0xB0, CHR 0xE5, CHR 0x8F, CHR 0xAF, CHR 0xE5, CHR 0x86, CHR 0x99, CHR 0xE6, CHR
       0xA8, CHR 0xA1, CHR 0xE5, CHR 0xBC, CHR 0x8F, CHR 0xE5, CHR 0x90, CHR 0x8E, CHR 0xE9, CHR
       0x87, CHR 0x8D, CHR 0xE8, CHR 0xAF, CHR 0x95, CHR 0xE3, CHR 0x80, CHR 0x82]"

definition txt_policy_denied :: string where
  "txt_policy_denied =
     [CHR 0xE6, CHR 0x89, CHR 0xA7, CHR 0xE8, CHR 0xA1, CHR 0x8C, CHR 0xE7, CHR 0xAD, CHR 0x96, CHR 0xE7, CHR 0x95, CHR 0xA5, CHR 0xE6, CHR 0x8B, CHR 0x92, CHR 0xE7, CHR 0xBB, CHR 0x9D, CHR 0xE8, CHR 0xAF, CHR 0xA5, CHR 0xE5, CHR 0x91, CHR 0xBD, CHR 0xE4, CHR 0xBB, CHR 0xA4, CHR 0xEF, CHR 0xBC, CHR 0x9A]"

definition txt_unsafe_command :: string where
  "txt_unsafe_command =
     [CHR 0xE5, CHR 0x91, CHR 0xBD, CHR 0xE4, CHR 0xBB, CHR 0xA4, CHR 0xE8, CHR 0xA2, CHR 0xAB, CHR 0xE5, CHR 0x86, CHR 0x85, CHR 0xE5, CHR 0xBB, CHR 0xBA, CHR 0xE5, CHR 0xAE, CHR 0x89, CHR 0xE5, CHR 0x85, CHR 0xA8, CHR 0xE6, CHR 0xA3, CHR 0x80, CHR 0xE6, CHR 0x9F, CHR 0xA5, CHR 0xE6, CHR 0x8B, CHR 0x92, CHR 0xE7, CHR 0xBB, CHR 0x9D, CHR 0xE3, CHR 0x80, CHR 0x82, CHR 0xE5, CHR 0x8E, CHR 0x9F, CHR 0xE5, CHR 0x9B, CHR 0xA0, CHR 0xEF, CHR 0xBC, CHR 0x9A]"

definition txt_suggestions :: string where
  "txt_suggestions =
     [CHR 0xE5, CHR 0xBB, CHR 0xBA, CHR 0xE8, CHR 0xAE, CHR 0xAE, CHR 0xEF, CHR 0xBC, CHR 0x9A]"

definition txt_approval_needed :: string where
  "txt_approval_needed =
     ''Host '' @ [CHR 0xE5, CHR 0xB7, CHR 0xA5, CHR 0xE5, CHR 0x85, CHR 0xB7, CHR 0xE5, CHR 0x88,
       CHR 0x86, CHR 0xE7, CHR 0xB1, CHR 0xBB, CHR 0xE8, CHR 0xA6, CHR 0x81, CHR 0xE6, CHR 0xB1,
       CHR 0x82, CHR 0xE6, CHR 0x9C, CHR 0xAC, CHR 0xE6, CHR 0xAC, CHR 0xA1, CHR 0xE8, CHR 0xB0,
       CHR 0x83, CHR 0xE7, CHR 0x94, CHR 0xA8, CHR 0xE8, CHR 0x8E, CHR 0xB7, CHR 0xE5, CHR 0xBE,
       CHR 0x97, CHR 0xE6, CHR 0x98, CHR 0x8E, CHR 0xE7, CHR 0xA1, CHR 0xAE, CHR 0xE6, CHR 0x89,
       CHR 0xB9, CHR 0xE5, CHR 0x87, CHR 0x86]"

definition txt_confirm_command :: string where
  "txt_confirm_command =
     [CHR 0xE7, CHR 0xA1, CHR 0xAE, CHR 0xE8, CHR 0xAE, CHR 0xA4, CHR 0xE6, CHR 0x89, CHR 0xA7, CHR 0xE8, CHR 0xA1, CHR 0x8C, CHR 0xE9, CHR 0xAB, CHR 0x98, CHR 0xE9, CHR 0xA3, CHR 0x8E, CHR 0xE9, CHR 0x99, CHR 0xA9, CHR 0xE5, CHR 0x91, CHR 0xBD, CHR 0xE4, CHR 0xBB, CHR 0xA4]"

definition txt_approval_scope :: string where
  "txt_approval_scope =
     [CHR 0xE6, CHR 0x89, CHR 0xB9, CHR 0xE5, CHR 0x87, CHR 0x86, CHR 0xE4, CHR 0xBB, CHR 0x85,
       CHR 0xE7, CHR 0xBB, CHR 0x91, CHR 0xE5, CHR 0xAE, CHR 0x9A, CHR 0xE6, CHR 0x9C, CHR 0xAC,
       CHR 0xE6, CHR 0xAC, CHR 0xA1, CHR 0xE5, CHR 0x91, CHR 0xBD, CHR 0xE4, CHR 0xBB, CHR 0xA4,
       CHR 0xE5, CHR 0x8F, CHR 0x82, CHR 0xE6, CHR 0x95, CHR 0xB0, CHR 0xE4, CHR 0xB8, CHR 0x8E,
       CHR 0xE5, CHR 0xBD, CHR 0x93, CHR 0xE5, CHR 0x89, CHR 0x8D, CHR 0xE5, CHR 0xB7, CHR 0xA5,
       CHR 0xE4, CHR 0xBD, CHR 0x9C, CHR 0xE5, CHR 0x8C, CHR 0xBA] @ '' revision'' @ [CHR 0xEF,
       CHR 0xBC, CHR 0x9B, CHR 0xE5, CHR 0x90, CHR 0x8E, CHR 0xE7, CHR 0xBB, CHR 0xAD, CHR 0xE8,
       CHR 0xB0, CHR 0x83, CHR 0xE7, CHR 0x94, CHR 0xA8, CHR 0xE4, CHR 0xB8, CHR 0x8D, CHR 0xE4,
       CHR 0xBC, CHR 0x9A, CHR 0xE7, CHR 0xBB, CHR 0xA7, CHR 0xE6, CHR 0x89, CHR 0xBF, CHR 0xE3,
       CHR 0x80, CHR 0x82]"

definition txt_hard_invariant :: string where
  "txt_hard_invariant =
     [CHR 0xE5, CHR 0x86, CHR 0x85, CHR 0xE5, CHR 0xBB, CHR 0xBA, CHR 0xE5, CHR 0xAE, CHR 0x89, CHR 0xE5, CHR 0x85, CHR 0xA8, CHR 0xE4, CHR 0xB8, CHR 0x8D, CHR 0xE5, CHR 0x8F, CHR 0x98, CHR 0xE9, CHR 0x87, CHR 0x8F, CHR 0xE6, CHR 0x8B, CHR 0x92, CHR 0xE7, CHR 0xBB, CHR 0x9D, CHR 0xE8, CHR 0xAF, CHR 0xA5, CHR 0xE5, CHR 0x91, CHR 0xBD, CHR 0xE4, CHR 0xBB, CHR 0xA4, CHR 0xEF, CHR 0xBC, CHR 0x9A]"

definition txt_network_not_proven :: string where
  "txt_network_not_proven =
     [CHR 0xE5, CHR 0xBD, CHR 0x93, CHR 0xE5, CHR 0x89, CHR 0x8D, CHR 0xE6, CHR 0x89, CHR 0xA7, CHR 0xE8, CHR 0xA1, CHR 0x8C, CHR 0xE5, CHR 0x90, CHR 0x8E, CHR 0xE7, CHR 0xAB, CHR 0xAF, CHR 0xE4, CHR 0xB8, CHR 0x8D, CHR 0xE8, CHR 0x83, CHR 0xBD, CHR 0xE8, CHR 0xAF, CHR 0x81, CHR 0xE6, CHR 0x98, CHR 0x8E, CHR 0xE4, CHR 0xB8, CHR 0x80, CHR 0xE6, CHR 0xAC, CHR 0xA1, CHR 0xE6, CHR 0x80, CHR 0xA7, CHR 0xE7, CHR 0xBD, CHR 0x91, CHR 0xE7, CHR 0xBB, CHR 0x9C, CHR 0xE6, CHR 0x8E, CHR 0x88, CHR 0xE6, CHR 0x9D, CHR 0x83, CHR 0xE8, CHR 0x8C, CHR 0x83, CHR 0xE5, CHR 0x9B, CHR 0xB4, CHR 0xEF, CHR 0xBC, CHR 0x8C, CHR 0xE5, CHR 0xB7, CHR 0xB2, CHR 0xE5, CHR 0xAE, CHR 0x89, CHR 0xE5, CHR 0x85, CHR 0xA8, CHR 0xE6, CHR 0x8B, CHR 0x92, CHR 0xE7, CHR 0xBB, CHR 0x9D]"

definition txt_network_denied :: string where
  "txt_network_denied =
     [CHR 0xE5, CHR 0xBD, CHR 0x93, CHR 0xE5, CHR 0x89, CHR 0x8D] @ '' actor '' @ [CHR 0xE7, CHR
       0x9A, CHR 0x84, CHR 0xE5, CHR 0x86, CHR 0xBB, CHR 0xE7, CHR 0xBB, CHR 0x93, CHR 0xE6, CHR
       0x89, CHR 0xA7, CHR 0xE8, CHR 0xA1, CHR 0x8C, CHR 0xE8, CHR 0xBE, CHR 0xB9, CHR 0xE7, CHR
       0x95, CHR 0x8C, CHR 0xE7, CHR 0xA6, CHR 0x81, CHR 0xE6, CHR 0xAD, CHR 0xA2, CHR 0xE7, CHR
       0xBD, CHR 0x91, CHR 0xE7, CHR 0xBB, CHR 0x9C, CHR 0xE8, CHR 0xAE, CHR 0xBF, CHR 0xE9, CHR
       0x97, CHR 0xAE]"

definition txt_no_session :: string where
  "txt_no_session =
     ''browser_interact '' @ [CHR 0xE6, CHR 0xB2, CHR 0xA1, CHR 0xE6, CHR 0x9C, CHR 0x89, CHR
       0xE5, CHR 0x90, CHR 0x8C, CHR 0xE4, CHR 0xB8, CHR 0x80] @ '' Run '' @ [CHR 0xE7, CHR 0x9A,
       CHR 0x84] @ '' live scoped browser session''"

definition txt_local_not_public :: string where
  "txt_local_not_public =
     ''exact-loopback semantic interaction '' @ [CHR 0xE4, CHR 0xB8, CHR 0x8D, CHR 0xE5, CHR 0x86,
       CHR 0x92, CHR 0xE5, CHR 0x85, CHR 0x85] @ '' managed public session '' @ [CHR 0xE8, CHR
       0x83, CHR 0xBD, CHR 0xE5, CHR 0x8A, CHR 0x9B]"

definition txt_local_session :: string where
  "txt_local_session =
     ''Host exact-loopback session '' @ [CHR 0xE5, CHR 0x8F, CHR 0xAA, CHR 0xE6, CHR 0xB6, CHR
       0x88, CHR 0xE8, CHR 0xB4, CHR 0xB9, CHR 0xE5, CHR 0x90, CHR 0x8C, CHR 0xE4, CHR 0xB8, CHR
       0x80] @ '' Run '' @ [CHR 0xE5, CHR 0xBD, CHR 0x93, CHR 0xE5, CHR 0x89, CHR 0x8D] @
       '' page epoch '' @ [CHR 0xE7, CHR 0x9A, CHR 0x84] @ '' typed opaque ref''"

definition txt_approval_bound :: string where
  "txt_approval_bound =
     [CHR 0xE6, CHR 0x89, CHR 0xB9, CHR 0xE5, CHR 0x87, CHR 0x86, CHR 0xE5, CHR 0x8F, CHR 0xAA,
       CHR 0xE7, CHR 0xBB, CHR 0x91, CHR 0xE5, CHR 0xAE, CHR 0x9A, CHR 0xE6, CHR 0x9C, CHR 0xAC,
       CHR 0xE6, CHR 0xAC, CHR 0xA1] @ '' invocation '' @ [CHR 0xE4, CHR 0xB8, CHR 0x8E, CHR 0xE5,
       CHR 0xBD, CHR 0x93, CHR 0xE5, CHR 0x89, CHR 0x8D] @ '' workspace revision'' @ [CHR 0xE3,
       CHR 0x80, CHR 0x82]"

definition txt_confirm_write :: string where
  "txt_confirm_write =
     [CHR 0xE7, CHR 0xA1, CHR 0xAE, CHR 0xE8, CHR 0xAE, CHR 0xA4, CHR 0xE5, CHR 0x8F, CHR 0xAF, CHR 0xE6, CHR 0x92, CHR 0xA4, CHR 0xE9, CHR 0x94, CHR 0x80, CHR 0xE7, CHR 0x9A, CHR 0x84, CHR 0xE5, CHR 0x85, CHR 0xAC, CHR 0xE5, CHR 0xBC, CHR 0x80, CHR 0xE7, CHR 0xAB, CHR 0x99, CHR 0xE7, CHR 0x82, CHR 0xB9, CHR 0xE5, CHR 0x86, CHR 0x99, CHR 0xE6, CHR 0x93, CHR 0x8D, CHR 0xE4, CHR 0xBD, CHR 0x9C]"

definition txt_confirm_interaction :: string where
  "txt_confirm_interaction =
     [CHR 0xE7, CHR 0xA1, CHR 0xAE, CHR 0xE8, CHR 0xAE, CHR 0xA4, CHR 0xE5, CHR 0x85, CHR 0xAC, CHR 0xE5, CHR 0xBC, CHR 0x80, CHR 0xE7, CHR 0xAB, CHR 0x99, CHR 0xE7, CHR 0x82, CHR 0xB9, CHR 0xE4, CHR 0xBA, CHR 0xA4, CHR 0xE4, CHR 0xBA, CHR 0x92]"

definition txt_local_navigation :: string where
  "txt_local_navigation =
     [CHR 0xE5, CHR 0x8F, CHR 0xAA, CHR 0xE8, CHR 0xAF, CHR 0xBB, CHR 0xE8, CHR 0xAF, CHR 0xAD,
       CHR 0xE4, CHR 0xB9, CHR 0x89, CHR 0xE6, CHR 0xB5, CHR 0x8F, CHR 0xE8, CHR 0xA7, CHR 0x88,
       CHR 0xE7, CHR 0x94, CHR 0xB1] @ '' Host exact-local-origin egress guard'' @ [CHR 0xE3, CHR
       0x80, CHR 0x81] @ ''GET/HEAD '' @ [CHR 0xE4, CHR 0xB8, CHR 0x8E, CHR 0xE8, CHR 0xB5, CHR
       0x84, CHR 0xE6, CHR 0xBA, CHR 0x90, CHR 0xE4, CHR 0xB8, CHR 0x8A, CHR 0xE9, CHR 0x99, CHR
       0x90, CHR 0xE7, CHR 0xBA, CHR 0xA6, CHR 0xE6, CHR 0x9D, CHR 0x9F]"

definition txt_navigation_impact :: string where
  "txt_navigation_impact =
     ''impact: '' @ [CHR 0xE8, CHR 0xAF, CHR 0xBB, CHR 0xE5, CHR 0x8F, CHR 0x96] @
       '' public external_untrusted '' @ [CHR 0xE9, CHR 0xA1, CHR 0xB5, CHR 0xE9, CHR 0x9D, CHR
       0xA2, CHR 0xEF, CHR 0xBC, CHR 0x9B] @ ''Host '' @ [CHR 0xE5, CHR 0xBC, CHR 0xBA, CHR 0xE5,
       CHR 0x88, CHR 0xB6] @ '' URL/DNS/connect/redirect'' @ [CHR 0xE3, CHR 0x80, CHR 0x81] @
       ''origin '' @ [CHR 0xE4, CHR 0xB8, CHR 0x8E, CHR 0xE8, CHR 0xB5, CHR 0x84, CHR 0xE6, CHR
       0xBA, CHR 0x90, CHR 0xE8, CHR 0xBE, CHR 0xB9, CHR 0xE7, CHR 0x95, CHR 0x8C, CHR 0xE3, CHR
       0x80, CHR 0x82]"

definition txt_confirm_navigation :: string where
  "txt_confirm_navigation =
     [CHR 0xE7, CHR 0xA1, CHR 0xAE, CHR 0xE8, CHR 0xAE, CHR 0xA4, CHR 0xE8, CHR 0xAF, CHR 0xBB, CHR 0xE5, CHR 0x8F, CHR 0x96, CHR 0xE5, CHR 0x85, CHR 0xAC, CHR 0xE5, CHR 0xBC, CHR 0x80, CHR 0xE7, CHR 0xBD, CHR 0x91, CHR 0xE9, CHR 0xA1, CHR 0xB5]"

definition txt_search_impact :: string where
  "txt_search_impact =
     ''impact: '' @ [CHR 0xE5, CHR 0x90, CHR 0x91, CHR 0xE5, CHR 0x9B, CHR 0xBA, CHR 0xE5, CHR
       0xAE, CHR 0x9A] @ '' Host-owned search endpoint '' @ [CHR 0xE5, CHR 0x8F, CHR 0x91, CHR
       0xE9, CHR 0x80, CHR 0x81, CHR 0xE4, CHR 0xB8, CHR 0x80, CHR 0xE6, CHR 0xAC, CHR 0xA1, CHR
       0xE6, CHR 0x9F, CHR 0xA5, CHR 0xE8, CHR 0xAF, CHR 0xA2, CHR 0xEF, CHR 0xBC, CHR 0x9B, CHR
       0xE7, CHR 0xBB, CHR 0x93, CHR 0xE6, CHR 0x9E, CHR 0x9C, CHR 0xE5, CHR 0x8F, CHR 0xAA, CHR
       0xE4, CHR 0xBD, CHR 0x9C] @ '' external_untrusted discovery'' @ [CHR 0xEF, CHR 0xBC, CHR
       0x8C, CHR 0xE5, CHR 0xBC, CHR 0x95, CHR 0xE7, CHR 0x94, CHR 0xA8, CHR 0xE5, CHR 0x89, CHR
       0x8D, CHR 0xE5, CHR 0xBF, CHR 0x85, CHR 0xE9, CHR 0xA1, CHR 0xBB, CHR 0xE8, CHR 0xAF, CHR
       0xBB, CHR 0xE5, CHR 0x8F, CHR 0x96, CHR 0xE5, CHR 0xB9, CHR 0xB6, CHR 0xE4, CHR 0xBA, CHR
       0xA4, CHR 0xE5, CHR 0x8F, CHR 0x89, CHR 0xE6, CHR 0xA0, CHR 0xB8, CHR 0xE9, CHR 0xAA, CHR
       0x8C, CHR 0xE5, CHR 0x8E, CHR 0x9F, CHR 0xE6, CHR 0x9D, CHR 0xA5, CHR 0xE6, CHR 0xBA, CHR
       0x90, CHR 0xE3, CHR 0x80, CHR 0x82]"

definition txt_confirm_search :: string where
  "txt_confirm_search =
     [CHR 0xE7, CHR 0xA1, CHR 0xAE, CHR 0xE8, CHR 0xAE, CHR 0xA4, CHR 0xE6, CHR 0x90, CHR 0x9C,
       CHR 0xE7, CHR 0xB4, CHR 0xA2, CHR 0xE5, CHR 0x85, CHR 0xAC, CHR 0xE5, CHR 0xBC, CHR 0x80] @
       '' Web''"

definition txt_plain_fetch_impact :: string where
  "txt_plain_fetch_impact =
     ''impact: '' @ [CHR 0xE8, CHR 0xAF, CHR 0xBB, CHR 0xE5, CHR 0x8F, CHR 0x96, CHR 0xE4, CHR
       0xB8, CHR 0x8D, CHR 0xE5, CHR 0x8F, CHR 0x97, CHR 0xE4, CHR 0xBC, CHR 0xA0, CHR 0xE8, CHR
       0xBE, CHR 0x93, CHR 0xE4, CHR 0xBF, CHR 0x9D, CHR 0xE6, CHR 0x8A, CHR 0xA4, CHR 0xE7, CHR
       0x9A, CHR 0x84] @ '' public HTTP external_untrusted '' @ [CHR 0xE5, CHR 0x86, CHR 0x85, CHR
       0xE5, CHR 0xAE, CHR 0xB9, CHR 0xEF, CHR 0xBC, CHR 0x9B] @ ''Host '' @ [CHR 0xE5, CHR 0xBC,
       CHR 0xBA, CHR 0xE5, CHR 0x88, CHR 0xB6] @ '' URL/DNS/connect/redirect '' @ [CHR 0xE8, CHR
       0xBE, CHR 0xB9, CHR 0xE7, CHR 0x95, CHR 0x8C, CHR 0xE3, CHR 0x80, CHR 0x82]"

definition txt_fetch_impact :: string where
  "txt_fetch_impact =
     ''impact: '' @ [CHR 0xE8, CHR 0xAF, CHR 0xBB, CHR 0xE5, CHR 0x8F, CHR 0x96] @
       '' public HTTPS external_untrusted '' @ [CHR 0xE5, CHR 0x86, CHR 0x85, CHR 0xE5, CHR 0xAE,
       CHR 0xB9, CHR 0xEF, CHR 0xBC, CHR 0x9B] @ ''Host '' @ [CHR 0xE5, CHR 0xBC, CHR 0xBA, CHR
       0xE5, CHR 0x88, CHR 0xB6] @ '' URL/DNS/connect/redirect '' @ [CHR 0xE8, CHR 0xBE, CHR 0xB9,
       CHR 0xE7, CHR 0x95, CHR 0x8C, CHR 0xE3, CHR 0x80, CHR 0x82]"

definition txt_confirm_fetch :: string where
  "txt_confirm_fetch =
     [CHR 0xE7, CHR 0xA1, CHR 0xAE, CHR 0xE8, CHR 0xAE, CHR 0xA4, CHR 0xE8, CHR 0xAF, CHR 0xBB,
       CHR 0xE5, CHR 0x8F, CHR 0x96, CHR 0xE5, CHR 0x85, CHR 0xAC, CHR 0xE5, CHR 0xBC, CHR 0x80] @
       '' URL''"

definition txt_controlled_network_denied :: string where
  "txt_controlled_network_denied =
     [CHR 0xE5, CHR 0xBD, CHR 0x93, CHR 0xE5, CHR 0x89, CHR 0x8D] @ '' actor '' @ [CHR 0xE7, CHR
       0x9A, CHR 0x84, CHR 0xE5, CHR 0x86, CHR 0xBB, CHR 0xE7, CHR 0xBB, CHR 0x93, CHR 0xE8, CHR
       0xBE, CHR 0xB9, CHR 0xE7, CHR 0x95, CHR 0x8C, CHR 0xE7, CHR 0xA6, CHR 0x81, CHR 0xE6, CHR
       0xAD, CHR 0xA2] @ '' Host-controlled '' @ [CHR 0xE7, CHR 0xBD, CHR 0x91, CHR 0xE7, CHR
       0xBB, CHR 0x9C, CHR 0xE8, CHR 0xAE, CHR 0xBF, CHR 0xE9, CHR 0x97, CHR 0xAE]"

definition txt_exact_verifier :: string where
  "txt_exact_verifier =
     ''Host '' @ [CHR 0xE5, CHR 0x86, CHR 0xBB, CHR 0xE7, CHR 0xBB, CHR 0x93, CHR 0xE7, CHR 0x9A,
       CHR 0x84] @ '' TaskContract verifier '' @ [CHR 0xE4, CHR 0xB8, CHR 0x8E] @ '' canonical ''
       @ [CHR 0xE6, CHR 0x89, CHR 0xA7, CHR 0xE8, CHR 0xA1, CHR 0x8C, CHR 0xE8, CHR 0xAE, CHR
       0xA1, CHR 0xE5, CHR 0x88, CHR 0x92, CHR 0xE5, CHR 0xAE, CHR 0x8C, CHR 0xE5, CHR 0x85, CHR
       0xA8, CHR 0xE4, CHR 0xB8, CHR 0x80, CHR 0xE8, CHR 0x87, CHR 0xB4]"

definition txt_verifier_differs :: string where
  "txt_verifier_differs =
     [CHR 0xE5, CHR 0x86, CHR 0xBB, CHR 0xE7, CHR 0xBB, CHR 0x93] @ '' verifier '' @ [CHR 0xE6,
       CHR 0x89, CHR 0xA7, CHR 0xE8, CHR 0xA1, CHR 0x8C, CHR 0xE6, CHR 0x8E, CHR 0x88, CHR 0xE6,
       CHR 0x9D, CHR 0x83, CHR 0xE4, CHR 0xB8, CHR 0x8E, CHR 0xE5, CHR 0xBD, CHR 0x93, CHR 0xE5,
       CHR 0x89, CHR 0x8D] @ '' canonical verifier '' @ [CHR 0xE4, CHR 0xB8, CHR 0x8D, CHR 0xE4,
       CHR 0xB8, CHR 0x80, CHR 0xE8, CHR 0x87, CHR 0xB4]"

definition txt_path_not_proven :: string where
  "txt_path_not_proven =
     [CHR 0xE5, CHR 0xBD, CHR 0x93, CHR 0xE5, CHR 0x89, CHR 0x8D, CHR 0xE6, CHR 0x89, CHR 0xA7, CHR 0xE8, CHR 0xA1, CHR 0x8C, CHR 0xE5, CHR 0x90, CHR 0x8E, CHR 0xE7, CHR 0xAB, CHR 0xAF, CHR 0xE4, CHR 0xB8, CHR 0x8D, CHR 0xE8, CHR 0x83, CHR 0xBD, CHR 0xE8, CHR 0xAF, CHR 0x81, CHR 0xE6, CHR 0x98, CHR 0x8E, CHR 0xE4, CHR 0xB8, CHR 0x80, CHR 0xE6, CHR 0xAC, CHR 0xA1, CHR 0xE6, CHR 0x80, CHR 0xA7, CHR 0xE5, CHR 0xA4, CHR 0x96, CHR 0xE9, CHR 0x83, CHR 0xA8, CHR 0xE8, CHR 0xB7, CHR 0xAF, CHR 0xE5, CHR 0xBE, CHR 0x84, CHR 0xE6, CHR 0x8E, CHR 0x88, CHR 0xE6, CHR 0x9D, CHR 0x83, CHR 0xE8, CHR 0x8C, CHR 0x83, CHR 0xE5, CHR 0x9B, CHR 0xB4, CHR 0xEF, CHR 0xBC, CHR 0x8C, CHR 0xE5, CHR 0xB7, CHR 0xB2, CHR 0xE5, CHR 0xAE, CHR 0x89, CHR 0xE5, CHR 0x85, CHR 0xA8, CHR 0xE6, CHR 0x8B, CHR 0x92, CHR 0xE7, CHR 0xBB, CHR 0x9D]"

definition txt_path_denied :: string where
  "txt_path_denied =
     [CHR 0xE5, CHR 0xBD, CHR 0x93, CHR 0xE5, CHR 0x89, CHR 0x8D] @ '' actor '' @ [CHR 0xE7, CHR
       0x9A, CHR 0x84, CHR 0xE5, CHR 0x86, CHR 0xBB, CHR 0xE7, CHR 0xBB, CHR 0x93, CHR 0xE6, CHR
       0x89, CHR 0xA7, CHR 0xE8, CHR 0xA1, CHR 0x8C, CHR 0xE8, CHR 0xBE, CHR 0xB9, CHR 0xE7, CHR
       0x95, CHR 0x8C, CHR 0xE7, CHR 0xA6, CHR 0x81, CHR 0xE6, CHR 0xAD, CHR 0xA2, CHR 0xE5, CHR
       0xA4, CHR 0x96, CHR 0xE9, CHR 0x83, CHR 0xA8, CHR 0xE8, CHR 0xB7, CHR 0xAF, CHR 0xE5, CHR
       0xBE, CHR 0x84, CHR 0xE8, CHR 0xAE, CHR 0xBF, CHR 0xE9, CHR 0x97, CHR 0xAE]"

definition txt_tool_open :: string where
  "txt_tool_open =
     [CHR 0xE5, CHR 0xB7, CHR 0xA5, CHR 0xE5, CHR 0x85, CHR 0xB7] @ '' '' @ [CHR 0x27]"

definition txt_not_in_catalog :: string where
  "txt_not_in_catalog =
     [CHR 0x27] @ '' '' @ [CHR 0xE4, CHR 0xB8, CHR 0x8D, CHR 0xE5, CHR 0x9C, CHR 0xA8, CHR 0xE5,
       CHR 0x9B, CHR 0xBA, CHR 0xE5, CHR 0xAE, CHR 0x9A, CHR 0xE7, CHR 0x94, CHR 0x9F, CHR 0xE4,
       CHR 0xBA, CHR 0xA7, CHR 0xE7, CHR 0x9B, CHR 0xAE, CHR 0xE5, CHR 0xBD, CHR 0x95, CHR 0xE4,
       CHR 0xB8, CHR 0xAD]"

definition txt_bad_json :: string where
  "txt_bad_json =
     ''JSON '' @ [CHR 0xE5, CHR 0x8F, CHR 0x82, CHR 0xE6, CHR 0x95, CHR 0xB0, CHR 0xE6, CHR 0xA0,
       CHR 0xBC, CHR 0xE5, CHR 0xBC, CHR 0x8F, CHR 0xE9, CHR 0x94, CHR 0x99, CHR 0xE8, CHR 0xAF,
       CHR 0xAF]"

definition txt_cancelled_before :: string where
  "txt_cancelled_before =
     [CHR 0x27] @ '' '' @ [CHR 0xE5, CHR 0x9C, CHR 0xA8, CHR 0xE6, CHR 0x89, CHR 0xA7, CHR 0xE8,
       CHR 0xA1, CHR 0x8C, CHR 0xE5, CHR 0x89, CHR 0x8D, CHR 0xE5, CHR 0xB7, CHR 0xB2, CHR 0xE5,
       CHR 0x8F, CHR 0x96, CHR 0xE6, CHR 0xB6, CHR 0x88]"

definition txt_ignored_cancel :: string where
  "txt_ignored_cancel =
     [CHR 0x27] @ '' '' @ [CHR 0xE6, CHR 0x94, CHR 0xB6, CHR 0xE5, CHR 0x88, CHR 0xB0, CHR 0xE5,
       CHR 0x8F, CHR 0x96, CHR 0xE6, CHR 0xB6, CHR 0x88, CHR 0xE5, CHR 0x90, CHR 0x8E, CHR 0xE6,
       CHR 0x9C, CHR 0xAA, CHR 0xE5, CHR 0x9C, CHR 0xA8] @ '' 5 '' @ [CHR 0xE7, CHR 0xA7, CHR
       0x92, CHR 0xE5, CHR 0x86, CHR 0x85, CHR 0xE5, CHR 0x81, CHR 0x9C, CHR 0xE6, CHR 0xAD, CHR
       0xA2]"

section \<open>Sandbox policies\<close>

datatype sandbox_policy =
    SandboxDangerFullAccess
  | SandboxReadOnly
  | SandboxExternal bool
  | SandboxWorkspaceWrite "path_buf list" bool bool bool
  | SandboxIsolatedWriter path_buf bool

definition isolated_writer :: "path_buf \<Rightarrow> sandbox_policy" where
  "isolated_writer workspace = SandboxIsolatedWriter workspace False"

fun has_network_access :: "sandbox_policy \<Rightarrow> bool" where
  "has_network_access SandboxDangerFullAccess = True"
| "has_network_access SandboxReadOnly = False"
| "has_network_access (SandboxIsolatedWriter _ _) = False"
| "has_network_access (SandboxExternal network_access) = network_access"
| "has_network_access (SandboxWorkspaceWrite _ network_access _ _) = network_access"

fun for_host_loopback_probe :: "sandbox_policy \<Rightarrow> sandbox_policy option" where
  "for_host_loopback_probe (SandboxIsolatedWriter workspace _) = Some (SandboxIsolatedWriter workspace True)"
| "for_host_loopback_probe policy = (if has_network_access policy then Some policy else None)"

section \<open>The executor\<close>

datatype shell_policy = ShellNone | ShellReadOnly | ShellFull

record production_tool_config =
  cfg_workspace :: path_buf
  cfg_allow_external_paths :: bool
  cfg_follow_symlinks :: bool
  cfg_permission_mode :: run_permission_mode
  cfg_shell_policy :: shell_policy
  cfg_elevated_sandbox_policy :: "sandbox_policy option"
  cfg_exec_policy :: "exec_policy option"
  cfg_browser_local_origin :: "string option"

definition production_tool_config_new :: "path_buf \<Rightarrow> production_tool_config" where
  "production_tool_config_new workspace =
     \<lparr>cfg_workspace = workspace, cfg_allow_external_paths = False, cfg_follow_symlinks = False,
      cfg_permission_mode = PermissionAsk, cfg_shell_policy = ShellNone,
      cfg_elevated_sandbox_policy = None, cfg_exec_policy = None, cfg_browser_local_origin = None\<rparr>"

definition config_with_permission_mode ::
  "production_tool_config \<Rightarrow> run_permission_mode \<Rightarrow> production_tool_config" where
  "config_with_permission_mode config mode =
     config\<lparr>cfg_permission_mode := mode,
            cfg_allow_external_paths := (mode = PermissionAgent \<or> mode = PermissionFullAccess)\<rparr>"

definition rebind_isolated_writer_workspace ::
  "production_tool_config \<Rightarrow> path_buf \<Rightarrow> production_tool_config" where
  "rebind_isolated_writer_workspace config workspace =
     config\<lparr>cfg_workspace := workspace, cfg_allow_external_paths := False,
            cfg_follow_symlinks := False,
            cfg_elevated_sandbox_policy := Some (isolated_writer workspace),
            cfg_browser_local_origin := None\<rparr>"

record production_tool_executor =
  pte_context :: production_tool_context
  pte_shell_policy :: shell_policy
  pte_sandbox_policy :: "sandbox_policy option"
  pte_exec_policy :: "exec_policy option"
  pte_controlled_network_allowed :: bool
  pte_browser_local_origin :: "string option"

definition production_tool_executor_new ::
  "file_tree \<Rightarrow> production_tool_config \<Rightarrow> production_tool_executor" where
  "production_tool_executor_new t config =
     (let isolated_writer_workspace =
            (case cfg_elevated_sandbox_policy config of
               Some (SandboxIsolatedWriter workspace _) \<Rightarrow> Some workspace
             | _ \<Rightarrow> None);
          context0 = with_permission_mode
            (with_follow_symlinks
               (with_external_path_authority (new_tool_context (cfg_workspace config))
                  (cfg_allow_external_paths config))
               (cfg_follow_symlinks config))
            (cfg_permission_mode config);
          context1 =
            (case isolated_writer_workspace of
               Some workspace \<Rightarrow> with_isolated_writer_write_guard t context0 workspace
             | None \<Rightarrow> context0)
      in \<lparr>pte_context = context1, pte_shell_policy = cfg_shell_policy config,
          pte_sandbox_policy = cfg_elevated_sandbox_policy config,
          pte_exec_policy = cfg_exec_policy config,
          pte_controlled_network_allowed = (isolated_writer_workspace = None),
          pte_browser_local_origin = cfg_browser_local_origin config\<rparr>)"

record browser_authorization_preview =
  bap_public :: bool
  bap_origin :: string
  bap_target :: string
  bap_parameters :: string
  bap_impact :: string
  bap_external_side_effect :: bool

record tool_host =
  th_text :: shell_text
  th_tree :: file_tree
  th_parse_url :: "string \<Rightarrow> string + url"
  th_preview :: "string \<Rightarrow> browser_interact_request \<Rightarrow> browser_authorization_preview option"
  th_verifier_sha256 :: "string \<Rightarrow> json \<Rightarrow> string option"

section \<open>Shell commands\<close>

datatype exec_shell_policy_decision = ShellAllow string | ShellDeny string

definition evaluate_exec_policy ::
  "tool_host \<Rightarrow> production_tool_executor \<Rightarrow> string \<Rightarrow> exec_shell_policy_decision option" where
  "evaluate_exec_policy host ex command =
     (case pte_exec_policy ex of
        None \<Rightarrow> None
      | Some policy \<Rightarrow>
          map_option (\<lambda>matched.
             case pm_disposition matched of
               PolicyAllow \<Rightarrow> ShellAllow (rule_label matched)
             | PolicyDeny \<Rightarrow> ShellDeny (rule_label matched))
            (evaluate (st_shlex (th_text host)) policy command))"

definition after_last_separator :: "string \<Rightarrow> string" where
  "after_last_separator s = rev (takeWhile (\<lambda>c. c \<noteq> CHR ''/'' \<and> c \<noteq> CHR 0x5C) (rev s))"

definition network_programs :: "string list" where
  "network_programs =
     [''curl'', ''wget'', ''fetch'', ''nc'', ''netcat'', ''ncat'', ''ssh'', ''scp'', ''sftp'',
      ''rsync'', ''ftp'', ''ping'', ''traceroute'', ''nslookup'', ''dig'', ''host'', ''nmap'', ''gh'',
      ''hub'', ''brew'', ''apt'', ''apt-get'', ''yum'', ''dnf'', ''pacman'']"

definition network_needles :: "string \<Rightarrow> string list" where
  "network_needles primary =
     (if primary = ''git''
      then ['' fetch'', '' pull'', '' clone'', '' ls-remote'', '' submodule'', '' push'']
      else if primary = ''cargo'' then ['' install'', '' fetch'', '' update'', '' publish'', '' search'']
      else if primary \<in> set [''npm'', ''pnpm'', ''yarn'']
      then ['' install'', '' i'', '' add'', '' update'', '' publish'']
      else if primary \<in> set [''pip'', ''pip3'', ''uv'', ''poetry'']
      then ['' install'', '' add'', '' sync'', '' update'']
      else if primary = ''go'' then ['' get'', '' install'', '' mod download'']
      else [])"

definition command_likely_needs_network :: "string \<Rightarrow> bool" where
  "command_likely_needs_network command =
     (let normalized = to_ascii_lowercase command
      in case extract_primary_command normalized of
           None \<Rightarrow> False
         | Some word \<Rightarrow>
             let primary = after_last_separator word
             in primary \<in> set network_programs
                \<or> list_ex (\<lambda>needle. contains_str needle normalized) (network_needles primary))"

definition exec_shell_input_is_parallel_readonly :: "tool_host \<Rightarrow> json \<Rightarrow> bool" where
  "exec_shell_input_is_parallel_readonly host input =
     (case optional_str input ''command'' of
        None \<Rightarrow> False
      | Some command \<Rightarrow> is_parallel_readonly_command (th_text host) command)"

definition shell_policy_rejection ::
  "tool_host \<Rightarrow> production_tool_executor \<Rightarrow> json \<Rightarrow> tool_outcome option" where
  "shell_policy_rejection host ex input =
     (case pte_shell_policy ex of
        ShellNone \<Rightarrow>
          Some (tool_outcome_rejected txt_shell_disabled RetryNotRetryable)
      | ShellReadOnly \<Rightarrow>
          if \<not> exec_shell_input_is_parallel_readonly host input then
            Some (tool_outcome_rejected
              txt_shell_read_only RetryNotRetryable)
          else None
      | ShellFull \<Rightarrow> None)"

definition preflight_exec_shell ::
  "tool_host \<Rightarrow> production_tool_executor \<Rightarrow> json \<Rightarrow> tool_error + tool_outcome option" where
  "preflight_exec_shell host ex input =
     rbind (required_str input ''command'') (\<lambda>_. Inr (shell_policy_rejection host ex input))"

datatype exec_shell_admission =
    Ready "exec_shell_policy_decision option" safety_level
  | Rejected tool_outcome

text \<open>The admission right before the process starts.\<close>

definition evaluate_exec_shell_admission ::
  "tool_host \<Rightarrow> production_tool_executor \<Rightarrow> json \<Rightarrow> tool_error + exec_shell_admission" where
  "evaluate_exec_shell_admission host ex input =
     rbind (required_str input ''command'')
     (\<lambda>command.
        case shell_policy_rejection host ex input of
          Some outcome \<Rightarrow> Inr (Rejected outcome)
        | None \<Rightarrow>
            let execpolicy_decision = evaluate_exec_policy host ex command;
                safety = analyze_command (th_text host) command
            in case execpolicy_decision of
                 Some (ShellDeny reason) \<Rightarrow>
                   Inr (Rejected
                     ((tool_outcome_rejected (txt_policy_denied @ reason) RetryNotRetryable)
                        \<lparr>to_metadata := Some (JObject [(''execpolicy'', JObject
                           [(''decision'', JString ''deny''), (''reason'', JString reason)])])\<rparr>))
               | _ \<Rightarrow>
                   if sa_level safety = Dangerous then
                     Inr (Rejected
                       ((tool_outcome_rejected
                          (txt_unsafe_command @ join ''; '' (sa_reasons safety) @
                           (if sa_suggestions safety = [] then []
                            else [CHR 0x0A] @ txt_suggestions @ join ''; '' (sa_suggestions safety)))
                          RetryAfterCorrection)
                          \<lparr>to_metadata := Some (JObject
                             [(''blocked'', JBool True),
                              (''reasons'', JArray (map JString (sa_reasons safety))),
                              (''safety_level'', JString ''dangerous''),
                              (''suggestions'', JArray (map JString (sa_suggestions safety)))])\<rparr>))
                   else Inr (Ready execpolicy_decision (sa_level safety)))"

definition admission_rejected_after_start :: "tool_outcome \<Rightarrow> tool_outcome" where
  "admission_rejected_after_start outcome =
     (tool_outcome_error (to_content outcome))
       \<lparr>to_side_effect := EffectNotApplied, to_retry := to_retry outcome,
        to_metadata := to_metadata outcome\<rparr>"

section \<open>Paths of a call\<close>

definition array_field :: "json \<Rightarrow> string \<Rightarrow> json list" where
  "array_field input name =
     (case Option.bind (get_field input name) as_array of None \<Rightarrow> [] | Some vs \<Rightarrow> vs)"

definition item_strings :: "json \<Rightarrow> string \<Rightarrow> string \<Rightarrow> string list" where
  "item_strings input name field = List.map_filter (\<lambda>item. optional_str item field) (array_field input name)"

definition preflight_apply_patch :: "json \<Rightarrow> tool_error + apply_patch_preflight" where
  "preflight_apply_patch input = rbind (preflight_apply_patch_plan input) (\<lambda>(summary, _). Inr summary)"

definition invocation_has_external_path ::
  "tool_host \<Rightarrow> string \<Rightarrow> json \<Rightarrow> production_tool_context \<Rightarrow> bool \<Rightarrow> bool" where
  "invocation_has_external_path host tool_name input ctx allow_external_verifier_program =
     (let direct = List.map_filter (\<lambda>key. optional_str input key) [''path'', ''cwd''];
          changes = item_strings input ''changes'' ''path'';
          command_cwds = filter (\<lambda>cwd. cwd \<noteq> []) (item_strings input ''commands'' ''cwd'');
          command_programs =
            filter (\<lambda>program. program \<noteq> [] \<and> \<not> allow_external_verifier_program)
              (item_strings input ''commands'' ''program'');
          patch_paths =
            (if tool_name = ''apply_patch'' then
               (case preflight_apply_patch input of Inr preflight \<Rightarrow> pf_touched_files preflight | Inl _ \<Rightarrow> [])
             else [])
      in list_ex (path_is_external (th_tree host) ctx)
           (direct @ changes @ command_cwds @ command_programs)
         \<or> list_ex (path_is_external (th_tree host) ctx) patch_paths)"

section \<open>The decision\<close>

record tool_execution_error =
  tee_code :: string
  tee_message :: string

definition execution_error :: "string \<Rightarrow> string \<Rightarrow> tool_execution_error" where
  "execution_error code message = \<lparr>tee_code = code, tee_message = message\<rparr>"

text \<open>What \<^verbatim>\<open>AuthorizationDecisionBuilder::build\<close> is called with.\<close>

record verdict =
  vd_disposition :: tool_authorization_disposition
  vd_risk :: approval_risk
  vd_rule :: string
  vd_reason :: string
  vd_prompt :: "tool_approval_prompt option"

definition verdict_of ::
  "tool_authorization_disposition \<Rightarrow> approval_risk \<Rightarrow> string \<Rightarrow> string \<Rightarrow> tool_approval_prompt option \<Rightarrow> verdict" where
  "verdict_of disposition risk rule reason prompt =
     \<lparr>vd_disposition = disposition, vd_risk = risk, vd_rule = rule, vd_reason = reason, vd_prompt = prompt\<rparr>"

definition build_decision ::
  "'x codec_scheme \<Rightarrow> run_permission_mode \<Rightarrow> tool_execution_grant \<Rightarrow> tool_invocation \<Rightarrow> workspace_state \<Rightarrow>
     verdict \<Rightarrow> tool_authorization_decision" where
  "build_decision cx mode grant invocation ws v =
     \<lparr>tad_mode = mode, tad_execution_grant = grant, tad_tool_name = ti_name invocation,
      tad_arguments_sha256 = arguments_sha256 cx invocation, tad_workspace_state = ws,
      tad_disposition = vd_disposition v, tad_risk = vd_risk v, tad_matched_rule = Some (vd_rule v),
      tad_reason = vd_reason v, tad_prompt = vd_prompt v\<rparr>"

definition sandbox_denies_network :: "production_tool_executor \<Rightarrow> bool" where
  "sandbox_denies_network ex =
     (case pte_sandbox_policy ex of None \<Rightarrow> False | Some policy \<Rightarrow> \<not> has_network_access policy)"

definition shell_approval :: "bool \<Rightarrow> bool \<Rightarrow> verdict option" where
  "shell_approval needs_approval high_risk =
     (if needs_approval then
        let risk = (if high_risk then RiskCritical else RiskElevated)
        in Some (verdict_of DispositionAsk risk
             (if high_risk then ''host_high_risk'' else ''host_elevated_shell'')
             txt_approval_needed
             (Some \<lparr>tap_title = txt_confirm_command,
                    tap_description = txt_approval_scope,
                    tap_risk = risk\<rparr>))
      else None)"

text \<open>The part of \<^verbatim>\<open>authorize\<close> for \<^verbatim>\<open>exec_shell\<close>; \<open>None\<close> continues after it.\<close>

definition authorize_shell ::
  "tool_host \<Rightarrow> production_tool_executor \<Rightarrow> run_permission_mode \<Rightarrow> json \<Rightarrow>
     tool_execution_error + verdict option" where
  "authorize_shell host ex mode input =
     rbind (ok_or (optional_str input ''command'')
              (execution_error ''authorization_command_missing'' ''exec_shell authorization requires command''))
     (\<lambda>command.
        let explicit_rule = evaluate_exec_policy host ex command;
            safety = analyze_command (th_text host) command;
            high_risk = command_is_high_impact (th_text host) command;
            needs_approval =
              (case mode of
                 PermissionAsk \<Rightarrow> high_risk \<or> sa_level safety = RequiresApproval
               | PermissionAgent \<Rightarrow> high_risk
               | PermissionFullAccess \<Rightarrow> False)
        in Inr
          (case explicit_rule of
             Some (ShellDeny reason) \<Rightarrow>
               Some (verdict_of DispositionDeny RiskCritical reason ''explicit execpolicy deny'' None)
           | _ \<Rightarrow>
               if sa_level safety = Dangerous then
                 Some (verdict_of DispositionDeny RiskCritical ''host_hard_invariant''
                   (txt_hard_invariant @ join ''; '' (sa_reasons safety)) None)
               else if command_likely_needs_network command
                       \<and> (mode = PermissionAsk \<or> sandbox_denies_network ex) then
                 Some (verdict_of DispositionDeny RiskElevated
                   (if mode = PermissionAsk then ''ask_network_fail_closed'' else ''sandbox_network_denied'')
                   (if mode = PermissionAsk then txt_network_not_proven
                    else txt_network_denied) None)
               else
                 (case explicit_rule of
                    Some (ShellAllow rule) \<Rightarrow>
                      if \<not> high_risk \<or> mode = PermissionFullAccess then
                        Some (verdict_of DispositionAllow (if high_risk then RiskCritical else RiskRoutine)
                          rule ''explicit execpolicy allow'' None)
                      else shell_approval needs_approval high_risk
                  | _ \<Rightarrow> shell_approval needs_approval high_risk)))"

text \<open>The part of \<^verbatim>\<open>authorize\<close> for the tools that reach the network under Host control.\<close>

definition navigates_locally :: "tool_host \<Rightarrow> production_tool_executor \<Rightarrow> json \<Rightarrow> bool" where
  "navigates_locally host ex input =
     (case pte_browser_local_origin ex of
        None \<Rightarrow> False
      | Some local_origin \<Rightarrow>
          (case optional_str input ''url'' of
             None \<Rightarrow> False
           | Some raw \<Rightarrow>
               (case th_parse_url host raw of
                  Inl _ \<Rightarrow> False
                | Inr url \<Rightarrow>
                    let origin_text = rev (dropWhile (\<lambda>c. c = CHR ''/'') (rev local_origin));
                        val = url_scheme url @ ''://''
                          @ (case url_host url of None \<Rightarrow> [] | Some h \<Rightarrow> h)
                          @ (case url_port url of None \<Rightarrow> [] | Some port \<Rightarrow> '':'' @ decimal port)
                    in val = origin_text \<or> starts_with (origin_text @ ''/'') (url_text url))))"

fun local_session_denies :: "browser_interact_request \<Rightarrow> bool" where
  "local_session_denies (Submit _) = True"
| "local_session_denies (Login _ _) = True"
| "local_session_denies (Upload _ _) = True"
| "local_session_denies (Download _) = True"
| "local_session_denies (PromoteDownload _ _) = True"
| "local_session_denies SessionStatus = True"
| "local_session_denies SessionClear = True"
| "local_session_denies _ = False"

definition asked ::
  "bool \<Rightarrow> approval_risk \<Rightarrow> string \<Rightarrow> string \<Rightarrow> string \<Rightarrow> verdict" where
  "asked needs_approval risk rule description title =
     verdict_of (if needs_approval then DispositionAsk else DispositionAllow) risk rule description
       (if needs_approval
        then Some \<lparr>tap_title = title, tap_description = description, tap_risk = risk\<rparr> else None)"

definition authorize_interact ::
  "tool_host \<Rightarrow> production_tool_executor \<Rightarrow> run_permission_mode \<Rightarrow> string \<Rightarrow> json \<Rightarrow>
     tool_execution_error + verdict" where
  "authorize_interact host ex mode run_id input =
     rbind (map_err (execution_error ''browser_interact_authorization_invalid'')
              (parse_browser_interact_for_authorization (th_parse_url host) input))
     (\<lambda>request.
        case th_preview host run_id request of
          None \<Rightarrow>
            if pte_browser_local_origin ex = None then
              Inr (verdict_of DispositionDeny RiskElevated ''browser_session_scope_missing''
                txt_no_session None)
            else if local_session_denies request then
              Inr (verdict_of DispositionDeny RiskCritical ''browser_local_submit_not_admitted''
                txt_local_not_public None)
            else
              Inr (verdict_of DispositionAllow RiskRoutine ''exact_local_semantic_interaction''
                txt_local_session None)
        | Some preview \<Rightarrow>
            let risk = (if bap_external_side_effect preview then RiskElevated else RiskRoutine);
                needs_approval =
                  bap_external_side_effect preview \<and> mode \<noteq> PermissionFullAccess
                  \<or> bap_public preview \<and> mode = PermissionAsk;
                description =
                  ''exact origin: '' @ bap_origin preview @ [CHR 0x0A] @ ''exact target: '' @ bap_target preview
                  @ [CHR 0x0A] @ ''parameters: '' @ bap_parameters preview @ [CHR 0x0A] @ ''impact: ''
                  @ bap_impact preview @ [CHR 0x0A]
                  @ txt_approval_bound
            in Inr (asked needs_approval risk
                 (if bap_external_side_effect preview then ''scoped_public_reversible_side_effect''
                  else ''scoped_public_semantic_interaction'')
                 description
                 (if bap_external_side_effect preview then txt_confirm_write
                  else txt_confirm_interaction)))"

definition authorize_navigate ::
  "tool_host \<Rightarrow> production_tool_executor \<Rightarrow> run_permission_mode \<Rightarrow> json \<Rightarrow> verdict" where
  "authorize_navigate host ex mode input =
     (let exact_local = navigates_locally host ex input;
          requested_url = (case optional_str input ''url'' of None \<Rightarrow> [] | Some u \<Rightarrow> u)
      in asked (\<not> exact_local \<and> mode = PermissionAsk) RiskRoutine
           (if exact_local then ''exact_local_semantic_browser'' else ''public_semantic_browser'')
           (if exact_local
            then txt_local_navigation
            else ''exact target: '' @ requested_url @ [CHR 0x0A]
              @ txt_navigation_impact)
           txt_confirm_navigation)"

definition authorize_search :: "run_permission_mode \<Rightarrow> json \<Rightarrow> verdict" where
  "authorize_search mode input =
     (let query = (case optional_str input ''query'' of None \<Rightarrow> [] | Some q \<Rightarrow> q)
      in asked (mode = PermissionAsk) RiskRoutine ''canonical_public_web_search''
           (''query: '' @ query @ [CHR 0x0A] @
            txt_search_impact)
           txt_confirm_search)"

definition authorize_fetch :: "tool_host \<Rightarrow> run_permission_mode \<Rightarrow> json \<Rightarrow> verdict" where
  "authorize_fetch host mode input =
     (let plaintext_http =
            (case optional_str input ''url'' of
               None \<Rightarrow> False
             | Some raw \<Rightarrow>
                 (case th_parse_url host raw of Inl _ \<Rightarrow> False | Inr url \<Rightarrow> url_scheme url = ''http''));
          requested_url = (case optional_str input ''url'' of None \<Rightarrow> [] | Some u \<Rightarrow> u)
      in asked (mode = PermissionAsk) RiskRoutine
           (if plaintext_http then ''public_plaintext_http_web_fetch'' else ''public_https_web_fetch'')
           (''exact target: '' @ requested_url @ [CHR 0x0A] @
            (if plaintext_http
             then txt_plain_fetch_impact
             else txt_fetch_impact))
           txt_confirm_fetch)"

definition network_tools :: "string list" where
  "network_tools = [''browser_interact'', ''browser_navigate'', ''web_fetch'', ''web_search'']"

definition authorize_network ::
  "tool_host \<Rightarrow> production_tool_executor \<Rightarrow> run_permission_mode \<Rightarrow> tool_invocation \<Rightarrow> json \<Rightarrow>
     tool_execution_error + verdict" where
  "authorize_network host ex mode invocation input =
     (if \<not> pte_controlled_network_allowed ex then
        Inr (verdict_of DispositionDeny RiskElevated ''actor_controlled_network_denied''
          txt_controlled_network_denied None)
      else if ti_name invocation = ''browser_interact''
      then authorize_interact host ex mode (ti_run_id invocation) input
      else if ti_name invocation = ''browser_navigate'' then Inr (authorize_navigate host ex mode input)
      else if ti_name invocation = ''web_search'' then Inr (authorize_search mode input)
      else Inr (authorize_fetch host mode input))"

definition holds_verifier_grant :: "tool_host \<Rightarrow> tool_execution_grant \<Rightarrow> string \<Rightarrow> json \<Rightarrow> bool" where
  "holds_verifier_grant host grant tool_name input =
     (case grant of
        GrantOrdinary \<Rightarrow> False
      | GrantTaskContractVerifier _ verifier_sha256 \<Rightarrow>
          th_verifier_sha256 host tool_name input = Some verifier_sha256)"

text \<open>\<^verbatim>\<open>authorize\<close> once the arguments are there and the grant is valid.\<close>

definition authorize_verdict ::
  "tool_host \<Rightarrow> production_tool_executor \<Rightarrow> run_permission_mode \<Rightarrow> tool_execution_grant \<Rightarrow>
     tool_invocation \<Rightarrow> json \<Rightarrow> tool_execution_error + verdict" where
  "authorize_verdict host ex mode grant invocation input =
     (let exact_verifier = holds_verifier_grant host grant (ti_name invocation) input;
          otherwise =
            (if exact_verifier then
               verdict_of DispositionAllow RiskRoutine ''task_contract_verifier_exact''
                 txt_exact_verifier None
             else verdict_of DispositionAllow RiskRoutine ''permission_mode_allow''
                    ''frozen Run permission allows this invocation'' None)
      in if grant \<noteq> GrantOrdinary \<and> \<not> exact_verifier then
           Inr (verdict_of DispositionDeny RiskElevated ''task_contract_verifier_grant_invalid''
             txt_verifier_differs None)
         else if invocation_has_external_path host (ti_name invocation) input (pte_context ex) exact_verifier
                 \<and> \<not> ptc_allow_external_paths (pte_context ex) then
           Inr (verdict_of DispositionDeny RiskElevated
             (if mode = PermissionAsk then ''ask_external_path_fail_closed'' else ''actor_external_path_denied'')
             (if mode = PermissionAsk then txt_path_not_proven
              else txt_path_denied) None)
         else if ti_name invocation = ''exec_shell'' then
           rbind (authorize_shell host ex mode input)
             (\<lambda>v. Inr (case v of Some decided \<Rightarrow> decided | None \<Rightarrow> otherwise))
         else if ti_name invocation \<in> set network_tools then authorize_network host ex mode invocation input
         else Inr otherwise)"

definition authorize ::
  "'x codec_scheme \<Rightarrow> tool_host \<Rightarrow> production_tool_executor \<Rightarrow> run_permission_mode \<Rightarrow>
     tool_execution_grant \<Rightarrow> tool_invocation \<Rightarrow> workspace_state \<Rightarrow>
     tool_execution_error + tool_authorization_decision" where
  "authorize cx host ex mode grant invocation ws =
     (if mode \<noteq> ptc_permission_mode (pte_context ex) then
        Inl (execution_error ''permission_mode_mismatch''
          ''tool executor permission mode differs from the frozen Run'')
      else
        rbind (ok_or (ta_parsed (ti_arguments invocation))
                 (execution_error ''authorization_arguments_missing''
                    ''tool authorization requires parsed arguments''))
        (\<lambda>input.
           and_then (map_err (execution_error ''execution_grant_invalid'') (execution_grant_validate grant))
           (rbind (authorize_verdict host ex mode grant invocation input)
              (\<lambda>v. Inr (build_decision cx mode grant invocation ws v)))))"

section \<open>Outcomes\<close>

definition read_only_tools :: "string list" where
  "read_only_tools =
     [''browser_navigate'', ''file_search'', ''git_diff'', ''git_status'', ''grep_files'', ''list_dir'',
      ''load_skill'', ''read_file'', ''web_fetch'', ''web_search'']"

definition definition_workspace_access :: "string \<Rightarrow> workspace_access" where
  "definition_workspace_access name = (if name \<in> set read_only_tools then ReadOnly else MayWrite)"

fun preflight_failure_code :: "tool_error \<Rightarrow> tool_failure_code" where
  "preflight_failure_code (tool_error.SchemaValidation _) = tool_failure_code.SchemaValidation"
| "preflight_failure_code (tool_error.MissingField _) = tool_failure_code.MissingField"
| "preflight_failure_code (tool_error.PatchParse _) = tool_failure_code.PatchParse"
| "preflight_failure_code (NotAvailable _) = UnknownTool"
| "preflight_failure_code (InvalidInput _) = InvalidField"
| "preflight_failure_code (PathEscape _) = InvalidField"
| "preflight_failure_code (PermissionDenied _) = InvocationRejected"
| "preflight_failure_code (tool_error.WorkspacePrecondition _) = OperationFailed"
| "preflight_failure_code (tool_error.StaleRead _) = OperationFailed"
| "preflight_failure_code (tool_error.AmbiguousEdit _) = OperationFailed"
| "preflight_failure_code (ToolTimeout _) = OperationFailed"
| "preflight_failure_code (ExecutionFailed _) = OperationFailed"

definition preflight_error_outcome :: "tool_error \<Rightarrow> tool_outcome" where
  "preflight_error_outcome error =
     (tool_outcome_rejected (tool_error_display error) RetryAfterCorrection)
       \<lparr>to_failure_code := Some (preflight_failure_code error)\<rparr>"

definition correctable :: "tool_error \<Rightarrow> tool_failure_code \<Rightarrow> tool_outcome" where
  "correctable error code =
     (tool_outcome_error (tool_error_display error))
       \<lparr>to_failure_code := Some code, to_side_effect := EffectNotApplied, to_retry := RetryAfterCorrection\<rparr>"

definition execution_error_outcome :: "tool_error \<Rightarrow> workspace_access \<Rightarrow> tool_outcome" where
  "execution_error_outcome error access =
     with_workspace_access_guarantee
       (case error of
          tool_error.WorkspacePrecondition _ \<Rightarrow> correctable error tool_failure_code.WorkspacePrecondition
        | tool_error.StaleRead _ \<Rightarrow> correctable error tool_failure_code.StaleRead
        | tool_error.AmbiguousEdit _ \<Rightarrow> correctable error tool_failure_code.AmbiguousEdit
        | NotAvailable _ \<Rightarrow>
            (tool_outcome_error (tool_error_display error))
              \<lparr>to_side_effect := EffectNotApplied, to_retry := RetryNotRetryable\<rparr>
        | PermissionDenied _ \<Rightarrow>
            (tool_outcome_error (tool_error_display error))
              \<lparr>to_side_effect := EffectNotApplied, to_retry := RetryNotRetryable\<rparr>
        | ToolTimeout _ \<Rightarrow>
            (tool_outcome_error (tool_error_display error))
              \<lparr>to_operation := OperationIndeterminate, to_retry := RetryUnsafe\<rparr>
        | ExecutionFailed _ \<Rightarrow> tool_outcome_error (tool_error_display error)
        | _ \<Rightarrow> correctable error InvalidField)
       access"

definition PRODUCTION_TOOL_NAMES :: "string list" where
  "PRODUCTION_TOOL_NAMES =
     [''apply_patch'', ''browser_interact'', ''browser_navigate'', ''edit_file'', ''exec_shell'',
      ''file_search'', ''git_diff'', ''git_status'', ''grep_files'', ''list_dir'', ''load_skill'',
      ''read_file'', ''run_tests'', ''run_verifiers'', ''web_fetch'', ''web_search'']"

definition APPLICATION_PROBE_VERIFIER_ID :: string where
  "APPLICATION_PROBE_VERIFIER_ID = ''application_probe''"

text \<open>
  How \<^verbatim>\<open>execute\<close> ends: the cancellation comes before the tool starts, the tool ends first, it ends
  within the five seconds after a cancellation, or it does not.
\<close>

datatype execution_end =
    CancelledBefore
  | Finished "tool_error + tool_outcome"
  | CancelledThen "tool_error + tool_outcome"
  | CancelIgnored

definition execute :: "tool_invocation \<Rightarrow> execution_end \<Rightarrow> tool_outcome" where
  "execute invocation ending =
     (let access = definition_workspace_access (ti_name invocation);
          host_application_probe =
            ti_name invocation = APPLICATION_PROBE_VERIFIER_ID \<and> starts_with ''host:'' (ti_call_id invocation)
      in if ti_name invocation \<notin> set PRODUCTION_TOOL_NAMES \<and> \<not> host_application_probe then
           execution_error_outcome
             (NotAvailable (txt_tool_open @ ti_name invocation @ txt_not_in_catalog)) access
         else if ta_parsed (ti_arguments invocation) = None then
           execution_error_outcome (InvalidInput txt_bad_json) access
         else
           (case ending of
              CancelledBefore \<Rightarrow>
                (tool_outcome_error (txt_tool_open @ ti_name invocation @ txt_cancelled_before))
                  \<lparr>to_operation := OperationCancelled, to_side_effect := EffectNotApplied, to_retry := RetrySafe\<rparr>
            | Finished (Inr outcome) \<Rightarrow> with_workspace_access_guarantee outcome access
            | Finished (Inl error) \<Rightarrow> execution_error_outcome error access
            | CancelledThen (Inr outcome) \<Rightarrow>
                with_workspace_access_guarantee
                  (if is_success outcome then outcome else outcome\<lparr>to_operation := OperationCancelled\<rparr>) access
            | CancelledThen (Inl error) \<Rightarrow> execution_error_outcome error access
            | CancelIgnored \<Rightarrow>
                with_workspace_access_guarantee
                  ((tool_outcome_recovery_ambiguous
                      (txt_tool_open @ ti_name invocation @ txt_ignored_cancel))
                     \<lparr>to_operation := OperationCancelled\<rparr>) access))"

end
